(* ===== verification/Prelude.thy ===== *)
theory Prelude
  imports Main "HOL-Library.Monad_Syntax" "HOL-Library.Char_ord" "HOL-Library.List_Lexorder"
begin

text \<open>
  What every component of the model shares: the collections of simplification facts, the
  integers, strings and sorting of the Go language and its standard library, and run-time
  panics as the value \<^term>\<open>None\<close> of the option monad.
\<close>

named_theorems frame_simps \<open>which fields of the simulator an operation leaves alone\<close>
named_theorems wf_intros \<open>operations that keep the simulator well formed\<close>
named_theorems handler_defs \<open>definitions of the inbound handlers\<close>

section \<open>Integers\<close>

text \<open>
  The Go type \<open>int\<close> has 64 bits on the supported platforms. Identifiers and counters are
  HOL integers; an addition or multiplication that can leave the range is followed by
  \<open>wrap64\<close>, which reads the result as a signed 64-bit number. \<open>time.Duration\<close> is an
  \<open>int64\<close> count of nanoseconds and is treated the same way.
\<close>

type_synonym go_int = int
type_synonym duration = int
type_synonym time = int

definition wrap64 :: "int \<Rightarrow> int" where
  "wrap64 x = (x + 2 ^ 63) mod 2 ^ 64 - 2 ^ 63"

definition in_int64 :: "int \<Rightarrow> bool" where
  "in_int64 x \<longleftrightarrow> - (2 ^ 63) \<le> x \<and> x < 2 ^ 63"

lemma wrap64_range [simp]: "in_int64 (wrap64 x)"
  unfolding in_int64_def wrap64_def by (simp add: pos_mod_sign pos_mod_bound algebra_simps)

lemma wrap64_id [simp]: "in_int64 x \<Longrightarrow> wrap64 x = x"
  by (auto simp: wrap64_def in_int64_def mod_pos_pos_trivial)

lemma wrap64_overflow: "2 ^ 63 \<le> x \<Longrightarrow> x < 2 ^ 64 \<Longrightarrow> wrap64 x = x - 2 ^ 64"
proof -
  assume "2 ^ 63 \<le> x" "x < 2 ^ 64"
  then have "(x + 2 ^ 63 - 2 ^ 64) mod 2 ^ 64 = x + 2 ^ 63 - 2 ^ 64"
    by (intro mod_pos_pos_trivial) auto
  moreover have "(x + 2 ^ 63 - 2 ^ 64) mod 2 ^ 64 = (x + 2 ^ 63) mod 2 ^ 64"
    by (rule minus_mod_self2)
  ultimately show ?thesis by (simp add: wrap64_def)
qed

abbreviation second :: duration where "second \<equiv> 1000000000"
abbreviation millisecond :: duration where "millisecond \<equiv> 1000000"

section \<open>Strings\<close>

text \<open>
  A Go string is its bytes. \<open>strings.ToLower\<close> and \<open>strings.TrimSpace\<close> are modelled on
  the ASCII range; the bytes of other code points are left as they are.
\<close>

definition lower_char :: "char \<Rightarrow> char" where
  "lower_char c = (let n = (of_char c :: nat) in
     if 65 \<le> n \<and> n \<le> 90 then char_of (n + 32) else c)"

definition upper_char :: "char \<Rightarrow> char" where
  "upper_char c = (let n = (of_char c :: nat) in
     if 97 \<le> n \<and> n \<le> 122 then char_of (n - 32) else c)"

definition to_lower :: "string \<Rightarrow> string" where
  "to_lower s = map lower_char s"

definition to_upper :: "string \<Rightarrow> string" where
  "to_upper s = map upper_char s"

definition is_space :: "char \<Rightarrow> bool" where
  "is_space c \<longleftrightarrow> c = CHR '' '' \<or> c = CHR 0x09 \<or> c = CHR 0x0A \<or> c = CHR 0x0B \<or> c = CHR 0x0C \<or> c = CHR 0x0D"

definition trim_space :: "string \<Rightarrow> string" where
  "trim_space s = rev (dropWhile is_space (rev (dropWhile is_space s)))"

definition trim_right :: "char \<Rightarrow> string \<Rightarrow> string" where
  "trim_right c s = rev (dropWhile (\<lambda>x. x = c) (rev s))"

definition has_prefix :: "string \<Rightarrow> string \<Rightarrow> bool" where
  "has_prefix p s \<longleftrightarrow> take (length p) s = p"

fun str_contains :: "string \<Rightarrow> string \<Rightarrow> bool" where
  "str_contains [] n = (n = [])"
| "str_contains (c # cs) n = (has_prefix n (c # cs) \<or> str_contains cs n)"

fun join_with :: "string \<Rightarrow> string list \<Rightarrow> string" where
  "join_with sep [] = []"
| "join_with sep [x] = x"
| "join_with sep (x # y # xs) = x @ sep @ join_with sep (y # xs)"

text \<open>\<open>%q\<close> and \<open>strconv.Quote\<close> on ASCII text.\<close>

definition hex_digit :: "nat \<Rightarrow> char" where
  "hex_digit n = (if n < 10 then char_of (48 + n) else char_of (87 + n))"

definition quote_char :: "char \<Rightarrow> string" where
  "quote_char c =
     (if c = CHR 0x22 then [CHR 0x5C, CHR 0x22]
      else if c = CHR 0x5C then [CHR 0x5C, CHR 0x5C]
      else if c = CHR 0x07 then [CHR 0x5C, CHR ''a'']
      else if c = CHR 0x08 then [CHR 0x5C, CHR ''b'']
      else if c = CHR 0x09 then [CHR 0x5C, CHR ''t'']
      else if c = CHR 0x0A then [CHR 0x5C, CHR ''n'']
      else if c = CHR 0x0B then [CHR 0x5C, CHR ''v'']
      else if c = CHR 0x0C then [CHR 0x5C, CHR ''f'']
      else if c = CHR 0x0D then [CHR 0x5C, CHR ''r'']
      else let n = (of_char c :: nat) in
        if n < 32 \<or> n = 127 then [CHR 0x5C, CHR ''x'', hex_digit (n div 16), hex_digit (n mod 16)] else [c])"

definition go_quote :: "string \<Rightarrow> string" where
  "go_quote s = [CHR 0x22] @ concat (map quote_char s) @ [CHR 0x22]"

lemma str_contains_iff: "str_contains s n \<longleftrightarrow> (\<exists>p q. s = p @ n @ q)"
proof (induction s)
  case (Cons c cs)
  show ?case
  proof
    assume "str_contains (c # cs) n"
    then consider "has_prefix n (c # cs)" | "str_contains cs n" by auto
    then show "\<exists>p q. c # cs = p @ n @ q"
    proof cases
      case 1
      then have "c # cs = [] @ n @ drop (length n) (c # cs)"
        unfolding has_prefix_def by (metis append_Nil append_take_drop_id)
      then show ?thesis by blast
    next
      case 2
      with Cons.IH obtain p q where "cs = p @ n @ q" by blast
      then have "c # cs = (c # p) @ n @ q" by simp
      then show ?thesis by blast
    qed
  next
    assume "\<exists>p q. c # cs = p @ n @ q"
    then obtain p q where eq: "c # cs = p @ n @ q" by blast
    show "str_contains (c # cs) n"
    proof (cases p)
      case Nil
      with eq have "has_prefix n (c # cs)" by (simp add: has_prefix_def)
      then show ?thesis by simp
    next
      case (Cons d p')
      with eq have "cs = p' @ n @ q" by simp
      with Cons.IH have "str_contains cs n" by blast
      then show ?thesis by simp
    qed
  qed
qed auto

lemma str_contains_appendI:
  "str_contains s n \<Longrightarrow> str_contains (p @ s) n"
  "str_contains s n \<Longrightarrow> str_contains (s @ q) n"
  by (auto simp: str_contains_iff) (metis append.assoc)+

lemma to_lower_append [simp]: "to_lower (a @ b) = to_lower a @ to_lower b"
  by (simp add: to_lower_def)

section \<open>Decimal text\<close>

text \<open>\<open>strconv.Itoa\<close>, and the reading of a digit string used to state that it loses nothing.\<close>

fun digits10 :: "nat \<Rightarrow> string" where
  "digits10 n = (if n < 10 then [char_of (48 + n)] else digits10 (n div 10) @ [char_of (48 + n mod 10)])"

declare digits10.simps [simp del]

definition itoa :: "go_int \<Rightarrow> string" where
  "itoa i = (if i < 0 then ''-'' @ digits10 (nat (- i)) else digits10 (nat i))"

definition digit_value :: "char \<Rightarrow> nat" where
  "digit_value c = of_char c - 48"

definition read_nat :: "string \<Rightarrow> nat" where
  "read_nat s = foldl (\<lambda>acc c. 10 * acc + digit_value c) 0 s"

definition atoi :: "string \<Rightarrow> go_int" where
  "atoi s = (case s of c # cs \<Rightarrow> if c = CHR ''-'' then - int (read_nat cs) else int (read_nat s) | [] \<Rightarrow> 0)"

lemma digit_value_char [simp]: "n < 10 \<Longrightarrow> digit_value (char_of (48 + n)) = n"
  by (simp add: digit_value_def)

lemma read_digits10: "read_nat (digits10 n) = n"
proof (induction n rule: digits10.induct)
  case (1 n)
  show ?case
  proof (cases "n < 10")
    case True
    then show ?thesis by (simp add: digits10.simps [of n] read_nat_def)
  next
    case False
    with "1.IH" show ?thesis by (simp add: digits10.simps [of n] read_nat_def)
  qed
qed

lemma digits10_not_minus: "digits10 n \<noteq> [] \<and> hd (digits10 n) \<noteq> CHR ''-''"
proof (induction n rule: digits10.induct)
  case (1 n)
  have no_minus: "char_of (48 + k :: nat) \<noteq> CHR ''-''" if "k < 10" for k
  proof
    assume "char_of (48 + k) = CHR ''-''"
    then have "(of_char (char_of (48 + k)) :: nat) = of_char (CHR ''-'')" by simp
    with that show False by simp
  qed
  show ?case
    using 1 no_minus by (cases "n < 10") (auto simp: digits10.simps [of n])
qed

lemma atoi_itoa [simp]: "atoi (itoa i) = i"
proof (cases "i < 0")
  case True
  then show ?thesis by (simp add: itoa_def atoi_def read_digits10)
next
  case False
  obtain c cs where d: "digits10 (nat i) = c # cs" "c \<noteq> CHR ''-''"
    using digits10_not_minus [of "nat i"] by (cases "digits10 (nat i)") auto
  with False read_digits10 [of "nat i"] show ?thesis by (simp add: itoa_def atoi_def)
qed

lemma itoa_inj: "itoa i = itoa j \<longleftrightarrow> i = j"
  by (metis atoi_itoa)

text \<open>\<open>strconv.ParseBool\<close>: the accepted spellings of true and of false, anything else an error.\<close>

definition parse_bool :: "string \<Rightarrow> bool option" where
  "parse_bool s =
     (if s \<in> {''1'', ''t'', ''T'', ''TRUE'', ''true'', ''True''} then Some True
      else if s \<in> {''0'', ''f'', ''F'', ''FALSE'', ''false'', ''False''} then Some False
      else None)"

section \<open>Panics and loops\<close>

text \<open>
  A nil dereference stops the Go program. It is the value \<^term>\<open>None\<close> of a definition
  of type \<open>'a option\<close>; \<open>do\<close> blocks stop at the first one. A loop over a list whose body
  may panic is \<open>fold_opt\<close>.
\<close>

fun fold_opt :: "('a \<Rightarrow> 's \<Rightarrow> 's option) \<Rightarrow> 'a list \<Rightarrow> 's \<Rightarrow> 's option" where
  "fold_opt f [] s = Some s"
| "fold_opt f (x # xs) s = do { s' \<leftarrow> f x s; fold_opt f xs s' }"

lemma bind_Some_iff [simp]: "Option.bind m f = Some y \<longleftrightarrow> (\<exists>x. m = Some x \<and> f x = Some y)"
  by (cases m) auto

lemma fold_opt_invariant:
  assumes "I s" and "\<And>x s. x \<in> set xs \<Longrightarrow> I s \<Longrightarrow> \<exists>s'. f x s = Some s' \<and> I s'"
  shows "\<exists>s'. fold_opt f xs s = Some s' \<and> I s'"
  using assms
proof (induction xs arbitrary: s)
  case (Cons x xs)
  then obtain s' where "f x s = Some s'" "I s'" by (metis list.set_intros(1))
  with Cons show ?case by auto
qed simp

end
