(* ===== verification/Errors.thy ===== *)
theory Errors
  imports Prelude
begin

text \<open>
  Error values: the sentinels of internal/ocppclient/errors.go and internal/config/errors.go,
  values made by \<open>fmt.Errorf\<close>, and values of libraries, of which the code only sees the
  message and what \<open>errors.As\<close> finds. Then \<open>await\<close> and \<open>classify\<close> of
  internal/ocppclient/operations.go.
\<close>

section \<open>Error values\<close>

datatype sentinel =
    ErrValidation | ErrConnection | ErrProtocol | ErrAuthSecurity | ErrRejected | ErrTimeout
  | ErrConfig
  | DeadlineExceeded | Canceled | ErrHelp | ErrExist | ErrNotExist

datatype library_error =
    OcppError      \<comment> \<open>a value \<open>errors.As\<close> finds as \<open>*ocpp.Error\<close>\<close>
  | NetError       \<comment> \<open>a value \<open>errors.As\<close> finds as \<open>net.Error\<close>\<close>
  | OutputError    \<comment> \<open>the shared output package's \<open>ErrOutput\<close>\<close>
  | PlainError     \<comment> \<open>anything else\<close>

datatype err =
    Sentinel sentinel
  | Library library_error string
  | Wrapf err string      \<comment> \<open>\<open>fmt.Errorf\<close> with one \<open>%w\<close>: the wrapped value, the whole message\<close>

fun sentinel_text :: "sentinel \<Rightarrow> string" where
  "sentinel_text ErrValidation = ''ocpp validation error''"
| "sentinel_text ErrConnection = ''ocpp connection error''"
| "sentinel_text ErrProtocol = ''ocpp protocol error''"
| "sentinel_text ErrAuthSecurity = ''ocpp authentication or security error''"
| "sentinel_text ErrRejected = ''ocpp request rejected''"
| "sentinel_text ErrTimeout = ''ocpp operation timeout''"
| "sentinel_text ErrConfig = ''configuration error''"
| "sentinel_text DeadlineExceeded = ''context deadline exceeded''"
| "sentinel_text Canceled = ''context canceled''"
| "sentinel_text ErrHelp = ''flag: help requested''"
| "sentinel_text ErrExist = ''file already exists''"
| "sentinel_text ErrNotExist = ''file does not exist''"

fun error_text :: "err \<Rightarrow> string" where
  "error_text (Sentinel s) = sentinel_text s"
| "error_text (Library k t) = t"
| "error_text (Wrapf e t) = t"

text \<open>\<open>errors.Is\<close> against a sentinel and \<open>errors.As\<close> against a library type follow the chain of \<open>%w\<close>.\<close>

fun error_is :: "sentinel \<Rightarrow> err \<Rightarrow> bool" where
  "error_is s (Sentinel t) = (s = t)"
| "error_is s (Library k t) = False"
| "error_is s (Wrapf e t) = error_is s e"

fun error_as :: "library_error \<Rightarrow> err \<Rightarrow> bool" where
  "error_as k (Sentinel s) = (k = NetError \<and> s = DeadlineExceeded)"
| "error_as k (Library k' t) = (k = k')"
| "error_as k (Wrapf e t) = error_as k e"

text \<open>\<open>fmt.Errorf("%w: %v", s, e)\<close>, and the same with a fixed text for the second operand.\<close>

definition wrap_text :: "sentinel \<Rightarrow> string \<Rightarrow> err" where
  "wrap_text s t = Wrapf (Sentinel s) (sentinel_text s @ '': '' @ t)"

definition wrap_err :: "sentinel \<Rightarrow> err \<Rightarrow> err" where
  "wrap_err s e = wrap_text s (error_text e)"

lemma error_is_wrap [simp]:
  "error_is s (wrap_text t x) = (s = t)" "error_is s (wrap_err t e) = (s = t)"
  by (simp_all add: wrap_text_def wrap_err_def)

lemma error_as_wrap [simp]:
  "t \<noteq> DeadlineExceeded \<Longrightarrow> \<not> error_as k (wrap_text t x)"
  "t \<noteq> DeadlineExceeded \<Longrightarrow> \<not> error_as k (wrap_err t e)"
  by (simp_all add: wrap_text_def wrap_err_def)

lemma error_text_wrap [simp]:
  "error_text (wrap_text s t) = sentinel_text s @ '': '' @ t"
  "error_text (wrap_err s e) = sentinel_text s @ '': '' @ error_text e"
  by (simp_all add: wrap_text_def wrap_err_def)

section \<open>Waiting for an answer\<close>

text \<open>
  \<open>await\<close> races the library call against the context: which of the two the \<open>select\<close> sees
  first is up to the run time, so the outcome of the race is its argument.
\<close>

datatype 'a race = ContextDone sentinel | Answered "err + 'a"

fun await :: "'a race \<Rightarrow> err + 'a" where
  "await (ContextDone reason) = Inl (wrap_err ErrTimeout (Sentinel reason))"
| "await (Answered r) = r"

section \<open>Classification\<close>

definition timeout_like :: "err \<Rightarrow> bool" where
  "timeout_like e \<longleftrightarrow> error_is DeadlineExceeded e \<or> error_is ErrTimeout e
     \<or> str_contains (to_lower (error_text e)) ''timeout''"

definition auth_like :: "string \<Rightarrow> bool" where
  "auth_like message \<longleftrightarrow> str_contains message ''401'' \<or> str_contains message ''403''
     \<or> str_contains message ''unauthorized'' \<or> str_contains message ''forbidden''
     \<or> str_contains message ''certificate'' \<or> str_contains message ''x509''
     \<or> str_contains message ''tls''"

definition classify_error :: "err \<Rightarrow> sentinel \<Rightarrow> err" where
  "classify_error e fallback =
     (if timeout_like e then wrap_err ErrTimeout e
      else if error_as OcppError e then wrap_err ErrProtocol e
      else if error_as NetError e then wrap_err ErrConnection e
      else if auth_like (to_lower (error_text e)) then wrap_err ErrAuthSecurity e
      else wrap_err fallback e)"

definition classify :: "err option \<Rightarrow> sentinel \<Rightarrow> err option" where
  "classify eo fallback = (case eo of None \<Rightarrow> None | Some e \<Rightarrow> Some (classify_error e fallback))"

text \<open>\<open>if err != nil { return classify(err, fallback) }\<close> on the result of an awaited call.\<close>

definition classify_result :: "err + 'a \<Rightarrow> sentinel \<Rightarrow> err + 'a" where
  "classify_result r fallback = (case r of Inl e \<Rightarrow> Inl (classify_error e fallback) | Inr v \<Rightarrow> Inr v)"

lemma classify_None [simp]: "classify eo fb = None \<longleftrightarrow> eo = None"
  by (simp add: classify_def split: option.splits)

lemma classify_Some_cases:
  assumes "classify (Some e) fb = Some e'"
  obtains (timeout) "timeout_like e" "e' = wrap_err ErrTimeout e"
    | (protocol) "\<not> timeout_like e" "error_as OcppError e" "e' = wrap_err ErrProtocol e"
    | (connection) "\<not> timeout_like e" "\<not> error_as OcppError e" "error_as NetError e" "e' = wrap_err ErrConnection e"
    | (auth) "\<not> timeout_like e" "\<not> error_as OcppError e" "\<not> error_as NetError e"
        "auth_like (to_lower (error_text e))" "e' = wrap_err ErrAuthSecurity e"
    | (fallback) "\<not> timeout_like e" "\<not> error_as OcppError e" "\<not> error_as NetError e"
        "\<not> auth_like (to_lower (error_text e))" "e' = wrap_err fb e"
  using assms unfolding classify_def classify_error_def by (auto split: if_splits)

text \<open>The classified error carries exactly one sentinel and keeps the original message at its end.\<close>

lemma classify_one_sentinel:
  assumes "classify (Some e) fb = Some e'"
  shows "\<exists>!s. error_is s e'" and "\<exists>p. error_text e' = p @ error_text e"
  by (rule classify_Some_cases [OF assms]; auto)+

lemma await_timeout_like: "await (ContextDone r) = Inl e \<Longrightarrow> timeout_like e"
  by (auto simp: timeout_like_def)

end
