(* ===== verification/GoMap.thy ===== *)
theory GoMap
  imports Prelude "HOL-Library.AList" "HOL-Library.Multiset"
begin

text \<open>
  Go maps. The interface is the locale \<open>go_map\<close>: what a lookup returns after an insert or
  a delete, and that the entries are exactly what lookups see, each key once. The simulator's
  maps are association lists with distinct keys, which satisfy it. A \<open>range\<close> loop visits
  the entries in an order the language leaves open: \<open>gm_range\<close> takes the order as an
  argument, and theorems hold for every order that is a permutation of the keys.
\<close>

section \<open>The interface\<close>

locale go_map =
  fixes look :: "'m \<Rightarrow> 'k \<Rightarrow> 'v option"
    and ins :: "'k \<Rightarrow> 'v \<Rightarrow> 'm \<Rightarrow> 'm"
    and del :: "'k \<Rightarrow> 'm \<Rightarrow> 'm"
    and entries :: "'m \<Rightarrow> ('k \<times> 'v) list"
    and ok :: "'m \<Rightarrow> bool"
  assumes look_ins: "look (ins k v m) = (look m)(k := Some v)"
    and look_del: "look (del k m) = (look m)(k := None)"
    and ok_ins: "ok m \<Longrightarrow> ok (ins k v m)"
    and ok_del: "ok m \<Longrightarrow> ok (del k m)"
    and entries_iff: "ok m \<Longrightarrow> (k, v) \<in> set (entries m) \<longleftrightarrow> look m k = Some v"
    and distinct_keys: "ok m \<Longrightarrow> distinct (map fst (entries m))"
begin

text \<open>An invariant of all entries is an invariant of all lookups.\<close>

lemma entries_all: "ok m \<Longrightarrow> (\<forall>(k, v) \<in> set (entries m). P k v) \<longleftrightarrow> (\<forall>k v. look m k = Some v \<longrightarrow> P k v)"
  using entries_iff by fastforce

lemma ins_all:
  "(\<And>k' v'. look m k' = Some v' \<Longrightarrow> k' \<noteq> k \<Longrightarrow> P k' v') \<Longrightarrow> P k v \<Longrightarrow>
     look (ins k v m) k' = Some v' \<Longrightarrow> P k' v'"
  by (auto simp: look_ins split: if_splits)

lemma del_all: "(\<And>k' v'. look m k' = Some v' \<Longrightarrow> P k' v') \<Longrightarrow> look (del k m) k' = Some v' \<Longrightarrow> P k' v'"
  by (auto simp: look_del split: if_splits)

lemma distinct_entries: "ok m \<Longrightarrow> distinct (entries m)"
  using distinct_keys distinct_map by blast

text \<open>\<open>len\<close> after an insert of a new key and after a delete.\<close>

lemma set_ins: "ok m \<Longrightarrow> set (entries (ins k v m)) = insert (k, v) {(k', v') \<in> set (entries m). k' \<noteq> k}"
  using entries_iff ok_ins by (auto simp: look_ins split: if_splits)

lemma set_del: "ok m \<Longrightarrow> set (entries (del k m)) = {(k', v') \<in> set (entries m). k' \<noteq> k}"
  using entries_iff ok_del by (auto simp: look_del split: if_splits)

lemma length_ins_new: "ok m \<Longrightarrow> look m k = None \<Longrightarrow> length (entries (ins k v m)) = Suc (length (entries m))"
proof -
  assume ok: "ok m" and new: "look m k = None"
  have *: "{(k', v') \<in> set (entries m). k' \<noteq> k} = set (entries m)"
    using entries_iff [OF ok] new by auto
  have "length (entries (ins k v m)) = card (insert (k, v) (set (entries m)))"
    using set_ins [OF ok, of k v] distinct_entries [OF ok_ins [OF ok]] *
    by (metis distinct_card)
  also have "\<dots> = Suc (card (set (entries m)))"
    using entries_iff [OF ok] new by (subst card_insert_disjoint) auto
  finally show ?thesis using distinct_card [OF distinct_entries [OF ok]] by simp
qed

lemma length_del: "ok m \<Longrightarrow> look m k = Some v \<Longrightarrow> Suc (length (entries (del k m))) = length (entries m)"
proof -
  assume ok: "ok m" and hit: "look m k = Some v"
  have "set (entries m) = insert (k, v) (set (entries (del k m)))"
    using set_del [OF ok, of k] entries_iff [OF ok] hit by fastforce
  moreover have "(k, v) \<notin> set (entries (del k m))"
    using set_del [OF ok] by auto
  ultimately have "card (set (entries m)) = Suc (card (set (entries (del k m))))" by simp
  then show ?thesis
    using distinct_card [OF distinct_entries [OF ok]] distinct_card [OF distinct_entries [OF ok_del [OF ok]]]
    by simp
qed

end

section \<open>Association lists\<close>

abbreviation gm_put :: "'k \<Rightarrow> 'v \<Rightarrow> ('k \<times> 'v) list \<Rightarrow> ('k \<times> 'v) list" where
  "gm_put \<equiv> AList.update"

abbreviation gm_del :: "'k \<Rightarrow> ('k \<times> 'v) list \<Rightarrow> ('k \<times> 'v) list" where
  "gm_del \<equiv> AList.delete"

abbreviation gm_ok :: "('k \<times> 'v) list \<Rightarrow> bool" where
  "gm_ok m \<equiv> distinct (map fst m)"

interpretation gm: go_map map_of AList.update AList.delete "\<lambda>m. m" "\<lambda>m. distinct (map fst m)"
proof (standard, goal_cases)
  case (1 k v m) show ?case by (simp add: update_conv')
next
  case (2 k m) show ?case by (simp add: delete_conv')
next
  case (3 m k v) then show ?case by (rule distinct_update)
next
  case (4 m k) then show ?case by (rule distinct_delete)
next
  case (5 m k v) then show ?case by simp
next
  case (6 m) then show ?case .
qed

lemmas [simp] = gm.look_ins gm.look_del
lemmas [simp, intro] = gm.ok_ins gm.ok_del

lemma gm_keys_put [simp]: "fst ` set (gm_put k v m) = insert k (fst ` set m)"
  by (simp add: dom_update)

lemma gm_keys_del [simp]: "fst ` set (gm_del k m) = fst ` set m - {k}"
  by (induction m) auto

lemma gm_look_keys: "map_of m k = Some v \<Longrightarrow> k \<in> fst ` set m"
  by (metis map_of_SomeD fst_conv image_eqI)

section \<open>Range loops\<close>

definition gm_range :: "('k list \<Rightarrow> 'k list) \<Rightarrow> ('k \<times> 'v) list \<Rightarrow> ('k \<times> 'v) list" where
  "gm_range p m = List.map_filter (\<lambda>k. map_option (Pair k) (map_of m k)) (p (map fst m))"

definition permutes :: "('k list \<Rightarrow> 'k list) \<Rightarrow> bool" where
  "permutes p \<longleftrightarrow> (\<forall>ks. mset (p ks) = mset ks)"

lemma permutes_id [simp]: "permutes (\<lambda>ks. ks)"
  by (simp add: permutes_def)

lemma permutes_rev [simp]: "permutes rev"
  by (simp add: permutes_def)

lemma gm_range_keys: "set ks \<subseteq> fst ` set m \<Longrightarrow>
  map fst (List.map_filter (\<lambda>k. map_option (Pair k) (map_of m k)) ks) = ks"
  by (induction ks) (auto simp: List.map_filter_simps split: option.splits simp: map_of_eq_None_iff)

lemma gm_range_ok: "permutes p \<Longrightarrow> gm_ok m \<Longrightarrow> gm_ok (gm_range p m)"
proof -
  assume p: "permutes p" and m: "gm_ok m"
  have ms: "mset (p (map fst m)) = mset (map fst m)" using p by (simp add: permutes_def)
  then have "set (p (map fst m)) \<subseteq> fst ` set m" by (metis list.set_map mset_eq_setD order_refl)
  then have "map fst (gm_range p m) = p (map fst m)" by (simp add: gm_range_def gm_range_keys)
  then show ?thesis using m ms by (metis mset_eq_imp_distinct_iff)
qed

lemma set_gm_range [simp]: "permutes p \<Longrightarrow> gm_ok m \<Longrightarrow> set (gm_range p m) = set m"
proof -
  assume p: "permutes p" and m: "gm_ok m"
  have "set (p (map fst m)) = fst ` set m"
    using p by (metis list.set_map mset_eq_setD permutes_def)
  moreover have "set (List.map_filter (\<lambda>k. map_option (Pair k) (map_of m k)) ks) = {(k, v). k \<in> set ks \<and> map_of m k = Some v}" for ks
    by (induction ks) (auto simp: List.map_filter_simps split: option.splits)
  ultimately have "set (gm_range p m) = {(k, v). k \<in> fst ` set m \<and> map_of m k = Some v}"
    by (simp add: gm_range_def)
  also have "\<dots> = set m" using m by (auto dest: map_of_SomeD intro: gm_look_keys)
  finally show ?thesis .
qed

lemma mset_gm_range: "permutes p \<Longrightarrow> gm_ok m \<Longrightarrow> mset (gm_range p m) = mset m"
  by (metis gm_range_ok set_gm_range distinct_map set_eq_iff_mset_eq_distinct)

lemma gm_range_id: "gm_ok m \<Longrightarrow> gm_range (\<lambda>ks. ks) m = m"
proof -
  assume m: "gm_ok m"
  have "List.map_filter (\<lambda>k. map_option (Pair k) (map_of m k)) (map fst xs) = xs" if "set xs \<subseteq> set m" for xs
    using that m by (induction xs) (auto simp: List.map_filter_simps)
  then show ?thesis by (simp add: gm_range_def)
qed

end
