(* ===== verification/Base64.thy ===== *)
theory Base64
  imports Errors
begin

text \<open>
  \<open>decodeBase64\<close> of internal/config/config.go with the two decoders of \<open>encoding/base64\<close> it
  uses: \<open>StdEncoding\<close> (padded with \<open>=\<close>) and \<open>RawStdEncoding\<close> (no padding), both lax about
  the unused low bits of the last character. The encoder is the specification side of the round trip.
\<close>

section \<open>The alphabet\<close>

definition b64_alphabet :: string where
  "b64_alphabet = ''ABCDEFGHIJKLMNOPQRSTUVWXYZabcdefghijklmnopqrstuvwxyz0123456789+/''"

definition b64_char :: "nat \<Rightarrow> char" where
  "b64_char k = b64_alphabet ! k"

fun index_of :: "'a \<Rightarrow> 'a list \<Rightarrow> nat option" where
  "index_of x [] = None"
| "index_of x (y # ys) = (if x = y then Some 0 else map_option Suc (index_of x ys))"

definition b64_value :: "char \<Rightarrow> nat option" where
  "b64_value c = index_of c b64_alphabet"

lemma index_of_nth: "distinct xs \<Longrightarrow> k < length xs \<Longrightarrow> index_of (xs ! k) xs = Some k"
  by (induction xs arbitrary: k) (auto simp: nth_Cons split: nat.splits)

lemma b64_alphabet_distinct: "distinct b64_alphabet" and b64_alphabet_length: "length b64_alphabet = 64"
  unfolding b64_alphabet_def by simp_all

lemma b64_value_char [simp]: "k < 64 \<Longrightarrow> b64_value (b64_char k) = Some k"
  unfolding b64_value_def b64_char_def
  by (rule index_of_nth) (simp_all add: b64_alphabet_distinct b64_alphabet_length)

lemma b64_char_in: "k < 64 \<Longrightarrow> b64_char k \<in> set b64_alphabet"
  by (simp add: b64_char_def b64_alphabet_length)

lemma b64_alphabet_clean: "c \<in> set b64_alphabet \<Longrightarrow> c \<noteq> CHR ''='' \<and> \<not> is_space c"
  unfolding b64_alphabet_def is_space_def by auto

lemma b64_char_clean [simp]: "k < 64 \<Longrightarrow> b64_char k \<noteq> CHR ''=''" "k < 64 \<Longrightarrow> \<not> is_space (b64_char k)"
  using b64_alphabet_clean [OF b64_char_in] by blast+

section \<open>Decoding\<close>

text \<open>The three bytes of a group of four six-bit values.\<close>

definition byte1 :: "nat \<Rightarrow> nat \<Rightarrow> char" where
  "byte1 u v = char_of (u * 4 + v div 16)"

definition byte2 :: "nat \<Rightarrow> nat \<Rightarrow> char" where
  "byte2 v w = char_of (v mod 16 * 16 + w div 4)"

definition byte3 :: "nat \<Rightarrow> nat \<Rightarrow> char" where
  "byte3 w x = char_of (w mod 4 * 64 + x)"

fun b64_decode :: "bool \<Rightarrow> string \<Rightarrow> string option" where
  "b64_decode padded [] = Some []"
| "b64_decode padded (a # b # c # d # rest) =
     (if padded \<and> d = CHR ''='' then
        (if rest \<noteq> [] then None
         else if c = CHR ''='' then do { u \<leftarrow> b64_value a; v \<leftarrow> b64_value b; Some [byte1 u v] }
         else do { u \<leftarrow> b64_value a; v \<leftarrow> b64_value b; w \<leftarrow> b64_value c;
           Some [byte1 u v, byte2 v w] })
      else do { u \<leftarrow> b64_value a; v \<leftarrow> b64_value b; w \<leftarrow> b64_value c; x \<leftarrow> b64_value d;
        out \<leftarrow> b64_decode padded rest;
        Some (byte1 u v # byte2 v w # byte3 w x # out) })"
| "b64_decode padded [a, b] =
     (if padded then None else do { u \<leftarrow> b64_value a; v \<leftarrow> b64_value b; Some [byte1 u v] })"
| "b64_decode padded [a, b, c] =
     (if padded then None
      else do { u \<leftarrow> b64_value a; v \<leftarrow> b64_value b; w \<leftarrow> b64_value c;
        Some [byte1 u v, byte2 v w] })"
| "b64_decode padded [a] = None"

text \<open>\<open>strings.Join(strings.Fields(value), "")\<close> drops the white space; the decoding error has no position here.\<close>

definition decodeBase64 :: "string \<Rightarrow> err + string" where
  "decodeBase64 value =
     (let compact = filter (\<lambda>c. \<not> is_space c) value in
      case b64_decode True compact of
        Some decoded \<Rightarrow> Inr decoded
      | None \<Rightarrow> (case b64_decode False compact of
          Some decoded \<Rightarrow> Inr decoded
        | None \<Rightarrow> Inl (Library PlainError ''illegal base64 data'')))"

section \<open>Encoding and the round trip\<close>

definition sextet1 :: "char \<Rightarrow> nat" where
  "sextet1 x = of_char x div 4"

definition sextet2 :: "char \<Rightarrow> nat \<Rightarrow> nat" where
  "sextet2 x y = of_char x mod 4 * 16 + y div 16"

definition sextet3 :: "char \<Rightarrow> nat \<Rightarrow> nat" where
  "sextet3 y z = of_char y mod 16 * 4 + z div 64"

definition sextet4 :: "char \<Rightarrow> nat" where
  "sextet4 z = of_char z mod 64"

fun b64_encode :: "bool \<Rightarrow> string \<Rightarrow> string" where
  "b64_encode padded [] = []"
| "b64_encode padded (x # y # z # rest) =
     b64_char (sextet1 x) # b64_char (sextet2 x (of_char y)) # b64_char (sextet3 y (of_char z))
     # b64_char (sextet4 z) # b64_encode padded rest"
| "b64_encode padded [x] =
     [b64_char (sextet1 x), b64_char (sextet2 x 0)] @ (if padded then ''=='' else [])"
| "b64_encode padded [x, y] =
     [b64_char (sextet1 x), b64_char (sextet2 x (of_char y)), b64_char (sextet3 y 0)]
     @ (if padded then ''='' else [])"

lemma char_code_less: "of_char c < (256 :: nat)"
  by (rule nat_of_char_less_256)

lemma sextets [simp]:
  "sextet1 a < 64" "m < 256 \<Longrightarrow> sextet2 a m < 64" "m < 256 \<Longrightarrow> sextet3 a m < 64" "sextet4 a < 64"
  "sextet2 a (of_char c) < 64" "sextet3 a (of_char c) < 64" "sextet2 a 0 < 64" "sextet3 a 0 < 64"
proof -
  have m: "of_char a div 4 < (64 :: nat)" using char_code_less [of a] by linarith
  have two: "sextet2 a m < 64" and three: "sextet3 a m < 64" if "m < 256" for m
  proof -
    have "m div 16 < 16" "m div 64 < 4" using that by linarith+
    moreover have "of_char a mod 4 < (4 :: nat)" "of_char a mod 16 < (16 :: nat)" by simp_all
    ultimately show "sextet2 a m < 64" "sextet3 a m < 64"
      unfolding sextet2_def sextet3_def by linarith+
  qed
  show "sextet1 a < 64" "m < 256 \<Longrightarrow> sextet2 a m < 64" "m < 256 \<Longrightarrow> sextet3 a m < 64" "sextet4 a < 64"
    "sextet2 a (of_char c) < 64" "sextet3 a (of_char c) < 64" "sextet2 a 0 < 64" "sextet3 a 0 < 64"
    using m two three char_code_less [of c] by (simp_all add: sextet1_def sextet4_def)
qed

lemma bytes_back:
  "m < 256 \<Longrightarrow> byte1 (sextet1 a) (sextet2 a m) = a"
  "m < 256 \<Longrightarrow> byte2 (sextet2 b (of_char a)) (sextet3 a m) = a"
  "byte3 (sextet3 b (of_char a)) (sextet4 a) = a"
proof -
  assume m: "m < 256"
  then have "m div 16 < 16" "m div 64 < 4" by linarith+
  moreover have "of_char a div 16 < (16 :: nat)" using char_code_less [of a] by linarith
  ultimately show "byte1 (sextet1 a) (sextet2 a m) = a" "byte2 (sextet2 b (of_char a)) (sextet3 a m) = a"
    by (simp_all add: byte1_def byte2_def sextet1_def sextet2_def sextet3_def)
next
  have "of_char a div 64 < (4 :: nat)" using char_code_less [of a] by linarith
  then show "byte3 (sextet3 b (of_char a)) (sextet4 a) = a"
    by (simp add: byte3_def sextet3_def sextet4_def)
qed

lemmas bytes_back_simps [simp] = bytes_back(1,2) [of 0, simplified]
  bytes_back(1,2) [OF char_code_less] bytes_back(3)

lemma b64_decode_encode: "b64_decode padded (b64_encode padded s) = Some s"
  by (induction padded s rule: b64_encode.induct) simp_all

lemma b64_encode_clean: "filter (\<lambda>c. \<not> is_space c) (b64_encode padded s) = b64_encode padded s"
  by (induction padded s rule: b64_encode.induct) (auto simp: is_space_def [of "CHR ''=''"])

text \<open>The padded decoder refuses unpadded text, unless padding was not needed at all.\<close>

lemma b64_decode_unpadded: "b64_decode True (b64_encode False s) \<in> {None, Some s}"
proof (induction "False" s rule: b64_encode.induct)
  case (2 x y z rest)
  then show ?case by auto
qed auto

lemma b64_encode_raw_or_padded:
  "b64_decode True (b64_encode padded s) = Some s \<or>
   b64_decode True (b64_encode padded s) = None \<and> b64_decode False (b64_encode padded s) = Some s"
  using b64_decode_unpadded [of s] b64_decode_encode [of True s] b64_decode_encode [of False s]
  by (cases padded) auto

end
