(* ===== verification/Config.thy ===== *)
theory Config
  imports Errors GoMap Base64
begin

text \<open>
  The client configuration (internal/config/config.go): defaults, the overlay of one settings
  block, profile selection and validation. Reading the file and parsing YAML, durations, base64
  and URLs are arguments of the definitions that use them.
\<close>

record client_config =
  CentralSystemURL :: string
  ChargePointID :: string
  Username :: string
  Password :: string
  CACertFile :: string
  ClientCertFile :: string
  ClientKeyFile :: string
  CACertPEM :: string
  ClientCertPEM :: string
  ClientKeyPEM :: string
  TLSServerName :: string
  InsecureSkipVerify :: bool
  Timeout :: duration
  Format :: string
  Verbose :: bool
  Debug :: bool
  ChargePointModel :: string
  ChargePointVendor :: string
  FirmwareVersion :: string
  SerialNumber :: string
  MeterSerialNumber :: string
  MeterType :: string

definition DefaultConfigPath :: string where "DefaultConfigPath = ''config.yaml''"
definition DefaultCentralSystemURL :: string where "DefaultCentralSystemURL = ''ws://localhost:8080/ocpp''"
definition DefaultChargePointID :: string where "DefaultChargePointID = ''CP001''"

definition DefaultClientConfig :: client_config where
  "DefaultClientConfig = \<lparr>
     CentralSystemURL = DefaultCentralSystemURL, ChargePointID = DefaultChargePointID,
     Username = '''', Password = '''', CACertFile = '''', ClientCertFile = '''', ClientKeyFile = '''',
     CACertPEM = '''', ClientCertPEM = '''', ClientKeyPEM = '''', TLSServerName = '''',
     InsecureSkipVerify = False, Timeout = 10 * second, Format = ''table'', Verbose = False, Debug = False,
     ChargePointModel = ''ocpp-cli'', ChargePointVendor = ''DishanRajapaksha'', FirmwareVersion = '''',
     SerialNumber = '''', MeterSerialNumber = '''', MeterType = ''''\<rparr>"

text \<open>One block of settings of the file; a missing scalar is the empty string, a missing boolean \<^term>\<open>None\<close>.\<close>

record settings =
  s_central_system_url :: string
  s_charge_point_id :: string
  s_username :: string
  s_password :: string
  s_ca_cert :: string
  s_client_cert :: string
  s_client_key :: string
  s_ca_cert_base64 :: string
  s_client_cert_base64 :: string
  s_client_key_base64 :: string
  s_tls_server_name :: string
  s_insecure_skip_verify :: "bool option"
  s_timeout :: string
  s_format :: string
  s_charge_point_model :: string
  s_charge_point_vendor :: string
  s_firmware_version :: string
  s_serial_number :: string
  s_meter_serial_number :: string
  s_meter_type :: string

record config_file =
  inline_settings :: settings
  default_profile :: string
  profiles :: "(string \<times> settings) list"

definition empty_settings :: settings where
  "empty_settings = \<lparr> s_central_system_url = '''', s_charge_point_id = '''', s_username = '''',
     s_password = '''', s_ca_cert = '''', s_client_cert = '''', s_client_key = '''',
     s_ca_cert_base64 = '''', s_client_cert_base64 = '''', s_client_key_base64 = '''',
     s_tls_server_name = '''', s_insecure_skip_verify = None, s_timeout = '''', s_format = '''',
     s_charge_point_model = '''', s_charge_point_vendor = '''', s_firmware_version = '''',
     s_serial_number = '''', s_meter_serial_number = '''', s_meter_type = ''''\<rparr>"


section \<open>What the code calls\<close>

text \<open>
  \<open>os.ReadFile\<close>, \<open>yaml.Unmarshal\<close>, \<open>time.ParseDuration\<close> and \<open>url.Parse\<close> (its scheme and
  host, \<^term>\<open>None\<close> when it fails) as functions of their input.
\<close>

record config_env =
  read_file :: "string \<Rightarrow> err + string"
  parse_yaml :: "string \<Rightarrow> err + config_file"
  parse_duration :: "string \<Rightarrow> err + duration"
  parse_url :: "string \<Rightarrow> (string \<times> string) option"

section \<open>Overlaying one block of settings\<close>

definition override :: "string \<Rightarrow> string \<Rightarrow> string" where
  "override new old = (if new \<noteq> [] then new else old)"

definition decode_field :: "string \<Rightarrow> string \<Rightarrow> string \<Rightarrow> err + string" where
  "decode_field name value old =
     (if value = [] then Inr old
      else case decodeBase64 value of
        Inl e \<Rightarrow> Inl (wrap_text ErrConfig (''parse '' @ name @ '': '' @ error_text e))
      | Inr decoded \<Rightarrow> Inr decoded)"

definition timeout_field :: "config_env \<Rightarrow> string \<Rightarrow> duration \<Rightarrow> err + duration" where
  "timeout_field env value old =
     (if value = [] then Inr old
      else case parse_duration env value of
        Inl e \<Rightarrow> Inl (wrap_text ErrConfig (''parse timeout '' @ go_quote value @ '': '' @ error_text e))
      | Inr d \<Rightarrow> Inr d)"

definition applySettings :: "config_env \<Rightarrow> client_config \<Rightarrow> settings \<Rightarrow> err + client_config" where
  "applySettings env cfg s =
     (case decode_field ''ca_cert_base64'' (s_ca_cert_base64 s) (CACertPEM cfg) of Inl e \<Rightarrow> Inl e | Inr ca \<Rightarrow>
      case decode_field ''client_cert_base64'' (s_client_cert_base64 s) (ClientCertPEM cfg) of Inl e \<Rightarrow> Inl e | Inr cert \<Rightarrow>
      case decode_field ''client_key_base64'' (s_client_key_base64 s) (ClientKeyPEM cfg) of Inl e \<Rightarrow> Inl e | Inr key \<Rightarrow>
      case timeout_field env (s_timeout s) (Timeout cfg) of Inl e \<Rightarrow> Inl e | Inr t \<Rightarrow>
      Inr (cfg\<lparr>
        CentralSystemURL := override (s_central_system_url s) (CentralSystemURL cfg),
        ChargePointID := override (s_charge_point_id s) (ChargePointID cfg),
        Username := override (s_username s) (Username cfg),
        Password := override (s_password s) (Password cfg),
        CACertFile := override (s_ca_cert s) (CACertFile cfg),
        ClientCertFile := override (s_client_cert s) (ClientCertFile cfg),
        ClientKeyFile := override (s_client_key s) (ClientKeyFile cfg),
        CACertPEM := ca, ClientCertPEM := cert, ClientKeyPEM := key,
        TLSServerName := override (s_tls_server_name s) (TLSServerName cfg),
        InsecureSkipVerify := (case s_insecure_skip_verify s of None \<Rightarrow> InsecureSkipVerify cfg | Some b \<Rightarrow> b),
        Timeout := t,
        Format := override (s_format s) (Format cfg),
        ChargePointModel := override (s_charge_point_model s) (ChargePointModel cfg),
        ChargePointVendor := override (s_charge_point_vendor s) (ChargePointVendor cfg),
        FirmwareVersion := override (s_firmware_version s) (FirmwareVersion cfg),
        SerialNumber := override (s_serial_number s) (SerialNumber cfg),
        MeterSerialNumber := override (s_meter_serial_number s) (MeterSerialNumber cfg),
        MeterType := override (s_meter_type s) (MeterType cfg)\<rparr>))"

section \<open>Validation\<close>

definition url_ok :: "config_env \<Rightarrow> string \<Rightarrow> bool" where
  "url_ok env u = (case parse_url env u of
     None \<Rightarrow> False
   | Some (scheme, host) \<Rightarrow> (scheme = ''ws'' \<or> scheme = ''wss'') \<and> host \<noteq> [])"

definition config_error :: "string \<Rightarrow> err option" where
  "config_error t = Some (wrap_text ErrConfig t)"

definition ValidateClientConfig :: "config_env \<Rightarrow> client_config \<Rightarrow> err option" where
  "ValidateClientConfig env cfg =
     (if trim_space (CentralSystemURL cfg) = [] then config_error ''central_system_url cannot be empty''
      else if \<not> url_ok env (CentralSystemURL cfg) then
        config_error ''central_system_url must be an absolute ws:// or wss:// URL''
      else if trim_space (ChargePointID cfg) = [] then config_error ''charge_point_id cannot be empty''
      else if str_contains (ChargePointID cfg) ''/'' then
        config_error (''charge_point_id cannot contain '' @ [CHR 0x27] @ ''/'' @ [CHR 0x27])
      else if Timeout cfg \<le> 0 then config_error ''timeout must be greater than zero''
      else if (Username cfg = []) \<noteq> (Password cfg = []) then
        config_error ''username and password must be configured together''
      else if (ClientCertFile cfg = []) \<noteq> (ClientKeyFile cfg = []) then
        config_error ''client_cert and client_key must be configured together''
      else if (ClientCertPEM cfg = []) \<noteq> (ClientKeyPEM cfg = []) then
        config_error ''client_cert_base64 and client_key_base64 must be configured together''
      else if ClientCertFile cfg \<noteq> [] \<and> ClientCertPEM cfg \<noteq> [] then
        config_error ''choose file-based or base64 client certificates, not both''
      else if ChargePointModel cfg = [] \<or> length (ChargePointModel cfg) > 20 then
        config_error ''charge_point_model must contain 1 to 20 characters''
      else if ChargePointVendor cfg = [] \<or> length (ChargePointVendor cfg) > 20 then
        config_error ''charge_point_vendor must contain 1 to 20 characters''
      else None)"

section \<open>Loading a profile\<close>

definition select_profile :: "config_env \<Rightarrow> config_file \<Rightarrow> string \<Rightarrow> client_config \<Rightarrow> err + client_config" where
  "select_profile env file profile cfg =
     (if profiles file = [] then Inr cfg
      else let selected = override profile (default_profile file) in
        if selected = [] then
          Inl (wrap_text ErrConfig ''config has profiles but no profile was selected and default_profile is empty'')
        else case map_of (profiles file) selected of
          None \<Rightarrow> Inl (wrap_text ErrConfig (''profile '' @ go_quote selected @ '' not found''))
        | Some ps \<Rightarrow>
          (case applySettings env cfg ps of
            Inl e \<Rightarrow> Inl (wrap_text ErrConfig (''profile '' @ go_quote selected @ '': '' @ error_text e))
          | Inr cfg2 \<Rightarrow> Inr cfg2))"

definition LoadClientConfigForProfile :: "config_env \<Rightarrow> string \<Rightarrow> string \<Rightarrow> err + client_config" where
  "LoadClientConfigForProfile env path profile =
     (let cfg = DefaultClientConfig in
      if path = [] then Inr cfg
      else case read_file env path of
        Inl e \<Rightarrow>
          if error_is ErrNotExist e \<and> path = DefaultConfigPath then Inr cfg
          else Inl (wrap_text ErrConfig (''read config '' @ go_quote path @ '': '' @ error_text e))
      | Inr contents \<Rightarrow>
        (case parse_yaml env contents of
          Inl e \<Rightarrow> Inl (wrap_text ErrConfig (''parse config '' @ go_quote path @ '': '' @ error_text e))
        | Inr file \<Rightarrow>
          (case applySettings env cfg (inline_settings file) of
            Inl e \<Rightarrow> Inl e
          | Inr cfg1 \<Rightarrow>
            (case select_profile env file profile cfg1 of
              Inl e \<Rightarrow> Inl e
            | Inr cfg2 \<Rightarrow> (case ValidateClientConfig env cfg2 of Some e \<Rightarrow> Inl e | None \<Rightarrow> Inr cfg2)))))"

end
