(* ===== verification/SimState.thy ===== *)
theory SimState
  imports Config Complex_Main
begin

text \<open>
  The state of the simulated charge point (internal/ocppclient/simulator.go and
  simulator_types.go), the statuses of OCPP 1.6 it stores, the goroutines it starts and the
  messages it hands to the OCPP library. \<open>NewSimulator\<close> builds the initial state; \<open>emit\<close>
  is the bounded event channel.
\<close>

section \<open>Statuses of OCPP 1.6 the code names\<close>

text \<open>
  The Go constants of the OCPP library, with their text. A field the central system fills
  with a value the code has no constant for is the last constructor of its type.
\<close>

datatype availability_type = Operative | Inoperative | OtherAvailability string

datatype charge_point_status =
    Available | Preparing | Charging | SuspendedEVSE | SuspendedEV | Finishing | Reserved
  | Unavailable | Faulted

datatype registration_status = RegAccepted | RegPending | RegRejected

datatype authorization_status =
    AuthAccepted | AuthBlocked | AuthExpired | AuthInvalid | AuthConcurrentTx | OtherAuth string

datatype diagnostics_status = DiagIdle | DiagUploaded | DiagUploadFailed | DiagUploading

datatype firmware_status =
    FwDownloaded | FwDownloadFailed | FwDownloading | FwIdle | FwInstallationFailed
  | FwInstalling | FwInstalled

datatype upload_log_status =
    LogBadMessage | LogIdle | LogNotSupportedOperation | LogPermissionDenied | LogUploaded
  | LogUploadFailure | LogUploading

datatype signed_firmware_status =
    SfDownloaded | SfDownloadFailed | SfDownloading | SfDownloadScheduled | SfDownloadPaused
  | SfIdle | SfInstallationFailed | SfInstalling | SfInstalled | SfInstallRebooting
  | SfInstallScheduled | SfInstallVerificationFailed | SfInvalidSignature | SfSignatureVerified

datatype rate_unit = NoUnit | Amperes | Watts | OtherUnit string

datatype profile_purpose =
    NoPurpose | ChargePointMaxProfile | TxDefaultProfile | TxProfile | OtherPurpose string

datatype certificate_use =
    CentralSystemRootCertificate | ManufacturerRootCertificate | OtherUse string

fun availability_text :: "availability_type \<Rightarrow> string" where
  "availability_text Operative = ''Operative''"
| "availability_text Inoperative = ''Inoperative''"
| "availability_text (OtherAvailability t) = t"

fun status_text :: "charge_point_status \<Rightarrow> string" where
  "status_text Available = ''Available''"
| "status_text Preparing = ''Preparing''"
| "status_text Charging = ''Charging''"
| "status_text SuspendedEVSE = ''SuspendedEVSE''"
| "status_text SuspendedEV = ''SuspendedEV''"
| "status_text Finishing = ''Finishing''"
| "status_text Reserved = ''Reserved''"
| "status_text Unavailable = ''Unavailable''"
| "status_text Faulted = ''Faulted''"

fun registration_text :: "registration_status \<Rightarrow> string" where
  "registration_text RegAccepted = ''Accepted''"
| "registration_text RegPending = ''Pending''"
| "registration_text RegRejected = ''Rejected''"

fun authorization_text :: "authorization_status \<Rightarrow> string" where
  "authorization_text AuthAccepted = ''Accepted''"
| "authorization_text AuthBlocked = ''Blocked''"
| "authorization_text AuthExpired = ''Expired''"
| "authorization_text AuthInvalid = ''Invalid''"
| "authorization_text AuthConcurrentTx = ''ConcurrentTx''"
| "authorization_text (OtherAuth t) = t"

fun diagnostics_text :: "diagnostics_status \<Rightarrow> string" where
  "diagnostics_text DiagIdle = ''Idle''"
| "diagnostics_text DiagUploaded = ''Uploaded''"
| "diagnostics_text DiagUploadFailed = ''UploadFailed''"
| "diagnostics_text DiagUploading = ''Uploading''"

fun firmware_text :: "firmware_status \<Rightarrow> string" where
  "firmware_text FwDownloaded = ''Downloaded''"
| "firmware_text FwDownloadFailed = ''DownloadFailed''"
| "firmware_text FwDownloading = ''Downloading''"
| "firmware_text FwIdle = ''Idle''"
| "firmware_text FwInstallationFailed = ''InstallationFailed''"
| "firmware_text FwInstalling = ''Installing''"
| "firmware_text FwInstalled = ''Installed''"

fun log_text :: "upload_log_status \<Rightarrow> string" where
  "log_text LogBadMessage = ''BadMessage''"
| "log_text LogIdle = ''Idle''"
| "log_text LogNotSupportedOperation = ''NotSupportedOperation''"
| "log_text LogPermissionDenied = ''PermissionDenied''"
| "log_text LogUploaded = ''Uploaded''"
| "log_text LogUploadFailure = ''UploadFailure''"
| "log_text LogUploading = ''Uploading''"

fun signed_firmware_text :: "signed_firmware_status \<Rightarrow> string" where
  "signed_firmware_text SfDownloaded = ''Downloaded''"
| "signed_firmware_text SfDownloadFailed = ''DownloadFailed''"
| "signed_firmware_text SfDownloading = ''Downloading''"
| "signed_firmware_text SfDownloadScheduled = ''DownloadScheduled''"
| "signed_firmware_text SfDownloadPaused = ''DownloadPaused''"
| "signed_firmware_text SfIdle = ''Idle''"
| "signed_firmware_text SfInstallationFailed = ''InstallationFailed''"
| "signed_firmware_text SfInstalling = ''Installing''"
| "signed_firmware_text SfInstalled = ''Installed''"
| "signed_firmware_text SfInstallRebooting = ''InstallRebooting''"
| "signed_firmware_text SfInstallScheduled = ''InstallScheduled''"
| "signed_firmware_text SfInstallVerificationFailed = ''InstallVerificationFailed''"
| "signed_firmware_text SfInvalidSignature = ''InvalidSignature''"
| "signed_firmware_text SfSignatureVerified = ''SignatureVerified''"

fun unit_text :: "rate_unit \<Rightarrow> string" where
  "unit_text NoUnit = ''''"
| "unit_text Amperes = ''A''"
| "unit_text Watts = ''W''"
| "unit_text (OtherUnit t) = t"

fun purpose_text :: "profile_purpose \<Rightarrow> string" where
  "purpose_text NoPurpose = ''''"
| "purpose_text ChargePointMaxProfile = ''ChargePointMaxProfile''"
| "purpose_text TxDefaultProfile = ''TxDefaultProfile''"
| "purpose_text TxProfile = ''TxProfile''"
| "purpose_text (OtherPurpose t) = t"

fun use_text :: "certificate_use \<Rightarrow> string" where
  "use_text CentralSystemRootCertificate = ''CentralSystemRootCertificate''"
| "use_text ManufacturerRootCertificate = ''ManufacturerRootCertificate''"
| "use_text (OtherUse t) = t"

section \<open>Stored data\<close>

record connector_state =
  availability :: availability_type
  status :: charge_point_status
  transactionID :: go_int
  idTag :: string
  meter :: go_int

record reservation_state =
  r_connectorID :: go_int
  r_idTag :: string
  r_parentIDTag :: string
  r_expiry :: time

record id_tag_info =
  t_status :: authorization_status
  t_expiry :: "time option"
  t_parent :: string

record configuration_key =
  k_key :: string
  k_readonly :: bool
  k_value :: "string option"

record schedule_period =
  p_start :: go_int
  p_limit :: rat

record charging_schedule =
  sc_duration :: "go_int option"
  sc_start :: "time option"
  sc_unit :: rate_unit
  sc_periods :: "schedule_period list"
  sc_min_rate :: "rat option"

record charging_profile =
  cp_id :: go_int
  cp_transaction :: go_int
  cp_stack :: go_int
  cp_purpose :: profile_purpose
  cp_valid_from :: "time option"
  cp_valid_to :: "time option"
  cp_schedule :: "charging_schedule option"

record stored_profile =
  sp_connectorID :: go_int
  sp_profile :: "charging_profile option"

record certificate_hash_data =
  h_algorithm :: string
  h_issuer_name :: string
  h_issuer_key :: string
  h_serial :: string

record installed_certificate =
  ic_type :: certificate_use
  ic_hash :: certificate_hash_data
  ic_pem :: string

record boot_result =
  b_status :: string
  b_interval :: go_int
  b_current_time :: "time option"

record simulator_options =
  Connectors :: go_int
  HeartbeatInterval :: duration
  MeterInterval :: duration
  MeterStart :: go_int
  MeterStep :: go_int

record simulator_event =
  ev_timestamp :: time
  ev_direction :: string
  ev_action :: string
  ev_status :: string
  ev_connector :: "go_int option"
  ev_detail :: string


section \<open>Messages and goroutines\<close>

text \<open>Requests the charge point hands to the OCPP library, with the fields the code fills.\<close>

datatype outbound =
    OutBootNotification string string string string string string
  | OutHeartbeat
  | OutStatusNotification go_int charge_point_status
  | OutMeterValues go_int string string "go_int option"   \<comment> \<open>connector, value, reading context, transaction\<close>
  | OutAuthorize string
  | OutStartTransaction go_int string go_int "go_int option"   \<comment> \<open>connector, tag, meter, reservation\<close>
  | OutStopTransaction go_int go_int string string   \<comment> \<open>meter, transaction, tag, reason\<close>
  | OutDiagnosticsStatus diagnostics_status
  | OutFirmwareStatus firmware_status
  | OutLogStatus upload_log_status go_int
  | OutSignedFirmwareStatus signed_firmware_status go_int
  | OutSignCertificate string

datatype trigger_message =
    TriggerBootNotification | TriggerHeartbeat | TriggerMeterValues | TriggerStatusNotification
  | TriggerDiagnosticsStatus | TriggerFirmwareStatus | TriggerOther string

datatype extended_trigger_message =
    ExtBootNotification | ExtHeartbeat | ExtMeterValues | ExtStatusNotification
  | ExtFirmwareStatus | ExtLogStatus | ExtSignChargingStationCertificate | ExtOther string

text \<open>
  A goroutine is where it stands in its function: the constructors are the places between two
  atomic actions (a section under the mutex, or an awaited call with what follows it outside
  the mutex).
\<close>

datatype begin_pc =
    BeginNotify | BeginReadConfig | BeginAuthorize | BeginReadMeter | BeginStart go_int
  | BeginFinal charge_point_status

datatype finish_pc = FinishNotify | FinishRead | FinishStop go_int string | FinishFinal charge_point_status

text \<open>
  A job reports statuses one after the other: it may wait for a date, publishes a status under
  the mutex, awaits the answer to its notification, and pauses before the next one.
\<close>

datatype 'st job_pc =
    JobDelay time "'st list" | JobPublish 'st "'st list" | JobAwait 'st "'st list" | JobPause "'st list"

datatype 'st report_pc = ReportPublish 'st | ReportAwait 'st

text \<open>
  A triggered message: the delay, the dispatch on the message, and then what was read under the
  mutex and is still to be sent, with the connectors left.
\<close>

datatype trigger_pc =
    TriggerTimer
  | TriggerRun
  | TriggerStatuses "go_int list"
  | TriggerNotify go_int charge_point_status "go_int list"
  | TriggerMeters "go_int list"
  | TriggerSample go_int go_int go_int "go_int list"   \<comment> \<open>connector, meter, transaction\<close>
  | TriggerDiagnostics "diagnostics_status report_pc"
  | TriggerFirmware "firmware_status report_pc"
  | TriggerLog go_int "upload_log_status report_pc"

datatype goroutine =
    GoNotify go_int charge_point_status
  | GoBegin go_int string go_int begin_pc
  | GoFinish go_int go_int finish_pc
  | GoTrigger trigger_message "go_int option" trigger_pc
  | GoExtendedTrigger extended_trigger_message "go_int option" trigger_pc
  | GoDiagnostics "diagnostics_status job_pc"
  | GoFirmware "firmware_status job_pc"
  | GoLog go_int "upload_log_status job_pc"
  | GoSignedFirmware go_int "time option" "signed_firmware_status job_pc"

section \<open>The simulator\<close>

record simulator =
  cfg :: client_config
  opts :: simulator_options
  events :: "simulator_event list"
  eventsClosed :: bool
  connectors :: "(go_int \<times> connector_state) list"
  configuration :: "(string \<times> configuration_key) list"
  reservations :: "(go_int \<times> reservation_state) list"
  localAuthList :: "(string \<times> id_tag_info) list"
  localAuthListVersion :: go_int
  chargingProfiles :: "(go_int \<times> stored_profile) list"
  diagnosticsStatus :: diagnostics_status
  firmwareStatus :: firmware_status
  installedCertificates :: "(string \<times> installed_certificate) list"
  stationCertificateChain :: string
  activeLogRequestID :: go_int
  logStatus :: upload_log_status
  signedFirmwareRequestID :: go_int
  signedFirmwareStatus :: signed_firmware_status
  lastBoot :: "boot_result option"
  goroutines :: "goroutine list"
  sent :: "outbound list"

text \<open>
  What an operation reads from its surroundings: the clock, whether the WebSocket is up, and
  the order in which its \<open>range\<close> loops over integer-keyed maps visit the keys, numbered by
  loop and by the connector the loop is about. One reading of the clock serves a whole
  critical section. How the OCPP library prints a time is part of it.
\<close>

record env =
  now :: time
  is_connected :: bool
  timestamp_text :: "time \<Rightarrow> string"
  range_order :: "nat \<Rightarrow> go_int \<Rightarrow> go_int list \<Rightarrow> go_int list"

definition env_ok :: "env \<Rightarrow> bool" where
  "env_ok e \<longleftrightarrow> (\<forall>n i. permutes (range_order e n i))"

lemma env_okD [simp]: "env_ok e \<Longrightarrow> permutes (range_order e n i)"
  by (simp add: env_ok_def)

definition list_env :: "time \<Rightarrow> bool \<Rightarrow> env" where
  "list_env t up = \<lparr>now = t, is_connected = up, timestamp_text = itoa, range_order = (\<lambda>_ _ ks. ks)\<rparr>"

lemma list_env_ok [simp]: "env_ok (list_env t up)"
  by (simp add: env_ok_def list_env_def)

section \<open>The event channel\<close>

text \<open>A buffered channel of 256 events; \<open>emit\<close> drops the event when it is full or closed.\<close>

abbreviation event_capacity :: nat where "event_capacity \<equiv> 256"

definition emit :: "env \<Rightarrow> string \<Rightarrow> string \<Rightarrow> string \<Rightarrow> go_int option \<Rightarrow> string \<Rightarrow> simulator \<Rightarrow> simulator" where
  "emit e direction action st connectorID detail s =
     (if eventsClosed s then s
      else if length (events s) < event_capacity then
        s\<lparr>events := events s @ [\<lparr>ev_timestamp = now e, ev_direction = direction, ev_action = action,
            ev_status = st, ev_connector = connectorID, ev_detail = detail\<rparr>]\<rparr>
      else s)"

definition spawn :: "goroutine \<Rightarrow> simulator \<Rightarrow> simulator" where
  "spawn g s = s\<lparr>goroutines := goroutines s @ [g]\<rparr>"

definition send_msg :: "outbound \<Rightarrow> simulator \<Rightarrow> simulator" where
  "send_msg m s = s\<lparr>sent := sent s @ [m]\<rparr>"

text \<open>\<open>go s.notifyStatus(...)\<close>, only while connected.\<close>

definition notifyStatusAsync :: "env \<Rightarrow> go_int \<Rightarrow> charge_point_status \<Rightarrow> simulator \<Rightarrow> simulator" where
  "notifyStatusAsync e connectorID st s =
     (if is_connected e then spawn (GoNotify connectorID st) s else s)"

definition notify_updates :: "env \<Rightarrow> (go_int \<times> charge_point_status) list \<Rightarrow> simulator \<Rightarrow> simulator" where
  "notify_updates e updates s = fold (\<lambda>(id, st) s. notifyStatusAsync e id st s) updates s"

text \<open>Consuming the channel (the \<open>run\<close> command) and closing it once (\<open>close\<close>).\<close>

definition take_event :: "simulator \<Rightarrow> (simulator_event \<times> simulator) option" where
  "take_event s = (case events s of [] \<Rightarrow> None | ev # evs \<Rightarrow> Some (ev, s\<lparr>events := evs\<rparr>))"

definition close_events :: "simulator \<Rightarrow> simulator" where
  "close_events s = s\<lparr>eventsClosed := True\<rparr>"

section \<open>Writing through a connector pointer\<close>

definition write_connector :: "go_int \<Rightarrow> (connector_state \<Rightarrow> connector_state) \<Rightarrow> simulator \<Rightarrow> simulator option" where
  "write_connector i f s = (case map_of (connectors s) i of
     None \<Rightarrow> None
   | Some c \<Rightarrow> Some (s\<lparr>connectors := gm_put i (f c) (connectors s)\<rparr>))"

definition set_status :: "go_int \<Rightarrow> charge_point_status \<Rightarrow> simulator \<Rightarrow> simulator option" where
  "set_status i st = write_connector i (\<lambda>c. c\<lparr>status := st\<rparr>)"

section \<open>Construction\<close>

definition addConfiguration :: "string \<Rightarrow> string \<Rightarrow> bool \<Rightarrow> simulator \<Rightarrow> simulator" where
  "addConfiguration key value readonly s =
     s\<lparr>configuration := gm_put key \<lparr>k_key = key, k_readonly = readonly, k_value = Some value\<rparr> (configuration s)\<rparr>"

definition duration_seconds :: "duration \<Rightarrow> go_int" where
  "duration_seconds d = d div second"

definition bare_simulator :: "client_config \<Rightarrow> simulator_options \<Rightarrow> simulator" where
  "bare_simulator c o1 = \<lparr>
     cfg = c, opts = o1, events = [], eventsClosed = False,
     connectors = map (\<lambda>i. (i, \<lparr>availability = Operative, status = Available, transactionID = 0,
        idTag = '''', meter = MeterStart o1\<rparr>)) [1..Connectors o1],
     configuration = [], reservations = [], localAuthList = [], localAuthListVersion = 0,
     chargingProfiles = [], diagnosticsStatus = DiagIdle, firmwareStatus = FwIdle,
     installedCertificates = [], stationCertificateChain = '''', activeLogRequestID = 0,
     logStatus = LogIdle, signedFirmwareRequestID = 0, signedFirmwareStatus = SfIdle,
     lastBoot = None, goroutines = [], sent = []\<rparr>"

definition feature_profiles :: string where
  "feature_profiles = ''Core,FirmwareManagement,LocalAuthListManagement,Reservation,RemoteTrigger,SmartCharging,Security,Certificates,Log,ExtendedTriggerMessage,SecureFirmwareUpdate''"

definition initial_configuration :: "simulator_options \<Rightarrow> (string \<times> string \<times> bool) list" where
  "initial_configuration o1 = [
     (''NumberOfConnectors'', itoa (Connectors o1), True),
     (''SupportedFeatureProfiles'', feature_profiles, True),
     (''AuthorizeRemoteTxRequests'', ''false'', False),
     (''HeartbeatInterval'', itoa (duration_seconds (HeartbeatInterval o1)), False),
     (''MeterValueSampleInterval'', itoa (duration_seconds (MeterInterval o1)), False),
     (''LocalAuthListEnabled'', ''true'', False),
     (''LocalAuthListMaxLength'', ''1000'', True),
     (''ReserveConnectorZeroSupported'', ''true'', True),
     (''ChargeProfileMaxStackLevel'', ''10'', True),
     (''ChargingScheduleAllowedChargingRateUnit'', ''Current,Power'', True),
     (''ChargingScheduleMaxPeriods'', ''24'', True),
     (''MaxChargingProfilesInstalled'', ''100'', True),
     (''CertificateSignedMaxChainSize'', ''10000'', True)]"

definition build_simulator :: "client_config \<Rightarrow> simulator_options \<Rightarrow> simulator" where
  "build_simulator c o1 =
     fold (\<lambda>(key, value, readonly). addConfiguration key value readonly) (initial_configuration o1) (bare_simulator c o1)"

definition NewSimulator ::
  "config_env \<Rightarrow> (client_config \<Rightarrow> err option) \<Rightarrow> client_config \<Rightarrow> simulator_options \<Rightarrow> err + simulator" where
  "NewSimulator env newWebSocketClient c o1 =
     (case ValidateClientConfig env c of
       Some e \<Rightarrow> Inl (wrap_err ErrValidation e)
     | None \<Rightarrow>
       if Connectors o1 \<le> 0 then Inl (wrap_text ErrValidation ''connectors must be greater than zero'')
       else if HeartbeatInterval o1 < 0 \<or> MeterInterval o1 < 0 then
         Inl (wrap_text ErrValidation ''intervals cannot be negative'')
       else if MeterStart o1 < 0 \<or> MeterStep o1 < 0 then
         Inl (wrap_text ErrValidation ''meter values cannot be negative'')
       else (case newWebSocketClient c of Some e \<Rightarrow> Inl e | None \<Rightarrow> Inr (build_simulator c o1)))"

end
