(* ===== verification/Invariants.thy ===== *)
theory Invariants
  imports SimState
begin

text \<open>
  The well-formedness invariant of the simulator: what the code relies on when it dereferences
  a connector or a stored profile, and what its maps promise. Each part speaks of one field,
  so an operation only owes the parts of the fields it writes.
\<close>

section \<open>Frame conditions of the bookkeeping operations\<close>

lemma emit_frame [simp, frame_simps]:
  "cfg (emit e d a st c x s) = cfg s" "opts (emit e d a st c x s) = opts s"
  "eventsClosed (emit e d a st c x s) = eventsClosed s"
  "connectors (emit e d a st c x s) = connectors s" "configuration (emit e d a st c x s) = configuration s"
  "reservations (emit e d a st c x s) = reservations s" "localAuthList (emit e d a st c x s) = localAuthList s"
  "localAuthListVersion (emit e d a st c x s) = localAuthListVersion s"
  "chargingProfiles (emit e d a st c x s) = chargingProfiles s"
  "diagnosticsStatus (emit e d a st c x s) = diagnosticsStatus s"
  "firmwareStatus (emit e d a st c x s) = firmwareStatus s"
  "installedCertificates (emit e d a st c x s) = installedCertificates s"
  "stationCertificateChain (emit e d a st c x s) = stationCertificateChain s"
  "activeLogRequestID (emit e d a st c x s) = activeLogRequestID s" "logStatus (emit e d a st c x s) = logStatus s"
  "signedFirmwareRequestID (emit e d a st c x s) = signedFirmwareRequestID s"
  "signedFirmwareStatus (emit e d a st c x s) = signedFirmwareStatus s" "lastBoot (emit e d a st c x s) = lastBoot s"
  "goroutines (emit e d a st c x s) = goroutines s" "sent (emit e d a st c x s) = sent s"
  by (simp_all add: emit_def)

lemma spawn_frame [simp, frame_simps]:
  "cfg (spawn g s) = cfg s" "opts (spawn g s) = opts s" "events (spawn g s) = events s"
  "eventsClosed (spawn g s) = eventsClosed s"
  "connectors (spawn g s) = connectors s" "configuration (spawn g s) = configuration s"
  "reservations (spawn g s) = reservations s" "localAuthList (spawn g s) = localAuthList s"
  "localAuthListVersion (spawn g s) = localAuthListVersion s" "chargingProfiles (spawn g s) = chargingProfiles s"
  "diagnosticsStatus (spawn g s) = diagnosticsStatus s" "firmwareStatus (spawn g s) = firmwareStatus s"
  "installedCertificates (spawn g s) = installedCertificates s"
  "stationCertificateChain (spawn g s) = stationCertificateChain s"
  "activeLogRequestID (spawn g s) = activeLogRequestID s" "logStatus (spawn g s) = logStatus s"
  "signedFirmwareRequestID (spawn g s) = signedFirmwareRequestID s"
  "signedFirmwareStatus (spawn g s) = signedFirmwareStatus s" "lastBoot (spawn g s) = lastBoot s"
  "goroutines (spawn g s) = goroutines s @ [g]" "sent (spawn g s) = sent s"
  by (simp_all add: spawn_def)

lemma send_frame [simp, frame_simps]:
  "cfg (send_msg m s) = cfg s" "opts (send_msg m s) = opts s" "events (send_msg m s) = events s"
  "eventsClosed (send_msg m s) = eventsClosed s"
  "connectors (send_msg m s) = connectors s" "configuration (send_msg m s) = configuration s"
  "reservations (send_msg m s) = reservations s" "localAuthList (send_msg m s) = localAuthList s"
  "localAuthListVersion (send_msg m s) = localAuthListVersion s" "chargingProfiles (send_msg m s) = chargingProfiles s"
  "diagnosticsStatus (send_msg m s) = diagnosticsStatus s" "firmwareStatus (send_msg m s) = firmwareStatus s"
  "installedCertificates (send_msg m s) = installedCertificates s"
  "stationCertificateChain (send_msg m s) = stationCertificateChain s"
  "activeLogRequestID (send_msg m s) = activeLogRequestID s" "logStatus (send_msg m s) = logStatus s"
  "signedFirmwareRequestID (send_msg m s) = signedFirmwareRequestID s"
  "signedFirmwareStatus (send_msg m s) = signedFirmwareStatus s" "lastBoot (send_msg m s) = lastBoot s"
  "goroutines (send_msg m s) = goroutines s" "sent (send_msg m s) = sent s @ [m]"
  by (simp_all add: send_msg_def)

text \<open>The status notifications add their goroutines and nothing else.\<close>

lemma notify_updates_eq:
  "notify_updates e us s =
     s\<lparr>goroutines := goroutines s @ (if is_connected e then map (\<lambda>(id, st). GoNotify id st) us else [])\<rparr>"
  unfolding notify_updates_def
  by (induction us arbitrary: s) (auto simp: notifyStatusAsync_def spawn_def)

lemma notifyStatusAsync_eq:
  "notifyStatusAsync e i st s =
     s\<lparr>goroutines := goroutines s @ (if is_connected e then [GoNotify i st] else [])\<rparr>"
  by (simp add: notifyStatusAsync_def spawn_def)

lemma notify_updates_frame [simp, frame_simps]:
  "cfg (notify_updates e us s) = cfg s"
  "opts (notify_updates e us s) = opts s"
  "events (notify_updates e us s) = events s"
  "eventsClosed (notify_updates e us s) = eventsClosed s"
  "connectors (notify_updates e us s) = connectors s"
  "configuration (notify_updates e us s) = configuration s"
  "reservations (notify_updates e us s) = reservations s"
  "localAuthList (notify_updates e us s) = localAuthList s"
  "localAuthListVersion (notify_updates e us s) = localAuthListVersion s"
  "chargingProfiles (notify_updates e us s) = chargingProfiles s"
  "diagnosticsStatus (notify_updates e us s) = diagnosticsStatus s"
  "firmwareStatus (notify_updates e us s) = firmwareStatus s"
  "installedCertificates (notify_updates e us s) = installedCertificates s"
  "stationCertificateChain (notify_updates e us s) = stationCertificateChain s"
  "activeLogRequestID (notify_updates e us s) = activeLogRequestID s"
  "logStatus (notify_updates e us s) = logStatus s"
  "signedFirmwareRequestID (notify_updates e us s) = signedFirmwareRequestID s"
  "signedFirmwareStatus (notify_updates e us s) = signedFirmwareStatus s"
  "lastBoot (notify_updates e us s) = lastBoot s"
  "sent (notify_updates e us s) = sent s"
  by (simp_all add: notify_updates_eq)

lemma notifyStatusAsync_frame [simp, frame_simps]:
  "cfg (notifyStatusAsync e i st s) = cfg s"
  "opts (notifyStatusAsync e i st s) = opts s"
  "events (notifyStatusAsync e i st s) = events s"
  "eventsClosed (notifyStatusAsync e i st s) = eventsClosed s"
  "connectors (notifyStatusAsync e i st s) = connectors s"
  "configuration (notifyStatusAsync e i st s) = configuration s"
  "reservations (notifyStatusAsync e i st s) = reservations s"
  "localAuthList (notifyStatusAsync e i st s) = localAuthList s"
  "localAuthListVersion (notifyStatusAsync e i st s) = localAuthListVersion s"
  "chargingProfiles (notifyStatusAsync e i st s) = chargingProfiles s"
  "diagnosticsStatus (notifyStatusAsync e i st s) = diagnosticsStatus s"
  "firmwareStatus (notifyStatusAsync e i st s) = firmwareStatus s"
  "installedCertificates (notifyStatusAsync e i st s) = installedCertificates s"
  "stationCertificateChain (notifyStatusAsync e i st s) = stationCertificateChain s"
  "activeLogRequestID (notifyStatusAsync e i st s) = activeLogRequestID s"
  "logStatus (notifyStatusAsync e i st s) = logStatus s"
  "signedFirmwareRequestID (notifyStatusAsync e i st s) = signedFirmwareRequestID s"
  "signedFirmwareStatus (notifyStatusAsync e i st s) = signedFirmwareStatus s"
  "lastBoot (notifyStatusAsync e i st s) = lastBoot s"
  "sent (notifyStatusAsync e i st s) = sent s"
  by (simp_all add: notifyStatusAsync_eq)

section \<open>The parts of the invariant\<close>

abbreviation connector_id :: "go_int \<Rightarrow> go_int \<Rightarrow> bool" where
  "connector_id n i \<equiv> 1 \<le> i \<and> i \<le> n"

definition connectors_ok :: "go_int \<Rightarrow> (go_int \<times> connector_state) list \<Rightarrow> bool" where
  "connectors_ok n cs \<longleftrightarrow> gm_ok cs \<and> (\<forall>i. i \<in> fst ` set cs \<longleftrightarrow> connector_id n i)"

definition reservations_ok :: "go_int \<Rightarrow> (go_int \<times> reservation_state) list \<Rightarrow> bool" where
  "reservations_ok n rs \<longleftrightarrow> gm_ok rs \<and>
     (\<forall>i r. map_of rs i = Some r \<longrightarrow> r_connectorID r = 0 \<or> connector_id n (r_connectorID r)) \<and>
     (\<forall>i j r q. map_of rs i = Some r \<longrightarrow> map_of rs j = Some q \<longrightarrow>
        r_connectorID r = r_connectorID q \<longrightarrow> r_connectorID r \<noteq> 0 \<longrightarrow> i = j)"

definition profiles_ok :: "(go_int \<times> stored_profile) list \<Rightarrow> bool" where
  "profiles_ok ps \<longleftrightarrow> gm_ok ps \<and>
     (\<forall>i sp. map_of ps i = Some sp \<longrightarrow> (\<exists>p. sp_profile sp = Some p \<and> cp_id p = i))"

definition configuration_ok :: "(string \<times> configuration_key) list \<Rightarrow> bool" where
  "configuration_ok cs \<longleftrightarrow> gm_ok cs \<and> (\<forall>k c. map_of cs k = Some c \<longrightarrow> k_key c = k \<and> k_value c \<noteq> None)"

definition certificateHashKey :: "certificate_hash_data \<Rightarrow> string" where
  "certificateHashKey h = join_with '':''
     [h_algorithm h, to_lower (h_issuer_name h), to_lower (h_issuer_key h), to_lower (h_serial h)]"

definition certificates_ok :: "(string \<times> installed_certificate) list \<Rightarrow> bool" where
  "certificates_ok cs \<longleftrightarrow> gm_ok cs \<and> (\<forall>k c. map_of cs k = Some c \<longrightarrow> k = certificateHashKey (ic_hash c))"

text \<open>The connectors a goroutine will dereference without a check.\<close>

fun trigger_pc_ok :: "go_int \<Rightarrow> trigger_pc \<Rightarrow> bool" where
  "trigger_pc_ok n (TriggerStatuses ids) = list_all (connector_id n) ids"
| "trigger_pc_ok n (TriggerNotify _ _ ids) = list_all (connector_id n) ids"
| "trigger_pc_ok n _ = True"

fun goroutine_ok :: "go_int \<Rightarrow> goroutine \<Rightarrow> bool" where
  "goroutine_ok n (GoBegin c _ _ _) = connector_id n c"
| "goroutine_ok n (GoFinish c _ _) = connector_id n c"
| "goroutine_ok n (GoTrigger _ _ pc) = trigger_pc_ok n pc"
| "goroutine_ok n (GoExtendedTrigger _ _ pc) = trigger_pc_ok n pc"
| "goroutine_ok n _ = True"

definition sim_wf :: "simulator \<Rightarrow> bool" where
  "sim_wf s \<longleftrightarrow>
     connectors_ok (Connectors (opts s)) (connectors s) \<and>
     reservations_ok (Connectors (opts s)) (reservations s) \<and>
     profiles_ok (chargingProfiles s) \<and>
     configuration_ok (configuration s) \<and>
     gm_ok (localAuthList s) \<and>
     certificates_ok (installedCertificates s) \<and>
     length (events s) \<le> event_capacity \<and>
     list_all (goroutine_ok (Connectors (opts s))) (goroutines s)"

lemma emit_wf [simp]: "sim_wf (emit e d a st c x s) \<longleftrightarrow> sim_wf s"
  unfolding sim_wf_def by (auto simp: emit_def)

lemma send_wf [simp]: "sim_wf (send_msg m s) \<longleftrightarrow> sim_wf s"
  unfolding sim_wf_def by simp

lemma spawn_wf [simp]: "sim_wf (spawn g s) \<longleftrightarrow> sim_wf s \<and> goroutine_ok (Connectors (opts s)) g"
  unfolding sim_wf_def by auto

lemma notify_updates_wf [simp]: "sim_wf (notify_updates e us s) \<longleftrightarrow> sim_wf s"
  unfolding sim_wf_def by (auto simp: notify_updates_eq list_all_iff)

lemma notifyStatusAsync_wf [simp]: "sim_wf (notifyStatusAsync e i st s) \<longleftrightarrow> sim_wf s"
  unfolding sim_wf_def by (auto simp: notifyStatusAsync_eq)

text \<open>Fields the invariant does not speak of.\<close>

lemma wf_other_fields [simp]:
  "sim_wf (s\<lparr>lastBoot := b\<rparr>) = sim_wf s" "sim_wf (s\<lparr>diagnosticsStatus := d\<rparr>) = sim_wf s"
  "sim_wf (s\<lparr>firmwareStatus := f\<rparr>) = sim_wf s" "sim_wf (s\<lparr>logStatus := l\<rparr>) = sim_wf s"
  "sim_wf (s\<lparr>activeLogRequestID := i\<rparr>) = sim_wf s" "sim_wf (s\<lparr>signedFirmwareRequestID := i\<rparr>) = sim_wf s"
  "sim_wf (s\<lparr>signedFirmwareStatus := sf\<rparr>) = sim_wf s" "sim_wf (s\<lparr>stationCertificateChain := c\<rparr>) = sim_wf s"
  "sim_wf (s\<lparr>localAuthListVersion := i\<rparr>) = sim_wf s"
  by (simp_all add: sim_wf_def)

lemma connectors_ok_look: "connectors_ok n cs \<Longrightarrow> map_of cs i \<noteq> None \<longleftrightarrow> connector_id n i"
  by (simp add: connectors_ok_def map_of_eq_None_iff)

lemma wf_connector: "sim_wf s \<Longrightarrow> connector_id (Connectors (opts s)) i \<Longrightarrow> \<exists>c. map_of (connectors s) i = Some c"
  using connectors_ok_look unfolding sim_wf_def by fastforce

lemma wf_connectorD: "sim_wf s \<Longrightarrow> map_of (connectors s) i = Some c \<Longrightarrow> connector_id (Connectors (opts s)) i"
  using connectors_ok_look unfolding sim_wf_def by fastforce

lemma connectors_ok_put: "connectors_ok n cs \<Longrightarrow> map_of cs i = Some c \<Longrightarrow> connectors_ok n (gm_put i c' cs)"
  unfolding connectors_ok_def by (simp del: map_of_eq_Some_iff) (metis gm_look_keys insert_absorb)

lemma write_connector_Some:
  "write_connector i f s = Some s' \<longleftrightarrow>
     (\<exists>c. map_of (connectors s) i = Some c \<and> s' = s\<lparr>connectors := gm_put i (f c) (connectors s)\<rparr>)"
  by (auto simp: write_connector_def split: option.splits)

lemma write_connector_wf: "sim_wf s \<Longrightarrow> write_connector i f s = Some s' \<Longrightarrow> sim_wf s'"
  by (auto simp: write_connector_Some sim_wf_def connectors_ok_put)

lemma write_connector_total: "sim_wf s \<Longrightarrow> connector_id (Connectors (opts s)) i \<Longrightarrow> \<exists>s'. write_connector i f s = Some s'"
  using wf_connector by (fastforce simp: write_connector_Some)

lemma reservations_ok_del [simp]: "reservations_ok n rs \<Longrightarrow> reservations_ok n (gm_del i rs)"
  unfolding reservations_ok_def by (auto split: if_splits)

lemma reservations_ok_filter: "reservations_ok n rs \<Longrightarrow> reservations_ok n (filter P rs)"
proof -
  assume ok: "reservations_ok n rs"
  then have d: "gm_ok rs" "gm_ok (filter P rs)"
    by (auto simp: reservations_ok_def distinct_map_filter)
  then have "map_of (filter P rs) i = Some r \<Longrightarrow> map_of rs i = Some r" for i r by auto
  with ok d show ?thesis unfolding reservations_ok_def by blast
qed

lemma reservations_ok_put:
  assumes "reservations_ok n rs" "r_connectorID r = 0 \<or> connector_id n (r_connectorID r)"
    and "r_connectorID r \<noteq> 0 \<Longrightarrow> \<forall>j q. map_of rs j = Some q \<longrightarrow> j \<noteq> i \<longrightarrow> r_connectorID q \<noteq> r_connectorID r"
  shows "reservations_ok n (gm_put i r rs)"
  using assms unfolding reservations_ok_def
  by (simp del: map_of_eq_Some_iff) (metis (no_types, lifting) option.inject)

lemma profiles_ok_del [simp]: "profiles_ok ps \<Longrightarrow> profiles_ok (gm_del i ps)"
  unfolding profiles_ok_def by (auto split: if_splits)

lemma profiles_ok_put: "profiles_ok ps \<Longrightarrow> sp_profile sp = Some p \<Longrightarrow> profiles_ok (gm_put (cp_id p) sp ps)"
  unfolding profiles_ok_def by (auto split: if_splits)

section \<open>Operations that keep the invariant\<close>

text \<open>
  \<open>keeps st s m\<close>: the computation \<open>m\<close>, started in \<open>s\<close>, does not panic, and the
  simulator \<open>st\<close> finds in its result is well formed with the same options.
\<close>

definition keeps :: "('a \<Rightarrow> simulator) \<Rightarrow> simulator \<Rightarrow> 'a option \<Rightarrow> bool" where
  "keeps st s m \<longleftrightarrow> (\<exists>y. m = Some y \<and> sim_wf (st y) \<and> opts (st y) = opts s)"

lemma keepsE:
  assumes "keeps st s m"
  obtains y where "m = Some y" "sim_wf (st y)" "opts (st y) = opts s"
  using assms by (auto simp: keeps_def)

lemma keeps_Some [simp]: "keeps st s (Some y) \<longleftrightarrow> sim_wf (st y) \<and> opts (st y) = opts s"
  by (simp add: keeps_def)

lemma keeps_bind:
  assumes "keeps st s m" "\<And>y. m = Some y \<Longrightarrow> sim_wf (st y) \<Longrightarrow> opts (st y) = opts s \<Longrightarrow> keeps st' s (f y)"
  shows "keeps st' s (m \<bind> f)"
  using assms by (auto simp: keeps_def)

lemma keeps_write_connector [wf_intros]:
  "sim_wf s \<Longrightarrow> connector_id (Connectors (opts s)) i \<Longrightarrow> keeps (\<lambda>s'. s') s (write_connector i f s)"
  using write_connector_total [of s i f] write_connector_wf [of s i f]
  by (auto simp: keeps_def write_connector_Some)

lemma keeps_same_opts: "keeps st s m \<Longrightarrow> opts s = opts s' \<Longrightarrow> keeps st s' m"
  by (simp add: keeps_def)

section \<open>A new simulator is well formed\<close>

lemma addConfiguration_frame:
  "addConfiguration k v r s = s\<lparr>configuration := gm_put k \<lparr>k_key = k, k_readonly = r, k_value = Some v\<rparr> (configuration s)\<rparr>"
  by (simp add: addConfiguration_def)

lemma addConfiguration_wf: "sim_wf s \<Longrightarrow> sim_wf (addConfiguration k v r s)"
  unfolding sim_wf_def addConfiguration_frame configuration_ok_def by auto

lemma connectors_ok_init: "connectors_ok n (map (\<lambda>i. (i, c)) [1..n])"
  by (auto simp: connectors_ok_def comp_def image_image)

lemma bare_simulator_wf: "sim_wf (bare_simulator c o1)"
  unfolding sim_wf_def bare_simulator_def
  by (simp add: connectors_ok_init reservations_ok_def profiles_ok_def configuration_ok_def certificates_ok_def)

lemma build_simulator_wf: "sim_wf (build_simulator c o1)"
proof -
  have "sim_wf s \<Longrightarrow> sim_wf (fold (\<lambda>(key, value, readonly). addConfiguration key value readonly) xs s)" for xs s
    by (induction xs arbitrary: s) (auto simp: addConfiguration_wf)
  then show ?thesis unfolding build_simulator_def using bare_simulator_wf by blast
qed

lemma build_simulator_frame:
  "connectors (build_simulator c o1) = connectors (bare_simulator c o1)"
  "reservations (build_simulator c o1) = []" "chargingProfiles (build_simulator c o1) = []"
  "opts (build_simulator c o1) = o1" "cfg (build_simulator c o1) = c"
  "events (build_simulator c o1) = []" "goroutines (build_simulator c o1) = []" "sent (build_simulator c o1) = []"
  "localAuthListVersion (build_simulator c o1) = 0" "localAuthList (build_simulator c o1) = []"
proof -
  let ?f = "fold (\<lambda>(key, value, readonly). addConfiguration key value readonly)"
  have "connectors (?f xs s) = connectors s \<and> reservations (?f xs s) = reservations s \<and>
    chargingProfiles (?f xs s) = chargingProfiles s \<and> opts (?f xs s) = opts s \<and> cfg (?f xs s) = cfg s \<and>
    events (?f xs s) = events s \<and> goroutines (?f xs s) = goroutines s \<and> sent (?f xs s) = sent s \<and>
    localAuthListVersion (?f xs s) = localAuthListVersion s \<and> localAuthList (?f xs s) = localAuthList s" for xs s
    by (induction xs arbitrary: s) (auto simp: addConfiguration_frame)
  then show "connectors (build_simulator c o1) = connectors (bare_simulator c o1)"
    "reservations (build_simulator c o1) = []" "chargingProfiles (build_simulator c o1) = []"
    "opts (build_simulator c o1) = o1" "cfg (build_simulator c o1) = c"
    "events (build_simulator c o1) = []" "goroutines (build_simulator c o1) = []" "sent (build_simulator c o1) = []"
    "localAuthListVersion (build_simulator c o1) = 0" "localAuthList (build_simulator c o1) = []"
    unfolding build_simulator_def by (simp_all add: bare_simulator_def)
qed

lemma build_simulator_open: "\<not> eventsClosed (build_simulator c o1)"
proof -
  have "eventsClosed (fold (\<lambda>(key, value, readonly). addConfiguration key value readonly) xs s) = eventsClosed s" for xs s
    by (induction xs arbitrary: s) (simp_all add: addConfiguration_frame split_def)
  then show ?thesis unfolding build_simulator_def by (simp add: bare_simulator_def)
qed

text \<open>The station of the test suite (\<open>newTestSimulator\<close>): two connectors, meters at 1000 Wh, steps of 10 Wh.\<close>

definition test_options :: simulator_options where
  "test_options = \<lparr>Connectors = 2, HeartbeatInterval = 0, MeterInterval = 0, MeterStart = 1000, MeterStep = 10\<rparr>"

definition test_station :: simulator where
  "test_station = build_simulator DefaultClientConfig test_options"

lemma test_station_wf [simp]: "sim_wf test_station"
  by (simp add: test_station_def build_simulator_wf)

definition fresh_connector :: "go_int \<Rightarrow> connector_state" where
  "fresh_connector m = \<lparr>availability = Operative, status = Available, transactionID = 0, idTag = '''', meter = m\<rparr>"

lemma test_station_simps [simp]:
  "connectors test_station = [(1, fresh_connector 1000), (2, fresh_connector 1000)]"
  "reservations test_station = []" "chargingProfiles test_station = []"
  "opts test_station = test_options" "events test_station = []" "goroutines test_station = []"
  "localAuthListVersion test_station = 0" "localAuthList test_station = []" "sent test_station = []"
  by (simp_all add: test_station_def build_simulator_frame bare_simulator_def test_options_def fresh_connector_def
      upto.simps)

end
