(* ===== verification/Outbound.thy ===== *)
theory Outbound
  imports Invariants
begin

text \<open>
  What the charge point sends (internal/ocppclient/simulator.go): the answers of the central
  system as arguments, and the boot notification, heartbeat, status notification and meter
  sample, each of which awaits its answer.
\<close>

section \<open>The central system's answers\<close>

text \<open>
  What the central system (or the context) does with an awaited call is an argument: the
  outcome of the race in \<open>await\<close>. The message is recorded in \<open>sent\<close> with its answer.
  \<open>a_csr\<close> is the freshly generated certificate signing request, \<open>a_wait\<close> whether a timer
  fires before the context is done.
\<close>

record boot_confirmation =
  bc_status :: registration_status
  bc_interval :: go_int
  bc_current_time :: "time option"

record answers =
  a_boot :: "boot_confirmation race"
  a_heartbeat :: "time option race"
  a_status :: "go_int \<Rightarrow> unit race"
  a_meter :: "go_int \<Rightarrow> unit race"
  a_authorize :: "authorization_status option race"
  a_start :: "(go_int \<times> authorization_status option) race"
  a_stop :: "authorization_status option race"
  a_report :: "unit race"
  a_csr :: "err + string"
  a_sign :: "string race"
  a_wait :: bool

section \<open>Outbound notifications\<close>

definition notifyStatus ::
  "env \<Rightarrow> answers \<Rightarrow> go_int \<Rightarrow> charge_point_status \<Rightarrow> simulator \<Rightarrow> simulator \<times> err option" where
  "notifyStatus e a connectorID st s =
     (let s1 = send_msg (OutStatusNotification connectorID st) s in
      case await (a_status a connectorID) of
        Inl er \<Rightarrow> (s1, Some (classify_error er ErrProtocol))
      | Inr _ \<Rightarrow> (emit e ''outbound'' ''StatusNotification'' (status_text st) (Some connectorID) '''' s1, None))"

definition sendHeartbeat :: "env \<Rightarrow> answers \<Rightarrow> simulator \<Rightarrow> simulator \<times> err option" where
  "sendHeartbeat e a s =
     (let s1 = send_msg OutHeartbeat s in
      case await (a_heartbeat a) of
        Inl er \<Rightarrow> (s1, Some (classify_error er ErrProtocol))
      | Inr current \<Rightarrow>
         (emit e ''outbound'' ''Heartbeat'' ''Accepted'' None
            (case current of None \<Rightarrow> '''' | Some t \<Rightarrow> timestamp_text e t) s1, None))"

definition sendMeterSample ::
  "env \<Rightarrow> answers \<Rightarrow> go_int \<Rightarrow> go_int \<Rightarrow> go_int \<Rightarrow> string \<Rightarrow> simulator \<Rightarrow> simulator \<times> err option" where
  "sendMeterSample e a connectorID m transaction readingContext s =
     (let s1 = send_msg (OutMeterValues connectorID (itoa m) readingContext
            (if transaction > 0 then Some transaction else None)) s in
      case await (a_meter a connectorID) of
        Inl er \<Rightarrow> (s1, Some (classify_error er ErrProtocol))
      | Inr _ \<Rightarrow> (emit e ''outbound'' ''MeterValues'' ''Accepted'' (Some connectorID) (itoa m @ '' Wh'') s1, None))"

definition sendBootNotification ::
  "env \<Rightarrow> answers \<Rightarrow> simulator \<Rightarrow> simulator \<times> (err + boot_confirmation)" where
  "sendBootNotification e a s =
     (let s1 = send_msg (OutBootNotification (ChargePointModel (cfg s)) (ChargePointVendor (cfg s))
            (FirmwareVersion (cfg s)) (SerialNumber (cfg s)) (MeterSerialNumber (cfg s)) (MeterType (cfg s))) s in
      case await (a_boot a) of
        Inl er \<Rightarrow> (s1, Inl (classify_error er ErrProtocol))
      | Inr confirmation \<Rightarrow>
         (let s2 = s1\<lparr>lastBoot := Some \<lparr>b_status = registration_text (bc_status confirmation),
                b_interval = bc_interval confirmation, b_current_time = bc_current_time confirmation\<rparr>\<rparr> in
          (emit e ''outbound'' ''BootNotification'' (registration_text (bc_status confirmation)) None '''' s2,
           Inr confirmation)))"

section \<open>What a status notification touches\<close>

lemma notifyStatus_frame [simp, frame_simps]:
  "opts (fst (notifyStatus e a c st s)) = opts s"
  "connectors (fst (notifyStatus e a c st s)) = connectors s"
  "reservations (fst (notifyStatus e a c st s)) = reservations s"
  "configuration (fst (notifyStatus e a c st s)) = configuration s"
  "goroutines (fst (notifyStatus e a c st s)) = goroutines s"
  "chargingProfiles (fst (notifyStatus e a c st s)) = chargingProfiles s"
  "sent (fst (notifyStatus e a c st s)) = sent s @ [OutStatusNotification c st]"
  by (simp_all add: notifyStatus_def Let_def split: sum.split)

lemma notifyStatus_wf [simp]: "sim_wf (fst (notifyStatus e a c st s)) \<longleftrightarrow> sim_wf s"
  by (simp add: notifyStatus_def Let_def split: sum.split)

text \<open>Awaited notifications one after the other, errors dropped: \<open>_ = s.notifyStatus(...)\<close>.\<close>

definition notify_connected ::
  "env \<Rightarrow> answers \<Rightarrow> (go_int \<times> charge_point_status) list \<Rightarrow> simulator \<Rightarrow> simulator" where
  "notify_connected e a updates s =
     fold (\<lambda>(i, st) s. if is_connected e then fst (notifyStatus e a i st s) else s) updates s"

lemma notify_connected_Nil [simp]: "notify_connected e a [] s = s"
  by (simp add: notify_connected_def)

lemma notify_connected_Cons [simp]:
  "notify_connected e a ((i, st) # us) s =
     notify_connected e a us (if is_connected e then fst (notifyStatus e a i st s) else s)"
  by (simp add: notify_connected_def)

lemma notify_connected_frame [simp, frame_simps]:
  "opts (notify_connected e a us s) = opts s"
  "connectors (notify_connected e a us s) = connectors s"
  "reservations (notify_connected e a us s) = reservations s"
  "configuration (notify_connected e a us s) = configuration s"
  "goroutines (notify_connected e a us s) = goroutines s"
  "sim_wf (notify_connected e a us s) = sim_wf s"
  "sent (notify_connected e a us s) =
     sent s @ (if is_connected e then map (\<lambda>(i, st). OutStatusNotification i st) us else [])"
  by (induction us arbitrary: s) (auto split: if_splits)

end
