(* ===== verification/Reservations.thy ===== *)
theory Reservations
  imports Outbound
begin

text \<open>
  The reservation profile (internal/ocppclient/simulator_optional_profiles.go): the status of an
  idle connector, access of an identifier to a connector, the choice of a connector for a remote
  start, \<open>ReserveNow\<close>, \<open>CancelReservation\<close> and expiry.
\<close>

section \<open>Idle status and access\<close>

abbreviation live :: "env \<Rightarrow> reservation_state \<Rightarrow> bool" where
  "live e r \<equiv> now e < r_expiry r"

text \<open>The loop only asks whether some entry satisfies its test, so the order of the entries is immaterial.\<close>

definition idleStatusLocked :: "env \<Rightarrow> simulator \<Rightarrow> go_int \<Rightarrow> charge_point_status option" where
  "idleStatusLocked e s connectorID = (case map_of (connectors s) connectorID of
     None \<Rightarrow> None
   | Some c \<Rightarrow> Some
      (if availability c = Inoperative then Unavailable
       else if list_ex (\<lambda>(_, r). r_connectorID r = connectorID \<and> live e r) (reservations s) then Reserved
       else Available))"

definition tag_matches :: "string \<Rightarrow> reservation_state \<Rightarrow> bool" where
  "tag_matches tag r \<longleftrightarrow> tag = r_idTag r \<or> (r_parentIDTag r \<noteq> [] \<and> tag = r_parentIDTag r)"

fun access_loop :: "env \<Rightarrow> go_int \<Rightarrow> string \<Rightarrow> (go_int \<times> reservation_state) list \<Rightarrow> go_int \<Rightarrow> go_int \<times> bool" where
  "access_loop e connectorID tag [] matchedGlobal = (matchedGlobal, True)"
| "access_loop e connectorID tag ((i, r) # rs) matchedGlobal =
     (if \<not> live e r then access_loop e connectorID tag rs matchedGlobal
      else if r_connectorID r \<noteq> 0 \<and> r_connectorID r \<noteq> connectorID then
        access_loop e connectorID tag rs matchedGlobal
      else if r_connectorID r = connectorID then
        (if tag_matches tag r then (i, True) else (0, False))
      else if tag_matches tag r then access_loop e connectorID tag rs i
      else (0, False))"

definition reservationAccessLocked :: "env \<Rightarrow> nat \<Rightarrow> simulator \<Rightarrow> go_int \<Rightarrow> string \<Rightarrow> go_int \<times> bool" where
  "reservationAccessLocked e site s connectorID tag =
     access_loop e connectorID tag (gm_range (range_order e site connectorID) (reservations s)) 0"

section \<open>Choosing a connector for a remote start\<close>

text \<open>
  The Go function returns connector, reservation and a success flag; failure is the inner
  \<^term>\<open>None\<close>, a nil dereference the outer one.
\<close>

abbreviation startable :: "connector_state \<Rightarrow> bool" where
  "startable c \<equiv> status c = Available \<or> status c = Reserved"

fun select_reserved :: "env \<Rightarrow> simulator \<Rightarrow> string \<Rightarrow> go_int list \<Rightarrow> (go_int \<times> go_int) option option" where
  "select_reserved e s tag [] = Some None"
| "select_reserved e s tag (i # ids) = (case map_of (connectors s) i of
     None \<Rightarrow> None
   | Some c \<Rightarrow>
      if availability c \<noteq> Operative \<or> transactionID c \<noteq> 0 then select_reserved e s tag ids
      else (let (reservationID, allowed) = reservationAccessLocked e 1 s i tag in
        if allowed \<and> reservationID > 0 \<and> startable c then Some (Some (i, reservationID))
        else select_reserved e s tag ids))"

fun select_free :: "env \<Rightarrow> simulator \<Rightarrow> string \<Rightarrow> go_int list \<Rightarrow> (go_int \<times> go_int) option option" where
  "select_free e s tag [] = Some None"
| "select_free e s tag (i # ids) = (case map_of (connectors s) i of
     None \<Rightarrow> None
   | Some c \<Rightarrow>
      if availability c \<noteq> Operative \<or> transactionID c \<noteq> 0 \<or> status c \<noteq> Available then select_free e s tag ids
      else (let (reservationID, allowed) = reservationAccessLocked e 2 s i tag in
        if allowed then Some (Some (i, reservationID)) else select_free e s tag ids))"

definition selectRemoteStartConnectorLocked ::
  "env \<Rightarrow> simulator \<Rightarrow> go_int option \<Rightarrow> string \<Rightarrow> (go_int \<times> go_int) option option" where
  "selectRemoteStartConnectorLocked e s requested tag = (case requested of
     Some i \<Rightarrow> (case map_of (connectors s) i of
        None \<Rightarrow> Some None
      | Some c \<Rightarrow>
         if availability c \<noteq> Operative \<or> transactionID c \<noteq> 0 then Some None
         else (let (reservationID, allowed) = reservationAccessLocked e 0 s i tag in
           if \<not> allowed \<or> \<not> startable c then Some None else Some (Some (i, reservationID))))
   | None \<Rightarrow> do {
      first \<leftarrow> select_reserved e s tag [1..Connectors (opts s)];
      (case first of Some found \<Rightarrow> Some (Some found)
       | None \<Rightarrow> select_free e s tag [1..Connectors (opts s)]) })"

section \<open>Removing reservations\<close>

definition removeReservationsForConnectorLocked :: "go_int \<Rightarrow> simulator \<Rightarrow> simulator" where
  "removeReservationsForConnectorLocked connectorID s =
     s\<lparr>reservations := filter (\<lambda>(_, r). r_connectorID r \<noteq> connectorID) (reservations s)\<rparr>"

definition consumeReservationLocked :: "go_int \<Rightarrow> simulator \<Rightarrow> simulator" where
  "consumeReservationLocked reservationID s = s\<lparr>reservations := gm_del reservationID (reservations s)\<rparr>"

text \<open>Setting a connector to its idle status: the read and the write through the pointer.\<close>

definition make_idle :: "env \<Rightarrow> go_int \<Rightarrow> simulator \<Rightarrow> (simulator \<times> charge_point_status) option" where
  "make_idle e connectorID s = do {
     st \<leftarrow> idleStatusLocked e s connectorID;
     s' \<leftarrow> set_status connectorID st s;
     Some (s', st) }"

section \<open>ReserveNow\<close>

datatype reservation_status = ResAccepted | ResRejected | ResFaulted | ResOccupied | ResUnavailable

fun reservation_text :: "reservation_status \<Rightarrow> string" where
  "reservation_text ResAccepted = ''Accepted''"
| "reservation_text ResRejected = ''Rejected''"
| "reservation_text ResFaulted = ''Faulted''"
| "reservation_text ResOccupied = ''Occupied''"
| "reservation_text ResUnavailable = ''Unavailable''"

record reserve_now_request =
  rn_connector :: go_int
  rn_expiry :: "time option"
  rn_idTag :: string
  rn_parent :: string
  rn_reservation :: go_int

text \<open>The scan for a reservation of connector zero: whether a usable and whether an operative connector was seen.\<close>

fun reserve_scan :: "env \<Rightarrow> simulator \<Rightarrow> string \<Rightarrow> (go_int \<times> connector_state) list \<Rightarrow> bool \<Rightarrow> bool \<times> bool" where
  "reserve_scan e s tag [] operative = (False, operative)"
| "reserve_scan e s tag ((i, c) # cs) operative =
     (let operative' = (if availability c = Operative then True else operative);
          allowed = snd (reservationAccessLocked e 3 s i tag) in
      if availability c = Operative \<and> transactionID c = 0 \<and> allowed then (True, operative')
      else reserve_scan e s tag cs operative')"

definition reserve_any :: "env \<Rightarrow> simulator \<Rightarrow> string \<Rightarrow> reservation_status" where
  "reserve_any e s tag =
     (let (available, operative) = reserve_scan e s tag (gm_range (range_order e 4 0) (connectors s)) False in
      if \<not> available then (if operative then ResOccupied else ResUnavailable) else ResAccepted)"

definition reserve_specific :: "simulator \<Rightarrow> go_int \<Rightarrow> reservation_status" where
  "reserve_specific s i = (case map_of (connectors s) i of
     None \<Rightarrow> ResRejected
   | Some c \<Rightarrow>
      if status c = Faulted then ResFaulted
      else if availability c = Inoperative \<or> status c = Unavailable then ResUnavailable
      else if transactionID c > 0 \<or> status c = Preparing \<or> status c = Charging \<or> status c = Finishing then ResOccupied
      else if list_ex (\<lambda>(_, r). r_connectorID r = i) (reservations s) then ResOccupied
      else ResAccepted)"

text \<open>A reservation with the same number is dropped first, whatever becomes of the request.\<close>

definition drop_same_reservation ::
  "env \<Rightarrow> go_int \<Rightarrow> simulator \<Rightarrow> (simulator \<times> (go_int \<times> charge_point_status) list) option" where
  "drop_same_reservation e reservationID s = (case map_of (reservations s) reservationID of
     None \<Rightarrow> Some (s, [])
   | Some existing \<Rightarrow>
      (let s1 = s\<lparr>reservations := gm_del reservationID (reservations s)\<rparr> in
       if r_connectorID existing > 0 then do {
         (s2, st) \<leftarrow> make_idle e (r_connectorID existing) s1;
         Some (s2, [(r_connectorID existing, st)]) }
       else Some (s1, [])))"

definition store_reservation ::
  "reserve_now_request \<Rightarrow> time \<Rightarrow> simulator \<times> (go_int \<times> charge_point_status) list \<Rightarrow>
     (simulator \<times> (go_int \<times> charge_point_status) list) option" where
  "store_reservation request expiry su = (case su of (s, updates) \<Rightarrow>
     let s1 = s\<lparr>reservations := gm_put (rn_reservation request)
           \<lparr>r_connectorID = rn_connector request, r_idTag = rn_idTag request,
            r_parentIDTag = rn_parent request, r_expiry = expiry\<rparr> (reservations s)\<rparr> in
     if rn_connector request > 0 then do {
       s2 \<leftarrow> set_status (rn_connector request) Reserved s1;
       Some (s2, gm_put (rn_connector request) Reserved updates) }
     else Some (s1, updates))"

definition reserve_locked ::
  "env \<Rightarrow> reserve_now_request \<Rightarrow> time \<Rightarrow> simulator \<Rightarrow>
     (simulator \<times> (go_int \<times> charge_point_status) list \<times> reservation_status) option" where
  "reserve_locked e request expiry s = do {
     (s1, updates) \<leftarrow> drop_same_reservation e (rn_reservation request) s;
     let st = (if rn_connector request = 0 then reserve_any e s1 (rn_idTag request)
               else reserve_specific s1 (rn_connector request));
     (if st = ResAccepted then do {
        (s2, updates2) \<leftarrow> store_reservation request expiry (s1, updates);
        Some (s2, updates2, st) }
      else Some (s1, updates, st)) }"

definition OnReserveNow :: "env \<Rightarrow> simulator \<Rightarrow> reserve_now_request \<Rightarrow> (simulator \<times> reservation_status) option" where
  "OnReserveNow e s request = do {
     (s1, updates, st) \<leftarrow> (case rn_expiry request of
         None \<Rightarrow> Some (s, [], ResRejected)
       | Some expiry \<Rightarrow>
          if \<not> now e < expiry then Some (s, [], ResRejected) else reserve_locked e request expiry s);
     let detail = rn_idTag request @ '' reservation='' @ itoa (rn_reservation request);
     let s2 = emit e ''inbound'' ''ReserveNow'' (reservation_text st) (Some (rn_connector request)) detail s1;
     Some (notify_updates e updates s2, st) }"

section \<open>CancelReservation\<close>

datatype cancel_status = CancelAccepted | CancelRejected

fun cancel_text :: "cancel_status \<Rightarrow> string" where
  "cancel_text CancelAccepted = ''Accepted''"
| "cancel_text CancelRejected = ''Rejected''"

definition OnCancelReservation :: "env \<Rightarrow> simulator \<Rightarrow> go_int \<Rightarrow> (simulator \<times> cancel_status) option" where
  "OnCancelReservation e s reservationID = do {
     (s1, updates, st) \<leftarrow> (case map_of (reservations s) reservationID of
         None \<Rightarrow> Some (s, [], CancelRejected)
       | Some existing \<Rightarrow> do {
           (s1, updates) \<leftarrow> drop_same_reservation e reservationID s;
           Some (s1, updates, CancelAccepted) });
     let s2 = emit e ''inbound'' ''CancelReservation'' (cancel_text st) None (itoa reservationID) s1;
     Some (notify_updates e updates s2, st) }"

section \<open>Expiry\<close>

fun expire_loop ::
  "env \<Rightarrow> (go_int \<times> reservation_state) list \<Rightarrow> simulator \<Rightarrow> (go_int \<times> charge_point_status) list \<Rightarrow> go_int list \<Rightarrow>
     (simulator \<times> (go_int \<times> charge_point_status) list \<times> go_int list) option" where
  "expire_loop e [] s updates expired = Some (s, updates, expired)"
| "expire_loop e ((i, r) # rs) s updates expired =
     (if live e r then expire_loop e rs s updates expired
      else let s1 = s\<lparr>reservations := gm_del i (reservations s)\<rparr> in
        if r_connectorID r > 0 then do {
          (s2, st) \<leftarrow> make_idle e (r_connectorID r) s1;
          expire_loop e rs s2 (gm_put (r_connectorID r) st updates) (expired @ [i]) }
        else expire_loop e rs s1 updates (expired @ [i]))"

text \<open>
  The notifications at the end of the tick are awaited one by one in the goroutine of \<open>Run\<close>,
  in the order of another loop over a map.
\<close>

definition expireReservations :: "env \<Rightarrow> answers \<Rightarrow> simulator \<Rightarrow> simulator option" where
  "expireReservations e a s = do {
     (s1, updates, expired) \<leftarrow> expire_loop e (gm_range (range_order e 5 0) (reservations s)) s [] [];
     let s2 = fold (\<lambda>i s. emit e ''system'' ''ReservationExpired'' ''Expired'' None (itoa i) s) (sort expired) s1;
     Some (notify_connected e a (gm_range (range_order e 11 0) updates) s2) }"

end
