(* ===== verification/CoreProfile.thy ===== *)
theory CoreProfile
  imports Reservations
begin

text \<open>
  The core profile of the simulator (internal/ocppclient/simulator_handlers.go and the sending
  loops of simulator.go): availability, configuration, remote start and stop with the goroutines
  that carry a transaction out, reset, unlock, and the notifications, heartbeats, meter samples
  and boot of the \<open>Run\<close> loop.
\<close>

section \<open>Meter values and the start of the station\<close>

definition advance_meter :: "go_int \<Rightarrow> connector_state \<Rightarrow> connector_state" where
  "advance_meter step c = c\<lparr>meter := wrap64 (meter c + step)\<rparr>"

fun send_samples ::
  "env \<Rightarrow> answers \<Rightarrow> (go_int \<times> go_int \<times> go_int) list \<Rightarrow> simulator \<Rightarrow> simulator \<times> err option" where
  "send_samples e a [] s = (s, None)"
| "send_samples e a ((i, m, transaction) # samples) s =
     (case sendMeterSample e a i m transaction ''Sample.Periodic'' s of
        (s', Some er) \<Rightarrow> (s', Some er)
      | (s', None) \<Rightarrow> send_samples e a samples s')"

text \<open>The loop under the mutex collects one sample per connector; sorting them by connector makes its order immaterial.\<close>

definition meter_tick :: "simulator \<Rightarrow> simulator \<times> (go_int \<times> go_int \<times> go_int) list" where
  "meter_tick s =
     (let cs = map (\<lambda>(i, c). (i, advance_meter (MeterStep (opts s)) c)) (connectors s) in
      (s\<lparr>connectors := cs\<rparr>, sort_key fst (map (\<lambda>(i, c). (i, meter c, transactionID c)) cs)))"

definition sendMeterValues :: "env \<Rightarrow> answers \<Rightarrow> simulator \<Rightarrow> simulator \<times> err option" where
  "sendMeterValues e a s = (case meter_tick s of (s1, samples) \<Rightarrow> send_samples e a samples s1)"

fun send_statuses :: "env \<Rightarrow> answers \<Rightarrow> go_int list \<Rightarrow> simulator \<Rightarrow> simulator \<times> err option" where
  "send_statuses e a [] s = (s, None)"
| "send_statuses e a (i # ids) s = (case notifyStatus e a i Available s of
      (s', Some er) \<Rightarrow> (s', Some er)
    | (s', None) \<Rightarrow> send_statuses e a ids s')"

definition sendInitialStatuses :: "env \<Rightarrow> answers \<Rightarrow> simulator \<Rightarrow> simulator \<times> err option" where
  "sendInitialStatuses e a s = send_statuses e a (0 # [1..Connectors (opts s)]) s"

section \<open>The start and the tickers of Run\<close>

definition heartbeat_interval :: "simulator \<Rightarrow> boot_confirmation \<Rightarrow> duration" where
  "heartbeat_interval s confirmation =
     (if HeartbeatInterval (opts s) = 0 \<and> bc_interval confirmation > 0
      then wrap64 (bc_interval confirmation * second) else HeartbeatInterval (opts s))"

text \<open>A ticker exists for a positive interval only.\<close>

definition optionalTicker :: "duration \<Rightarrow> duration option" where
  "optionalTicker interval = (if interval \<le> 0 then None else Some interval)"

text \<open>
  \<open>Run\<close> up to its loop: the outcome is what it returns, or the ticker of heartbeats and the
  ticker of meter values. \<open>cancelled\<close> says whether the context was done at the start,
  \<open>startError\<close> what connecting returned. The event channel is closed on every return
  after connecting. Awaited calls of this goroutine are one step here: between them it touches
  nothing but the event channel and \<open>lastBoot\<close>.
\<close>

definition run_start ::
  "env \<Rightarrow> answers \<Rightarrow> bool \<Rightarrow> err option \<Rightarrow> simulator \<Rightarrow>
     simulator \<times> (err option + duration option \<times> duration option)" where
  "run_start e a cancelled startError s =
     (if cancelled then (s, Inl None)
      else case startError of
        Some er \<Rightarrow> (s, Inl (Some (classify_error er ErrConnection)))
      | None \<Rightarrow>
         (let s1 = emit e ''system'' ''Connect'' ''Connected'' None
                (CentralSystemURL (cfg s) @ ''/'' @ ChargePointID (cfg s)) s in
          case sendBootNotification e a s1 of
            (s2, Inl er) \<Rightarrow> (close_events s2, Inl (Some er))
          | (s2, Inr confirmation) \<Rightarrow>
             if bc_status confirmation = RegRejected then
               (close_events s2, Inl (Some (wrap_text ErrRejected
                  (''BootNotification status is '' @ registration_text (bc_status confirmation)))))
             else (case sendInitialStatuses e a s2 of
                 (s3, Some er) \<Rightarrow> (close_events s3, Inl (Some er))
               | (s3, None) \<Rightarrow> (s3, Inr (optionalTicker (heartbeat_interval s3 confirmation),
                    optionalTicker (MeterInterval (opts s3)))))))"

text \<open>One round of the \<open>select\<close> loop; the result says whether and how \<open>Run\<close> returns.\<close>

datatype loop_event = ContextCancelled | TransportError "err option" | HeartbeatTick | MeterTick | ReservationTick

datatype loop_result = Continue | Return "err option"

fun loop_of :: "simulator \<times> err option \<Rightarrow> simulator \<times> loop_result" where
  "loop_of (s, None) = (s, Continue)"
| "loop_of (s, Some er) = (close_events s, Return (Some er))"

definition run_round ::
  "env \<Rightarrow> answers \<Rightarrow> loop_event \<Rightarrow> simulator \<Rightarrow> (simulator \<times> loop_result) option" where
  "run_round e a ev s = (case ev of
     ContextCancelled \<Rightarrow>
       Some (close_events (emit e ''system'' ''Shutdown'' ''Stopped'' None ''context cancelled'' s), Return None)
   | TransportError (Some er) \<Rightarrow> Some (close_events s, Return (Some (classify_error er ErrConnection)))
   | TransportError None \<Rightarrow> Some (s, Continue)
   | HeartbeatTick \<Rightarrow> Some (loop_of (sendHeartbeat e a s))
   | MeterTick \<Rightarrow> Some (loop_of (sendMeterValues e a s))
   | ReservationTick \<Rightarrow> do { s' \<leftarrow> expireReservations e a s; Some (s', Continue) })"

section \<open>Availability\<close>

datatype availability_status = AvAccepted | AvRejected | AvScheduled

fun availability_status_text :: "availability_status \<Rightarrow> string" where
  "availability_status_text AvAccepted = ''Accepted''"
| "availability_status_text AvRejected = ''Rejected''"
| "availability_status_text AvScheduled = ''Scheduled''"

fun availability_loop ::
  "env \<Rightarrow> availability_type \<Rightarrow> go_int list \<Rightarrow> simulator \<Rightarrow> bool \<Rightarrow> (go_int \<times> charge_point_status) list \<Rightarrow>
     (simulator \<times> bool \<times> (go_int \<times> charge_point_status) list) option" where
  "availability_loop e ty [] s scheduled updates = Some (s, scheduled, updates)"
| "availability_loop e ty (i # ids) s scheduled updates = do {
     s1 \<leftarrow> write_connector i (\<lambda>c. c\<lparr>availability := ty\<rparr>) s;
     let s2 = (if ty = Inoperative then removeReservationsForConnectorLocked i s1 else s1);
     c \<leftarrow> map_of (connectors s2) i;
     (if transactionID c > 0 then availability_loop e ty ids s2 True updates
      else do {
        (s3, st) \<leftarrow> make_idle e i s2;
        availability_loop e ty ids s3 scheduled (gm_put i st updates) }) }"

definition OnChangeAvailability ::
  "env \<Rightarrow> simulator \<Rightarrow> go_int \<Rightarrow> availability_type \<Rightarrow> (simulator \<times> availability_status) option" where
  "OnChangeAvailability e s connectorID ty =
     (let ids = (if connectorID = 0 then Some (map fst (gm_range (range_order e 6 0) (connectors s)))
         else if map_of (connectors s) connectorID \<noteq> None then Some [connectorID] else None) in
      case ids of
        None \<Rightarrow> Some (emit e ''inbound'' ''ChangeAvailability'' (availability_status_text AvRejected)
            (Some connectorID) (availability_text ty) s, AvRejected)
      | Some ids \<Rightarrow> do {
          (s1, scheduled, updates) \<leftarrow> availability_loop e ty ids s False [];
          let st = (if scheduled then AvScheduled else AvAccepted);
          let s2 = emit e ''inbound'' ''ChangeAvailability'' (availability_status_text st)
              (Some connectorID) (availability_text ty) s1;
          Some (notify_updates e updates s2, st) })"

section \<open>Configuration\<close>

datatype configuration_status = CfgAccepted | CfgRejected | CfgNotSupported

fun configuration_status_text :: "configuration_status \<Rightarrow> string" where
  "configuration_status_text CfgAccepted = ''Accepted''"
| "configuration_status_text CfgRejected = ''Rejected''"
| "configuration_status_text CfgNotSupported = ''NotSupported''"

definition OnChangeConfiguration :: "env \<Rightarrow> simulator \<Rightarrow> string \<Rightarrow> string \<Rightarrow> simulator \<times> configuration_status" where
  "OnChangeConfiguration e s key value = (case map_of (configuration s) key of
     None \<Rightarrow> (emit e ''inbound'' ''ChangeConfiguration'' (configuration_status_text CfgNotSupported) None key s, CfgNotSupported)
   | Some k \<Rightarrow>
      if k_readonly k then
        (emit e ''inbound'' ''ChangeConfiguration'' (configuration_status_text CfgRejected) None key s, CfgRejected)
      else
        (let s1 = s\<lparr>configuration := gm_put key (k\<lparr>k_value := Some value\<rparr>) (configuration s)\<rparr> in
         (emit e ''inbound'' ''ChangeConfiguration'' (configuration_status_text CfgAccepted) None
            (key @ ''='' @ value) s1, CfgAccepted)))"

definition OnGetConfiguration ::
  "env \<Rightarrow> simulator \<Rightarrow> string list \<Rightarrow> simulator \<times> configuration_key list \<times> string list" where
  "OnGetConfiguration e s requested =
     (let keys = sort (if requested = [] then map fst (configuration s) else requested);
          known = List.map_filter (map_of (configuration s)) keys;
          unknown = filter (\<lambda>k. map_of (configuration s) k = None) keys in
      (emit e ''inbound'' ''GetConfiguration'' ''Accepted'' None (join_with '','' keys) s, known, unknown))"

definition OnClearCache :: "env \<Rightarrow> simulator \<Rightarrow> simulator" where
  "OnClearCache e s = emit e ''inbound'' ''ClearCache'' ''Accepted'' None '''' s"

definition OnDataTransfer :: "env \<Rightarrow> simulator \<Rightarrow> string \<Rightarrow> string \<Rightarrow> 'd \<Rightarrow> simulator \<times> 'd" where
  "OnDataTransfer e s vendorId messageId data =
     (emit e ''inbound'' ''DataTransfer'' ''Accepted'' None (vendorId @ '':'' @ messageId) s, data)"

definition configurationBoolLocked :: "simulator \<Rightarrow> string \<Rightarrow> bool" where
  "configurationBoolLocked s key = (case map_of (configuration s) key of
     None \<Rightarrow> False
   | Some k \<Rightarrow> (case k_value k of None \<Rightarrow> False | Some v \<Rightarrow>
       (case parse_bool (trim_space v) of Some b \<Rightarrow> b | None \<Rightarrow> False)))"

section \<open>Remote start\<close>

datatype remote_status = RemoteAccepted | RemoteRejected

fun remote_text :: "remote_status \<Rightarrow> string" where
  "remote_text RemoteAccepted = ''Accepted''"
| "remote_text RemoteRejected = ''Rejected''"

definition store_start_profile :: "go_int \<Rightarrow> charging_profile option \<Rightarrow> simulator \<Rightarrow> simulator" where
  "store_start_profile connectorID profile s = (case profile of
     None \<Rightarrow> s
   | Some p \<Rightarrow> s\<lparr>chargingProfiles :=
       gm_put (cp_id p) \<lparr>sp_connectorID = connectorID, sp_profile = Some p\<rparr> (chargingProfiles s)\<rparr>)"

definition OnRemoteStartTransaction ::
  "env \<Rightarrow> simulator \<Rightarrow> go_int option \<Rightarrow> string \<Rightarrow> charging_profile option \<Rightarrow> (simulator \<times> remote_status) option" where
  "OnRemoteStartTransaction e s requested tag profile = do {
     selected \<leftarrow> selectRemoteStartConnectorLocked e s requested tag;
     (case selected of
        None \<Rightarrow> Some (emit e ''inbound'' ''RemoteStartTransaction'' (remote_text RemoteRejected) requested tag s,
            RemoteRejected)
      | Some (connectorID, reservationID) \<Rightarrow> do {
          s1 \<leftarrow> write_connector connectorID (\<lambda>c. c\<lparr>status := Preparing, idTag := tag\<rparr>) s;
          let s2 = store_start_profile connectorID profile s1;
          let detail = (if reservationID > 0 then tag @ '' reservation='' @ itoa reservationID else tag);
          let s3 = emit e ''inbound'' ''RemoteStartTransaction'' (remote_text RemoteAccepted)
              (Some connectorID) detail s2;
          Some (spawn (GoBegin connectorID tag reservationID BeginNotify) s3, RemoteAccepted) }) }"

section \<open>The goroutine that begins a transaction\<close>

definition restoreConnectorAfterFailedStart :: "env \<Rightarrow> go_int \<Rightarrow> simulator \<Rightarrow> simulator option" where
  "restoreConnectorAfterFailedStart e connectorID s = do {
     (s1, st) \<leftarrow> make_idle e connectorID s;
     s2 \<leftarrow> write_connector connectorID (\<lambda>c. c\<lparr>idTag := ''''\<rparr>) s1;
     Some (notifyStatusAsync e connectorID st s2) }"

definition fail_start :: "env \<Rightarrow> go_int \<Rightarrow> string \<Rightarrow> string \<Rightarrow> string \<Rightarrow> simulator \<Rightarrow> (simulator \<times> begin_pc option) option" where
  "fail_start e connectorID action st detail s = do {
     s1 \<leftarrow> restoreConnectorAfterFailedStart e connectorID s;
     Some (emit e ''outbound'' action st (Some connectorID) detail s1, None) }"

text \<open>The section under the mutex after the answer to \<open>StartTransaction\<close>; it yields the status to notify.\<close>

definition start_outcome ::
  "env \<Rightarrow> go_int \<Rightarrow> go_int \<Rightarrow> go_int \<Rightarrow> string \<Rightarrow> simulator \<Rightarrow> (simulator \<times> charge_point_status) option" where
  "start_outcome e connectorID reservationID transaction st s =
     (if st = authorization_text AuthAccepted then do {
        s1 \<leftarrow> write_connector connectorID (\<lambda>c. c\<lparr>transactionID := transaction, status := Charging\<rparr>) s;
        Some (if reservationID > 0 then consumeReservationLocked reservationID s1 else s1, Charging) }
      else do {
        (s1, final) \<leftarrow> make_idle e connectorID s;
        s2 \<leftarrow> write_connector connectorID (\<lambda>c. c\<lparr>idTag := ''''\<rparr>) s1;
        Some (s2, final) })"

fun beginRemoteTransaction ::
  "env \<Rightarrow> answers \<Rightarrow> go_int \<Rightarrow> string \<Rightarrow> go_int \<Rightarrow> begin_pc \<Rightarrow> simulator \<Rightarrow> (simulator \<times> begin_pc option) option" where
  "beginRemoteTransaction e a c tag r BeginNotify s =
     Some (fst (notifyStatus e a c Preparing s), Some BeginReadConfig)"
| "beginRemoteTransaction e a c tag r BeginReadConfig s =
     Some (s, Some (if configurationBoolLocked s ''AuthorizeRemoteTxRequests'' then BeginAuthorize else BeginReadMeter))"
| "beginRemoteTransaction e a c tag r BeginAuthorize s =
     (let s1 = send_msg (OutAuthorize tag) s in
      case await (a_authorize a) of
        Inl er \<Rightarrow> fail_start e c ''Authorize'' ''Rejected'' (error_text er) s1
      | Inr info \<Rightarrow>
         if info = None \<or> authorization_text (the info) \<noteq> authorization_text AuthAccepted then
           fail_start e c ''Authorize'' ''Rejected'' ''authorization rejected'' s1
         else Some (emit e ''outbound'' ''Authorize'' (authorization_text (the info)) (Some c) tag s1,
              Some BeginReadMeter))"
| "beginRemoteTransaction e a c tag r BeginReadMeter s = do {
     connector \<leftarrow> map_of (connectors s) c;
     Some (s, Some (BeginStart (meter connector))) }"
| "beginRemoteTransaction e a c tag r (BeginStart meterStart) s =
     (let s1 = send_msg (OutStartTransaction c tag meterStart (if r > 0 then Some r else None)) s in
      case await (a_start a) of
        Inl er \<Rightarrow> fail_start e c ''StartTransaction'' ''Error'' (error_text er) s1
      | Inr (transaction, info) \<Rightarrow> do {
          let st = (case info of None \<Rightarrow> '''' | Some i \<Rightarrow> authorization_text i);
          (s2, final) \<leftarrow> start_outcome e c r transaction st s1;
          Some (emit e ''outbound'' ''StartTransaction'' st (Some c) (itoa transaction) s2,
            Some (BeginFinal final)) })"
| "beginRemoteTransaction e a c tag r (BeginFinal final) s = Some (fst (notifyStatus e a c final s), None)"

section \<open>Remote stop and the goroutine that finishes a transaction\<close>

fun find_transaction :: "go_int \<Rightarrow> (go_int \<times> connector_state) list \<Rightarrow> go_int option" where
  "find_transaction transaction [] = None"
| "find_transaction transaction ((i, c) # cs) =
     (if transactionID c = transaction then Some i else find_transaction transaction cs)"

definition OnRemoteStopTransaction :: "env \<Rightarrow> simulator \<Rightarrow> go_int \<Rightarrow> (simulator \<times> remote_status) option" where
  "OnRemoteStopTransaction e s transaction =
     (case find_transaction transaction (gm_range (range_order e 7 0) (connectors s)) of
        None \<Rightarrow> Some (emit e ''inbound'' ''RemoteStopTransaction'' (remote_text RemoteRejected) None (itoa transaction) s,
            RemoteRejected)
      | Some connectorID \<Rightarrow> do {
          s1 \<leftarrow> set_status connectorID Finishing s;
          let s2 = emit e ''inbound'' ''RemoteStopTransaction'' (remote_text RemoteAccepted)
              (Some connectorID) (itoa transaction) s1;
          Some (spawn (GoFinish connectorID transaction FinishNotify) s2, RemoteAccepted) })"

fun finishRemoteTransaction ::
  "env \<Rightarrow> answers \<Rightarrow> go_int \<Rightarrow> go_int \<Rightarrow> finish_pc \<Rightarrow> simulator \<Rightarrow> (simulator \<times> finish_pc option) option" where
  "finishRemoteTransaction e a c transaction FinishNotify s =
     Some (fst (notifyStatus e a c Finishing s), Some FinishRead)"
| "finishRemoteTransaction e a c transaction FinishRead s = do {
     connector \<leftarrow> map_of (connectors s) c;
     Some (s, Some (FinishStop (meter connector) (idTag connector))) }"
| "finishRemoteTransaction e a c transaction (FinishStop meterStop tag) s =
     (let s1 = send_msg (OutStopTransaction meterStop transaction tag ''Remote'') s in
      case await (a_stop a) of
        Inl er \<Rightarrow> Some (emit e ''outbound'' ''StopTransaction'' ''Error'' (Some c) (error_text er) s1, None)
      | Inr info \<Rightarrow> do {
          let st = (case info of None \<Rightarrow> ''Accepted'' | Some i \<Rightarrow> authorization_text i);
          s2 \<leftarrow> write_connector c (\<lambda>c. c\<lparr>transactionID := 0, idTag := ''''\<rparr>) s1;
          (s3, final) \<leftarrow> make_idle e c s2;
          Some (emit e ''outbound'' ''StopTransaction'' st (Some c) (itoa transaction) s3,
            Some (FinishFinal final)) })"
| "finishRemoteTransaction e a c transaction (FinishFinal final) s = Some (fst (notifyStatus e a c final s), None)"

section \<open>Reset and unlock\<close>

fun reset_loop ::
  "env \<Rightarrow> go_int list \<Rightarrow> simulator \<Rightarrow> (go_int \<times> charge_point_status) list \<Rightarrow>
     (simulator \<times> (go_int \<times> charge_point_status) list) option" where
  "reset_loop e [] s updates = Some (s, updates)"
| "reset_loop e (i # ids) s updates = do {
     s1 \<leftarrow> write_connector i (\<lambda>c. c\<lparr>transactionID := 0, idTag := ''''\<rparr>) s;
     (s2, st) \<leftarrow> make_idle e i s1;
     reset_loop e ids s2 (gm_put i st updates) }"

text \<open>The answer is always \<open>Accepted\<close>; the type of the reset is only reported.\<close>

definition OnReset :: "env \<Rightarrow> simulator \<Rightarrow> string \<Rightarrow> simulator option" where
  "OnReset e s resetType = do {
     (s1, updates) \<leftarrow> reset_loop e (map fst (gm_range (range_order e 8 0) (connectors s))) s [];
     let s2 = emit e ''inbound'' ''Reset'' ''Accepted'' None resetType s1;
     Some (notify_updates e updates s2) }"

datatype unlock_status = Unlocked | UnlockNotSupported

fun unlock_text :: "unlock_status \<Rightarrow> string" where
  "unlock_text Unlocked = ''Unlocked''"
| "unlock_text UnlockNotSupported = ''NotSupported''"

definition OnUnlockConnector :: "env \<Rightarrow> simulator \<Rightarrow> go_int \<Rightarrow> simulator \<times> unlock_status" where
  "OnUnlockConnector e s connectorID =
     (let st = (if map_of (connectors s) connectorID = None then UnlockNotSupported else Unlocked) in
      (emit e ''inbound'' ''UnlockConnector'' (unlock_text st) (Some connectorID) '''' s, st))"

end
