(* ===== verification/ReservationProofs.thy ===== *)
theory ReservationProofs
  imports Reservations
begin

text \<open>
  What the reservation profile guarantees: no nil dereference from a well-formed state, the
  meaning of \<open>reservationAccessLocked\<close> for every visiting order and where that order decides,
  the choice of a connector, and the effect of \<open>ReserveNow\<close>, \<open>CancelReservation\<close> and expiry
  on the reservations and the connectors.
\<close>

section \<open>Idle status\<close>

lemma make_idle_Some:
  "make_idle e i s = Some (s', st) \<longleftrightarrow>
     (\<exists>c. map_of (connectors s) i = Some c \<and> idleStatusLocked e s i = Some st \<and>
       s' = s\<lparr>connectors := gm_put i (c\<lparr>status := st\<rparr>) (connectors s)\<rparr>)"
  unfolding make_idle_def set_status_def by (auto simp: write_connector_Some)

lemma idleStatus_total: "sim_wf s \<Longrightarrow> connector_id (Connectors (opts s)) i \<Longrightarrow> \<exists>st. idleStatusLocked e s i = Some st"
  using wf_connector by (fastforce simp: idleStatusLocked_def)

lemma idleStatus_range: "idleStatusLocked e s i = Some st \<Longrightarrow> st \<in> {Available, Reserved, Unavailable}"
  by (auto simp: idleStatusLocked_def split: option.splits if_splits)

lemma make_idle_total:
  assumes "sim_wf s" "connector_id (Connectors (opts s)) i"
  obtains s' st where "make_idle e i s = Some (s', st)"
  using idleStatus_total [OF assms, of e] wf_connector [OF assms] unfolding make_idle_Some by blast

lemma make_idle_wf: "sim_wf s \<Longrightarrow> make_idle e i s = Some (s', st) \<Longrightarrow> sim_wf s' \<and> opts s' = opts s"
  by (auto simp: make_idle_Some sim_wf_def connectors_ok_put)

section \<open>Access to a connector\<close>

abbreviation concerns :: "env \<Rightarrow> go_int \<Rightarrow> reservation_state \<Rightarrow> bool" where
  "concerns e c r \<equiv> live e r \<and> (r_connectorID r = 0 \<or> r_connectorID r = c)"

lemma access_loop_granted:
  assumes "access_loop e c tag rs m = (i, True)" "c \<noteq> 0"
  shows "(\<exists>r. (i, r) \<in> set rs \<and> live e r \<and> r_connectorID r = c \<and> tag_matches tag r) \<or>
    ((\<forall>(j, r) \<in> set rs. concerns e c r \<longrightarrow> r_connectorID r = 0 \<and> tag_matches tag r) \<and>
     (i = m \<or> (\<exists>r. (i, r) \<in> set rs \<and> live e r \<and> r_connectorID r = 0 \<and> tag_matches tag r)))"
  using assms
proof (induction e c tag rs m rule: access_loop.induct)
  case (2 e c tag j r rs m)
  then show ?case by (auto split: if_splits)
qed simp

lemma access_loop_refused:
  assumes "access_loop e c tag rs m = (i, False)"
  shows "i = 0 \<and> (\<exists>(j, r) \<in> set rs. concerns e c r \<and> \<not> tag_matches tag r)"
  using assms
proof (induction e c tag rs m rule: access_loop.induct)
  case (2 e c tag j r rs m)
  then show ?case by (auto split: if_splits)
qed simp

lemma access_granted:
  assumes "reservationAccessLocked e site s c tag = (i, True)"
    and "sim_wf s" "env_ok e" "c \<noteq> 0"
  shows "(\<exists>r. map_of (reservations s) i = Some r \<and> live e r \<and> r_connectorID r = c \<and> tag_matches tag r) \<or>
    ((\<forall>j r. map_of (reservations s) j = Some r \<longrightarrow> concerns e c r \<longrightarrow> r_connectorID r = 0 \<and> tag_matches tag r) \<and>
     (i = 0 \<or> (\<exists>r. map_of (reservations s) i = Some r \<and> live e r \<and> r_connectorID r = 0 \<and> tag_matches tag r)))"
proof -
  have "gm_ok (reservations s)" using assms(2) by (simp add: sim_wf_def reservations_ok_def)
  then show ?thesis
    using access_loop_granted [OF assms(1) [unfolded reservationAccessLocked_def] assms(4)] assms(3)
    by (auto simp: split_def)
qed

lemma access_refused:
  assumes "reservationAccessLocked e site s c tag = (i, False)" and "sim_wf s" "env_ok e"
  shows "i = 0 \<and> (\<exists>j r. map_of (reservations s) j = Some r \<and> concerns e c r \<and> \<not> tag_matches tag r)"
proof -
  have "gm_ok (reservations s)" using assms(2) by (simp add: sim_wf_def reservations_ok_def)
  then show ?thesis
    using access_loop_refused [OF assms(1) [unfolded reservationAccessLocked_def]] assms(3) by auto
qed

text \<open>
  Nobody else's reservation of the connector is overridden: a connector held for another tag
  is refused to this tag whatever order the loop takes.
\<close>

lemma access_respects_owner:
  assumes "sim_wf s" "env_ok e" "c \<noteq> 0"
    and "map_of (reservations s) j = Some r" "live e r" "r_connectorID r = c" "\<not> tag_matches tag r"
  shows "reservationAccessLocked e site s c tag = (0, False)"
proof (cases "reservationAccessLocked e site s c tag")
  case (Pair i allowed)
  show ?thesis
  proof (cases allowed)
    case True
    have uniq: "\<And>k q. map_of (reservations s) k = Some q \<Longrightarrow> r_connectorID q = c \<Longrightarrow> k = j \<and> q = r"
      using assms(1,3,4,6) unfolding sim_wf_def reservations_ok_def by (metis option.inject)
    have granted: "reservationAccessLocked e site s c tag = (i, True)" using Pair True by simp
    have "(\<exists>q. map_of (reservations s) i = Some q \<and> live e q \<and> r_connectorID q = c \<and> tag_matches tag q) \<or>
      (\<forall>k q. map_of (reservations s) k = Some q \<longrightarrow> concerns e c q \<longrightarrow> r_connectorID q = 0 \<and> tag_matches tag q)"
      using access_granted [OF granted assms(1-3)] by blast
    then show ?thesis using uniq assms(4-7) by blast
  next
    case False
    with Pair access_refused [OF _ assms(1,2)] show ?thesis by auto
  qed
qed

text \<open>The decision is the same for every order unless the own reservation matches and a global one does not.\<close>

definition conflicting :: "env \<Rightarrow> simulator \<Rightarrow> go_int \<Rightarrow> string \<Rightarrow> bool" where
  "conflicting e s c tag \<longleftrightarrow>
     (\<exists>i r. map_of (reservations s) i = Some r \<and> live e r \<and> r_connectorID r = c \<and> tag_matches tag r) \<and>
     (\<exists>i r. map_of (reservations s) i = Some r \<and> live e r \<and> r_connectorID r = 0 \<and> \<not> tag_matches tag r)"

lemma access_decision:
  assumes "sim_wf s" "env_ok e" "c \<noteq> 0" "\<not> conflicting e s c tag"
  shows "snd (reservationAccessLocked e site s c tag) \<longleftrightarrow>
    (\<forall>j r. map_of (reservations s) j = Some r \<longrightarrow> concerns e c r \<longrightarrow> tag_matches tag r)"
proof (cases "reservationAccessLocked e site s c tag")
  case (Pair i allowed)
  show ?thesis
  proof (cases allowed)
    case False
    with Pair access_refused [OF _ assms(1,2)] show ?thesis by auto
  next
    case True
    have granted: "reservationAccessLocked e site s c tag = (i, True)" using Pair True by simp
    have "tag_matches tag r" if "map_of (reservations s) j = Some r" "concerns e c r" for j r
    proof (cases "r_connectorID r = c")
      case own: True
      show ?thesis
        using access_respects_owner [OF assms(1-3) that(1) _ own, of tag site] that granted by fastforce
    next
      case False
      with that have "r_connectorID r = 0" "live e r" by auto
      with access_granted [OF granted assms(1-3)] assms(4) that show ?thesis
        unfolding conflicting_def by blast
    qed
    with Pair True show ?thesis by auto
  qed
qed

text \<open>In the conflicting case both answers are possible: it is enough to visit one of the two entries first.\<close>

definition visit_first :: "go_int \<Rightarrow> go_int list \<Rightarrow> go_int list" where
  "visit_first i ks = (if i \<in> set ks then i # remove1 i ks else ks)"

lemma visit_first_permutes: "permutes (visit_first i)"
  by (simp add: permutes_def visit_first_def)

lemma gm_range_visit_first:
  "map_of m i = Some v \<Longrightarrow> \<exists>rest. gm_range (visit_first i) m = (i, v) # rest"
  by (auto simp: gm_range_def visit_first_def List.map_filter_simps dest: gm_look_keys)

lemma access_conflict_both:
  assumes "conflicting e s c tag" "c \<noteq> 0"
  obtains p q where "permutes p" "permutes q"
    "snd (reservationAccessLocked (e\<lparr>range_order := \<lambda>_ _. p\<rparr>) site s c tag)"
    "\<not> snd (reservationAccessLocked (e\<lparr>range_order := \<lambda>_ _. q\<rparr>) site s c tag)"
proof -
  from assms(1) obtain i r j q
    where i: "map_of (reservations s) i = Some r" "live e r" "r_connectorID r = c" "tag_matches tag r"
      and j: "map_of (reservations s) j = Some q" "live e q" "r_connectorID q = 0" "\<not> tag_matches tag q"
    unfolding conflicting_def by blast
  obtain ri where ri: "gm_range (visit_first i) (reservations s) = (i, r) # ri"
    using gm_range_visit_first [OF i(1)] by blast
  obtain rj where rj: "gm_range (visit_first j) (reservations s) = (j, q) # rj"
    using gm_range_visit_first [OF j(1)] by blast
  have "snd (reservationAccessLocked (e\<lparr>range_order := \<lambda>_ _. visit_first i\<rparr>) site s c tag)"
    using i assms(2) by (simp add: reservationAccessLocked_def ri)
  moreover have "\<not> snd (reservationAccessLocked (e\<lparr>range_order := \<lambda>_ _. visit_first j\<rparr>) site s c tag)"
    using j assms(2) by (simp add: reservationAccessLocked_def rj)
  ultimately show ?thesis using that visit_first_permutes by blast
qed

section \<open>The choice of a connector\<close>

abbreviation chosen :: "env \<Rightarrow> simulator \<Rightarrow> string \<Rightarrow> go_int \<Rightarrow> go_int \<Rightarrow> bool" where
  "chosen e s tag i rid \<equiv> (\<exists>c site. map_of (connectors s) i = Some c \<and> availability c = Operative \<and>
     transactionID c = 0 \<and> startable c \<and> reservationAccessLocked e site s i tag = (rid, True))"

lemma select_reserved_Some:
  "select_reserved e s tag ids = Some (Some (i, rid)) \<Longrightarrow> chosen e s tag i rid \<and> rid > 0"
  by (induction ids) (auto simp: Let_def split: option.splits if_splits prod.splits)

lemma select_free_Some:
  "select_free e s tag ids = Some (Some (i, rid)) \<Longrightarrow> chosen e s tag i rid"
  by (induction ids) (auto simp: Let_def split: option.splits if_splits prod.splits)

lemma select_Some:
  assumes "selectRemoteStartConnectorLocked e s req tag = Some (Some (i, rid))"
  shows "chosen e s tag i rid \<and> (req = None \<or> req = Some i)"
proof (cases req)
  case None
  with assms obtain x where x: "select_reserved e s tag [1..Connectors (opts s)] = Some x"
    and rest: "(case x of Some found \<Rightarrow> Some (Some found)
      | None \<Rightarrow> select_free e s tag [1..Connectors (opts s)]) = Some (Some (i, rid))"
    by (auto simp: selectRemoteStartConnectorLocked_def)
  with None show ?thesis
    using select_reserved_Some [of e s tag _ i rid] select_free_Some [of e s tag _ i rid] by (cases x) auto
next
  case (Some j)
  with assms show ?thesis
    by (auto simp: selectRemoteStartConnectorLocked_def Let_def split: option.splits if_splits prod.splits)
qed

lemma select_reserved_total:
  "\<forall>i \<in> set ids. map_of (connectors s) i \<noteq> None \<Longrightarrow> select_reserved e s tag ids \<noteq> None"
  by (induction ids) (auto simp: Let_def split: option.splits prod.splits)

lemma select_free_total:
  "\<forall>i \<in> set ids. map_of (connectors s) i \<noteq> None \<Longrightarrow> select_free e s tag ids \<noteq> None"
  by (induction ids) (auto simp: Let_def split: option.splits prod.splits)

lemma select_total:
  assumes "sim_wf s"
  shows "selectRemoteStartConnectorLocked e s req tag \<noteq> None"
proof -
  have all: "\<forall>i \<in> set [1..Connectors (opts s)]. map_of (connectors s) i \<noteq> None"
    using wf_connector [OF assms] by fastforce
  obtain x y where xy: "select_reserved e s tag [1..Connectors (opts s)] = Some x"
      "select_free e s tag [1..Connectors (opts s)] = Some y"
    using select_reserved_total [OF all, of e tag] select_free_total [OF all, of e tag] by auto
  then show ?thesis
    by (cases x) (auto simp: selectRemoteStartConnectorLocked_def Let_def split: option.splits prod.splits)
qed

text \<open>Without a requested connector, a refusal means that no free available connector admits the tag.\<close>

lemma select_free_None:
  "select_free e s tag ids = Some None \<Longrightarrow> i \<in> set ids \<Longrightarrow> map_of (connectors s) i = Some c \<Longrightarrow>
     availability c = Operative \<Longrightarrow> transactionID c = 0 \<Longrightarrow> status c = Available \<Longrightarrow>
     \<not> snd (reservationAccessLocked e 2 s i tag)"
  by (induction ids) (auto simp: Let_def split: option.splits if_splits prod.splits)

section \<open>Dropping and storing a reservation\<close>

definition idle_of :: "env \<Rightarrow> (go_int \<times> reservation_state) list \<Rightarrow> connector_state \<Rightarrow> go_int \<Rightarrow> charge_point_status" where
  "idle_of e rs c i = (if availability c = Inoperative then Unavailable
     else if \<exists>(_, r) \<in> set rs. r_connectorID r = i \<and> live e r then Reserved else Available)"

lemma idleStatus_eq:
  "idleStatusLocked e s i = map_option (\<lambda>c. idle_of e (reservations s) c i) (map_of (connectors s) i)"
  by (auto simp: idleStatusLocked_def idle_of_def list_ex_iff split: option.splits)

lemma make_idle_eq:
  "make_idle e i s = map_option (\<lambda>c. let st = idle_of e (reservations s) c i in
      (s\<lparr>connectors := gm_put i (c\<lparr>status := st\<rparr>) (connectors s)\<rparr>, st)) (map_of (connectors s) i)"
  unfolding make_idle_def set_status_def write_connector_def
  by (cases "map_of (connectors s) i") (simp_all add: idleStatus_eq Let_def)

lemma drop_same_effect:
  assumes "drop_same_reservation e i s = Some (s', us)"
  shows "\<exists>cs. s' = s\<lparr>reservations := gm_del i (reservations s), connectors := cs\<rparr> \<and>
    (\<forall>j. (\<forall>r. map_of (reservations s) i = Some r \<longrightarrow> r_connectorID r \<noteq> j) \<longrightarrow> map_of cs j = map_of (connectors s) j)"
proof (cases "map_of (reservations s) i")
  case None
  with assms have "s' = s" "gm_del i (reservations s) = reservations s"
    by (auto simp: drop_same_reservation_def map_of_eq_None_iff)
  then show ?thesis by (intro exI [of _ "connectors s"]) simp
next
  case (Some r)
  show ?thesis
  proof (cases "r_connectorID r > 0")
    case True
    with assms Some obtain c where "s' = s\<lparr>reservations := gm_del i (reservations s),
      connectors := gm_put (r_connectorID r) c (connectors s)\<rparr>"
      by (auto simp: drop_same_reservation_def make_idle_eq Let_def)
    then show ?thesis
      using Some by (intro exI [of _ "gm_put (r_connectorID r) c (connectors s)"]) auto
  next
    case False
    with assms Some show ?thesis
      by (intro exI [of _ "connectors s"]) (auto simp: drop_same_reservation_def Let_def)
  qed
qed

lemma drop_same_wf:
  assumes wf: "sim_wf s"
  obtains s' us where "drop_same_reservation e i s = Some (s', us)" "sim_wf s'" "opts s' = opts s"
proof (cases "map_of (reservations s) i")
  case None
  then show ?thesis using that [of s "[]"] wf by (simp add: drop_same_reservation_def)
next
  case (Some r)
  let ?s1 = "s\<lparr>reservations := gm_del i (reservations s)\<rparr>"
  have wf1: "sim_wf ?s1" using wf by (simp add: sim_wf_def)
  show ?thesis
  proof (cases "r_connectorID r > 0")
    case True
    with Some wf have "connector_id (Connectors (opts ?s1)) (r_connectorID r)"
      unfolding sim_wf_def reservations_ok_def by fastforce
    with wf1 obtain s2 st where m: "make_idle e (r_connectorID r) ?s1 = Some (s2, st)"
      using make_idle_total by blast
    have "drop_same_reservation e i s = Some (s2, [(r_connectorID r, st)])"
      using Some True m by (simp add: drop_same_reservation_def)
    with make_idle_wf [OF wf1 m] show ?thesis using that by simp
  next
    case False
    with Some wf1 that show ?thesis by (simp add: drop_same_reservation_def)
  qed
qed

lemma reserve_specific_accepted:
  "reserve_specific s i = ResAccepted \<longleftrightarrow>
     (\<exists>c. map_of (connectors s) i = Some c \<and> status c \<notin> {Faulted, Unavailable, Preparing, Charging, Finishing} \<and>
        availability c \<noteq> Inoperative \<and> transactionID c \<le> 0) \<and>
     (\<forall>(j, r) \<in> set (reservations s). r_connectorID r \<noteq> i)"
  by (auto simp: reserve_specific_def list_ex_iff split: option.splits)

lemma store_reservation_wf:
  assumes wf: "sim_wf s" and c: "rn_connector req = 0 \<or> reserve_specific s (rn_connector req) = ResAccepted"
  obtains s' us' where "store_reservation req t (s, us) = Some (s', us')" "sim_wf s'" "opts s' = opts s"
proof -
  let ?r = "\<lparr>r_connectorID = rn_connector req, r_idTag = rn_idTag req, r_parentIDTag = rn_parent req, r_expiry = t\<rparr>"
  let ?s1 = "s\<lparr>reservations := gm_put (rn_reservation req) ?r (reservations s)\<rparr>"
  show ?thesis
  proof (cases "rn_connector req > 0")
    case True
    then have acc: "reserve_specific s (rn_connector req) = ResAccepted" using c by auto
    then obtain d where d: "map_of (connectors s) (rn_connector req) = Some d"
      by (auto simp: reserve_specific_accepted)
    have id: "connector_id (Connectors (opts s)) (rn_connector req)" using wf_connectorD [OF wf d] .
    have "reservations_ok (Connectors (opts s)) (reservations ?s1)"
    proof -
      have "\<forall>j q. map_of (reservations s) j = Some q \<longrightarrow> r_connectorID q \<noteq> rn_connector req"
        using acc by (auto simp: reserve_specific_accepted dest: map_of_SomeD)
      then show ?thesis
        using wf id by (auto simp: sim_wf_def intro!: reservations_ok_put)
    qed
    then have wf1: "sim_wf ?s1" using wf by (simp add: sim_wf_def)
    obtain s2 where s2: "set_status (rn_connector req) Reserved ?s1 = Some s2"
      using write_connector_total [OF wf1, of "rn_connector req"] id unfolding set_status_def by auto
    have "sim_wf s2" using write_connector_wf [OF wf1] s2 unfolding set_status_def by blast
    moreover have "opts s2 = opts s" using s2 by (auto simp: set_status_def write_connector_Some)
    moreover have "store_reservation req t (s, us) = Some (s2, gm_put (rn_connector req) Reserved us)"
      using True s2 by (simp add: store_reservation_def Let_def)
    ultimately show ?thesis using that by blast
  next
    case False
    then have zero: "rn_connector req = 0"
    proof (cases "rn_connector req = 0")
      case neg: False
      then have "reserve_specific s (rn_connector req) = ResAccepted" using c by simp
      then obtain d where "map_of (connectors s) (rn_connector req) = Some d"
        by (auto simp: reserve_specific_accepted)
      then show ?thesis using wf_connectorD [OF wf] False by fastforce
    qed
    then have "reservations_ok (Connectors (opts s)) (reservations ?s1)"
      using wf by (auto simp: sim_wf_def intro!: reservations_ok_put)
    then have "sim_wf ?s1" using wf by (simp add: sim_wf_def)
    with False that [of ?s1 us] show ?thesis by (simp add: store_reservation_def Let_def)
  qed
qed

lemma reserve_locked_wf:
  assumes wf: "sim_wf s"
  obtains s' us st where "reserve_locked e req t s = Some (s', us, st)" "sim_wf s'" "opts s' = opts s"
proof -
  obtain s1 us where d: "drop_same_reservation e (rn_reservation req) s = Some (s1, us)" "sim_wf s1" "opts s1 = opts s"
    using drop_same_wf [OF wf] by blast
  define st where "st = (if rn_connector req = 0 then reserve_any e s1 (rn_idTag req)
    else reserve_specific s1 (rn_connector req))"
  show ?thesis
  proof (cases "st = ResAccepted")
    case True
    then have "rn_connector req = 0 \<or> reserve_specific s1 (rn_connector req) = ResAccepted"
      by (auto simp: st_def split: if_splits)
    then obtain s2 us2 where "store_reservation req t (s1, us) = Some (s2, us2)" "sim_wf s2" "opts s2 = opts s1"
      using store_reservation_wf [OF d(2)] by blast
    with d True that [of s2 us2 st] show ?thesis by (simp add: reserve_locked_def st_def Let_def)
  next
    case False
    with d that [of s1 us st] show ?thesis by (simp add: reserve_locked_def st_def Let_def)
  qed
qed

lemma OnReserveNow_wf [wf_intros]:
  assumes "sim_wf s"
  shows "\<exists>s' st. OnReserveNow e s req = Some (s', st) \<and> sim_wf s' \<and> opts s' = opts s"
proof (cases "rn_expiry req")
  case None
  with assms show ?thesis by (simp add: OnReserveNow_def)
next
  case (Some t)
  obtain s1 us st where "reserve_locked e req t s = Some (s1, us, st)" "sim_wf s1" "opts s1 = opts s"
    using reserve_locked_wf [OF assms] by blast
  with Some assms show ?thesis
    by (cases "now e < t") (simp_all add: OnReserveNow_def)
qed

lemma OnCancelReservation_wf [wf_intros]:
  assumes "sim_wf s"
  shows "\<exists>s' st. OnCancelReservation e s i = Some (s', st) \<and> sim_wf s' \<and> opts s' = opts s"
proof -
  obtain s1 us where "drop_same_reservation e i s = Some (s1, us)" "sim_wf s1" "opts s1 = opts s"
    using drop_same_wf [OF assms] by blast
  with assms show ?thesis
    by (cases "map_of (reservations s) i")
      (simp_all add: OnCancelReservation_def)
qed

section \<open>Effects of the handlers\<close>

lemma OnReserveNow_cases:
  assumes "OnReserveNow e s req = Some (s', st)"
  obtains (past) "\<not> (\<exists>t. rn_expiry req = Some t \<and> now e < t)" "st = ResRejected"
      "connectors s' = connectors s" "reservations s' = reservations s"
  | (future) t s1 us where "rn_expiry req = Some t" "now e < t" "reserve_locked e req t s = Some (s1, us, st)"
      "connectors s' = connectors s1" "reservations s' = reservations s1"
  using assms unfolding OnReserveNow_def
  by (auto simp: Let_def split: option.splits if_splits)

lemma reserve_locked_cases:
  assumes "reserve_locked e req t s = Some (s', us, st)"
  obtains (refused) "st \<noteq> ResAccepted" "drop_same_reservation e (rn_reservation req) s = Some (s', us)"
      "st = (if rn_connector req = 0 then reserve_any e s' (rn_idTag req) else reserve_specific s' (rn_connector req))"
  | (accepted) s1 us1 where "st = ResAccepted" "drop_same_reservation e (rn_reservation req) s = Some (s1, us1)"
      "store_reservation req t (s1, us1) = Some (s', us)"
      "(if rn_connector req = 0 then reserve_any e s1 (rn_idTag req) else reserve_specific s1 (rn_connector req)) = ResAccepted"
  using assms unfolding reserve_locked_def
  by (auto simp: Let_def split: if_splits)

lemma store_reservation_effect:
  assumes "store_reservation req t (s, us) = Some (s', us')"
  shows "reservations s' = gm_put (rn_reservation req) \<lparr>r_connectorID = rn_connector req, r_idTag = rn_idTag req,
      r_parentIDTag = rn_parent req, r_expiry = t\<rparr> (reservations s)"
    and "\<forall>i. i \<noteq> rn_connector req \<longrightarrow> map_of (connectors s') i = map_of (connectors s) i"
    and "rn_connector req > 0 \<Longrightarrow> \<exists>c. map_of (connectors s) (rn_connector req) = Some c \<and>
      connectors s' = gm_put (rn_connector req) (c\<lparr>status := Reserved\<rparr>) (connectors s)"
    and "rn_connector req \<le> 0 \<Longrightarrow> connectors s' = connectors s"
  using assms
  by (auto simp: store_reservation_def Let_def set_status_def write_connector_Some split: if_splits)



section \<open>Expiry\<close>

fun expired_keys :: "env \<Rightarrow> (go_int \<times> reservation_state) list \<Rightarrow> go_int set" where
  "expired_keys e [] = {}"
| "expired_keys e ((i, r) # xs) = (if live e r then {} else {i}) \<union> expired_keys e xs"

fun expired_connectors :: "env \<Rightarrow> (go_int \<times> reservation_state) list \<Rightarrow> go_int set" where
  "expired_connectors e [] = {}"
| "expired_connectors e ((i, r) # xs) =
     (if live e r \<or> r_connectorID r \<le> 0 then {} else {r_connectorID r}) \<union> expired_connectors e xs"

lemma expired_keys_iff: "i \<in> expired_keys e xs \<longleftrightarrow> (\<exists>r. (i, r) \<in> set xs \<and> \<not> live e r)"
  by (induction e xs rule: expired_keys.induct) auto

lemma expired_connectors_iff:
  "c \<in> expired_connectors e xs \<longleftrightarrow> (\<exists>i r. (i, r) \<in> set xs \<and> \<not> live e r \<and> r_connectorID r = c \<and> c > 0)"
proof (induction e xs rule: expired_connectors.induct)
  case (2 e i r xs)
  then show ?case by (cases "live e r \<or> r_connectorID r \<le> 0 \<or> r_connectorID r \<noteq> c") auto
qed simp

lemma idle_of_del_expired:
  "gm_ok rs \<Longrightarrow> map_of rs i = Some r \<Longrightarrow> \<not> live e r \<Longrightarrow> idle_of e (gm_del i rs) c j = idle_of e rs c j"
proof -
  assume ok: "gm_ok rs" and r: "map_of rs i = Some r" "\<not> live e r"
  have "(\<exists>(k, q) \<in> set (gm_del i rs). r_connectorID q = j \<and> live e q) \<longleftrightarrow>
      (\<exists>(k, q) \<in> set rs. r_connectorID q = j \<and> live e q)"
    using r gm.set_del [OF ok, of i] ok by fastforce
  then show ?thesis by (simp add: idle_of_def)
qed

lemma idle_of_status [simp]: "idle_of e rs (c\<lparr>status := st\<rparr>) i = idle_of e rs c i"
  by (simp add: idle_of_def)

definition settle :: "env \<Rightarrow> (go_int \<times> reservation_state) list \<Rightarrow> go_int set \<Rightarrow> go_int \<Rightarrow> connector_state \<Rightarrow> connector_state" where
  "settle e rs hit i c = (if i \<in> hit then c\<lparr>status := idle_of e rs c i\<rparr> else c)"

lemma settle_del_expired:
  "gm_ok rs \<Longrightarrow> map_of rs i = Some r \<Longrightarrow> \<not> live e r \<Longrightarrow> settle e (gm_del i rs) hit = settle e rs hit"
  by (simp add: settle_def idle_of_del_expired fun_eq_iff)

lemma expire_loop_effect:
  assumes "expire_loop e xs s us ex = Some (s', us', ex')" "gm_ok (reservations s)" "gm_ok xs"
    and "\<forall>(i, r) \<in> set xs. map_of (reservations s) i = Some r"
  shows "reservations s' = filter (\<lambda>(i, r). i \<notin> expired_keys e xs) (reservations s) \<and>
    (\<forall>i. map_of (connectors s') i =
       map_option (settle e (reservations s) (expired_connectors e xs) i) (map_of (connectors s) i)) \<and>
    opts s' = opts s"
  using assms
proof (induction xs arbitrary: s us ex)
  case Nil
  then show ?case by (simp add: settle_def option.map_ident split_def)
next
  case (Cons p xs)
  obtain i r where p: "p = (i, r)" by (cases p)
  show ?case
  proof (cases "live e r")
    case True
    with Cons p show ?thesis by simp
  next
    case False
    let ?s1 = "s\<lparr>reservations := gm_del i (reservations s)\<rparr>"
    have r: "map_of (reservations s) i = Some r" using Cons.prems(4) p by simp
    have ok1: "gm_ok (gm_del i (reservations s))" using Cons.prems(2) by simp
    have rest: "\<forall>(j, q) \<in> set xs. map_of (gm_del i (reservations s)) j = Some q"
      using Cons.prems(3,4) p by (auto simp del: map_of_eq_Some_iff) (force simp del: map_of_eq_Some_iff)+
    note idle = idle_of_del_expired [OF Cons.prems(2) r False]
    note settle = settle_del_expired [OF Cons.prems(2) r False]
    have filt: "filter (\<lambda>(k, q). k \<notin> expired_keys e xs) (gm_del i (reservations s)) =
        filter (\<lambda>(k, q). k \<notin> expired_keys e ((i, r) # xs)) (reservations s)"
      using False by (auto simp: AList.delete_eq split_def intro: filter_cong)
    show ?thesis
    proof (cases "r_connectorID r > 0")
      case True
      with Cons.prems(1) p False obtain c where c: "map_of (connectors s) (r_connectorID r) = Some c"
        and go: "expire_loop e xs (?s1\<lparr>connectors := gm_put (r_connectorID r)
            (c\<lparr>status := idle_of e (reservations s) c (r_connectorID r)\<rparr>) (connectors s)\<rparr>)
          (gm_put (r_connectorID r) (idle_of e (reservations s) c (r_connectorID r)) us) (ex @ [i]) = Some (s', us', ex')"
        by (auto simp: make_idle_eq Let_def idle)
      from Cons.IH [OF go] ok1 rest Cons.prems(3) p
      have "reservations s' = filter (\<lambda>(k, q). k \<notin> expired_keys e xs) (gm_del i (reservations s)) \<and>
        (\<forall>j. map_of (connectors s') j = map_option (settle e (reservations s) (expired_connectors e xs) j)
          (map_of (gm_put (r_connectorID r) (c\<lparr>status := idle_of e (reservations s) c (r_connectorID r)\<rparr>) (connectors s)) j)) \<and>
        opts s' = opts s"
        by (simp add: settle)
      moreover have "map_option (settle e (reservations s) (expired_connectors e xs) j)
          (map_of (gm_put (r_connectorID r) (c\<lparr>status := idle_of e (reservations s) c (r_connectorID r)\<rparr>) (connectors s)) j) =
        map_option (settle e (reservations s) (expired_connectors e ((i, r) # xs)) j) (map_of (connectors s) j)" for j
        using c True False by (cases "map_of (connectors s) j") (auto simp: settle_def)
      ultimately show ?thesis using p filt by simp
    next
      case neg: False
      with Cons.prems(1) p False have go: "expire_loop e xs ?s1 us (ex @ [i]) = Some (s', us', ex')"
        by (simp add: Let_def)
      from Cons.IH [OF go] ok1 rest Cons.prems(3) p neg False filt show ?thesis by (simp add: settle)
    qed
  qed
qed

lemma expire_loop_wf:
  assumes "sim_wf s" "\<forall>(i, r) \<in> set xs. r_connectorID r > 0 \<longrightarrow> connector_id (Connectors (opts s)) (r_connectorID r)"
  shows "\<exists>s' us' ex'. expire_loop e xs s us ex = Some (s', us', ex') \<and> sim_wf s' \<and> opts s' = opts s"
  using assms
proof (induction xs arbitrary: s us ex)
  case (Cons p xs)
  obtain i r where p: "p = (i, r)" by (cases p)
  let ?s1 = "s\<lparr>reservations := gm_del i (reservations s)\<rparr>"
  have wf1: "sim_wf ?s1" using Cons.prems by (simp add: sim_wf_def)
  show ?case
  proof (cases "live e r \<or> r_connectorID r \<le> 0")
    case True
    show ?thesis
    proof (cases "live e r")
      case True
      with Cons p show ?thesis by simp
    next
      case False
      with Cons.IH [of ?s1 us "ex @ [i]"] Cons.prems wf1 p \<open>live e r \<or> r_connectorID r \<le> 0\<close>
      show ?thesis by simp
    qed
  next
    case False
    with Cons.prems p have "connector_id (Connectors (opts ?s1)) (r_connectorID r)" by auto
    with wf1 obtain s2 st where m: "make_idle e (r_connectorID r) ?s1 = Some (s2, st)"
      using make_idle_total by blast
    have "sim_wf s2" "opts s2 = opts s" using make_idle_wf [OF wf1 m] by simp_all
    with Cons.IH [of s2 "gm_put (r_connectorID r) st us" "ex @ [i]"] Cons.prems(2) m p False
    show ?thesis by simp
  qed
qed simp

lemma emits_frame:
  "connectors (fold (\<lambda>i s. emit e d a st c (f i) s) xs s) = connectors s"
  "reservations (fold (\<lambda>i s. emit e d a st c (f i) s) xs s) = reservations s"
  "opts (fold (\<lambda>i s. emit e d a st c (f i) s) xs s) = opts s"
  "sim_wf (fold (\<lambda>i s. emit e d a st c (f i) s) xs s) = sim_wf s"
  by (induction xs arbitrary: s) auto

lemma expiry_total:
  assumes "sim_wf s" "env_ok e"
  shows "\<exists>s1 us ex. expire_loop e (gm_range (range_order e 5 0) (reservations s)) s [] [] = Some (s1, us, ex) \<and>
     sim_wf s1 \<and> opts s1 = opts s"
proof -
  have "gm_ok (reservations s)" using assms by (simp add: sim_wf_def reservations_ok_def)
  then have "\<forall>(i, r) \<in> set (gm_range (range_order e 5 0) (reservations s)).
      r_connectorID r > 0 \<longrightarrow> connector_id (Connectors (opts s)) (r_connectorID r)"
    using assms unfolding sim_wf_def reservations_ok_def by fastforce
  from expire_loop_wf [OF assms(1) this] show ?thesis .
qed

lemma expireReservations_wf [wf_intros]:
  assumes "sim_wf s" "env_ok e"
  shows "\<exists>s'. expireReservations e a s = Some s' \<and> sim_wf s' \<and> opts s' = opts s"
  using expiry_total [OF assms] by (auto simp: expireReservations_def emits_frame)

text \<open>
  C21: a tick of the reservation timer, whatever order its loop takes, removes exactly the
  reservations that are due, puts the connectors these named to their idle status under the
  remaining reservations, and leaves every other connector alone.
\<close>

theorem expire_exact:
  assumes "sim_wf s" "env_ok e" "expireReservations e a s = Some s'"
  shows "reservations s' = filter (\<lambda>(i, r). live e r) (reservations s) \<and>
    (\<forall>i. map_of (connectors s') i = map_option
       (\<lambda>c. if \<exists>j r. map_of (reservations s) j = Some r \<and> \<not> live e r \<and> r_connectorID r = i \<and> i > 0
            then c\<lparr>status := idle_of e (reservations s') c i\<rparr> else c) (map_of (connectors s) i))"
proof -
  let ?xs = "gm_range (range_order e 5 0) (reservations s)"
  have ok: "gm_ok (reservations s)" using assms by (simp add: sim_wf_def reservations_ok_def)
  have set: "set ?xs = set (reservations s)" and okx: "gm_ok ?xs"
    using assms ok by (simp_all add: gm_range_ok)
  obtain s1 us ex where run: "expire_loop e ?xs s [] [] = Some (s1, us, ex)"
    and same: "connectors s' = connectors s1" "reservations s' = reservations s1"
    using assms(3) by (auto simp: expireReservations_def Let_def emits_frame)
  have eff: "reservations s1 = filter (\<lambda>(i, r). i \<notin> expired_keys e ?xs) (reservations s) \<and>
    (\<forall>i. map_of (connectors s1) i =
       map_option (settle e (reservations s) (expired_connectors e ?xs) i) (map_of (connectors s) i))"
    using expire_loop_effect [OF run ok okx] set ok by auto
  have keys: "i \<notin> expired_keys e ?xs \<longleftrightarrow> live e r" if "(i, r) \<in> set (reservations s)" for i r
    using that ok set by (auto simp: expired_keys_iff dest: eq_key_imp_eq_value)
  have res: "reservations s1 = filter (\<lambda>(i, r). live e r) (reservations s)"
    using eff keys by (auto intro!: filter_cong)
  have hit: "i \<in> expired_connectors e ?xs \<longleftrightarrow>
      (\<exists>j r. map_of (reservations s) j = Some r \<and> \<not> live e r \<and> r_connectorID r = i \<and> i > 0)" for i
    using ok set by (auto simp: expired_connectors_iff)
  have idle: "idle_of e (reservations s) c i = idle_of e (reservations s1) c i" for c i
    unfolding res idle_of_def by auto
  have "settle e (reservations s) (expired_connectors e ?xs) i =
      (\<lambda>c. if \<exists>j r. map_of (reservations s) j = Some r \<and> \<not> live e r \<and> r_connectorID r = i \<and> i > 0
        then c\<lparr>status := idle_of e (reservations s') c i\<rparr> else c)" for i
    by (rule ext) (simp only: settle_def hit idle same)
  moreover have "connectors s' = connectors s1" "reservations s' = filter (\<lambda>(i, r). live e r) (reservations s)"
    using same res by simp_all
  ultimately show ?thesis using eff by presburger
qed

section \<open>Where the visiting order decides, and what a refused request costs\<close>

text \<open>
  C22: whether a tag may use a connector does not depend on the order in which the loop visits
  the reservations, except in one situation, and there it does: the tag holds the reservation
  of the connector while another live reservation of connector zero belongs to someone else.
\<close>

theorem access_order_free:
  assumes "sim_wf s" "c \<noteq> 0"
  shows "(\<forall>p q. permutes p \<longrightarrow> permutes q \<longrightarrow>
      snd (reservationAccessLocked (e\<lparr>range_order := \<lambda>_ _. p\<rparr>) site s c tag) =
      snd (reservationAccessLocked (e\<lparr>range_order := \<lambda>_ _. q\<rparr>) site s c tag)) \<longleftrightarrow>
    \<not> conflicting e s c tag"
proof
  assume *: "\<not> conflicting e s c tag"
  have "snd (reservationAccessLocked (e\<lparr>range_order := \<lambda>_ _. p\<rparr>) site s c tag) \<longleftrightarrow>
    (\<forall>j r. map_of (reservations s) j = Some r \<longrightarrow> concerns e c r \<longrightarrow> tag_matches tag r)" if "permutes p" for p
    using access_decision [OF assms(1) _ assms(2), of "e\<lparr>range_order := \<lambda>_ _. p\<rparr>" tag site] that *
    by (simp add: env_ok_def conflicting_def)
  then show "\<forall>p q. permutes p \<longrightarrow> permutes q \<longrightarrow>
      snd (reservationAccessLocked (e\<lparr>range_order := \<lambda>_ _. p\<rparr>) site s c tag) =
      snd (reservationAccessLocked (e\<lparr>range_order := \<lambda>_ _. q\<rparr>) site s c tag)" by blast
next
  assume *: "\<forall>p q. permutes p \<longrightarrow> permutes q \<longrightarrow>
      snd (reservationAccessLocked (e\<lparr>range_order := \<lambda>_ _. p\<rparr>) site s c tag) =
      snd (reservationAccessLocked (e\<lparr>range_order := \<lambda>_ _. q\<rparr>) site s c tag)"
  show "\<not> conflicting e s c tag"
  proof
    assume "conflicting e s c tag"
    then obtain p q where "permutes p" "permutes q"
      "snd (reservationAccessLocked (e\<lparr>range_order := \<lambda>_ _. p\<rparr>) site s c tag)"
      "\<not> snd (reservationAccessLocked (e\<lparr>range_order := \<lambda>_ _. q\<rparr>) site s c tag)"
      using access_conflict_both [OF _ assms(2)] by blast
    with * show False by blast
  qed
qed

text \<open>A station whose connector 2 is held for BOB while connector zero is held for ALICE.\<close>

definition contested_station :: simulator where
  "contested_station = test_station\<lparr>
     reservations := [(1, \<lparr>r_connectorID = 0, r_idTag = ''ALICE'', r_parentIDTag = '''', r_expiry = 100\<rparr>),
                      (2, \<lparr>r_connectorID = 2, r_idTag = ''BOB'', r_parentIDTag = '''', r_expiry = 100\<rparr>)],
     connectors := [(1, fresh_connector 1000), (2, (fresh_connector 1000)\<lparr>status := Reserved\<rparr>)]\<rparr>"

lemma contested_station_wf: "sim_wf contested_station"
  using test_station_wf unfolding sim_wf_def contested_station_def
  by (simp add: reservations_ok_def connectors_ok_def test_options_def)

theorem access_order_free_witness:
  "\<exists>p q. permutes p \<and> permutes q \<and>
     snd (reservationAccessLocked ((list_env 10 True)\<lparr>range_order := \<lambda>_ _. p\<rparr>) 0 contested_station 2 ''BOB'') \<noteq>
     snd (reservationAccessLocked ((list_env 10 True)\<lparr>range_order := \<lambda>_ _. q\<rparr>) 0 contested_station 2 ''BOB'')"
proof -
  have "conflicting (list_env 10 True) contested_station 2 ''BOB''"
    unfolding conflicting_def contested_station_def tag_matches_def list_env_def
    by (simp, intro conjI exI [of _ 1]) simp_all
  then show ?thesis
    using access_order_free [OF contested_station_wf, of 2 "list_env 10 True" 0 "''BOB''"] by auto
qed



text \<open>
  A request with a future expiry whose reservation number is in use gives up the existing
  reservation even when the request itself is refused: the entry is gone and no new one is
  stored.
\<close>

lemma refused_request_drops_reservation:
  assumes "sim_wf s" "OnReserveNow e s req = Some (s', st)" "st \<noteq> ResAccepted"
    and "rn_expiry req = Some t" "now e < t"
  shows "reservations s' = gm_del (rn_reservation req) (reservations s)"
  using assms(2)
proof (cases rule: OnReserveNow_cases)
  case past
  with assms(4,5) show ?thesis by auto
next
  case (future t' s1 us)
  with assms(3) obtain us' where "drop_same_reservation e (rn_reservation req) s = Some (s1, us')"
    by (auto elim!: reserve_locked_cases)
  from drop_same_effect [OF this] future show ?thesis by auto
qed

section \<open>Witnesses on the test station\<close>

text \<open>The request of \<open>TestReservationLifecycle\<close>.\<close>

definition request7 :: reserve_now_request where
  "request7 = \<lparr>rn_connector = 1, rn_expiry = Some 3600, rn_idTag = ''TAG-1'', rn_parent = '''', rn_reservation = 7\<rparr>"

lemma request7_accepted:
  "\<exists>s'. OnReserveNow (list_env 10 True) test_station request7 = Some (s', ResAccepted) \<and> sim_wf s'"
proof -
  obtain s' st where run: "OnReserveNow (list_env 10 True) test_station request7 = Some (s', st)" "sim_wf s'"
    using OnReserveNow_wf [OF test_station_wf] by blast
  moreover have "map_option snd (OnReserveNow (list_env 10 True) test_station request7) = Some ResAccepted"
    by code_simp
  ultimately show ?thesis by simp
qed



theorem expire_exact_witness:
  "\<forall>a. \<exists>s'. expireReservations (list_env 100 True) a contested_station = Some s' \<and> reservations s' = []
     \<and> map_option status (map_of (connectors s') 2) = Some Available"
proof
  fix a
  obtain s' where run: "expireReservations (list_env 100 True) a contested_station = Some s'"
    using expireReservations_wf [OF contested_station_wf list_env_ok] by blast
  from expire_exact [OF contested_station_wf list_env_ok run] have
    res: "reservations s' = []" and con: "map_of (connectors s') 2 = map_option
       (\<lambda>c. if \<exists>j r. map_of (reservations contested_station) j = Some r \<and> \<not> live (list_env 100 True) r \<and> r_connectorID r = 2 \<and> (2::int) > 0
            then c\<lparr>status := idle_of (list_env 100 True) (reservations s') c 2\<rparr> else c) (map_of (connectors contested_station) 2)"
    by (simp_all add: contested_station_def list_env_def)
  have "\<exists>j r. map_of (reservations contested_station) j = Some r \<and> \<not> live (list_env 100 True) r \<and> r_connectorID r = 2 \<and> (2::int) > 0"
    by (intro exI [of _ 2] exI [of _ "\<lparr>r_connectorID = 2, r_idTag = ''BOB'', r_parentIDTag = '''', r_expiry = 100\<rparr>"])
      (simp add: contested_station_def list_env_def)
  with con res have "map_option status (map_of (connectors s') 2) = Some Available"
    by (simp add: contested_station_def idle_of_def fresh_connector_def)
  with run res show "\<exists>s'. expireReservations (list_env 100 True) a contested_station = Some s' \<and> reservations s' = []
     \<and> map_option status (map_of (connectors s') 2) = Some Available" by blast
qed

end
