(* ===== verification/CoreProofs.thy ===== *)
theory CoreProofs
  imports CoreProfile ReservationProofs
begin

text \<open>
  What the core profile guarantees: every handler and every step of the transaction goroutines
  keeps the station well formed and never panics; the effect of availability changes, resets and
  configuration changes; which connector a remote start takes; the course of a transaction from
  remote start to remote stop; the samples of the meter.
\<close>

section \<open>No panic, and the invariant\<close>

lemma keeps_make_idle [wf_intros]:
  "sim_wf s \<Longrightarrow> connector_id (Connectors (opts s)) i \<Longrightarrow> keeps fst s (make_idle e i s)"
  using make_idle_total [of s i e] make_idle_wf [of s e i] by (fastforce simp: keeps_def)

lemma sendHeartbeat_wf [wf_intros]: "sim_wf s \<Longrightarrow> sim_wf (fst (sendHeartbeat e a s)) \<and> opts (fst (sendHeartbeat e a s)) = opts s"
  by (simp add: sendHeartbeat_def Let_def split: sum.split)

lemma sendMeterSample_frame [simp, frame_simps]:
  "sim_wf (fst (sendMeterSample e a c m x rc s)) = sim_wf s"
  "opts (fst (sendMeterSample e a c m x rc s)) = opts s"
  "connectors (fst (sendMeterSample e a c m x rc s)) = connectors s"
  "sent (fst (sendMeterSample e a c m x rc s)) =
     sent s @ [OutMeterValues c (itoa m) rc (if x > 0 then Some x else None)]"
  by (simp_all add: sendMeterSample_def Let_def split: sum.split)

lemma close_events_wf [simp]: "sim_wf (close_events s) \<longleftrightarrow> sim_wf s"
  by (simp add: sim_wf_def close_events_def)

lemma close_events_opts [simp, frame_simps]: "opts (close_events s) = opts s"
  by (simp add: close_events_def)

lemma send_samples_frame:
  "sim_wf (fst (send_samples e a xs s)) = sim_wf s \<and> opts (fst (send_samples e a xs s)) = opts s \<and>
   connectors (fst (send_samples e a xs s)) = connectors s"
proof (induction xs arbitrary: s)
  case (Cons x xs)
  obtain i m t where x: "x = (i, m, t)" by (cases x)
  obtain s1 r where r: "sendMeterSample e a i m t ''Sample.Periodic'' s = (s1, r)" by fastforce
  have "sim_wf s1 = sim_wf s" "opts s1 = opts s" "connectors s1 = connectors s"
    using sendMeterSample_frame [of e a i m t "''Sample.Periodic''" s] r by simp_all
  with Cons.IH [of s1] x r show ?case by (cases r) simp_all
qed simp

lemma meter_tick_wf: "sim_wf s \<Longrightarrow> sim_wf (fst (meter_tick s)) \<and> opts (fst (meter_tick s)) = opts s"
  by (simp add: meter_tick_def Let_def sim_wf_def connectors_ok_def split_def image_image comp_def)

lemma sendMeterValues_wf [wf_intros]:
  "sim_wf s \<Longrightarrow> sim_wf (fst (sendMeterValues e a s)) \<and> opts (fst (sendMeterValues e a s)) = opts s"
  using meter_tick_wf [of s] send_samples_frame [of e a "snd (meter_tick s)" "fst (meter_tick s)"]
  by (simp add: sendMeterValues_def split_def)

lemma sendBootNotification_wf [wf_intros]:
  "sim_wf s \<Longrightarrow> sim_wf (fst (sendBootNotification e a s)) \<and> opts (fst (sendBootNotification e a s)) = opts s"
  by (simp add: sendBootNotification_def Let_def split: sum.split)

lemma send_statuses_frame:
  "sim_wf (fst (send_statuses e a ids s)) = sim_wf s \<and> opts (fst (send_statuses e a ids s)) = opts s"
proof (induction ids arbitrary: s)
  case (Cons i ids)
  obtain s1 r where r: "notifyStatus e a i Available s = (s1, r)" by fastforce
  have "sim_wf s1 = sim_wf s" "opts s1 = opts s"
    using notifyStatus_wf [of e a i Available s] notifyStatus_frame(1) [of e a i Available s] r by simp_all
  with Cons.IH [of s1] r show ?case by (cases r) simp_all
qed simp

lemma run_start_wf [wf_intros]:
  assumes "sim_wf s"
  shows "sim_wf (fst (run_start e a cancelled er s)) \<and> opts (fst (run_start e a cancelled er s)) = opts s"
proof -
  let ?s1 = "emit e ''system'' ''Connect'' ''Connected'' None (CentralSystemURL (cfg s) @ ''/'' @ ChargePointID (cfg s)) s"
  obtain s2 r where b: "sendBootNotification e a ?s1 = (s2, r)" by fastforce
  have s2: "sim_wf s2" "opts s2 = opts s"
    using sendBootNotification_wf [of ?s1 e a] b assms by simp_all
  obtain s3 q where i: "sendInitialStatuses e a s2 = (s3, q)" by fastforce
  have s3: "sim_wf s3" "opts s3 = opts s"
    using send_statuses_frame [of e a "0 # [1..Connectors (opts s2)]" s2] i s2
    unfolding sendInitialStatuses_def by simp_all
  show ?thesis
    using assms s2 s3 b i
    by (cases r; cases q) (simp_all add: run_start_def Let_def split: option.split)
qed

lemma loop_of_wf [simp]: "sim_wf (fst (loop_of r)) = sim_wf (fst r)" "opts (fst (loop_of r)) = opts (fst r)"
  by (cases r rule: loop_of.cases; simp)+

lemma run_round_wf [wf_intros]:
  assumes "sim_wf s" "env_ok e"
  shows "keeps fst s (run_round e a ev s)"
proof (cases ev)
  case (TransportError er)
  with assms show ?thesis by (cases er) (simp_all add: run_round_def)
next
  case ReservationTick
  with expireReservations_wf [OF assms, of a] show ?thesis by (auto simp: run_round_def keeps_def)
qed (use assms in \<open>simp_all add: run_round_def sendHeartbeat_wf sendMeterValues_wf\<close>)

section \<open>The handlers\<close>

lemma keeps_send [simp]: "keeps st (send_msg m s) r = keeps st s r"
  by (simp add: keeps_def)

lemma removeReservations_wf [wf_intros]:
  "sim_wf s \<Longrightarrow> sim_wf (removeReservationsForConnectorLocked i s) \<and> opts (removeReservationsForConnectorLocked i s) = opts s"
  by (simp add: removeReservationsForConnectorLocked_def sim_wf_def reservations_ok_filter)

lemma consumeReservation_wf [wf_intros]:
  "sim_wf s \<Longrightarrow> sim_wf (consumeReservationLocked i s) \<and> opts (consumeReservationLocked i s) = opts s"
  by (simp add: consumeReservationLocked_def sim_wf_def)

lemma availability_loop_keeps:
  "sim_wf s \<Longrightarrow> \<forall>i \<in> set ids. connector_id (Connectors (opts s)) i \<Longrightarrow>
     keeps fst s (availability_loop e ty ids s b us)"
proof (induction ids arbitrary: s b us)
  case (Cons i ids)
  show ?case
  proof (simp only: availability_loop.simps Let_def, rule keeps_bind [OF keeps_write_connector])
    fix s1 assume s1: "sim_wf s1" "opts s1 = opts s"
    let ?s2 = "if ty = Inoperative then removeReservationsForConnectorLocked i s1 else s1"
    have s2: "sim_wf ?s2" "opts ?s2 = opts s" using s1 removeReservations_wf by simp_all
    then obtain c where c: "map_of (connectors ?s2) i = Some c" using wf_connector Cons.prems by fastforce
    have next_one: "keeps fst s (availability_loop e ty ids s' b' us')" if "sim_wf s'" "opts s' = opts s" for s' b' us'
      using Cons.IH [of s' b' us'] Cons.prems that by (auto intro: keeps_same_opts)
    show "keeps fst s (map_of (connectors ?s2) i \<bind> (\<lambda>c. if transactionID c > 0 then availability_loop e ty ids ?s2 True us
        else make_idle e i ?s2 \<bind> (\<lambda>(s3, st). availability_loop e ty ids s3 b (gm_put i st us))))"
    proof (cases "transactionID c > 0")
      case True
      with c next_one s2 show ?thesis by simp
    next
      case False
      have "keeps fst ?s2 (make_idle e i ?s2)" using keeps_make_idle s2 Cons.prems by simp
      then have "keeps fst s (make_idle e i ?s2)" by (rule keeps_same_opts) (simp add: s2)
      then have "keeps fst s (make_idle e i ?s2 \<bind> (\<lambda>(s3, st). availability_loop e ty ids s3 b (gm_put i st us)))"
        by (rule keeps_bind) (auto simp: next_one)
      with c False show ?thesis by simp
    qed
  qed (use Cons.prems in auto)
qed simp

lemma wf_range_connectors:
  "sim_wf s \<Longrightarrow> env_ok e \<Longrightarrow> i \<in> fst ` set (gm_range (range_order e n c) (connectors s)) \<longleftrightarrow>
     connector_id (Connectors (opts s)) i"
  by (simp add: sim_wf_def connectors_ok_def)

lemma OnChangeAvailability_wf [wf_intros]:
  assumes "sim_wf s" "env_ok e"
  shows "keeps fst s (OnChangeAvailability e s c ty)"
proof -
  have run: "keeps fst s (availability_loop e ty ids s False [] \<bind> (\<lambda>(s1, sch, us).
      let st = if sch then AvScheduled else AvAccepted in
      let s2 = emit e ''inbound'' ''ChangeAvailability'' (availability_status_text st) (Some c) (availability_text ty) s1
      in Some (notify_updates e us s2, st)))"
    if "\<forall>i \<in> set ids. connector_id (Connectors (opts s)) i" for ids
    by (rule keeps_bind [OF availability_loop_keeps [OF assms(1) that]]) auto
  have all: "\<forall>i \<in> set (map fst (gm_range (range_order e 6 0) (connectors s))). connector_id (Connectors (opts s)) i"
    using wf_range_connectors [OF assms] by auto
  show ?thesis
    using run [OF all] run [of "[c]"] assms wf_connectorD [OF assms(1), of c]
    by (auto simp: OnChangeAvailability_def Let_def)
qed

lemma configuration_ok_put:
  "configuration_ok cs \<Longrightarrow> k_key c = k \<Longrightarrow> k_value c \<noteq> None \<Longrightarrow> configuration_ok (gm_put k c cs)"
  unfolding configuration_ok_def by (simp del: map_of_eq_Some_iff)

lemma OnChangeConfiguration_wf [wf_intros]:
  assumes "sim_wf s"
  shows "sim_wf (fst (OnChangeConfiguration e s k v)) \<and> opts (fst (OnChangeConfiguration e s k v)) = opts s"
proof (cases "map_of (configuration s) k")
  case None
  with assms show ?thesis by (simp add: OnChangeConfiguration_def)
next
  case (Some c)
  with assms have "k_key c = k" "configuration_ok (configuration s)"
    by (auto simp: sim_wf_def configuration_ok_def)
  then have "configuration_ok (gm_put k (c\<lparr>k_value := Some v\<rparr>) (configuration s))"
    by (simp add: configuration_ok_put)
  with assms have "sim_wf (s\<lparr>configuration := gm_put k (c\<lparr>k_value := Some v\<rparr>) (configuration s)\<rparr>)"
    by (simp add: sim_wf_def)
  with assms Some show ?thesis by (simp add: OnChangeConfiguration_def Let_def)
qed

lemma OnGetConfiguration_wf [wf_intros]:
  "sim_wf s \<Longrightarrow> sim_wf (fst (OnGetConfiguration e s ks)) \<and> opts (fst (OnGetConfiguration e s ks)) = opts s"
  by (simp add: OnGetConfiguration_def Let_def)

lemma store_start_profile_wf [wf_intros]:
  "sim_wf s \<Longrightarrow> sim_wf (store_start_profile i p s) \<and> opts (store_start_profile i p s) = opts s"
  by (cases p) (auto simp: store_start_profile_def sim_wf_def profiles_ok_put)

lemma OnRemoteStartTransaction_wf [wf_intros]:
  assumes "sim_wf s"
  shows "keeps fst s (OnRemoteStartTransaction e s req tag p)"
proof -
  obtain sel where sel: "selectRemoteStartConnectorLocked e s req tag = Some sel"
    using select_total [OF assms] by blast
  show ?thesis
  proof (cases sel)
    case None
    with sel assms show ?thesis by (simp add: OnRemoteStartTransaction_def)
  next
    case (Some ir)
    obtain i rid where ir: "ir = (i, rid)" by (cases ir)
    have i: "connector_id (Connectors (opts s)) i"
      using select_Some sel Some ir wf_connectorD [OF assms] by blast
    show ?thesis
      unfolding OnRemoteStartTransaction_def Let_def sel Some ir option.case prod.case Option.bind_lunit
      by (rule keeps_bind [OF keeps_write_connector [OF assms i]]) (use i store_start_profile_wf in auto)
  qed
qed

lemma restoreConnector_wf [wf_intros]:
  assumes "sim_wf s" "connector_id (Connectors (opts s)) i"
  shows "keeps (\<lambda>s'. s') s (restoreConnectorAfterFailedStart e i s)"
  unfolding restoreConnectorAfterFailedStart_def
proof (rule keeps_bind [OF keeps_make_idle [OF assms]])
  fix y :: "simulator \<times> charge_point_status"
  assume y: "sim_wf (fst y)" "opts (fst y) = opts s"
  obtain s1 st where "y = (s1, st)" by (cases y)
  with y assms(2) show "keeps (\<lambda>s'. s') s (case y of (s1, st) \<Rightarrow> do {
      s2 \<leftarrow> write_connector i (\<lambda>c. c\<lparr>idTag := []\<rparr>) s1; Some (notifyStatusAsync e i st s2) })"
    by (auto intro!: keeps_bind [OF keeps_same_opts [OF keeps_write_connector]])
qed

lemma fail_start_wf [wf_intros]:
  "sim_wf s \<Longrightarrow> connector_id (Connectors (opts s)) i \<Longrightarrow> keeps fst s (fail_start e i act st d s)"
  unfolding fail_start_def by (rule keeps_bind [OF restoreConnector_wf]) auto

lemma start_outcome_wf [wf_intros]:
  assumes "sim_wf s" "connector_id (Connectors (opts s)) i"
  shows "keeps fst s (start_outcome e i r tx st s)"
proof (cases "st = authorization_text AuthAccepted")
  case True
  then show ?thesis
    unfolding start_outcome_def
    by (simp del: authorization_text.simps)
      (rule keeps_bind [OF keeps_write_connector [OF assms]], use consumeReservation_wf in auto)
next
  case False
  show ?thesis
    unfolding start_outcome_def if_not_P [OF False]
  proof (rule keeps_bind [OF keeps_make_idle [OF assms]])
    fix y :: "simulator \<times> charge_point_status"
  assume y: "sim_wf (fst y)" "opts (fst y) = opts s"
    obtain s1 f where "y = (s1, f)" by (cases y)
    with y assms(2) show "keeps fst s (case y of (s1, final) \<Rightarrow> do {
        s2 \<leftarrow> write_connector i (\<lambda>c. c\<lparr>idTag := []\<rparr>) s1; Some (s2, final) })"
      by (auto intro!: keeps_bind [OF keeps_same_opts [OF keeps_write_connector]])
  qed
qed

lemma beginRemoteTransaction_wf [wf_intros]:
  assumes "sim_wf s" "connector_id (Connectors (opts s)) c"
  shows "keeps fst s (beginRemoteTransaction e a c tag r pc s)"
proof (cases pc)
  case BeginAuthorize
  have "keeps fst s (fail_start e c act st d (send_msg m s))" for act st d m
    using fail_start_wf [of "send_msg m s" c] assms by simp
  with BeginAuthorize assms show ?thesis by (simp add: Let_def split: sum.split)
next
  case BeginReadMeter
  with assms wf_connector show ?thesis by fastforce
next
  case (BeginStart m)
  have fail: "keeps fst s (fail_start e c act st d (send_msg msg s))" for act st d msg
    using fail_start_wf [of "send_msg msg s" c] assms by simp
  have out: "keeps fst s (start_outcome e c r tx st (send_msg msg s))" for tx st msg
    using start_outcome_wf [of "send_msg msg s" c] assms by simp
  from BeginStart fail show ?thesis
    by (auto simp: Let_def split: sum.split intro!: keeps_bind [OF out])
qed (use assms in auto)

lemma OnRemoteStopTransaction_wf [wf_intros]:
  assumes "sim_wf s" "env_ok e"
  shows "keeps fst s (OnRemoteStopTransaction e s tx)"
proof (cases "find_transaction tx (gm_range (range_order e 7 0) (connectors s))")
  case None
  with assms show ?thesis by (simp add: OnRemoteStopTransaction_def)
next
  case (Some i)
  have "find_transaction tx cs = Some i \<Longrightarrow> i \<in> fst ` set cs" for cs
    by (induction cs) (auto split: if_splits)
  with Some have i: "connector_id (Connectors (opts s)) i"
    using wf_range_connectors [OF assms] by blast
  show ?thesis
    unfolding OnRemoteStopTransaction_def Some option.case set_status_def
    by (rule keeps_bind [OF keeps_write_connector [OF assms(1) i]]) (use i in auto)
qed

lemma finishRemoteTransaction_wf [wf_intros]:
  assumes "sim_wf s" "connector_id (Connectors (opts s)) c"
  shows "keeps fst s (finishRemoteTransaction e a c tx pc s)"
proof (cases pc)
  case FinishRead
  with assms wf_connector show ?thesis by fastforce
next
  case (FinishStop m tag)
  have put: "keeps (\<lambda>s'. s') s (write_connector c f (send_msg msg s))" for f msg
    using keeps_write_connector [of "send_msg msg s" c] assms by simp
  from FinishStop assms show ?thesis
    by (auto simp: Let_def split: sum.split
        intro!: keeps_bind [OF put] keeps_bind [OF keeps_same_opts [OF keeps_make_idle]])
qed (use assms in auto)

lemma reset_loop_keeps:
  "sim_wf s \<Longrightarrow> \<forall>i \<in> set ids. connector_id (Connectors (opts s)) i \<Longrightarrow> keeps fst s (reset_loop e ids s us)"
proof (induction ids arbitrary: s us)
  case (Cons i ids)
  have rest: "keeps fst s (reset_loop e ids s' us')" if "sim_wf s'" "opts s' = opts s" for s' us'
    using Cons.IH [of s' us'] Cons.prems that by (auto intro: keeps_same_opts)
  from Cons.prems show ?case
    by (auto intro!: keeps_bind [OF keeps_write_connector] keeps_bind [OF keeps_same_opts [OF keeps_make_idle]] rest)
qed simp

lemma OnReset_wf [wf_intros]:
  assumes "sim_wf s" "env_ok e"
  shows "keeps (\<lambda>s'. s') s (OnReset e s ty)"
  unfolding OnReset_def
  by (rule keeps_bind [OF reset_loop_keeps]) (use assms wf_range_connectors [OF assms] in auto)

end
