(* ===== verification/CoreEffects.thy ===== *)
theory CoreEffects
  imports CoreProofs
begin

text \<open>
  The effect of the core profile's handlers on connectors, reservations, configuration and the
  messages sent: availability, reset, configuration, the samples of the meter, the boot.
\<close>

section \<open>Availability\<close>

definition with_availability ::
  "env \<Rightarrow> availability_type \<Rightarrow> go_int set \<Rightarrow> (go_int \<times> reservation_state) list \<Rightarrow> go_int \<Rightarrow> connector_state \<Rightarrow> connector_state" where
  "with_availability e ty hit rs i c =
     (if i \<notin> hit then c
      else if transactionID c > 0 then c\<lparr>availability := ty\<rparr>
      else c\<lparr>availability := ty, status := idle_of e rs (c\<lparr>availability := ty\<rparr>) i\<rparr>)"

lemma idle_of_inoperative [simp]: "availability c = Inoperative \<Longrightarrow> idle_of e rs c i = Unavailable"
  by (simp add: idle_of_def)

definition reservations_after ::
  "availability_type \<Rightarrow> go_int set \<Rightarrow> (go_int \<times> reservation_state) list \<Rightarrow> (go_int \<times> reservation_state) list" where
  "reservations_after ty hit rs =
     (if ty = Inoperative then filter (\<lambda>(_, r). r_connectorID r \<notin> hit) rs else rs)"

lemma with_availability_res:
  "with_availability e ty hit (reservations_after ty h rs) = with_availability e ty hit rs"
  by (auto simp: with_availability_def reservations_after_def fun_eq_iff)

lemma with_availability_insert:
  "i \<notin> hit \<Longrightarrow> with_availability e ty (insert i hit) rs i c = with_availability e ty {i} rs i c"
  "j \<noteq> i \<Longrightarrow> with_availability e ty (insert i hit) rs j = with_availability e ty hit rs j"
  by (auto simp: with_availability_def)

lemma reservations_after_insert:
  "reservations_after ty hit (reservations_after ty {i} rs) = reservations_after ty (insert i hit) rs"
  by (auto simp: reservations_after_def intro!: filter_cong)

lemma availability_step:
  assumes "availability_loop e ty (i # ids) s b us = Some r" and c: "map_of (connectors s) i = Some c"
  shows "\<exists>us'. availability_loop e ty ids
      (s\<lparr>reservations := reservations_after ty {i} (reservations s),
         connectors := gm_put i (with_availability e ty {i} (reservations s) i c) (connectors s)\<rparr>) (b \<or> transactionID c > 0) us' = Some r"
proof -
  have twice: "gm_put i x (gm_put i y cs) = gm_put i x cs" for x y :: connector_state and cs
    by (induction cs) auto
  have order: "s\<lparr>connectors := x, reservations := y\<rparr> = s\<lparr>reservations := y, connectors := x\<rparr>" for x y
    by simp
  show ?thesis
  proof (cases "ty = Inoperative")
    case True
    with assms show ?thesis
      by (auto simp: order write_connector_def make_idle_eq Let_def removeReservationsForConnectorLocked_def
          with_availability_def reservations_after_def twice split: if_splits)
  next
    case False
    with assms show ?thesis
      by (auto simp: write_connector_def make_idle_eq Let_def
          with_availability_def reservations_after_def twice split: if_splits)
  qed
qed

lemma availability_loop_effect:
  assumes "availability_loop e ty ids s b us = Some (s', b', us')" "distinct ids"
    and "\<forall>i \<in> set ids. map_of (connectors s) i \<noteq> None"
  shows "reservations s' = reservations_after ty (set ids) (reservations s) \<and>
    (\<forall>i. map_of (connectors s') i =
       map_option (with_availability e ty (set ids) (reservations s) i) (map_of (connectors s) i)) \<and>
    (b' \<longleftrightarrow> b \<or> (\<exists>i \<in> set ids. \<exists>c. map_of (connectors s) i = Some c \<and> transactionID c > 0))"
  using assms
proof (induction ids arbitrary: s b us)
  case Nil
  then show ?case by (simp add: with_availability_def reservations_after_def option.map_ident)
next
  case (Cons i ids)
  obtain c where c: "map_of (connectors s) i = Some c" using Cons.prems(3) by auto
  define t where "t = s\<lparr>reservations := reservations_after ty {i} (reservations s),
         connectors := gm_put i (with_availability e ty {i} (reservations s) i c) (connectors s)\<rparr>"
  have look: "map_of (connectors t) j =
      (if j = i then Some (with_availability e ty {i} (reservations s) i c) else map_of (connectors s) j)" for j
    by (simp add: t_def del: map_of_eq_Some_iff)
  have res: "reservations t = reservations_after ty {i} (reservations s)" by (simp add: t_def)
  from availability_step [OF Cons.prems(1) c] obtain us1
    where go: "availability_loop e ty ids t (b \<or> transactionID c > 0) us1 = Some (s', b', us')"
    by (auto simp: t_def)
  have dom: "\<forall>j \<in> set ids. map_of (connectors t) j \<noteq> None" using Cons.prems(3) by (simp add: look)
  have i: "i \<notin> set ids" "distinct ids" using Cons.prems(2) by simp_all
  note IH = Cons.IH [OF go i(2) dom]
  have "map_of (connectors s') j =
      map_option (with_availability e ty (set (i # ids)) (reservations s) j) (map_of (connectors s) j)" for j
  proof (cases "j = i")
    case True
    have "map_of (connectors s') i =
        map_option (with_availability e ty (set ids) (reservations t) i) (map_of (connectors t) i)"
      using IH by blast
    also have "\<dots> = Some (with_availability e ty {i} (reservations s) i c)"
      unfolding look using i(1) by (simp add: with_availability_def)
    also have "\<dots> = map_option (with_availability e ty (set (i # ids)) (reservations s) i) (map_of (connectors s) i)"
      unfolding c by (simp add: with_availability_def)
    finally show ?thesis using True by simp
  next
    case False
    with IH show ?thesis
      by (simp add: look res with_availability_res with_availability_insert del: map_of_eq_Some_iff)
  qed
  moreover have "(\<exists>j \<in> set ids. \<exists>d. map_of (connectors t) j = Some d \<and> transactionID d > 0) \<longleftrightarrow>
      (\<exists>j \<in> set ids. \<exists>d. map_of (connectors s) j = Some d \<and> transactionID d > 0)"
    using i by (intro bex_cong refl) (auto simp: look simp del: map_of_eq_Some_iff)
  then have "b' \<longleftrightarrow> b \<or> (\<exists>j \<in> set (i # ids). \<exists>d. map_of (connectors s) j = Some d \<and> transactionID d > 0)"
    using IH c by simp
  moreover have "reservations s' = reservations_after ty (set (i # ids)) (reservations s)"
    using IH by (simp add: res reservations_after_insert)
  ultimately show ?case by blast
qed

abbreviation availability_targets :: "simulator \<Rightarrow> go_int \<Rightarrow> go_int set" where
  "availability_targets s c \<equiv> (if c = 0 then fst ` set (connectors s) else {c})"

text \<open>
  C35: \<open>ChangeAvailability\<close> rejects an unknown connector and changes nothing; otherwise every
  addressed connector takes the availability, the ones without a transaction their idle status,
  the ones in a transaction keep their status and make the answer \<open>Scheduled\<close>, and an
  \<open>Inoperative\<close> connector loses its reservations; all other connectors stay as they are.
\<close>

theorem change_availability_effect:
  assumes "sim_wf s" "env_ok e" "OnChangeAvailability e s c ty = Some (s', st)"
  shows "(st = AvRejected \<longleftrightarrow> c \<noteq> 0 \<and> map_of (connectors s) c = None) \<and>
    (st = AvRejected \<longrightarrow> connectors s' = connectors s \<and> reservations s' = reservations s) \<and>
    (st \<noteq> AvRejected \<longrightarrow>
      (st = AvScheduled \<longleftrightarrow> (\<exists>i k. i \<in> availability_targets s c \<and> map_of (connectors s) i = Some k \<and> transactionID k > 0)) \<and>
      reservations s' = reservations_after ty (availability_targets s c) (reservations s) \<and>
      (\<forall>i. map_of (connectors s') i =
         map_option (with_availability e ty (availability_targets s c) (reservations s) i) (map_of (connectors s) i)))"
proof -
  let ?all = "map fst (gm_range (range_order e 6 0) (connectors s))"
  define ids where "ids = (if c = 0 then Some ?all else if map_of (connectors s) c \<noteq> None then Some [c] else None)"
  have ok: "gm_ok (connectors s)" using assms(1) by (simp add: sim_wf_def connectors_ok_def)
  have all: "set ?all = fst ` set (connectors s)" "distinct ?all"
    using ok gm_range_ok [of "range_order e 6 0" "connectors s"] assms(2) by simp_all
  show ?thesis
  proof (cases ids)
    case None
    then have "c \<noteq> 0" "map_of (connectors s) c = None" by (auto simp: ids_def split: if_splits)
    with assms(3) show ?thesis by (auto simp: OnChangeAvailability_def)
  next
    case (Some xs)
    have xs: "set xs = availability_targets s c" "distinct xs"
      using Some all by (cases "c = 0"; simp add: ids_def split: if_splits; fastforce)+
    have "set xs \<subseteq> fst ` set (connectors s)"
    proof (cases "c = 0")
      case True
      with xs(1) show ?thesis by simp
    next
      case False
      with Some xs(1) have "map_of (connectors s) c \<noteq> None" by (auto simp: ids_def split: if_splits)
      with False xs(1) show ?thesis unfolding map_of_eq_None_iff by simp
    qed
    then have dom: "\<forall>i \<in> set xs. map_of (connectors s) i \<noteq> None"
      unfolding map_of_eq_None_iff by blast
    have known: "\<not> (c \<noteq> 0 \<and> map_of (connectors s) c = None)" using Some by (auto simp: ids_def split: if_splits)
    obtain s1 b us where loop: "availability_loop e ty xs s False [] = Some (s1, b, us)"
      and st: "st = (if b then AvScheduled else AvAccepted)"
      and s': "connectors s' = connectors s1" "reservations s' = reservations s1"
      using assms(3) Some unfolding OnChangeAvailability_def ids_def [symmetric] by (auto simp: Let_def)
    from availability_loop_effect [OF loop xs(2) dom] known st s' show ?thesis
      unfolding xs(1) by auto
  qed
qed

theorem change_availability_effect_witness:
  "\<exists>s' st. OnChangeAvailability (list_env 10 True) contested_station 2 Inoperative = Some (s', st) \<and>
     st = AvAccepted \<and> map_of (reservations s') 2 = None \<and>
     map_option status (map_of (connectors s') 2) = Some Unavailable"
proof -
  obtain s' st where run: "OnChangeAvailability (list_env 10 True) contested_station 2 Inoperative = Some (s', st)"
    using OnChangeAvailability_wf [OF contested_station_wf list_env_ok] by (fastforce simp: keeps_def)
  show ?thesis
    using change_availability_effect [OF contested_station_wf list_env_ok run] run
    by (cases st) (auto simp: contested_station_def reservations_after_def with_availability_def fresh_connector_def)
qed

section \<open>Reset\<close>

abbreviation reset_connector ::
  "env \<Rightarrow> (go_int \<times> reservation_state) list \<Rightarrow> go_int \<Rightarrow> connector_state \<Rightarrow> connector_state" where
  "reset_connector e rs i c \<equiv> c\<lparr>transactionID := 0, idTag := '''', status := idle_of e rs c i\<rparr>"

lemma idle_of_upd [simp]:
  "idle_of e rs (c\<lparr>transactionID := x\<rparr>) i = idle_of e rs c i" "idle_of e rs (c\<lparr>idTag := t\<rparr>) i = idle_of e rs c i"
  "idle_of e rs (c\<lparr>meter := m\<rparr>) i = idle_of e rs c i"
  by (simp_all add: idle_of_def)

lemma put_put [simp]: "gm_put i x (gm_put i y cs) = gm_put i x cs"
  by (induction cs) auto

lemma reset_loop_effect:
  assumes "reset_loop e ids s us = Some (s', us')" "distinct ids"
  shows "reservations s' = reservations s \<and>
    (\<forall>i. map_of (connectors s') i = (if i \<in> set ids
       then map_option (reset_connector e (reservations s) i) (map_of (connectors s) i) else map_of (connectors s) i))"
  using assms
proof (induction ids arbitrary: s us)
  case (Cons i ids)
  then obtain c where c: "map_of (connectors s) i = Some c"
    and go: "reset_loop e ids (s\<lparr>connectors := gm_put i (reset_connector e (reservations s) i c) (connectors s)\<rparr>)
      (gm_put i (idle_of e (reservations s) c i) us) = Some (s', us')"
    by (auto simp: write_connector_def make_idle_eq Let_def split: option.splits)
  from Cons.IH [OF go] Cons.prems(2) c show ?case by (auto simp del: map_of_eq_Some_iff)
qed simp

text \<open>
  C36: after \<open>Reset\<close> no connector carries a transaction or a tag, each has the status an idle
  connector has, and meters, availabilities and reservations are untouched.
\<close>

theorem reset_effect:
  assumes "sim_wf s" "env_ok e"
  shows "\<exists>s'. OnReset e s ty = Some s' \<and> sim_wf s' \<and> reservations s' = reservations s \<and>
    (\<forall>i. map_of (connectors s') i = map_option (reset_connector e (reservations s) i) (map_of (connectors s) i))"
proof -
  let ?ids = "map fst (gm_range (range_order e 8 0) (connectors s))"
  have ok: "gm_ok (connectors s)" using assms(1) by (simp add: sim_wf_def connectors_ok_def)
  have ids: "set ?ids = fst ` set (connectors s)" "distinct ?ids"
    using ok gm_range_ok [of "range_order e 8 0" "connectors s"] assms(2) by simp_all
  obtain s' where s': "OnReset e s ty = Some s'" "sim_wf s'"
    using OnReset_wf [OF assms, of ty] by (auto simp: keeps_def)
  then obtain s1 us where loop: "reset_loop e ?ids s [] = Some (s1, us)"
    and same: "connectors s' = connectors s1" "reservations s' = reservations s1"
    by (auto simp: OnReset_def Let_def)
  have "map_of (connectors s') i = map_option (reset_connector e (reservations s) i) (map_of (connectors s) i)" for i
  proof (cases "i \<in> fst ` set (connectors s)")
    case False
    then have "map_of (connectors s) i = None" by (simp add: map_of_eq_None_iff)
    with reset_loop_effect [OF loop ids(2)] same show ?thesis by (simp del: map_of_eq_Some_iff)
  qed (use reset_loop_effect [OF loop ids(2)] same ids(1) in \<open>simp del: map_of_eq_Some_iff\<close>)
  then show ?thesis using s' reset_loop_effect [OF loop ids(2)] same by simp
qed

theorem reset_effect_witness:
  "\<exists>s'. OnReset (list_env 10 True) contested_station ''Soft'' = Some s' \<and>
     map_option status (map_of (connectors s') 2) = Some Reserved \<and> map_option status (map_of (connectors s') 1) = Some Available"
  using reset_effect [OF contested_station_wf list_env_ok, of 10 True "''Soft''"]
  by (auto simp: contested_station_def fresh_connector_def idle_of_def list_env_def)

section \<open>Configuration\<close>

text \<open>
  \<open>ChangeConfiguration\<close> answers \<open>NotSupported\<close> for an unknown key, \<open>Rejected\<close> for a
  read-only key, \<open>Accepted\<close> otherwise; only an accepted change touches the store, and it
  replaces the value of that one key, leaving its read-only mark.
\<close>

lemma configuration_change:
  "case OnChangeConfiguration e s k v of (s', st) \<Rightarrow>
     (case map_of (configuration s) k of
        None \<Rightarrow> st = CfgNotSupported \<and> configuration s' = configuration s
      | Some old \<Rightarrow>
          (if k_readonly old then st = CfgRejected \<and> configuration s' = configuration s
           else st = CfgAccepted \<and>
             map_of (configuration s') = (map_of (configuration s))(k \<mapsto> old\<lparr>k_value := Some v\<rparr>)))"
  by (auto simp: OnChangeConfiguration_def Let_def split: option.split simp del: map_of_eq_Some_iff)

lemma map_filter_known:
  assumes "\<And>k c. look k = Some c \<Longrightarrow> k_key c = k"
  shows "map k_key (List.map_filter look ks) = filter (\<lambda>k. look k \<noteq> None) ks"
  using assms by (induction ks) (auto simp: List.map_filter_simps split: option.splits)

text \<open>
  \<open>GetConfiguration\<close> lists the stored entries of the requested keys (of all keys when none
  is requested) and the unknown keys, both in ascending order, and drops no requested key.
\<close>

lemma get_configuration_exact:
  assumes "sim_wf s" "OnGetConfiguration e s requested = (s', known, unknown)"
  shows "(let keys = (if requested = [] then map fst (configuration s) else requested) in
    map k_key known = sort (filter (\<lambda>k. map_of (configuration s) k \<noteq> None) keys) \<and>
    unknown = sort (filter (\<lambda>k. map_of (configuration s) k = None) keys) \<and>
    mset (map k_key known @ unknown) = mset keys \<and>
    (\<forall>c \<in> set known. map_of (configuration s) (k_key c) = Some c)) \<and> configuration s' = configuration s"
proof -
  define keys where "keys = (if requested = [] then map fst (configuration s) else requested)"
  have key: "map_of (configuration s) k = Some c \<Longrightarrow> k_key c = k" for k c
    using assms(1) by (auto simp: sim_wf_def configuration_ok_def simp del: map_of_eq_Some_iff)
  have known: "known = List.map_filter (map_of (configuration s)) (sort keys)"
    and unknown: "unknown = filter (\<lambda>k. map_of (configuration s) k = None) (sort keys)"
    and same: "configuration s' = configuration s"
    using assms(2) by (auto simp: OnGetConfiguration_def keys_def Let_def)
  have k: "map k_key known = filter (\<lambda>k. map_of (configuration s) k \<noteq> None) (sort keys)"
    unfolding known by (rule map_filter_known) (rule key)
  have "c \<in> set (List.map_filter look ks) \<Longrightarrow> \<exists>k. look k = Some c" for c ks and look :: "string \<Rightarrow> configuration_key option"
    by (induction ks) (auto simp: List.map_filter_simps split: option.splits)
  then have "\<forall>c \<in> set known. map_of (configuration s) (k_key c) = Some c"
    using key unfolding known by (metis)
  moreover have "mset (map k_key known @ unknown) = mset keys"
    unfolding mset_append k unknown by (simp add: union_commute)
  ultimately show ?thesis
    using k unknown same unfolding keys_def [symmetric] Let_def by (simp add: filter_sort)
qed

section \<open>The meter\<close>

lemma send_samples_sent:
  "snd (send_samples e a xs s) = None \<Longrightarrow>
     sent (fst (send_samples e a xs s)) = sent s @ map (\<lambda>(i, m, t).
       OutMeterValues i (itoa m) ''Sample.Periodic'' (if t > 0 then Some t else None)) xs"
proof (induction xs arbitrary: s)
  case (Cons x xs)
  obtain i m t where x: "x = (i, m, t)" by (cases x)
  obtain s1 r where r: "sendMeterSample e a i m t ''Sample.Periodic'' s = (s1, r)" by fastforce
  have "sent s1 = sent s @ [OutMeterValues i (itoa m) ''Sample.Periodic'' (if t > 0 then Some t else None)]"
    using sendMeterSample_frame(4) [of e a i m t "''Sample.Periodic''" s] r by simp
  with Cons x r show ?case by (cases r) auto
qed simp

lemma wrap64_add: "wrap64 (wrap64 x + y) = wrap64 (x + y)"
proof -
  have "wrap64 x + y + 2 ^ 63 = (x + 2 ^ 63) mod 2 ^ 64 + y" by (simp add: wrap64_def)
  moreover have "((x + 2 ^ 63) mod 2 ^ 64 + y) mod 2 ^ 64 = (x + 2 ^ 63 + y) mod 2 ^ 64" by (rule mod_add_left_eq)
  moreover have "x + 2 ^ 63 + y = x + y + 2 ^ 63" by simp
  ultimately show ?thesis by (simp only: wrap64_def)
qed

lemma connectors_sorted:
  assumes "connectors_ok n cs"
  shows "map fst (sort_key fst cs) = [1..n]"
proof -
  have "sorted (map fst (sort_key fst cs))" "distinct (map fst (sort_key fst cs))"
    using assms by (simp_all add: connectors_ok_def distinct_map sorted_sort_key inj_on_def)
  moreover have "set (map fst (sort_key fst cs)) = set [1..n]"
  proof -
    have "set (map fst (sort_key fst cs)) = fst ` set cs" by simp
    also have "\<dots> = {i. connector_id n i}" using assms unfolding connectors_ok_def by blast
    finally show ?thesis by auto
  qed
  ultimately show ?thesis by (intro sorted_distinct_set_unique) simp_all
qed

definition meter_ticks :: "nat \<Rightarrow> simulator \<Rightarrow> simulator" where
  "meter_ticks n s = ((\<lambda>s. fst (meter_tick s)) ^^ n) s"

lemma meter_tick_look:
  "map_of (connectors (fst (meter_tick s))) i = map_option (advance_meter (MeterStep (opts s))) (map_of (connectors s) i)"
  by (simp add: meter_tick_def Let_def map_of_map)

text \<open>
  C38: after any number of ticks a meter reads its start plus that many steps, reduced to 64 bits:
  exactly the sum as long as it fits, and then never less than before.
\<close>

theorem meter_after_ticks:
  assumes "map_of (connectors s) i = Some c" "in_int64 (meter c)"
  shows "\<exists>d. map_of (connectors (meter_ticks n s)) i = Some d \<and>
    meter d = wrap64 (meter c + int n * MeterStep (opts s)) \<and>
    d\<lparr>meter := meter c\<rparr> = c \<and>
    (in_int64 (meter c + int n * MeterStep (opts s)) \<longrightarrow> MeterStep (opts s) \<ge> 0 \<longrightarrow>
       meter d = meter c + int n * MeterStep (opts s) \<and> meter d \<ge> meter c)"
proof -
  have ops: "opts (meter_ticks n s) = opts s" for n
    by (induction n) (simp_all add: meter_ticks_def meter_tick_def Let_def)
  have "\<exists>d. map_of (connectors (meter_ticks n s)) i = Some d \<and>
    meter d = wrap64 (meter c + int n * MeterStep (opts s)) \<and> d\<lparr>meter := meter c\<rparr> = c"
  proof (induction n)
    case 0
    with assms show ?case by (simp add: meter_ticks_def)
  next
    case (Suc n)
    then obtain d where d: "map_of (connectors (meter_ticks n s)) i = Some d"
      "meter d = wrap64 (meter c + int n * MeterStep (opts s))" "d\<lparr>meter := meter c\<rparr> = c" by blast
    have "map_of (connectors (meter_ticks (Suc n) s)) i = Some (advance_meter (MeterStep (opts s)) d)"
      using d(1) meter_tick_look [of "meter_ticks n s" i] ops [of n]
      by (simp add: meter_ticks_def del: map_of_eq_Some_iff)
    moreover have "meter (advance_meter (MeterStep (opts s)) d) = wrap64 (meter c + int (Suc n) * MeterStep (opts s))"
    proof -
      have "meter c + int n * MeterStep (opts s) + MeterStep (opts s) = meter c + int (Suc n) * MeterStep (opts s)"
        by (simp add: algebra_simps)
      moreover have "meter (advance_meter k d) = wrap64 (meter d + k)" for k by (simp add: advance_meter_def)
      ultimately show ?thesis by (simp only: d(2) wrap64_add)
    qed
    moreover have "(advance_meter (MeterStep (opts s)) d)\<lparr>meter := meter c\<rparr> = c"
      using d(3) by (simp add: advance_meter_def)
    ultimately show ?case by blast
  qed
  then show ?thesis by auto
qed

theorem meter_after_ticks_witness:
  "\<exists>d. map_of (connectors (meter_ticks 3 test_station)) 1 = Some d \<and> meter d = 1030"
  using meter_after_ticks [of test_station 1 "fresh_connector 1000" 3]
  by (auto simp: fresh_connector_def test_options_def in_int64_def)

end
