(* ===== verification/Transactions.thy ===== *)
theory Transactions
  imports CoreEffects
begin

text \<open>
  The course of a transaction: which connector a remote start takes, what the starting and the
  finishing goroutine send and leave behind for every pattern of answers, and the whole way from
  remote start to remote stop.
\<close>

section \<open>Remote start\<close>

lemma OnRemoteStart_accepted:
  assumes "OnRemoteStartTransaction e s req tag p = Some (s', RemoteAccepted)"
  obtains i rid c where "selectRemoteStartConnectorLocked e s req tag = Some (Some (i, rid))"
    "map_of (connectors s) i = Some c" "chosen e s tag i rid" "req = None \<or> req = Some i"
    "connectors s' = gm_put i (c\<lparr>status := Preparing, idTag := tag\<rparr>) (connectors s)"
    "reservations s' = reservations s" "configuration s' = configuration s" "opts s' = opts s" "sent s' = sent s"
    "goroutines s' = goroutines s @ [GoBegin i tag rid BeginNotify]"
    "chargingProfiles s' = chargingProfiles (store_start_profile i p s)"
proof -
  obtain sel where sel: "selectRemoteStartConnectorLocked e s req tag = Some sel"
    using assms by (auto simp: OnRemoteStartTransaction_def)
  with assms have "sel \<noteq> None" by (cases sel) (auto simp: OnRemoteStartTransaction_def Let_def)
  then obtain i rid where ir: "sel = Some (i, rid)" by (cases sel) auto
  from assms sel ir obtain c where "map_of (connectors s) i = Some c"
    and "s' = spawn (GoBegin i tag rid BeginNotify) (emit e ''inbound'' ''RemoteStartTransaction'' ''Accepted'' (Some i)
      (if rid > 0 then tag @ '' reservation='' @ itoa rid else tag)
      (store_start_profile i p (s\<lparr>connectors := gm_put i (c\<lparr>status := Preparing, idTag := tag\<rparr>) (connectors s)\<rparr>)))"
    by (auto simp: OnRemoteStartTransaction_def write_connector_Some Let_def simp del: map_of_eq_Some_iff split: if_splits)
  moreover have "chosen e s tag i rid" "req = None \<or> req = Some i" using select_Some sel ir by blast+
  ultimately show ?thesis using that [of i rid c] sel ir
    by (cases p) (simp_all add: store_start_profile_def)
qed

lemma OnRemoteStart_iff:
  assumes "sim_wf s"
  shows "(\<exists>s'. OnRemoteStartTransaction e s req tag p = Some (s', RemoteAccepted)) \<longleftrightarrow>
    (\<exists>i rid. selectRemoteStartConnectorLocked e s req tag = Some (Some (i, rid)))"
proof -
  obtain sel where sel: "selectRemoteStartConnectorLocked e s req tag = Some sel"
    using select_total [OF assms] by blast
  obtain s' st where run: "OnRemoteStartTransaction e s req tag p = Some (s', st)"
    using OnRemoteStartTransaction_wf [OF assms] by (fastforce simp: keeps_def)
  have "st = RemoteAccepted \<longleftrightarrow> sel \<noteq> None"
    using run sel by (cases sel) (auto simp: OnRemoteStartTransaction_def Let_def)
  with run sel show ?thesis by auto
qed





section \<open>The starting goroutine, undisturbed\<close>

text \<open>
  The goroutine from a program point to its end with no other step in between: six steps are
  enough, because every step moves to a later program point.
\<close>

fun run_begin ::
  "nat \<Rightarrow> env \<Rightarrow> answers \<Rightarrow> go_int \<Rightarrow> string \<Rightarrow> go_int \<Rightarrow> begin_pc \<Rightarrow> simulator \<Rightarrow> (simulator \<times> begin_pc option) option" where
  "run_begin 0 e a c tag r pc s = Some (s, Some pc)"
| "run_begin (Suc n) e a c tag r pc s = (case beginRemoteTransaction e a c tag r pc s of
     None \<Rightarrow> None
   | Some (s', None) \<Rightarrow> Some (s', None)
   | Some (s', Some pc') \<Rightarrow> run_begin n e a c tag r pc' s')"

definition authorized :: "answers \<Rightarrow> simulator \<Rightarrow> bool" where
  "authorized a s \<longleftrightarrow> \<not> configurationBoolLocked s ''AuthorizeRemoteTxRequests'' \<or>
     (\<exists>i. await (a_authorize a) = Inr (Some i) \<and> authorization_text i = ''Accepted'')"

definition started :: "answers \<Rightarrow> go_int option" where
  "started a = (case await (a_start a) of
     Inr (tx, Some i) \<Rightarrow> if authorization_text i = ''Accepted'' then Some tx else None
   | _ \<Rightarrow> None)"

lemma configurationBool_cong: "configuration s = configuration s' \<Longrightarrow> configurationBoolLocked s k = configurationBoolLocked s' k"
  by (simp add: configurationBoolLocked_def)

lemma fail_start_effect:
  assumes "map_of (connectors s) c = Some conn"
  shows "\<exists>s'. fail_start e c act st d s = Some (s', None) \<and>
    connectors s' = gm_put c (conn\<lparr>status := idle_of e (reservations s) conn c, idTag := ''''\<rparr>) (connectors s) \<and>
    reservations s' = reservations s \<and> sent s' = sent s \<and> opts s' = opts s"
  using assms by (simp add: fail_start_def restoreConnectorAfterFailedStart_def make_idle_eq Let_def write_connector_def)

lemma start_outcome_effect:
  assumes "map_of (connectors s) c = Some conn"
  shows "\<exists>s' f. start_outcome e c r tx st s = Some (s', f) \<and> sent s' = sent s \<and> opts s' = opts s \<and>
    (if st = ''Accepted'' then f = Charging \<and>
       connectors s' = gm_put c (conn\<lparr>transactionID := tx, status := Charging\<rparr>) (connectors s) \<and>
       reservations s' = (if r > 0 then gm_del r (reservations s) else reservations s)
     else f = idle_of e (reservations s) conn c \<and>
       connectors s' = gm_put c (conn\<lparr>status := idle_of e (reservations s) conn c, idTag := ''''\<rparr>) (connectors s) \<and>
       reservations s' = reservations s)"
  using assms
  by (auto simp: start_outcome_def make_idle_eq Let_def write_connector_def consumeReservationLocked_def
      simp del: map_of_eq_Some_iff)

definition start_messages :: "answers \<Rightarrow> simulator \<Rightarrow> go_int \<Rightarrow> string \<Rightarrow> go_int \<Rightarrow> go_int \<Rightarrow> outbound list" where
  "start_messages a s c tag r m =
     [OutStatusNotification c Preparing] @
     (if configurationBoolLocked s ''AuthorizeRemoteTxRequests'' then [OutAuthorize tag] else []) @
     (if authorized a s then [OutStartTransaction c tag m (if r > 0 then Some r else None)] else [])"

text \<open>What is left of the goroutine from the reading of the meter on.\<close>

lemma run_begin_start:
  assumes "map_of (connectors s) c = Some conn"
  shows "\<exists>s'. run_begin 3 e a c tag r BeginReadMeter s = Some (s', None) \<and>
    (case started a of
       Some tx \<Rightarrow>
         connectors s' = gm_put c (conn\<lparr>transactionID := tx, status := Charging\<rparr>) (connectors s) \<and>
         reservations s' = (if r > 0 then gm_del r (reservations s) else reservations s) \<and>
         sent s' = sent s @ [OutStartTransaction c tag (meter conn) (if r > 0 then Some r else None),
           OutStatusNotification c Charging]
     | None \<Rightarrow>
         connectors s' = gm_put c (conn\<lparr>status := idle_of e (reservations s) conn c, idTag := ''''\<rparr>) (connectors s) \<and>
         reservations s' = reservations s \<and>
         sent s' = sent s @ [OutStartTransaction c tag (meter conn) (if r > 0 then Some r else None)] @
           (case await (a_start a) of Inl _ \<Rightarrow> [] | Inr _ \<Rightarrow> [OutStatusNotification c (idle_of e (reservations s) conn c)]))"
proof (cases "await (a_start a)")
  case (Inl er)
  let ?s = "send_msg (OutStartTransaction c tag (meter conn) (if r > 0 then Some r else None)) s"
  have "map_of (connectors ?s) c = Some conn" using assms by simp
  from fail_start_effect [OF this, of e "''StartTransaction''" "''Error''" "error_text er"]
  show ?thesis using Inl assms by (auto simp: started_def numeral_3_eq_3 Let_def simp del: map_of_eq_Some_iff)
next
  case (Inr ti)
  obtain tx info where ti: "ti = (tx, info)" by (cases ti)
  let ?s = "send_msg (OutStartTransaction c tag (meter conn) (if r > 0 then Some r else None)) s"
  let ?st = "case info of None \<Rightarrow> '''' | Some i \<Rightarrow> authorization_text i"
  have "map_of (connectors ?s) c = Some conn" using assms by simp
  from start_outcome_effect [OF this, of e r tx ?st] obtain s1 f where
    out: "start_outcome e c r tx ?st ?s = Some (s1, f)" and eff: "sent s1 = sent ?s"
      "if ?st = ''Accepted'' then f = Charging \<and>
         connectors s1 = gm_put c (conn\<lparr>transactionID := tx, status := Charging\<rparr>) (connectors s) \<and>
         reservations s1 = (if r > 0 then gm_del r (reservations s) else reservations s)
       else f = idle_of e (reservations s) conn c \<and>
         connectors s1 = gm_put c (conn\<lparr>status := idle_of e (reservations s) conn c, idTag := ''''\<rparr>) (connectors s) \<and>
         reservations s1 = reservations s"
    by auto
  have st: "started a = (if ?st = ''Accepted'' then Some tx else None)"
    using Inr ti by (simp add: started_def split: option.split)
  have run: "run_begin 3 e a c tag r BeginReadMeter s =
      Some (fst (notifyStatus e a c f (emit e ''outbound'' ''StartTransaction'' ?st (Some c) (itoa tx) s1)), None)"
    using Inr ti assms out by (simp add: numeral_3_eq_3 Let_def del: map_of_eq_Some_iff)
  show ?thesis
    unfolding run using eff st Inr by (cases "?st = ''Accepted''") simp_all
qed

lemma run_begin_more:
  "run_begin n e a c tag r pc s = Some (s', None) \<Longrightarrow> run_begin (Suc n) e a c tag r pc s = Some (s', None)"
proof (induction n arbitrary: pc s)
  case (Suc n)
  show ?case
  proof (cases "beginRemoteTransaction e a c tag r pc s")
    case (Some y)
    obtain t q where "y = (t, q)" by (cases y)
    with Some Suc show ?thesis by (cases q) auto
  qed (use Suc.prems in simp)
qed simp

lemma run_begin_outcome:
  assumes "map_of (connectors s) c = Some conn"
  shows "\<exists>s'. run_begin 6 e a c tag r BeginNotify s = Some (s', None) \<and>
    (case (if authorized a s then started a else None) of
       Some tx \<Rightarrow>
         connectors s' = gm_put c (conn\<lparr>transactionID := tx, status := Charging\<rparr>) (connectors s) \<and>
         reservations s' = (if r > 0 then gm_del r (reservations s) else reservations s) \<and>
         sent s' = sent s @ start_messages a s c tag r (meter conn) @ [OutStatusNotification c Charging]
     | None \<Rightarrow>
         connectors s' = gm_put c (conn\<lparr>status := idle_of e (reservations s) conn c, idTag := ''''\<rparr>) (connectors s) \<and>
         reservations s' = reservations s \<and>
         (\<exists>rest. sent s' = sent s @ start_messages a s c tag r (meter conn) @ rest \<and>
           set rest \<subseteq> {OutStatusNotification c (idle_of e (reservations s) conn c)}))"
proof -
  define s1 where "s1 = fst (notifyStatus e a c Preparing s)"
  have cfg1: "configurationBoolLocked s1 k = configurationBoolLocked s k" for k
    by (rule configurationBool_cong) (simp add: s1_def)
  have to_config: "run_begin 6 e a c tag r BeginNotify s = run_begin 4 e a c tag r
      (if configurationBoolLocked s ''AuthorizeRemoteTxRequests'' then BeginAuthorize else BeginReadMeter) s1"
    using cfg1 by (simp add: eval_nat_numeral s1_def)
  have more: "run_begin 3 e a c tag r pc t = Some (t', None) \<Longrightarrow> run_begin 4 e a c tag r pc t = Some (t', None)" for pc t t'
    using run_begin_more [of 3] by simp
  show ?thesis
  proof (cases "configurationBoolLocked s ''AuthorizeRemoteTxRequests''")
    case False
    have "map_of (connectors s1) c = Some conn" using assms by (simp add: s1_def del: map_of_eq_Some_iff)
    from run_begin_start [OF this, of e a tag r] show ?thesis
      using False to_config more
      by (fastforce simp: s1_def authorized_def start_messages_def split: option.splits sum.splits simp del: map_of_eq_Some_iff)
  next
    case True
    let ?s2 = "send_msg (OutAuthorize tag) s1"
    have c2: "map_of (connectors ?s2) c = Some conn" using assms by (simp add: s1_def del: map_of_eq_Some_iff)
    show ?thesis
    proof (cases "authorized a s")
      case auth: True
      with True obtain i where i: "await (a_authorize a) = Inr (Some i)" "authorization_text i = ''Accepted''"
        by (auto simp: authorized_def)
      let ?s3 = "emit e ''outbound'' ''Authorize'' ''Accepted'' (Some c) tag ?s2"
      have "run_begin 6 e a c tag r BeginNotify s = run_begin 3 e a c tag r BeginReadMeter ?s3"
        using to_config True i by (simp add: eval_nat_numeral)
      moreover have "map_of (connectors ?s3) c = Some conn" using c2 by simp
      ultimately show ?thesis
        using run_begin_start [of ?s3 c conn e a tag r] auth True
        by (fastforce simp: s1_def start_messages_def split: option.splits sum.splits simp del: map_of_eq_Some_iff)
    next
      case False
      then have "\<exists>act st d. beginRemoteTransaction e a c tag r BeginAuthorize s1 = fail_start e c act st d ?s2"
        using True by (auto simp: authorized_def Let_def split: sum.split option.splits)
      then obtain act st d where "beginRemoteTransaction e a c tag r BeginAuthorize s1 = fail_start e c act st d ?s2" by blast
      then show ?thesis
        using fail_start_effect [OF c2, of e act st d] to_config True False
        by (auto simp: eval_nat_numeral s1_def start_messages_def simp del: map_of_eq_Some_iff beginRemoteTransaction.simps)
    qed
  qed
qed

text \<open>
  C3: the starting goroutine, undisturbed, always ends. It sends the \<open>Preparing\<close> status, the
  authorization when the configuration asks for one, and \<open>StartTransaction\<close> with the meter
  reading only when authorized. If the central system accepts, the connector charges under the
  transaction number it assigned and the reservation used is gone; in every other case the
  connector is idle again without a tag and no reservation is lost. No other connector changes.
\<close>

theorem begin_transaction_outcome:
  assumes "map_of (connectors s) c = Some conn"
  shows "\<exists>s'. run_begin 6 e a c tag r BeginNotify s = Some (s', None) \<and>
    (case (if authorized a s then started a else None) of
       Some tx \<Rightarrow>
         connectors s' = gm_put c (conn\<lparr>transactionID := tx, status := Charging\<rparr>) (connectors s) \<and>
         reservations s' = (if r > 0 then gm_del r (reservations s) else reservations s) \<and>
         sent s' = sent s @ start_messages a s c tag r (meter conn) @ [OutStatusNotification c Charging]
     | None \<Rightarrow>
         connectors s' = gm_put c (conn\<lparr>status := idle_of e (reservations s) conn c, idTag := ''''\<rparr>) (connectors s) \<and>
         reservations s' = reservations s \<and>
         (\<exists>rest. sent s' = sent s @ start_messages a s c tag r (meter conn) @ rest \<and>
           set rest \<subseteq> {OutStatusNotification c (idle_of e (reservations s) conn c)}))"
  using assms by (rule run_begin_outcome)

text \<open>A central system that answers every call and accepts the transaction under the given number.\<close>

definition accepting :: "go_int \<Rightarrow> answers" where
  "accepting tx = \<lparr>a_boot = Answered (Inr \<lparr>bc_status = RegAccepted, bc_interval = 60, bc_current_time = Some 0\<rparr>),
     a_heartbeat = Answered (Inr (Some 0)), a_status = \<lambda>_. Answered (Inr ()), a_meter = \<lambda>_. Answered (Inr ()),
     a_authorize = Answered (Inr (Some AuthAccepted)), a_start = Answered (Inr (tx, Some AuthAccepted)),
     a_stop = Answered (Inr None), a_report = Answered (Inr ()), a_csr = Inr ''CSR'', a_sign = Answered (Inr ''Accepted''), a_wait = True\<rparr>"

lemma accepting_simps [simp]:
  "authorized (accepting tx) s" "started (accepting tx) = Some tx" "await (a_stop (accepting tx)) = Inr None"
  by (simp_all add: authorized_def started_def accepting_def)

theorem begin_transaction_outcome_witness:
  "\<exists>s'. run_begin 6 (list_env 5 True) (accepting 77) 2 ''TAG'' 0 BeginNotify test_station = Some (s', None) \<and>
     map_option transactionID (map_of (connectors s') 2) = Some 77"
  using begin_transaction_outcome [of test_station 2 "fresh_connector 1000" "list_env 5 True" "accepting 77" "''TAG''" 0]
  by (auto simp del: run_begin.simps)

section \<open>Remote stop and the finishing goroutine\<close>

lemma find_transaction_Some:
  "find_transaction tx cs = Some i \<Longrightarrow> \<exists>c. (i, c) \<in> set cs \<and> transactionID c = tx"
  by (induction cs) (auto split: if_splits)

lemma find_transaction_None: "find_transaction tx cs = None \<longleftrightarrow> (\<forall>(i, c) \<in> set cs. transactionID c \<noteq> tx)"
  by (induction cs) (auto split: if_splits)

lemma remote_stop_outcome:
  assumes "sim_wf s" "env_ok e" "OnRemoteStopTransaction e s tx = Some (s', st)"
  shows "(st = RemoteAccepted \<longleftrightarrow> (\<exists>i c. map_of (connectors s) i = Some c \<and> transactionID c = tx)) \<and>
    (st = RemoteAccepted \<longrightarrow> (\<exists>i c. map_of (connectors s) i = Some c \<and> transactionID c = tx \<and>
       connectors s' = gm_put i (c\<lparr>status := Finishing\<rparr>) (connectors s) \<and>
       goroutines s' = goroutines s @ [GoFinish i tx FinishNotify])) \<and>
    (st = RemoteRejected \<longrightarrow> connectors s' = connectors s \<and> goroutines s' = goroutines s) \<and>
    reservations s' = reservations s \<and> sent s' = sent s"
proof -
  let ?cs = "gm_range (range_order e 7 0) (connectors s)"
  have ok: "gm_ok (connectors s)" using assms(1) by (simp add: sim_wf_def connectors_ok_def)
  have set: "set ?cs = set (connectors s)" using ok assms(2) by simp
  have look: "(i, c) \<in> set ?cs \<longleftrightarrow> map_of (connectors s) i = Some c" for i c
    unfolding set using ok by simp
  show ?thesis
  proof (cases "find_transaction tx ?cs")
    case None
    then have "\<not> (\<exists>i c. map_of (connectors s) i = Some c \<and> transactionID c = tx)"
      unfolding find_transaction_None using look by blast
    with assms(3) None show ?thesis by (auto simp: OnRemoteStopTransaction_def)
  next
    case (Some i)
    then obtain c where c: "map_of (connectors s) i = Some c" "transactionID c = tx"
      using find_transaction_Some look by metis
    with assms(3) Some have "st = RemoteAccepted" "connectors s' = gm_put i (c\<lparr>status := Finishing\<rparr>) (connectors s)"
      "goroutines s' = goroutines s @ [GoFinish i tx FinishNotify]" "reservations s' = reservations s" "sent s' = sent s"
      by (auto simp: OnRemoteStopTransaction_def set_status_def write_connector_def Let_def simp del: map_of_eq_Some_iff)
    with c show ?thesis by blast
  qed
qed

text \<open>
  C18: a remote stop is accepted exactly when some connector carries the transaction number of
  the request; then one such connector, and nothing else, goes to \<open>Finishing\<close> and one
  goroutine is started to finish it.
\<close>

theorem remote_stop_effect:
  assumes "sim_wf s" "env_ok e" "OnRemoteStopTransaction e s tx = Some (s', st)"
  shows "(st = RemoteAccepted \<longleftrightarrow> (\<exists>i c. map_of (connectors s) i = Some c \<and> transactionID c = tx)) \<and>
    (st = RemoteAccepted \<longrightarrow> (\<exists>i c. map_of (connectors s) i = Some c \<and> transactionID c = tx \<and>
       connectors s' = gm_put i (c\<lparr>status := Finishing\<rparr>) (connectors s) \<and>
       goroutines s' = goroutines s @ [GoFinish i tx FinishNotify])) \<and>
    (st = RemoteRejected \<longrightarrow> connectors s' = connectors s \<and> goroutines s' = goroutines s) \<and>
    reservations s' = reservations s \<and> sent s' = sent s"
  using assms by (rule remote_stop_outcome)

text \<open>Transaction number zero is the mark of an idle connector, and a remote stop for it is accepted.\<close>

theorem remote_stop_effect_witness:
  "\<exists>s' i. OnRemoteStopTransaction (list_env 1 True) test_station 0 = Some (s', RemoteAccepted) \<and>
     map_option status (map_of (connectors s') i) = Some Finishing"
proof -
  obtain s' st where run: "OnRemoteStopTransaction (list_env 1 True) test_station 0 = Some (s', st)"
    using OnRemoteStopTransaction_wf [OF test_station_wf list_env_ok, of 1 True 0] by (auto simp: keeps_def)
  have idle: "\<exists>i c. map_of (connectors test_station) i = Some c \<and> transactionID c = 0"
    by (intro exI [of _ 1] exI [of _ "fresh_connector 1000"]) (simp add: fresh_connector_def)
  note effect = remote_stop_effect [OF test_station_wf list_env_ok run]
  from effect idle have acc: "st = RemoteAccepted" by blast
  with effect obtain i c where "connectors s' = gm_put i (c\<lparr>status := Finishing\<rparr>) (connectors test_station)" by blast
  then have "map_option status (map_of (connectors s') i) = Some Finishing" by simp
  with run acc show ?thesis by blast
qed

fun run_finish ::
  "nat \<Rightarrow> env \<Rightarrow> answers \<Rightarrow> go_int \<Rightarrow> go_int \<Rightarrow> finish_pc \<Rightarrow> simulator \<Rightarrow> (simulator \<times> finish_pc option) option" where
  "run_finish 0 e a c tx pc s = Some (s, Some pc)"
| "run_finish (Suc n) e a c tx pc s = (case finishRemoteTransaction e a c tx pc s of
     None \<Rightarrow> None
   | Some (s', None) \<Rightarrow> Some (s', None)
   | Some (s', Some pc') \<Rightarrow> run_finish n e a c tx pc' s')"

lemma run_finish_outcome:
  assumes "map_of (connectors s) c = Some conn"
  shows "\<exists>s'. run_finish 4 e a c tx FinishNotify s = Some (s', None) \<and> reservations s' = reservations s \<and>
    (case await (a_stop a) of
       Inr _ \<Rightarrow>
         connectors s' = gm_put c (reset_connector e (reservations s) c conn) (connectors s) \<and>
         sent s' = sent s @ [OutStatusNotification c Finishing, OutStopTransaction (meter conn) tx (idTag conn) ''Remote'',
           OutStatusNotification c (idle_of e (reservations s) conn c)]
     | Inl _ \<Rightarrow>
         connectors s' = connectors s \<and>
         sent s' = sent s @ [OutStatusNotification c Finishing, OutStopTransaction (meter conn) tx (idTag conn) ''Remote''])"
  using assms
  by (auto simp: eval_nat_numeral Let_def write_connector_def make_idle_eq split: sum.splits
      simp del: map_of_eq_Some_iff)

text \<open>
  C4: the finishing goroutine, undisturbed, always ends. It sends the \<open>Finishing\<close> status and
  \<open>StopTransaction\<close> with the meter reading and the tag of the connector; an answer makes the
  connector idle and announces it, an error leaves the connector as it was, transaction included.
\<close>

theorem finish_transaction_outcome:
  assumes "map_of (connectors s) c = Some conn"
  shows "\<exists>s'. run_finish 4 e a c tx FinishNotify s = Some (s', None) \<and> reservations s' = reservations s \<and>
    (case await (a_stop a) of
       Inr _ \<Rightarrow>
         connectors s' = gm_put c (reset_connector e (reservations s) c conn) (connectors s) \<and>
         sent s' = sent s @ [OutStatusNotification c Finishing, OutStopTransaction (meter conn) tx (idTag conn) ''Remote'',
           OutStatusNotification c (idle_of e (reservations s) conn c)]
     | Inl _ \<Rightarrow>
         connectors s' = connectors s \<and>
         sent s' = sent s @ [OutStatusNotification c Finishing, OutStopTransaction (meter conn) tx (idTag conn) ''Remote''])"
  using assms by (rule run_finish_outcome)

theorem finish_transaction_outcome_witness:
  "\<exists>s'. run_finish 4 (list_env 5 True) ((accepting 77)\<lparr>a_stop := ContextDone Canceled\<rparr>) 2 77 FinishNotify test_station = Some (s', None) \<and>
     connectors s' = connectors test_station"
  using finish_transaction_outcome [of test_station 2 "fresh_connector 1000" "list_env 5 True"
      "(accepting 77)\<lparr>a_stop := ContextDone Canceled\<rparr>" 77]
  by (auto simp del: run_finish.simps)

section \<open>From remote start to remote stop\<close>

lemma run_begin_wf:
  "sim_wf s \<Longrightarrow> connector_id (Connectors (opts s)) c \<Longrightarrow> keeps fst s (run_begin n e a c tag r pc s)"
proof (induction n arbitrary: pc s)
  case (Suc n)
  obtain s' q where step: "beginRemoteTransaction e a c tag r pc s = Some (s', q)" "sim_wf s'" "opts s' = opts s"
    using beginRemoteTransaction_wf [OF Suc.prems, of e a tag r pc] by (auto simp: keeps_def)
  show ?case
  proof (cases q)
    case (Some pc')
    have "keeps fst s' (run_begin n e a c tag r pc' s')" using Suc.IH [of s' pc'] Suc.prems step by simp
    then have "keeps fst s (run_begin n e a c tag r pc' s')" by (rule keeps_same_opts) (simp add: step)
    with step Some show ?thesis by simp
  qed (use step in simp)
qed simp

text \<open>
  C2: a remote start on a connector, the starting goroutine, a remote stop for the number the
  central system gave (not zero and in use nowhere else) and the finishing goroutine, all
  answered, leave the connector idle, without tag and transaction and with its meter unchanged;
  what was sent is exactly the announcements, one start and one stop for that transaction.
\<close>

theorem transaction_round_trip:
  assumes wf: "sim_wf s" and env: "env_ok e"
    and start: "OnRemoteStartTransaction e s (Some c) tag p = Some (s1, RemoteAccepted)"
    and go: "last (goroutines s1) = GoBegin c tag rid BeginNotify"
    and answers: "authorized a s1" "started a = Some tx" "await (a_stop a) = Inr info"
    and fresh: "tx \<noteq> 0" "\<forall>j d. map_of (connectors s) j = Some d \<longrightarrow> transactionID d \<noteq> tx"
    and run1: "run_begin 6 e a c tag rid BeginNotify s1 = Some (s2, None)"
    and stop: "OnRemoteStopTransaction e s2 tx = Some (s3, st)"
    and run2: "run_finish 4 e a c tx FinishNotify s3 = Some (s4, None)"
  shows "st = RemoteAccepted \<and> last (goroutines s3) = GoFinish c tx FinishNotify \<and>
    (\<exists>conn. map_of (connectors s) c = Some conn \<and>
      map_of (connectors s4) c = Some (reset_connector e (reservations s4) c conn) \<and>
      (\<forall>j. j \<noteq> c \<longrightarrow> map_of (connectors s4) j = map_of (connectors s) j) \<and>
      reservations s4 = (if rid > 0 then gm_del rid (reservations s) else reservations s) \<and>
      sent s4 = sent s @ start_messages a s1 c tag rid (meter conn) @
        [OutStatusNotification c Charging, OutStatusNotification c Finishing,
         OutStopTransaction (meter conn) tx tag ''Remote'',
         OutStatusNotification c (idle_of e (reservations s4) conn c)])"
proof -
  obtain conn where c: "map_of (connectors s) c = Some conn"
    and s1: "connectors s1 = gm_put c (conn\<lparr>status := Preparing, idTag := tag\<rparr>) (connectors s)"
      "reservations s1 = reservations s" "sent s1 = sent s" "opts s1 = opts s"
    using OnRemoteStart_accepted [OF start] by (metis (no_types, lifting) option.distinct(1) option.inject)
  let ?c1 = "conn\<lparr>status := Preparing, idTag := tag\<rparr>"
  let ?c2 = "?c1\<lparr>transactionID := tx, status := Charging\<rparr>"
  have "map_of (connectors s1) c = Some ?c1" using s1 by simp
  from run_begin_outcome [OF this, of e a tag rid] answers run1 s1
  have s2: "connectors s2 = gm_put c ?c2 (connectors s)"
    "reservations s2 = (if rid > 0 then gm_del rid (reservations s) else reservations s)"
    "sent s2 = sent s @ start_messages a s1 c tag rid (meter conn) @ [OutStatusNotification c Charging]"
    by simp_all
  have wf1: "sim_wf s1" using OnRemoteStartTransaction_wf [OF wf, of e "Some c" tag p] start by (simp add: keeps_def)
  have wf2: "sim_wf s2"
    using run_begin_wf [OF wf1, of c 6 e a tag rid BeginNotify] wf_connectorD [OF wf c] s1(4) run1 by (simp add: keeps_def)
  have only: "map_of (connectors s2) j = Some d \<Longrightarrow> transactionID d = tx \<Longrightarrow> j = c" for j d
    using fresh(2) s2(1) by (auto simp del: map_of_eq_Some_iff split: if_splits)
  have c2: "map_of (connectors s2) c = Some ?c2" using s2(1) by simp
  note eff = remote_stop_outcome [OF wf2 env stop]
  from eff c2 have st: "st = RemoteAccepted" by fastforce
  with eff only c2 have s3: "connectors s3 = gm_put c (?c2\<lparr>status := Finishing\<rparr>) (connectors s2)"
    "goroutines s3 = goroutines s2 @ [GoFinish c tx FinishNotify]" "reservations s3 = reservations s2" "sent s3 = sent s2"
    by (metis option.inject)+
  let ?c3 = "?c2\<lparr>status := Finishing\<rparr>"
  have c3: "map_of (connectors s3) c = Some ?c3" using s3(1) by simp
  from run_finish_outcome [OF c3, of e a tx] run2 answers(3)
  have s4: "connectors s4 = gm_put c (reset_connector e (reservations s3) c ?c3) (connectors s3)"
    "reservations s4 = reservations s3"
    "sent s4 = sent s3 @ [OutStatusNotification c Finishing, OutStopTransaction (meter conn) tx tag ''Remote'',
       OutStatusNotification c (idle_of e (reservations s3) conn c)]"
    by simp_all
  have "map_of (connectors s4) c = Some (reset_connector e (reservations s4) c conn)" using s4 by simp
  moreover have "\<forall>j. j \<noteq> c \<longrightarrow> map_of (connectors s4) j = map_of (connectors s) j"
    using s4 s3 s2 by (simp del: map_of_eq_Some_iff)
  moreover have "sent s4 = sent s @ start_messages a s1 c tag rid (meter conn) @
        [OutStatusNotification c Charging, OutStatusNotification c Finishing,
         OutStopTransaction (meter conn) tx tag ''Remote'',
         OutStatusNotification c (idle_of e (reservations s4) conn c)]"
    using s4 s3 s2 by simp
  moreover have "reservations s4 = (if rid > 0 then gm_del rid (reservations s) else reservations s)"
    using s4 s3 s2 by simp
  ultimately show ?thesis using st s3(2) c by auto
qed

theorem transaction_round_trip_witness:
  "\<exists>s1 s2 s3 s4. OnRemoteStartTransaction (list_env 5 True) test_station (Some 2) ''TAG'' None = Some (s1, RemoteAccepted) \<and>
     run_begin 6 (list_env 5 True) (accepting 77) 2 ''TAG'' 0 BeginNotify s1 = Some (s2, None) \<and>
     OnRemoteStopTransaction (list_env 5 True) s2 77 = Some (s3, RemoteAccepted) \<and>
     run_finish 4 (list_env 5 True) (accepting 77) 2 77 FinishNotify s3 = Some (s4, None) \<and>
     map_option status (map_of (connectors s4) 2) = Some Available"
proof -
  let ?e = "list_env 5 True"
  define s1 where "s1 = fst (the (OnRemoteStartTransaction ?e test_station (Some 2) ''TAG'' None))"
  define s2 where "s2 = fst (the (run_begin 6 ?e (accepting 77) 2 ''TAG'' 0 BeginNotify s1))"
  define s3 where "s3 = fst (the (OnRemoteStopTransaction ?e s2 77))"
  define s4 where "s4 = fst (the (run_finish 4 ?e (accepting 77) 2 77 FinishNotify s3))"
  have run: "OnRemoteStartTransaction ?e test_station (Some 2) ''TAG'' None = Some (s1, RemoteAccepted)"
    "last (goroutines s1) = GoBegin 2 ''TAG'' 0 BeginNotify"
    "run_begin 6 ?e (accepting 77) 2 ''TAG'' 0 BeginNotify s1 = Some (s2, None)"
    "OnRemoteStopTransaction ?e s2 77 = Some (s3, RemoteAccepted)"
    "run_finish 4 ?e (accepting 77) 2 77 FinishNotify s3 = Some (s4, None)"
    unfolding s1_def s2_def s3_def s4_def by code_simp+
  have "\<forall>j d. map_of (connectors test_station) j = Some d \<longrightarrow> transactionID d \<noteq> 77"
    by (auto simp: fresh_connector_def)
  note trip = transaction_round_trip [OF test_station_wf list_env_ok run(1,2) accepting_simps(1,2) _ _ this run(3,4) run(5)]
  have "map_option status (map_of (connectors s4) 2) = Some Available"
    using trip by (auto simp: fresh_connector_def idle_of_def)
  with run show ?thesis by blast
qed

section \<open>Boot and tickers\<close>

lemma send_statuses_sent:
  "snd (send_statuses e a ids s) = None \<Longrightarrow>
     sent (fst (send_statuses e a ids s)) = sent s @ map (\<lambda>i. OutStatusNotification i Available) ids"
proof (induction ids arbitrary: s)
  case (Cons i ids)
  obtain s1 r where r: "notifyStatus e a i Available s = (s1, r)" by fastforce
  then have "sent s1 = sent s @ [OutStatusNotification i Available]"
    using notifyStatus_frame(7) [of e a i Available s] by simp
  with Cons r show ?case by (cases r) auto
qed simp



text \<open>
  With no interval configured the heartbeat period is the boot interval in seconds, for
  every interval a 64-bit duration can hold; the smallest positive interval beyond that wraps to
  a negative duration and there are no heartbeats at all.
\<close>

lemma heartbeat_interval_bounds:
  assumes "HeartbeatInterval (opts s) = 0" "bc_interval b > 0"
  shows "(bc_interval b \<le> 9223372036 \<longrightarrow>
      optionalTicker (heartbeat_interval s b) = Some (bc_interval b * second)) \<and>
    (bc_interval b = 9223372037 \<longrightarrow> optionalTicker (heartbeat_interval s b) = None)"
proof (intro conjI impI)
  assume "bc_interval b \<le> 9223372036"
  with assms have "in_int64 (bc_interval b * second)" by (simp add: in_int64_def)
  with assms show "optionalTicker (heartbeat_interval s b) = Some (bc_interval b * second)"
    by (simp add: heartbeat_interval_def optionalTicker_def)
next
  assume "bc_interval b = 9223372037"
  with assms show "optionalTicker (heartbeat_interval s b) = None"
    by (simp add: heartbeat_interval_def optionalTicker_def wrap64_overflow)
qed

end
