(* ===== verification/LocalAuth.thy ===== *)
theory LocalAuth
  imports Invariants
begin

text \<open>
  The local authorization list (\<open>OnGetLocalListVersion\<close> and \<open>OnSendLocalList\<close> of
  internal/ocppclient/simulator_optional_profiles.go): full and differential updates, the check
  for repeated tags, and the version.
\<close>

section \<open>Model\<close>

datatype update_type = UpdateFull | UpdateDifferential | OtherUpdate string

fun update_type_text :: "update_type \<Rightarrow> string" where
  "update_type_text UpdateFull = ''Full''"
| "update_type_text UpdateDifferential = ''Differential''"
| "update_type_text (OtherUpdate t) = t"

datatype update_status = UpdateAccepted | UpdateFailed | UpdateVersionMismatch

fun update_status_text :: "update_status \<Rightarrow> string" where
  "update_status_text UpdateAccepted = ''Accepted''"
| "update_status_text UpdateFailed = ''Failed''"
| "update_status_text UpdateVersionMismatch = ''VersionMismatch''"

type_synonym authorization_entry = "string \<times> id_tag_info option"

definition OnGetLocalListVersion :: "env \<Rightarrow> simulator \<Rightarrow> simulator \<times> go_int" where
  "OnGetLocalListVersion e s =
     (emit e ''inbound'' ''GetLocalListVersion'' ''Accepted'' None (itoa (localAuthListVersion s)) s,
      localAuthListVersion s)"

fun check_entries :: "authorization_entry list \<Rightarrow> string list \<Rightarrow> update_status" where
  "check_entries [] seen = UpdateAccepted"
| "check_entries ((tag, info) # entries) seen =
     (if tag \<in> set seen then UpdateFailed else check_entries entries (tag # seen))"

fun apply_entries :: "authorization_entry list \<Rightarrow> (string \<times> id_tag_info) list \<Rightarrow> (string \<times> id_tag_info) list" where
  "apply_entries [] auth = auth"
| "apply_entries ((tag, None) # entries) auth = apply_entries entries (gm_del tag auth)"
| "apply_entries ((tag, Some info) # entries) auth = apply_entries entries (gm_put tag info auth)"

definition OnSendLocalList ::
  "env \<Rightarrow> simulator \<Rightarrow> go_int \<Rightarrow> update_type \<Rightarrow> authorization_entry list \<Rightarrow> simulator \<times> update_status" where
  "OnSendLocalList e s version ty entries =
     (let st = (if version \<le> localAuthListVersion s then UpdateVersionMismatch else check_entries entries []);
          s1 = (if st = UpdateAccepted then
                  s\<lparr>localAuthList := apply_entries entries
                      (if update_type_text ty = update_type_text UpdateFull then [] else localAuthList s),
                    localAuthListVersion := version\<rparr>
                else s);
          detail = ''version='' @ itoa version @ '' type='' @ update_type_text ty @ '' entries='' @
            itoa (int (length (localAuthList s1))) in
      (emit e ''inbound'' ''SendLocalList'' (update_status_text st) None detail s1, st))"

section \<open>What it guarantees\<close>

lemma check_entries_iff:
  "check_entries entries seen = UpdateAccepted \<longleftrightarrow> distinct (map fst entries) \<and> set seen \<inter> fst ` set entries = {}"
  by (induction entries seen rule: check_entries.induct) auto

lemma check_entries_range: "check_entries entries seen \<in> {UpdateAccepted, UpdateFailed}"
  by (induction entries seen rule: check_entries.induct) auto

lemma apply_entries_ok: "gm_ok auth \<Longrightarrow> gm_ok (apply_entries entries auth)"
  by (induction entries auth rule: apply_entries.induct) auto

text \<open>The abstract list is a partial map; an update without repeated tags overrides it.\<close>

definition abs_update :: "authorization_entry list \<Rightarrow> (string \<rightharpoonup> id_tag_info) \<Rightarrow> string \<rightharpoonup> id_tag_info" where
  "abs_update entries m tag = (case map_of entries tag of None \<Rightarrow> m tag | Some info \<Rightarrow> info)"

lemma apply_entries_refines:
  "distinct (map fst entries) \<Longrightarrow> map_of (apply_entries entries auth) = abs_update entries (map_of auth)"
proof (induction entries auth rule: apply_entries.induct)
  case (2 tag entries auth)
  then have "map_of entries tag = None" by (simp add: map_of_eq_None_iff)
  with 2 show ?case by (simp add: abs_update_def fun_eq_iff)
next
  case (3 tag info entries auth)
  then have "map_of entries tag = None" by (simp add: map_of_eq_None_iff)
  with 3 show ?case by (simp add: abs_update_def fun_eq_iff)
qed (simp add: abs_update_def fun_eq_iff)

lemma OnSendLocalList_wf [wf_intros]:
  "sim_wf s \<Longrightarrow> sim_wf (fst (OnSendLocalList e s v ty es)) \<and> opts (fst (OnSendLocalList e s v ty es)) = opts s"
  unfolding OnSendLocalList_def Let_def fst_conv emit_wf by (auto simp: sim_wf_def apply_entries_ok)

lemma OnGetLocalListVersion_wf [wf_intros]:
  "sim_wf s \<Longrightarrow> sim_wf (fst (OnGetLocalListVersion e s)) \<and> opts (fst (OnGetLocalListVersion e s)) = opts s"
  by (simp add: OnGetLocalListVersion_def)

text \<open>
  C24: \<open>SendLocalList\<close> refines the update of a partial map. It is accepted exactly for a higher
  version without repeated tags; then the version is the one sent and the list is the request
  applied to the empty list (full) or to the current one (differential), a tag without
  information being removed. Otherwise list and version are as before, so the version never falls.
\<close>

theorem local_list_refines:
  "case OnSendLocalList e s v ty entries of (s', st) \<Rightarrow>
     (st = UpdateAccepted) = (localAuthListVersion s < v \<and> distinct (map fst entries)) \<and>
     (st = UpdateVersionMismatch) = (v \<le> localAuthListVersion s) \<and>
     localAuthListVersion s' = (if st = UpdateAccepted then v else localAuthListVersion s) \<and>
     map_of (localAuthList s') =
       (if st = UpdateAccepted
        then abs_update entries (if update_type_text ty = ''Full'' then Map.empty else map_of (localAuthList s))
        else map_of (localAuthList s)) \<and>
     localAuthListVersion s \<le> localAuthListVersion s'"
proof -
  have "check_entries entries [] = (if distinct (map fst entries) then UpdateAccepted else UpdateFailed)"
    using check_entries_range [of entries "[]"] check_entries_iff [of entries "[]"] by auto
  then show ?thesis
    by (auto simp: OnSendLocalList_def Let_def apply_entries_refines)
qed

end
