(* ===== verification/SmartCharging.thy ===== *)
theory SmartCharging
  imports Invariants
begin

text \<open>
  The smart charging profile (internal/ocppclient/simulator_optional_profiles.go): setting and
  clearing charging profiles, the profile that is active on a connector, and the composite
  schedule.
\<close>

section \<open>Setting and clearing\<close>

datatype profile_status = ProfileAccepted | ProfileRejected

fun profile_status_text :: "profile_status \<Rightarrow> string" where
  "profile_status_text ProfileAccepted = ''Accepted''"
| "profile_status_text ProfileRejected = ''Rejected''"

definition OnSetChargingProfile ::
  "env \<Rightarrow> simulator \<Rightarrow> go_int \<Rightarrow> charging_profile option \<Rightarrow> simulator \<times> profile_status" where
  "OnSetChargingProfile e s connectorID profile =
     (let st = (case profile of
            None \<Rightarrow> ProfileRejected
          | Some p \<Rightarrow> if connectorID > 0 \<and> map_of (connectors s) connectorID = None then ProfileRejected else ProfileAccepted);
          s1 = (case profile of
            Some p \<Rightarrow> if st = ProfileAccepted then
                s\<lparr>chargingProfiles := gm_put (cp_id p) \<lparr>sp_connectorID = connectorID, sp_profile = Some p\<rparr> (chargingProfiles s)\<rparr>
              else s
          | None \<Rightarrow> s);
          detail = (case profile of None \<Rightarrow> ''''
          | Some p \<Rightarrow> ''id='' @ itoa (cp_id p) @ '' stack='' @ itoa (cp_stack p) @ '' purpose='' @ purpose_text (cp_purpose p)) in
      (emit e ''inbound'' ''SetChargingProfile'' (profile_status_text st) (Some connectorID) detail s1, st))"

record clear_profile_request =
  cl_id :: "go_int option"
  cl_connector :: "go_int option"
  cl_purpose :: profile_purpose
  cl_stack :: "go_int option"

text \<open>A stored entry without a profile would be dereferenced: the outer \<^term>\<open>None\<close>.\<close>

definition chargingProfileMatchesClear :: "go_int \<Rightarrow> stored_profile \<Rightarrow> clear_profile_request \<Rightarrow> bool option" where
  "chargingProfileMatchesClear profileID stored request =
     (if (case cl_id request of None \<Rightarrow> False | Some i \<Rightarrow> profileID \<noteq> i) then Some False
      else if (case cl_connector request of None \<Rightarrow> False | Some c \<Rightarrow> sp_connectorID stored \<noteq> c) then Some False
      else do {
        stackDiffers \<leftarrow> (case cl_stack request of None \<Rightarrow> Some False
          | Some n \<Rightarrow> do { p \<leftarrow> sp_profile stored; Some (cp_stack p \<noteq> n) });
        (if stackDiffers then Some False
         else if purpose_text (cl_purpose request) = '''' then Some True
         else do { p \<leftarrow> sp_profile stored; Some (purpose_text (cp_purpose p) = purpose_text (cl_purpose request)) }) })"

fun clear_loop ::
  "clear_profile_request \<Rightarrow> (go_int \<times> stored_profile) list \<Rightarrow> (go_int \<times> stored_profile) list \<Rightarrow> go_int \<Rightarrow>
     ((go_int \<times> stored_profile) list \<times> go_int) option" where
  "clear_loop request [] stock removed = Some (stock, removed)"
| "clear_loop request ((i, stored) # rest) stock removed = do {
     hit \<leftarrow> chargingProfileMatchesClear i stored request;
     (if hit then clear_loop request rest (gm_del i stock) (removed + 1)
      else clear_loop request rest stock removed) }"

datatype clear_status = ClearAccepted | ClearUnknown

fun clear_status_text :: "clear_status \<Rightarrow> string" where
  "clear_status_text ClearAccepted = ''Accepted''"
| "clear_status_text ClearUnknown = ''Unknown''"

definition OnClearChargingProfile ::
  "env \<Rightarrow> simulator \<Rightarrow> clear_profile_request \<Rightarrow> (simulator \<times> clear_status) option" where
  "OnClearChargingProfile e s request = do {
     (stock, removed) \<leftarrow> clear_loop request
        (gm_range (range_order e 10 0) (chargingProfiles s)) (chargingProfiles s) 0;
     let st = (if removed > 0 then ClearAccepted else ClearUnknown);
     Some (emit e ''inbound'' ''ClearChargingProfile'' (clear_status_text st) (cl_connector request)
        (''removed='' @ itoa removed) (s\<lparr>chargingProfiles := stock\<rparr>), st) }"

section \<open>The active profile\<close>

definition profile_applies :: "env \<Rightarrow> simulator \<Rightarrow> go_int \<Rightarrow> stored_profile \<Rightarrow> bool" where
  "profile_applies e s connectorID stored = (case sp_profile stored of
     None \<Rightarrow> False
   | Some p \<Rightarrow>
      if sp_connectorID stored \<noteq> 0 \<and> sp_connectorID stored \<noteq> connectorID then False
      else if (case cp_valid_from p of None \<Rightarrow> False | Some t \<Rightarrow> now e < t) then False
      else if (case cp_valid_to p of None \<Rightarrow> False | Some t \<Rightarrow> \<not> now e < t) then False
      else if purpose_text (cp_purpose p) = purpose_text TxProfile \<and> connectorID > 0 then
        (case map_of (connectors s) connectorID of
           None \<Rightarrow> False
         | Some c \<Rightarrow> \<not> (transactionID c = 0 \<or> (cp_transaction p \<noteq> 0 \<and> cp_transaction p \<noteq> transactionID c)))
      else True)"

fun active_loop ::
  "env \<Rightarrow> simulator \<Rightarrow> go_int \<Rightarrow> (go_int \<times> stored_profile) list \<Rightarrow> charging_profile option \<Rightarrow> charging_profile option" where
  "active_loop e s connectorID [] selected = selected"
| "active_loop e s connectorID ((i, stored) # rest) selected =
     (if \<not> profile_applies e s connectorID stored then active_loop e s connectorID rest selected
      else (case (sp_profile stored, selected) of
          (Some p, Some q) \<Rightarrow> active_loop e s connectorID rest (if cp_stack p > cp_stack q then Some p else Some q)
        | (found, None) \<Rightarrow> active_loop e s connectorID rest found
        | (None, kept) \<Rightarrow> active_loop e s connectorID rest kept))"

definition activeChargingProfileLocked :: "env \<Rightarrow> simulator \<Rightarrow> go_int \<Rightarrow> charging_profile option" where
  "activeChargingProfileLocked e s connectorID =
     active_loop e s connectorID (gm_range (range_order e 9 connectorID) (chargingProfiles s)) None"

section \<open>The composite schedule\<close>

text \<open>The copy has its own duration, minimum rate and periods; values are copied anyway.\<close>

definition cloneChargingSchedule :: "charging_schedule \<Rightarrow> charging_schedule" where
  "cloneChargingSchedule source =
     \<lparr>sc_duration = sc_duration source, sc_start = sc_start source, sc_unit = sc_unit source,
      sc_periods = sc_periods source, sc_min_rate = sc_min_rate source\<rparr>"

datatype composite_status = CompositeAccepted | CompositeRejected

fun composite_status_text :: "composite_status \<Rightarrow> string" where
  "composite_status_text CompositeAccepted = ''Accepted''"
| "composite_status_text CompositeRejected = ''Rejected''"

record composite_answer =
  ca_status :: composite_status
  ca_connector :: "go_int option"
  ca_start :: "time option"
  ca_schedule :: "charging_schedule option"

definition composite_rejected :: composite_answer where
  "composite_rejected = \<lparr>ca_status = CompositeRejected, ca_connector = None, ca_start = None, ca_schedule = None\<rparr>"

definition default_schedule :: "rate_unit \<Rightarrow> charging_schedule" where
  "default_schedule unit = \<lparr>sc_duration = None, sc_start = None, sc_unit = unit,
     sc_periods = [\<lparr>p_start = 0, p_limit = (if unit_text unit = unit_text Watts then 22000 else 32)\<rparr>],
     sc_min_rate = None\<rparr>"

text \<open>The unit the request asks for, amperes by default; then the schedule, or a refusal to convert.\<close>

definition composite_schedule :: "charging_profile option \<Rightarrow> rate_unit \<Rightarrow> charging_schedule option" where
  "composite_schedule profile requested =
     (let unit = (if unit_text requested = '''' then Amperes else requested) in
      case profile of
        None \<Rightarrow> Some (default_schedule unit)
      | Some p \<Rightarrow> (case cp_schedule p of
          None \<Rightarrow> Some (default_schedule unit)
        | Some sc \<Rightarrow>
           if unit_text requested \<noteq> '''' \<and> unit_text (sc_unit sc) \<noteq> unit_text requested then None
           else Some (cloneChargingSchedule sc)))"

definition OnGetCompositeSchedule ::
  "env \<Rightarrow> simulator \<Rightarrow> go_int \<Rightarrow> go_int \<Rightarrow> rate_unit \<Rightarrow> simulator \<times> composite_answer" where
  "OnGetCompositeSchedule e s connectorID duration requested =
     (if connectorID > 0 \<and> map_of (connectors s) connectorID = None then
        (emit e ''inbound'' ''GetCompositeSchedule'' (composite_status_text CompositeRejected) (Some connectorID)
           ''unknown connector'' s, composite_rejected)
      else case composite_schedule (activeChargingProfileLocked e s connectorID) requested of
        None \<Rightarrow> (emit e ''inbound'' ''GetCompositeSchedule'' (composite_status_text CompositeRejected) (Some connectorID)
           ''rate unit conversion not supported'' s, composite_rejected)
      | Some sc \<Rightarrow>
         (emit e ''inbound'' ''GetCompositeSchedule'' (composite_status_text CompositeAccepted) (Some connectorID)
            (''duration='' @ itoa duration @ '' unit='' @ unit_text (sc_unit sc) @ '' periods='' @
              itoa (int (length (sc_periods sc)))) s,
          \<lparr>ca_status = CompositeAccepted, ca_connector = Some connectorID, ca_start = Some (now e),
           ca_schedule = Some (sc\<lparr>sc_duration := Some duration, sc_start := Some (now e)\<rparr>)\<rparr>))"

section \<open>Well-formedness\<close>

lemma OnSetChargingProfile_wf [wf_intros]:
  "sim_wf s \<Longrightarrow> sim_wf (fst (OnSetChargingProfile e s c p)) \<and> opts (fst (OnSetChargingProfile e s c p)) = opts s"
  unfolding OnSetChargingProfile_def Let_def fst_conv emit_wf
  by (cases p) (auto simp: sim_wf_def profiles_ok_put)

lemma matches_total:
  assumes "sp_profile stored = Some p"
  shows "chargingProfileMatchesClear i stored request =
    Some ((cl_id request = None \<or> cl_id request = Some i) \<and>
      (cl_connector request = None \<or> cl_connector request = Some (sp_connectorID stored)) \<and>
      (cl_stack request = None \<or> cl_stack request = Some (cp_stack p)) \<and>
      (purpose_text (cl_purpose request) = '''' \<or> purpose_text (cp_purpose p) = purpose_text (cl_purpose request)))"
proof -
  have given: "(x = None \<or> x = Some y) = (case x of None \<Rightarrow> True | Some z \<Rightarrow> y = z)" for x :: "go_int option" and y
    by (auto split: option.split)
  show ?thesis
    unfolding chargingProfileMatchesClear_def given assms
    by (cases "cl_id request"; cases "cl_connector request"; cases "cl_stack request") simp_all
qed

definition clear_hit :: "clear_profile_request \<Rightarrow> go_int \<Rightarrow> stored_profile \<Rightarrow> bool" where
  "clear_hit request i stored = (chargingProfileMatchesClear i stored request = Some True)"

lemma clear_loop_effect:
  assumes "\<forall>(i, stored) \<in> set xs. sp_profile stored \<noteq> None" "gm_ok xs" "gm_ok ps"
  shows "\<exists>ps' n. clear_loop request xs ps k = Some (ps', n) \<and>
    ps' = filter (\<lambda>(i, stored). \<not> (\<exists>q. (i, q) \<in> set xs \<and> clear_hit request i q)) ps \<and>
    n = k + int (length (filter (\<lambda>(i, q). clear_hit request i q) xs))"
  using assms
proof (induction xs arbitrary: ps k)
  case Nil
  then show ?case by simp
next
  case (Cons x xs)
  obtain i stored where x: "x = (i, stored)" by (cases x)
  with Cons.prems(1) obtain p where "sp_profile stored = Some p" by auto
  then obtain b where b: "chargingProfileMatchesClear i stored request = Some b" using matches_total by blast
  have fresh: "(i, q) \<notin> set xs" for q using Cons.prems(2) x by force
  show ?case
  proof (cases b)
    case True
    have "filter (\<lambda>(j, q). \<not> (\<exists>q. (j, q) \<in> set xs \<and> clear_hit request j q)) (gm_del i ps) =
        filter (\<lambda>(j, q). \<not> (\<exists>q. (j, q) \<in> set (x # xs) \<and> clear_hit request j q)) ps"
      using x b True by (auto simp: AList.delete_eq clear_hit_def split_def intro!: filter_cong)
    with Cons.IH [of "gm_del i ps" "k + 1"] Cons.prems x b True show ?thesis
      by (simp add: clear_hit_def)
  next
    case False
    have "filter (\<lambda>(j, q). \<not> (\<exists>q. (j, q) \<in> set xs \<and> clear_hit request j q)) ps =
        filter (\<lambda>(j, q). \<not> (\<exists>q. (j, q) \<in> set (x # xs) \<and> clear_hit request j q)) ps"
      using x b False by (auto simp: clear_hit_def intro!: filter_cong)
    with Cons.IH [of ps k] Cons.prems x b False show ?thesis by (simp add: clear_hit_def)
  qed
qed

lemma profiles_ok_filter: "profiles_ok ps \<Longrightarrow> profiles_ok (filter P ps)"
proof -
  assume ok: "profiles_ok ps"
  then have d: "gm_ok ps" "gm_ok (filter P ps)" by (auto simp: profiles_ok_def distinct_map_filter)
  then have "map_of (filter P ps) i = Some r \<Longrightarrow> map_of ps i = Some r" for i r by auto
  with ok d show ?thesis unfolding profiles_ok_def by blast
qed

lemma OnClear_effect:
  assumes "sim_wf s" "env_ok e"
  shows "\<exists>s' st. OnClearChargingProfile e s request = Some (s', st) \<and> opts s' = opts s \<and>
    chargingProfiles s' = filter (\<lambda>(i, stored). \<not> clear_hit request i stored) (chargingProfiles s) \<and>
    (st = ClearAccepted \<longleftrightarrow> (\<exists>(i, stored) \<in> set (chargingProfiles s). clear_hit request i stored)) \<and> sim_wf s'"
proof -
  let ?xs = "gm_range (range_order e 10 0) (chargingProfiles s)"
  have ok: "gm_ok (chargingProfiles s)" "\<forall>(i, stored) \<in> set (chargingProfiles s). sp_profile stored \<noteq> None"
    using assms(1) unfolding sim_wf_def profiles_ok_def by fastforce+
  have xs: "set ?xs = set (chargingProfiles s)" "gm_ok ?xs" using ok assms(2) by (simp_all add: gm_range_ok)
  from clear_loop_effect [of ?xs "chargingProfiles s" request 0] xs ok
  obtain ps n where loop: "clear_loop request ?xs (chargingProfiles s) 0 = Some (ps, n)"
    and ps: "ps = filter (\<lambda>(i, stored). \<not> (\<exists>q. (i, q) \<in> set (chargingProfiles s) \<and> clear_hit request i q)) (chargingProfiles s)"
    and n: "n = int (length (filter (\<lambda>(i, q). clear_hit request i q) ?xs))" by auto
  have "ps = filter (\<lambda>(i, stored). \<not> clear_hit request i stored) (chargingProfiles s)"
    unfolding ps using ok(1) by (intro filter_cong) (auto dest: eq_key_imp_eq_value)
  moreover have "n > 0 \<longleftrightarrow> (\<exists>(i, stored) \<in> set (chargingProfiles s). clear_hit request i stored)"
    unfolding n using xs(1) by (auto simp: filter_empty_conv)
  moreover from calculation have "sim_wf (s\<lparr>chargingProfiles := ps\<rparr>)"
    using assms(1) by (auto simp: sim_wf_def profiles_ok_filter)
  ultimately show ?thesis
    using loop by (simp add: OnClearChargingProfile_def Let_def)
qed

lemma OnClearChargingProfile_wf [wf_intros]:
  "sim_wf s \<Longrightarrow> env_ok e \<Longrightarrow> keeps fst s (OnClearChargingProfile e s request)"
  using OnClear_effect [of s e request] by (auto simp: keeps_def)

lemma OnGetCompositeSchedule_wf [wf_intros]:
  "sim_wf s \<Longrightarrow> sim_wf (fst (OnGetCompositeSchedule e s c d u)) \<and> opts (fst (OnGetCompositeSchedule e s c d u)) = opts s"
  by (cases "composite_schedule (activeChargingProfileLocked e s c) u") (simp_all add: OnGetCompositeSchedule_def)

section \<open>The active profile is one of the highest stack level\<close>

lemma applies_profile: "profile_applies e s c stored \<Longrightarrow> \<exists>p. sp_profile stored = Some p"
  by (auto simp: profile_applies_def split: option.splits)

lemma active_loop_None:
  "active_loop e s c xs q = None \<longleftrightarrow> q = None \<and> (\<forall>(i, stored) \<in> set xs. \<not> profile_applies e s c stored)"
proof (induction xs arbitrary: q)
  case (Cons x xs)
  obtain i stored where x: "x = (i, stored)" by (cases x)
  show ?case
  proof (cases "profile_applies e s c stored")
    case True
    then obtain p where "sp_profile stored = Some p" using applies_profile by blast
    with Cons.IH x True show ?thesis by (cases q) auto
  qed (use Cons.IH x in auto)
qed simp

lemma active_loop_Some:
  "active_loop e s c xs q = Some r \<Longrightarrow>
     (q = Some r \<or> (\<exists>(i, stored) \<in> set xs. profile_applies e s c stored \<and> sp_profile stored = Some r)) \<and>
     (\<forall>p. q = Some p \<longrightarrow> cp_stack p \<le> cp_stack r) \<and>
     (\<forall>(i, stored) \<in> set xs. profile_applies e s c stored \<longrightarrow> (\<forall>p. sp_profile stored = Some p \<longrightarrow> cp_stack p \<le> cp_stack r))"
proof (induction xs arbitrary: q)
  case (Cons x xs)
  obtain i stored where x: "x = (i, stored)" by (cases x)
  show ?case
  proof (cases "profile_applies e s c stored")
    case False
    with Cons x show ?thesis by auto
  next
    case True
    then obtain p where p: "sp_profile stored = Some p" using applies_profile by blast
    define q' where "q' = (case q of None \<Rightarrow> p | Some k \<Rightarrow> if cp_stack p > cp_stack k then p else k)"
    have "active_loop e s c xs (Some q') = Some r"
      using Cons.prems x True p by (cases q) (auto simp: q'_def split: if_splits)
    from Cons.IH [OF this] have IH: "q' = r \<or> (\<exists>(i, stored) \<in> set xs. profile_applies e s c stored \<and> sp_profile stored = Some r)"
      "cp_stack q' \<le> cp_stack r"
      "\<forall>(i, stored) \<in> set xs. profile_applies e s c stored \<longrightarrow> (\<forall>p. sp_profile stored = Some p \<longrightarrow> cp_stack p \<le> cp_stack r)"
      by auto
    have "cp_stack p \<le> cp_stack q'" "\<And>k. q = Some k \<Longrightarrow> cp_stack k \<le> cp_stack q'" "q' = p \<or> q = Some q'"
      by (auto simp: q'_def split: option.splits if_splits)
    with IH True p x show ?thesis by fastforce
  qed
qed simp

abbreviation applicable :: "env \<Rightarrow> simulator \<Rightarrow> go_int \<Rightarrow> charging_profile \<Rightarrow> bool" where
  "applicable e s c p \<equiv> (\<exists>i stored. map_of (chargingProfiles s) i = Some stored \<and>
     profile_applies e s c stored \<and> sp_profile stored = Some p)"

lemma active_profile_iff:
  assumes "sim_wf s" "env_ok e"
  shows "(activeChargingProfileLocked e s c = None \<longleftrightarrow> (\<forall>p. \<not> applicable e s c p)) \<and>
    (\<forall>r. activeChargingProfileLocked e s c = Some r \<longrightarrow>
       applicable e s c r \<and> (\<forall>p. applicable e s c p \<longrightarrow> cp_stack p \<le> cp_stack r))"
proof -
  let ?xs = "gm_range (range_order e 9 c) (chargingProfiles s)"
  have ok: "gm_ok (chargingProfiles s)" using assms(1) by (simp add: sim_wf_def profiles_ok_def)
  have look: "(i, stored) \<in> set ?xs \<longleftrightarrow> map_of (chargingProfiles s) i = Some stored" for i stored
    using ok assms(2) by simp
  have "activeChargingProfileLocked e s c = None \<longleftrightarrow> (\<forall>p. \<not> applicable e s c p)"
    unfolding activeChargingProfileLocked_def active_loop_None using look applies_profile by fastforce
  moreover have "applicable e s c r \<and> (\<forall>p. applicable e s c p \<longrightarrow> cp_stack p \<le> cp_stack r)"
    if "activeChargingProfileLocked e s c = Some r" for r
    using active_loop_Some [of e s c ?xs None r] that look unfolding activeChargingProfileLocked_def by blast
  ultimately show ?thesis by blast
qed

text \<open>
  C25: the active profile of a connector is an applicable profile of the highest stack level,
  none when no profile applies; it does not depend on the visiting order when that level is
  unique among the applicable profiles.
\<close>

theorem active_profile_highest:
  assumes "sim_wf s" "env_ok e" "env_ok e'" "now e' = now e"
  shows "(activeChargingProfileLocked e s c = None \<longleftrightarrow> (\<forall>p. \<not> applicable e s c p)) \<and>
    (\<forall>r. activeChargingProfileLocked e s c = Some r \<longrightarrow>
       applicable e s c r \<and> (\<forall>p. applicable e s c p \<longrightarrow> cp_stack p \<le> cp_stack r)) \<and>
    ((\<forall>p q. applicable e s c p \<longrightarrow> applicable e s c q \<longrightarrow> cp_stack p = cp_stack q \<longrightarrow> p = q) \<longrightarrow>
       activeChargingProfileLocked e' s c = activeChargingProfileLocked e s c)"
proof -
  have "profile_applies e' s c stored = profile_applies e s c stored" for stored
    unfolding profile_applies_def assms(4) ..
  then have same: "applicable e' s c p = applicable e s c p" for p by simp
  note A = active_profile_iff [OF assms(1,2), of c] and B = active_profile_iff [OF assms(1,3), of c, unfolded same]
  have "activeChargingProfileLocked e' s c = activeChargingProfileLocked e s c"
    if unique: "\<forall>p q. applicable e s c p \<longrightarrow> applicable e s c q \<longrightarrow> cp_stack p = cp_stack q \<longrightarrow> p = q"
  proof (cases "activeChargingProfileLocked e s c")
    case None
    with A B show ?thesis by metis
  next
    case (Some r)
    with A have r: "applicable e s c r" "\<forall>p. applicable e s c p \<longrightarrow> cp_stack p \<le> cp_stack r" by blast+
    with B obtain r' where r': "activeChargingProfileLocked e' s c = Some r'" by (cases "activeChargingProfileLocked e' s c") blast+
    with B have "applicable e s c r'" "\<forall>p. applicable e s c p \<longrightarrow> cp_stack p \<le> cp_stack r'" by blast+
    with r unique have "r' = r" by (meson order_antisym)
    with r' Some show ?thesis by simp
  qed
  with A show ?thesis by blast
qed

section \<open>Set, clear and the composite schedule\<close>

text \<open>
  C26: after an accepted \<open>SetChargingProfile\<close> the profile is stored under its number, replacing
  any other of that number; clearing by that number then removes exactly it; every clear removes
  exactly the profiles that match all criteria given, and is accepted when there was one.
\<close>

theorem set_then_clear_profile:
  assumes "sim_wf s" "env_ok e" "OnSetChargingProfile e s c (Some p) = (s1, ProfileAccepted)"
  shows "map_of (chargingProfiles s1) = (map_of (chargingProfiles s))(cp_id p \<mapsto> \<lparr>sp_connectorID = c, sp_profile = Some p\<rparr>) \<and>
    (\<forall>request. \<exists>s2 st. OnClearChargingProfile e s1 request = Some (s2, st) \<and>
       chargingProfiles s2 = filter (\<lambda>(i, stored). \<not> clear_hit request i stored) (chargingProfiles s1) \<and>
       (st = ClearAccepted \<longleftrightarrow> (\<exists>(i, stored) \<in> set (chargingProfiles s1). clear_hit request i stored))) \<and>
    (\<forall>s2 st. OnClearChargingProfile e s1 \<lparr>cl_id = Some (cp_id p), cl_connector = None, cl_purpose = NoPurpose, cl_stack = None\<rparr>
         = Some (s2, st) \<longrightarrow> st = ClearAccepted \<and>
       map_of (chargingProfiles s2) = (map_of (chargingProfiles s))(cp_id p := None))"
proof -
  have wf1: "sim_wf s1" using OnSetChargingProfile_wf [OF assms(1), of e c "Some p"] assms(3) by simp
  have s1: "chargingProfiles s1 = gm_put (cp_id p) \<lparr>sp_connectorID = c, sp_profile = Some p\<rparr> (chargingProfiles s)"
    using assms(3) by (auto simp: OnSetChargingProfile_def Let_def split: if_splits)
  let ?one = "\<lparr>cl_id = Some (cp_id p), cl_connector = None, cl_purpose = NoPurpose, cl_stack = None\<rparr>"
  have ok1: "gm_ok (chargingProfiles s1)" using wf1 by (simp add: sim_wf_def profiles_ok_def)
  have hit: "clear_hit ?one i stored \<longleftrightarrow> i = cp_id p" for i stored
    by (auto simp: clear_hit_def chargingProfileMatchesClear_def)
  have "st = ClearAccepted \<and> map_of (chargingProfiles s2) = (map_of (chargingProfiles s))(cp_id p := None)"
    if run: "OnClearChargingProfile e s1 ?one = Some (s2, st)" for s2 st
  proof -
    have s2: "chargingProfiles s2 = filter (\<lambda>(i, stored). i \<noteq> cp_id p) (chargingProfiles s1)"
      "st = ClearAccepted \<longleftrightarrow> (\<exists>(i, stored) \<in> set (chargingProfiles s1). i = cp_id p)"
      using OnClear_effect [OF wf1 assms(2), of ?one] run unfolding hit by auto
    have "(cp_id p, \<lparr>sp_connectorID = c, sp_profile = Some p\<rparr>) \<in> set (chargingProfiles s1)"
      using s1 by (simp add: map_of_SomeD)
    then have "st = ClearAccepted" using s2(2) by blast
    moreover have "filter (\<lambda>(i, stored). i \<noteq> cp_id p) (chargingProfiles s1) = gm_del (cp_id p) (chargingProfiles s1)"
      by (auto simp: AList.delete_eq split_def intro!: filter_cong)
    then have "map_of (chargingProfiles s2) = (map_of (chargingProfiles s1))(cp_id p := None)"
      unfolding s2(1) by (simp del: map_of_eq_Some_iff)
    ultimately show ?thesis using s1 by (simp del: map_of_eq_Some_iff)
  qed
  moreover have "\<exists>s2 st. OnClearChargingProfile e s1 request = Some (s2, st) \<and>
       chargingProfiles s2 = filter (\<lambda>(i, stored). \<not> clear_hit request i stored) (chargingProfiles s1) \<and>
       (st = ClearAccepted \<longleftrightarrow> (\<exists>(i, stored) \<in> set (chargingProfiles s1). clear_hit request i stored))" for request
    using OnClear_effect [OF wf1 assms(2), of request] by blast
  moreover have "map_of (chargingProfiles s1) = (map_of (chargingProfiles s))(cp_id p \<mapsto> \<lparr>sp_connectorID = c, sp_profile = Some p\<rparr>)"
    using s1 by (simp del: map_of_eq_Some_iff)
  ultimately show ?thesis by blast
qed

text \<open>A station with a profile for all connectors and one of a higher level for connector 2.\<close>

definition sample_profile :: "go_int \<Rightarrow> go_int \<Rightarrow> charging_profile" where
  "sample_profile i stack = \<lparr>cp_id = i, cp_transaction = 0, cp_stack = stack, cp_purpose = TxDefaultProfile,
     cp_valid_from = None, cp_valid_to = None,
     cp_schedule = Some \<lparr>sc_duration = None, sc_start = None, sc_unit = Amperes,
       sc_periods = [\<lparr>p_start = 0, p_limit = 16\<rparr>], sc_min_rate = None\<rparr>\<rparr>"

definition charging_station :: simulator where
  "charging_station = test_station\<lparr>chargingProfiles :=
     [(1, \<lparr>sp_connectorID = 0, sp_profile = Some (sample_profile 1 0)\<rparr>),
      (2, \<lparr>sp_connectorID = 2, sp_profile = Some (sample_profile 2 5)\<rparr>)]\<rparr>"

lemma charging_station_wf: "sim_wf charging_station"
  using test_station_wf unfolding sim_wf_def charging_station_def
  by (simp add: profiles_ok_def sample_profile_def)

theorem active_profile_highest_witness:
  "activeChargingProfileLocked (list_env 10 True) charging_station 2 = Some (sample_profile 2 5) \<and>
   activeChargingProfileLocked ((list_env 10 True)\<lparr>range_order := \<lambda>_ _. rev\<rparr>) charging_station 2 = Some (sample_profile 2 5)"
proof -
  let ?e = "list_env 10 True"
  let ?e' = "?e\<lparr>range_order := \<lambda>_ _. rev\<rparr>"
  have e': "env_ok ?e'" "now ?e' = now ?e" by (simp_all add: env_ok_def)
  have "activeChargingProfileLocked ?e charging_station 2 = Some (sample_profile 2 5)" by code_simp
  moreover have two: "applicable ?e charging_station 2 p \<Longrightarrow> p = sample_profile 1 0 \<or> p = sample_profile 2 5" for p
    by (auto simp: charging_station_def split: if_splits)
  have stack: "cp_stack (sample_profile i k) = k" for i k by (simp add: sample_profile_def)
  have "\<forall>p q. applicable ?e charging_station 2 p \<longrightarrow> applicable ?e charging_station 2 q \<longrightarrow> cp_stack p = cp_stack q \<longrightarrow> p = q"
  proof (intro allI impI)
    fix p q assume "applicable ?e charging_station 2 p" "applicable ?e charging_station 2 q" and eq: "cp_stack p = cp_stack q"
    then have "p = sample_profile 1 0 \<or> p = sample_profile 2 5" "q = sample_profile 1 0 \<or> q = sample_profile 2 5"
      using two by blast+
    with eq show "p = q" by (elim disjE) (simp_all add: stack)
  qed
  ultimately show ?thesis
    using active_profile_highest [OF charging_station_wf list_env_ok e', of 2] by simp
qed

theorem set_then_clear_profile_witness:
  "\<exists>s1. OnSetChargingProfile (list_env 1 True) test_station 2 (Some (sample_profile 7 3)) = (s1, ProfileAccepted) \<and>
     (\<exists>s2. OnClearChargingProfile (list_env 1 True) s1
        \<lparr>cl_id = Some 7, cl_connector = None, cl_purpose = NoPurpose, cl_stack = None\<rparr> = Some (s2, ClearAccepted))"
proof -
  obtain s1 where run: "OnSetChargingProfile (list_env 1 True) test_station 2 (Some (sample_profile 7 3)) = (s1, ProfileAccepted)"
    by (simp add: OnSetChargingProfile_def Let_def)
  have id: "cp_id (sample_profile 7 3) = 7" by (simp add: sample_profile_def)
  show ?thesis
    using set_then_clear_profile [OF test_station_wf list_env_ok run, unfolded id] run by blast
qed

text \<open>
  \<open>GetCompositeSchedule\<close> refuses exactly an unknown connector and a unit other than that of
  the active schedule. Otherwise it answers the periods and the unit of the active profile's
  schedule, or a single default period of 32 A or 22000 W, always with the requested duration
  and starting now; it never changes the stored profiles.
\<close>

lemma composite_schedule_answer:
  "case OnGetCompositeSchedule e s c d u of (s', answer) \<Rightarrow>
     chargingProfiles s' = chargingProfiles s \<and>
     (let known = (c \<le> 0 \<or> map_of (connectors s) c \<noteq> None);
          active = (case activeChargingProfileLocked e s c of None \<Rightarrow> None | Some p \<Rightarrow> cp_schedule p) in
      case active of
        None \<Rightarrow> (ca_status answer = CompositeAccepted) = known \<and>
          (if known then \<exists>sc. ca_schedule answer = Some sc \<and> sc_duration sc = Some d \<and> sc_start sc = Some (now e) \<and>
             sc_unit sc = (if unit_text u = '''' then Amperes else u) \<and>
             sc_periods sc = [\<lparr>p_start = 0, p_limit = (if unit_text u = ''W'' then 22000 else 32)\<rparr>]
           else ca_schedule answer = None)
      | Some stored \<Rightarrow>
          (ca_status answer = CompositeAccepted) = (known \<and> unit_text u \<in> {'''', unit_text (sc_unit stored)}) \<and>
          (if ca_status answer = CompositeAccepted
           then ca_schedule answer = Some (stored\<lparr>sc_duration := Some d, sc_start := Some (now e)\<rparr>)
           else ca_schedule answer = None))"
proof (cases "c > 0 \<and> map_of (connectors s) c = None")
  case True
  then show ?thesis
    by (simp add: OnGetCompositeSchedule_def composite_rejected_def Let_def not_le split: option.split)
next
  case False
  then have known: "(c \<le> 0 \<or> map_of (connectors s) c \<noteq> None) = True" by auto
  have reach: "OnGetCompositeSchedule e s c d u = (case composite_schedule (activeChargingProfileLocked e s c) u of
        None \<Rightarrow> (emit e ''inbound'' ''GetCompositeSchedule'' (composite_status_text CompositeRejected) (Some c)
           ''rate unit conversion not supported'' s, composite_rejected)
      | Some sc \<Rightarrow>
         (emit e ''inbound'' ''GetCompositeSchedule'' (composite_status_text CompositeAccepted) (Some c)
            (''duration='' @ itoa d @ '' unit='' @ unit_text (sc_unit sc) @ '' periods='' @
              itoa (int (length (sc_periods sc)))) s,
          \<lparr>ca_status = CompositeAccepted, ca_connector = Some c, ca_start = Some (now e),
           ca_schedule = Some (sc\<lparr>sc_duration := Some d, sc_start := Some (now e)\<rparr>)\<rparr>))"
    unfolding OnGetCompositeSchedule_def if_not_P [OF False] ..
  define active where "active = (case activeChargingProfileLocked e s c of None \<Rightarrow> None | Some p \<Rightarrow> cp_schedule p)"
  have schedule: "composite_schedule (activeChargingProfileLocked e s c) u = (case active of
      None \<Rightarrow> Some (default_schedule (if unit_text u = '''' then Amperes else u))
    | Some sc \<Rightarrow> if unit_text u \<noteq> '''' \<and> unit_text (sc_unit sc) \<noteq> unit_text u then None else Some sc)"
    by (auto simp: composite_schedule_def active_def cloneChargingSchedule_def Let_def split: option.splits)
  show ?thesis
    unfolding reach schedule Let_def known active_def [symmetric]
    by (cases active) (auto simp: default_schedule_def composite_rejected_def)
qed

end
