(* ===== verification/Clock.thy ===== *)
theory Clock
  imports Prelude
begin

text \<open>
  The two layouts of \<open>time.Format\<close> the simulator uses, on UTC times given in nanoseconds since
  1970: the calendar date of a day number in the Gregorian calendar (eras of 400 years, years
  starting in March), \<open>20060102T150405Z\<close> for file names and \<open>time.RFC3339\<close>.
\<close>

section \<open>Civil dates\<close>

definition civil :: "int \<Rightarrow> int \<times> int \<times> int" where
  "civil days =
     (let z = days + 719468;
          era = z div 146097;
          doe = z mod 146097;
          yoe = (doe - doe div 1460 + doe div 36524 - doe div 146096) div 365;
          doy = doe - (365 * yoe + yoe div 4 - yoe div 100);
          mp = (5 * doy + 2) div 153;
          d = doy - (153 * mp + 2) div 5 + 1;
          m = (if mp < 10 then mp + 3 else mp - 9) in
      (yoe + era * 400 + (if m \<le> 2 then 1 else 0), m, d))"

fun pad_to :: "nat \<Rightarrow> string \<Rightarrow> string" where
  "pad_to n s = (if length s < n then replicate (n - length s) CHR ''0'' @ s else s)"

definition date_time :: "time \<Rightarrow> (int \<times> int \<times> int) \<times> (int \<times> int \<times> int)" where
  "date_time t = (let secs = t div second; sod = secs mod 86400 in
     (civil (secs div 86400), (sod div 3600, (sod mod 3600) div 60, sod mod 60)))"

definition format_compact :: "time \<Rightarrow> string" where
  "format_compact t = (case date_time t of ((y, m, d), (hh, mm, ss)) \<Rightarrow>
     pad_to 4 (itoa y) @ pad_to 2 (itoa m) @ pad_to 2 (itoa d) @ ''T'' @
     pad_to 2 (itoa hh) @ pad_to 2 (itoa mm) @ pad_to 2 (itoa ss) @ ''Z'')"

definition format_rfc3339 :: "time \<Rightarrow> string" where
  "format_rfc3339 t = (case date_time t of ((y, m, d), (hh, mm, ss)) \<Rightarrow>
     pad_to 4 (itoa y) @ ''-'' @ pad_to 2 (itoa m) @ ''-'' @ pad_to 2 (itoa d) @ ''T'' @
     pad_to 2 (itoa hh) @ '':'' @ pad_to 2 (itoa mm) @ '':'' @ pad_to 2 (itoa ss) @ ''Z'')"

text \<open>The example of the documentation of the layouts, and the leap day of a century year.\<close>

lemma format_examples:
  "format_rfc3339 (1136239445 * second) = ''2006-01-02T22:04:05Z''"
  "format_compact (951782400 * second) = ''20000229T000000Z''"
  by code_simp+

end
