(* ===== verification/Jobs.thy ===== *)
theory Jobs
  imports CoreProofs Clock
begin

text \<open>
  The simulated background jobs: diagnostics and firmware of simulator_optional_profiles.go, log
  upload and signed firmware of simulator_security_extensions.go. A job is a goroutine that
  publishes its statuses one after the other; a newer log or signed firmware request supersedes
  the job of the older one.
\<close>

section \<open>Waiting\<close>

fun job_resume :: "'st list \<Rightarrow> 'st job_pc option" where
  "job_resume [] = None"
| "job_resume (st # rest) = Some (JobPublish st rest)"

text \<open>\<open>waitContext\<close>: whether the timer fires before the context is done is the environment's choice.\<close>

definition job_pause :: "answers \<Rightarrow> 'st list \<Rightarrow> 'st job_pc option" where
  "job_pause a rest = (if a_wait a then job_resume rest else None)"

definition job_delay :: "env \<Rightarrow> answers \<Rightarrow> time \<Rightarrow> 'st list \<Rightarrow> 'st job_pc option" where
  "job_delay e a t rest = (if t - now e > 0 \<and> \<not> a_wait a then None else job_resume rest)"

definition job_next :: "'st list \<Rightarrow> 'st job_pc option" where
  "job_next rest = (if rest = [] then None else Some (JobPause rest))"

section \<open>Diagnostics\<close>

definition publish_diagnostics :: "diagnostics_status \<Rightarrow> simulator \<Rightarrow> simulator" where
  "publish_diagnostics st s = s\<lparr>diagnosticsStatus := st\<rparr>"

definition report_diagnostics :: "env \<Rightarrow> answers \<Rightarrow> diagnostics_status \<Rightarrow> simulator \<Rightarrow> simulator \<times> err option" where
  "report_diagnostics e a st s =
     (let s1 = send_msg (OutDiagnosticsStatus st) s in
      case await (a_report a) of
        Inl er \<Rightarrow> (s1, Some (classify_error er ErrProtocol))
      | Inr _ \<Rightarrow> (emit e ''outbound'' ''DiagnosticsStatusNotification'' (diagnostics_text st) None '''' s1, None))"

fun simulateDiagnosticsUpload ::
  "env \<Rightarrow> answers \<Rightarrow> diagnostics_status job_pc \<Rightarrow> simulator \<Rightarrow> simulator \<times> diagnostics_status job_pc option" where
  "simulateDiagnosticsUpload e a (JobDelay t rest) s = (s, job_delay e a t rest)"
| "simulateDiagnosticsUpload e a (JobPublish st rest) s = (publish_diagnostics st s, Some (JobAwait st rest))"
| "simulateDiagnosticsUpload e a (JobAwait st rest) s = (case report_diagnostics e a st s of
     (s1, Some er) \<Rightarrow> (emit e ''outbound'' ''DiagnosticsStatusNotification'' ''Error'' None (error_text er) s1, None)
   | (s1, None) \<Rightarrow> (s1, job_next rest))"
| "simulateDiagnosticsUpload e a (JobPause rest) s = (s, job_pause a rest)"

definition OnGetDiagnostics :: "env \<Rightarrow> simulator \<Rightarrow> string \<Rightarrow> simulator \<times> string" where
  "OnGetDiagnostics e s location =
     (let fileName = ''ocpp-cli-diagnostics-'' @ format_compact (now e) @ ''.log'';
          s1 = emit e ''inbound'' ''GetDiagnostics'' ''Accepted'' None (location @ ''/'' @ fileName) s in
      (if is_connected e then spawn (GoDiagnostics (JobPublish DiagUploading [DiagUploaded])) s1 else s1, fileName))"

section \<open>Firmware\<close>

definition publish_firmware :: "firmware_status \<Rightarrow> simulator \<Rightarrow> simulator" where
  "publish_firmware st s = s\<lparr>firmwareStatus := st\<rparr>"

definition report_firmware :: "env \<Rightarrow> answers \<Rightarrow> firmware_status \<Rightarrow> simulator \<Rightarrow> simulator \<times> err option" where
  "report_firmware e a st s =
     (let s1 = send_msg (OutFirmwareStatus st) s in
      case await (a_report a) of
        Inl er \<Rightarrow> (s1, Some (classify_error er ErrProtocol))
      | Inr _ \<Rightarrow> (emit e ''outbound'' ''FirmwareStatusNotification'' (firmware_text st) None '''' s1, None))"

fun simulateFirmwareUpdate ::
  "env \<Rightarrow> answers \<Rightarrow> firmware_status job_pc \<Rightarrow> simulator \<Rightarrow> simulator \<times> firmware_status job_pc option" where
  "simulateFirmwareUpdate e a (JobDelay t rest) s = (s, job_delay e a t rest)"
| "simulateFirmwareUpdate e a (JobPublish st rest) s = (publish_firmware st s, Some (JobAwait st rest))"
| "simulateFirmwareUpdate e a (JobAwait st rest) s = (case report_firmware e a st s of
     (s1, Some er) \<Rightarrow> (emit e ''outbound'' ''FirmwareStatusNotification'' ''Error'' None (error_text er) s1, None)
   | (s1, None) \<Rightarrow> (s1, job_next rest))"
| "simulateFirmwareUpdate e a (JobPause rest) s = (s, job_pause a rest)"

definition firmware_sequence :: "firmware_status list" where
  "firmware_sequence = [FwDownloading, FwDownloaded, FwInstalling, FwInstalled]"

definition OnUpdateFirmware :: "env \<Rightarrow> simulator \<Rightarrow> string \<Rightarrow> time option \<Rightarrow> simulator" where
  "OnUpdateFirmware e s location retrieveDate =
     (let retrieve = (case retrieveDate of None \<Rightarrow> now e | Some t \<Rightarrow> t);
          s1 = emit e ''inbound'' ''UpdateFirmware'' ''Accepted'' None
            (location @ '' retrieve='' @ format_rfc3339 retrieve) s in
      if is_connected e then spawn (GoFirmware (JobDelay retrieve firmware_sequence)) s1 else s1)"

section \<open>Log upload\<close>

datatype log_request_status = LogAccepted | LogAcceptedCanceled

fun log_request_text :: "log_request_status \<Rightarrow> string" where
  "log_request_text LogAccepted = ''Accepted''"
| "log_request_text LogAcceptedCanceled = ''AcceptedCanceled''"

text \<open>\<^term>\<open>None\<close>: another request is active, and the status is dropped without an error.\<close>

definition publish_log :: "go_int \<Rightarrow> upload_log_status \<Rightarrow> simulator \<Rightarrow> simulator option" where
  "publish_log requestID st s =
     (if activeLogRequestID s \<noteq> 0 \<and> activeLogRequestID s \<noteq> requestID then None
      else Some (s\<lparr>activeLogRequestID := requestID, logStatus := st\<rparr>))"

definition report_log :: "env \<Rightarrow> answers \<Rightarrow> go_int \<Rightarrow> upload_log_status \<Rightarrow> simulator \<Rightarrow> simulator \<times> err option" where
  "report_log e a requestID st s =
     (let done = (\<lambda>s. emit e ''outbound'' ''LogStatusNotification'' (log_text st) None (''request_id='' @ itoa requestID) s) in
      if is_connected e then
        (let s1 = send_msg (OutLogStatus st requestID) s in
         case await (a_report a) of
           Inl er \<Rightarrow> (s1, Some (classify_error er ErrProtocol))
         | Inr _ \<Rightarrow> (done s1, None))
      else (done s, None))"

fun simulateLogUpload ::
  "env \<Rightarrow> answers \<Rightarrow> go_int \<Rightarrow> upload_log_status job_pc \<Rightarrow> simulator \<Rightarrow> simulator \<times> upload_log_status job_pc option" where
  "simulateLogUpload e a r (JobDelay t rest) s = (s, job_delay e a t rest)"
| "simulateLogUpload e a r (JobPublish st rest) s = (case publish_log r st s of
     None \<Rightarrow> (s, job_next rest)
   | Some s1 \<Rightarrow> (s1, Some (JobAwait st rest)))"
| "simulateLogUpload e a r (JobAwait st rest) s = (case report_log e a r st s of
     (s1, Some er) \<Rightarrow> (emit e ''outbound'' ''LogStatusNotification'' ''Error'' None (error_text er) s1, None)
   | (s1, None) \<Rightarrow> (s1, job_next rest))"
| "simulateLogUpload e a r (JobPause rest) s = (s, job_pause a rest)"

definition OnGetLog :: "env \<Rightarrow> simulator \<Rightarrow> string \<Rightarrow> go_int \<Rightarrow> string \<Rightarrow> simulator \<times> log_request_status \<times> string" where
  "OnGetLog e s logType requestID location =
     (let st = (if logStatus s = LogUploading \<and> activeLogRequestID s \<noteq> requestID then LogAcceptedCanceled else LogAccepted);
          s1 = s\<lparr>activeLogRequestID := requestID, logStatus := LogUploading\<rparr>;
          filename = ''ocpp-cli-'' @ to_lower logType @ ''-'' @ itoa requestID @ ''.log'';
          s2 = emit e ''inbound'' ''GetLog'' (log_request_text st) None (location @ ''/'' @ filename) s1 in
      (if is_connected e then spawn (GoLog requestID (JobPublish LogUploading [LogUploaded])) s2 else s2, st, filename))"

section \<open>Signed firmware\<close>

datatype signed_update_status = SignedAccepted | SignedRejected | SignedAcceptedCanceled | SignedInvalidCertificate

fun signed_update_text :: "signed_update_status \<Rightarrow> string" where
  "signed_update_text SignedAccepted = ''Accepted''"
| "signed_update_text SignedRejected = ''Rejected''"
| "signed_update_text SignedAcceptedCanceled = ''AcceptedCanceled''"
| "signed_update_text SignedInvalidCertificate = ''InvalidCertificate''"

fun signedFirmwareActive :: "signed_firmware_status \<Rightarrow> bool" where
  "signedFirmwareActive SfDownloadScheduled = True"
| "signedFirmwareActive SfDownloading = True"
| "signedFirmwareActive SfDownloaded = True"
| "signedFirmwareActive SfSignatureVerified = True"
| "signedFirmwareActive SfInstallScheduled = True"
| "signedFirmwareActive SfInstalling = True"
| "signedFirmwareActive _ = False"

record signed_firmware_request =
  sr_request :: go_int
  sr_location :: string
  sr_retrieve :: "time option"
  sr_install :: "time option"
  sr_certificate :: string
  sr_signature :: string

definition publish_signed :: "go_int \<Rightarrow> signed_firmware_status \<Rightarrow> simulator \<Rightarrow> simulator option" where
  "publish_signed requestID st s =
     (if signedFirmwareRequestID s \<noteq> 0 \<and> signedFirmwareRequestID s \<noteq> requestID then None
      else Some (s\<lparr>signedFirmwareRequestID := requestID, signedFirmwareStatus := st\<rparr>))"

definition report_signed :: "env \<Rightarrow> answers \<Rightarrow> go_int \<Rightarrow> signed_firmware_status \<Rightarrow> simulator \<Rightarrow> simulator \<times> err option" where
  "report_signed e a requestID st s =
     (let done = (\<lambda>s. emit e ''outbound'' ''SignedFirmwareStatusNotification'' (signed_firmware_text st) None
            (''request_id='' @ itoa requestID) s) in
      if is_connected e then
        (let s1 = send_msg (OutSignedFirmwareStatus st requestID) s in
         case await (a_report a) of
           Inl er \<Rightarrow> (s1, Some (classify_error er ErrProtocol))
         | Inr _ \<Rightarrow> (done s1, None))
      else (done s, None))"

text \<open>Every status is followed by a pause, the installation also by the wait for its date.\<close>

definition signed_resume :: "time option \<Rightarrow> signed_firmware_status list \<Rightarrow> signed_firmware_status job_pc option" where
  "signed_resume install rest = (case (rest, install) of
     (SfInstalling # _, Some t) \<Rightarrow> Some (JobDelay t rest)
   | _ \<Rightarrow> job_resume rest)"

fun simulateSignedFirmwareUpdate ::
  "env \<Rightarrow> answers \<Rightarrow> go_int \<Rightarrow> time option \<Rightarrow> signed_firmware_status job_pc \<Rightarrow> simulator \<Rightarrow>
     simulator \<times> signed_firmware_status job_pc option" where
  "simulateSignedFirmwareUpdate e a r install (JobDelay t rest) s = (s, job_delay e a t rest)"
| "simulateSignedFirmwareUpdate e a r install (JobPublish st rest) s = (case publish_signed r st s of
     None \<Rightarrow> (s, Some (JobPause rest))
   | Some s1 \<Rightarrow> (s1, Some (JobAwait st rest)))"
| "simulateSignedFirmwareUpdate e a r install (JobAwait st rest) s = (case report_signed e a r st s of
     (s1, Some er) \<Rightarrow> (emit e ''outbound'' ''SignedFirmwareStatusNotification'' ''Error'' None (error_text er) s1, None)
   | (s1, None) \<Rightarrow> (s1, Some (JobPause rest)))"
| "simulateSignedFirmwareUpdate e a r install (JobPause rest) s = (s, if a_wait a then signed_resume install rest else None)"

definition signed_sequence :: "signed_firmware_status list" where
  "signed_sequence = [SfDownloading, SfDownloaded, SfSignatureVerified, SfInstalling, SfInstalled]"

definition OnSignedUpdateFirmware ::
  "env \<Rightarrow> simulator \<Rightarrow> signed_firmware_request \<Rightarrow> simulator \<times> signed_update_status" where
  "OnSignedUpdateFirmware e s request =
     (if sr_retrieve request = None \<or> trim_space (sr_location request) = '''' then
        (emit e ''inbound'' ''SignedUpdateFirmware'' (signed_update_text SignedRejected) None
           ''missing firmware location or retrieve date'' s, SignedRejected)
      else if trim_space (sr_certificate request) = '''' \<or> trim_space (sr_signature request) = '''' then
        (emit e ''inbound'' ''SignedUpdateFirmware'' (signed_update_text SignedInvalidCertificate) None
           ''missing signing certificate or signature'' s, SignedInvalidCertificate)
      else
        (let st = (if signedFirmwareActive (signedFirmwareStatus s) \<and> signedFirmwareRequestID s \<noteq> sr_request request
               then SignedAcceptedCanceled else SignedAccepted);
             s1 = s\<lparr>signedFirmwareRequestID := sr_request request, signedFirmwareStatus := SfDownloadScheduled\<rparr>;
             s2 = emit e ''inbound'' ''SignedUpdateFirmware'' (signed_update_text st) None
               (''request_id='' @ itoa (sr_request request) @ '' location='' @ sr_location request) s1 in
         (if is_connected e then
            spawn (GoSignedFirmware (sr_request request) (sr_install request)
              (JobDelay (the (sr_retrieve request)) signed_sequence)) s2
          else s2, st)))"

end
