(* ===== verification/JobProofs.thy ===== *)
theory JobProofs
  imports Jobs Transactions
begin

text \<open>
  What the background jobs guarantee: the invariant, the order of the statuses a job announces,
  and that a superseded job changes nothing. The last is proved once in the locale
  \<open>superseding_job\<close> and interpreted for log uploads and for signed firmware updates.
\<close>

section \<open>The invariant\<close>

lemma publish_wf [simp]:
  "sim_wf (publish_diagnostics st s) = sim_wf s" "sim_wf (publish_firmware st2 s) = sim_wf s"
  by (simp_all add: publish_diagnostics_def publish_firmware_def)

lemma publish_frame [simp, frame_simps]:
  "opts (publish_diagnostics st s) = opts s" "opts (publish_firmware st2 s) = opts s"
  "sent (publish_diagnostics st s) = sent s" "sent (publish_firmware st2 s) = sent s"
  "diagnosticsStatus (publish_diagnostics st s) = st" "firmwareStatus (publish_firmware st2 s) = st2"
  by (simp_all add: publish_diagnostics_def publish_firmware_def)

lemma report_wf [simp]:
  "sim_wf (fst (report_diagnostics e a d s)) = sim_wf s" "opts (fst (report_diagnostics e a d s)) = opts s"
  "sim_wf (fst (report_firmware e a f s)) = sim_wf s" "opts (fst (report_firmware e a f s)) = opts s"
  "sim_wf (fst (report_log e a r l s)) = sim_wf s" "opts (fst (report_log e a r l s)) = opts s"
  "sim_wf (fst (report_signed e a r sf s)) = sim_wf s" "opts (fst (report_signed e a r sf s)) = opts s"
  by (simp_all add: report_diagnostics_def report_firmware_def report_log_def report_signed_def Let_def split: sum.split)

lemma publish_log_wf: "publish_log r st s = Some s' \<Longrightarrow> sim_wf s' = sim_wf s \<and> opts s' = opts s"
  by (auto simp: publish_log_def split: if_splits)

lemma publish_signed_wf: "publish_signed r st s = Some s' \<Longrightarrow> sim_wf s' = sim_wf s \<and> opts s' = opts s"
  by (auto simp: publish_signed_def split: if_splits)

lemma reported_wf:
  "report_diagnostics e a d s = (s1, x) \<Longrightarrow> sim_wf s1 = sim_wf s \<and> opts s1 = opts s"
  "report_firmware e a f s = (s1, x) \<Longrightarrow> sim_wf s1 = sim_wf s \<and> opts s1 = opts s"
  "report_log e a r l s = (s1, x) \<Longrightarrow> sim_wf s1 = sim_wf s \<and> opts s1 = opts s"
  "report_signed e a r sf s = (s1, x) \<Longrightarrow> sim_wf s1 = sim_wf s \<and> opts s1 = opts s"
  using report_wf(1,2) [of e a d s] report_wf(3,4) [of e a f s] report_wf(5,6) [of e a r l s] report_wf(7,8) [of e a r sf s]
  by auto

lemma simulateDiagnosticsUpload_wf [wf_intros]:
  "sim_wf s \<Longrightarrow> sim_wf (fst (simulateDiagnosticsUpload e a pc s)) \<and> opts (fst (simulateDiagnosticsUpload e a pc s)) = opts s"
  by (cases pc) (auto split: prod.split option.split dest: reported_wf)

lemma simulateFirmwareUpdate_wf [wf_intros]:
  "sim_wf s \<Longrightarrow> sim_wf (fst (simulateFirmwareUpdate e a pc s)) \<and> opts (fst (simulateFirmwareUpdate e a pc s)) = opts s"
  by (cases pc) (auto split: prod.split option.split dest: reported_wf)

lemma simulateLogUpload_wf [wf_intros]:
  "sim_wf s \<Longrightarrow> sim_wf (fst (simulateLogUpload e a r pc s)) \<and> opts (fst (simulateLogUpload e a r pc s)) = opts s"
  by (cases pc) (auto split: prod.split option.split dest: reported_wf publish_log_wf)

lemma simulateSignedFirmwareUpdate_wf [wf_intros]:
  "sim_wf s \<Longrightarrow> sim_wf (fst (simulateSignedFirmwareUpdate e a r i pc s)) \<and>
     opts (fst (simulateSignedFirmwareUpdate e a r i pc s)) = opts s"
  by (cases pc) (auto split: prod.split option.split dest: reported_wf publish_signed_wf)

lemma OnGetDiagnostics_wf [wf_intros]:
  "sim_wf s \<Longrightarrow> sim_wf (fst (OnGetDiagnostics e s l)) \<and> opts (fst (OnGetDiagnostics e s l)) = opts s"
  by (simp add: OnGetDiagnostics_def Let_def)

lemma OnUpdateFirmware_wf [wf_intros]:
  "sim_wf s \<Longrightarrow> sim_wf (OnUpdateFirmware e s l r) \<and> opts (OnUpdateFirmware e s l r) = opts s"
  by (simp add: OnUpdateFirmware_def Let_def)

lemma OnGetLog_wf [wf_intros]:
  "sim_wf s \<Longrightarrow> sim_wf (fst (OnGetLog e s ty r l)) \<and> opts (fst (OnGetLog e s ty r l)) = opts s"
  by (simp add: OnGetLog_def Let_def)

lemma OnSignedUpdateFirmware_wf [wf_intros]:
  "sim_wf s \<Longrightarrow> sim_wf (fst (OnSignedUpdateFirmware e s q)) \<and> opts (fst (OnSignedUpdateFirmware e s q)) = opts s"
  by (simp add: OnSignedUpdateFirmware_def Let_def)

section \<open>Superseded jobs\<close>

text \<open>
  The contract between the handler and the jobs: a publication is refused exactly when another
  number is active, otherwise it records its number and its status.
\<close>

definition attempt :: "(go_int \<Rightarrow> 'st \<Rightarrow> 's \<Rightarrow> 's option) \<Rightarrow> go_int \<times> 'st \<Rightarrow> 's \<Rightarrow> 's" where
  "attempt publish p s = (case publish (fst p) (snd p) s of None \<Rightarrow> s | Some s' \<Rightarrow> s')"

locale superseding_job =
  fixes active :: "'s \<Rightarrow> go_int"
    and current :: "'s \<Rightarrow> 'st"
    and publish :: "go_int \<Rightarrow> 'st \<Rightarrow> 's \<Rightarrow> 's option"
  assumes refused: "publish i st s = None \<longleftrightarrow> active s \<noteq> 0 \<and> active s \<noteq> i"
    and published: "publish i st s = Some s' \<Longrightarrow> active s' = i \<and> current s' = st"
begin

lemma stale: "active s = i \<Longrightarrow> i \<noteq> 0 \<Longrightarrow> j \<noteq> i \<Longrightarrow> attempt publish (j, st) s = s"
  using refused [of j st s] by (simp add: attempt_def)

lemma own: "active s = i \<Longrightarrow> active (attempt publish (i, st) s) = i \<and> current (attempt publish (i, st) s) = st"
proof -
  assume "active s = i"
  then obtain s' where "publish i st s = Some s'" using refused [of i st s] by (cases "publish i st s") auto
  with published [OF this] show ?thesis by (simp add: attempt_def)
qed

text \<open>Whatever publications interleave, only those of the active number count.\<close>

lemma only_own_count:
  "active s = i \<Longrightarrow> i \<noteq> 0 \<Longrightarrow>
     active (fold (attempt publish) ps s) = i \<and>
     current (fold (attempt publish) ps s) = last (current s # map snd (filter (\<lambda>p. fst p = i) ps))"
proof (induction ps arbitrary: s)
  case (Cons p ps)
  obtain j st where p: "p = (j, st)" by (cases p)
  show ?case
  proof (cases "j = i")
    case True
    with own [OF Cons.prems(1), of st] Cons.IH [of "attempt publish p s"] Cons.prems(2) p show ?thesis by simp
  next
    case False
    with stale [OF Cons.prems, of j st] Cons p show ?thesis by simp
  qed
qed simp

end

interpretation log_job: superseding_job activeLogRequestID logStatus publish_log
  by unfold_locales (auto simp: publish_log_def split: if_splits)

interpretation signed_job: superseding_job signedFirmwareRequestID signedFirmwareStatus publish_signed
  by unfold_locales (auto simp: publish_signed_def split: if_splits)




definition sample_firmware :: signed_firmware_request where
  "sample_firmware = \<lparr>sr_request = 4, sr_location = ''https://host/fw'', sr_retrieve = Some 0, sr_install = None,
     sr_certificate = ''CERT'', sr_signature = ''SIG''\<rparr>"


section \<open>The order of the statuses\<close>

fun run_job :: "nat \<Rightarrow> ('pc \<Rightarrow> 's \<Rightarrow> 's \<times> 'pc option) \<Rightarrow> 'pc \<Rightarrow> 's \<Rightarrow> 's \<times> 'pc option" where
  "run_job 0 f pc s = (s, Some pc)"
| "run_job (Suc n) f pc s = (case f pc s of (s', None) \<Rightarrow> (s', None) | (s', Some pc') \<Rightarrow> run_job n f pc' s')"

text \<open>Every status is one publication and one notification; an undisturbed job ends with its last status.\<close>

lemma report_answered:
  assumes "await (a_report a) = Inr ()"
  shows "snd (report_diagnostics e a d s) = None \<and> sent (fst (report_diagnostics e a d s)) = sent s @ [OutDiagnosticsStatus d] \<and>
      diagnosticsStatus (fst (report_diagnostics e a d s)) = diagnosticsStatus s"
    "snd (report_firmware e a f s) = None \<and> sent (fst (report_firmware e a f s)) = sent s @ [OutFirmwareStatus f] \<and>
      firmwareStatus (fst (report_firmware e a f s)) = firmwareStatus s"
    "is_connected e \<Longrightarrow> snd (report_log e a r l s) = None \<and> sent (fst (report_log e a r l s)) = sent s @ [OutLogStatus l r] \<and>
      logStatus (fst (report_log e a r l s)) = logStatus s \<and>
      activeLogRequestID (fst (report_log e a r l s)) = activeLogRequestID s"
    "is_connected e \<Longrightarrow> snd (report_signed e a r sf s) = None \<and> sent (fst (report_signed e a r sf s)) = sent s @ [OutSignedFirmwareStatus sf r] \<and>
      signedFirmwareStatus (fst (report_signed e a r sf s)) = signedFirmwareStatus s \<and>
      signedFirmwareRequestID (fst (report_signed e a r sf s)) = signedFirmwareRequestID s"
  using assms
  by (simp_all add: report_diagnostics_def report_firmware_def report_log_def report_signed_def Let_def)

lemma run_job_more: "run_job n f pc s = (s', None) \<Longrightarrow> run_job (n + k) f pc s = (s', None)"
proof (induction n arbitrary: pc s)
  case (Suc n)
  obtain t q where "f pc s = (t, q)" by fastforce
  with Suc show ?case by (cases q) auto
qed simp

lemma report_pair: "snd x = None \<Longrightarrow> x = (fst x, None)"
  by (cases x) simp

lemma diagnostics_run:
  assumes "await (a_report a) = Inr ()" "a_wait a"
  shows "\<exists>s'. run_job (3 * length rest + 2) (simulateDiagnosticsUpload e a) (JobPublish st rest) s = (s', None) \<and>
    diagnosticsStatus s' = last (st # rest) \<and> sent s' = sent s @ map OutDiagnosticsStatus (st # rest)"
proof (induction rest arbitrary: st s)
  case Nil
  note r = report_answered(1) [OF assms(1), of e st "publish_diagnostics st s"]
  then show ?case by (subst (asm) surjective_pairing [of "report_diagnostics e a st (publish_diagnostics st s)"])
      (auto simp: eval_nat_numeral job_next_def split: prod.split)
next
  case (Cons st2 rest)
  note r = report_answered(1) [OF assms(1), of e st "publish_diagnostics st s"]
  obtain t where t: "report_diagnostics e a st (publish_diagnostics st s) = (t, None)" "sent t = sent s @ [OutDiagnosticsStatus st]"
    using r by (metis publish_frame(3) report_pair)
  have "run_job (3 * length (st2 # rest) + 2) (simulateDiagnosticsUpload e a) (JobPublish st (st2 # rest)) s =
      run_job (3 * length rest + 2) (simulateDiagnosticsUpload e a) (JobPublish st2 rest) t"
    using t assms(2) by (simp add: eval_nat_numeral job_next_def job_pause_def)
  with Cons.IH [of st2 t] t show ?case by auto
qed

lemma firmware_run:
  assumes "await (a_report a) = Inr ()" "a_wait a"
  shows "\<exists>s'. run_job (3 * length rest + 2) (simulateFirmwareUpdate e a) (JobPublish st rest) s = (s', None) \<and>
    firmwareStatus s' = last (st # rest) \<and> sent s' = sent s @ map OutFirmwareStatus (st # rest)"
proof (induction rest arbitrary: st s)
  case Nil
  note r = report_answered(2) [OF assms(1), of e st "publish_firmware st s"]
  then show ?case by (subst (asm) surjective_pairing [of "report_firmware e a st (publish_firmware st s)"])
      (auto simp: eval_nat_numeral job_next_def split: prod.split)
next
  case (Cons st2 rest)
  note r = report_answered(2) [OF assms(1), of e st "publish_firmware st s"]
  obtain t where t: "report_firmware e a st (publish_firmware st s) = (t, None)" "sent t = sent s @ [OutFirmwareStatus st]"
    using r by (metis publish_frame(4) report_pair)
  have "run_job (3 * length (st2 # rest) + 2) (simulateFirmwareUpdate e a) (JobPublish st (st2 # rest)) s =
      run_job (3 * length rest + 2) (simulateFirmwareUpdate e a) (JobPublish st2 rest) t"
    using t assms(2) by (simp add: eval_nat_numeral job_next_def job_pause_def)
  with Cons.IH [of st2 t] t show ?case by auto
qed

lemma log_publish_report:
  assumes "await (a_report a) = Inr ()" "is_connected e" "activeLogRequestID s \<in> {0, r}"
  obtains s1 t where "publish_log r st s = Some s1" "report_log e a r st s1 = (t, None)"
    "sent t = sent s @ [OutLogStatus st r]" "logStatus t = st" "activeLogRequestID t = r"
proof -
  obtain s1 where s1: "publish_log r st s = Some s1" "sent s1 = sent s" "logStatus s1 = st" "activeLogRequestID s1 = r"
    using assms(3) by (auto simp: publish_log_def)
  note rep = report_answered(3) [OF assms(1,2), of r st s1]
  show ?thesis
    by (rule that [OF s1(1) report_pair [OF conjunct1 [OF rep]]]) (use rep s1 in simp_all)
qed

lemma log_run:
  assumes "await (a_report a) = Inr ()" "a_wait a" "is_connected e" "activeLogRequestID s \<in> {0, r}"
  shows "\<exists>s'. run_job (3 * length rest + 2) (simulateLogUpload e a r) (JobPublish st rest) s = (s', None) \<and>
    logStatus s' = last (st # rest) \<and> sent s' = sent s @ map (\<lambda>l. OutLogStatus l r) (st # rest)"
  using assms(4)
proof (induction rest arbitrary: st s)
  case Nil
  with log_publish_report [OF assms(1,3), of s r st] obtain s1 t where "publish_log r st s = Some s1"
    "report_log e a r st s1 = (t, None)" "sent t = sent s @ [OutLogStatus st r]" "logStatus t = st" by blast
  then show ?case by (simp add: eval_nat_numeral job_next_def)
next
  case (Cons st2 rest)
  with log_publish_report [OF assms(1,3), of s r st] obtain s1 t where t: "publish_log r st s = Some s1"
    "report_log e a r st s1 = (t, None)" "sent t = sent s @ [OutLogStatus st r]" "logStatus t = st"
    "activeLogRequestID t = r" by blast
  have "run_job (3 * length (st2 # rest) + 2) (simulateLogUpload e a r) (JobPublish st (st2 # rest)) s =
      run_job (3 * length rest + 2) (simulateLogUpload e a r) (JobPublish st2 rest) t"
    using t assms(2) by (simp add: eval_nat_numeral job_next_def job_pause_def)
  with Cons.IH [of t st2] t show ?case by auto
qed

lemma signed_publish_report:
  assumes "await (a_report a) = Inr ()" "is_connected e" "signedFirmwareRequestID s \<in> {0, r}"
  obtains s1 t where "publish_signed r st s = Some s1" "report_signed e a r st s1 = (t, None)"
    "sent t = sent s @ [OutSignedFirmwareStatus st r]" "signedFirmwareStatus t = st" "signedFirmwareRequestID t = r"
proof -
  define s1 where "s1 = s\<lparr>signedFirmwareRequestID := r, signedFirmwareStatus := st\<rparr>"
  have "\<not> (signedFirmwareRequestID s \<noteq> 0 \<and> signedFirmwareRequestID s \<noteq> r)" using assms(3) by blast
  then have s1: "publish_signed r st s = Some s1" "sent s1 = sent s" "signedFirmwareStatus s1 = st"
      "signedFirmwareRequestID s1 = r"
    unfolding publish_signed_def s1_def by simp_all
  define t where "t = fst (report_signed e a r st s1)"
  have rep: "snd (report_signed e a r st s1) = None" "sent t = sent s1 @ [OutSignedFirmwareStatus st r]"
    "signedFirmwareStatus t = signedFirmwareStatus s1" "signedFirmwareRequestID t = signedFirmwareRequestID s1"
    using report_answered(4) [OF assms(1,2), of r st s1] unfolding t_def by blast+
  have "report_signed e a r st s1 = (t, None)" unfolding t_def by (rule report_pair [OF rep(1)])
  moreover have "sent t = sent s @ [OutSignedFirmwareStatus st r]" unfolding rep(2) s1(2) ..
  moreover have "signedFirmwareStatus t = st" "signedFirmwareRequestID t = r" unfolding rep(3,4) s1(3,4) by (rule refl)+
  ultimately show ?thesis by (rule that [OF s1(1)])
qed

lemma signed_run:
  assumes "await (a_report a) = Inr ()" "a_wait a" "is_connected e" "signedFirmwareRequestID s \<in> {0, r}"
  shows "\<exists>s'. run_job (4 * length rest + 3) (simulateSignedFirmwareUpdate e a r i) (JobPublish st rest) s = (s', None) \<and>
    signedFirmwareStatus s' = last (st # rest) \<and> sent s' = sent s @ map (\<lambda>l. OutSignedFirmwareStatus l r) (st # rest)"
  using assms(4)
proof (induction rest arbitrary: st s)
  case Nil
  with signed_publish_report [OF assms(1,3), of s r st] obtain s1 t where "publish_signed r st s = Some s1"
    "report_signed e a r st s1 = (t, None)" "sent t = sent s @ [OutSignedFirmwareStatus st r]" "signedFirmwareStatus t = st" by blast
  then show ?case using assms(2) by (simp add: eval_nat_numeral signed_resume_def)
next
  case (Cons st2 rest)
  let ?f = "simulateSignedFirmwareUpdate e a r i"
  from Cons signed_publish_report [OF assms(1,3), of s r st] obtain s1 t where t: "publish_signed r st s = Some s1"
    "report_signed e a r st s1 = (t, None)" "sent t = sent s @ [OutSignedFirmwareStatus st r]" "signedFirmwareStatus t = st"
    "signedFirmwareRequestID t = r" by blast
  from Cons.IH [of t st2] t obtain s' where s': "run_job (4 * length rest + 3) ?f (JobPublish st2 rest) t = (s', None)"
    "signedFirmwareStatus s' = last (st2 # rest)"
    "sent s' = sent t @ map (\<lambda>l. OutSignedFirmwareStatus l r) (st2 # rest)" by auto
  define n where "n = 4 * length rest + 3"
  have more: "run_job (Suc n) ?f (JobPublish st2 rest) t = (s', None)"
    using run_job_more [OF s'(1), of 1] by (simp add: n_def)
  have len: "4 * length (st2 # rest) + 3 = Suc (Suc (Suc (Suc n)))" by (simp add: n_def)
  have head: "run_job (4 * length (st2 # rest) + 3) ?f (JobPublish st (st2 # rest)) s =
      (case signed_resume i (st2 # rest) of None \<Rightarrow> (t, None) | Some pc \<Rightarrow> run_job (Suc n) ?f pc t)"
    unfolding len using t assms(2) by (simp del: run_job.simps(2) add: run_job.simps(2) [of "Suc _"] split: option.split)
  have "run_job (4 * length (st2 # rest) + 3) ?f (JobPublish st (st2 # rest)) s = (s', None)"
  proof (cases "\<exists>d. signed_resume i (st2 # rest) = Some (JobDelay d (st2 # rest))")
    case True
    then obtain d where "signed_resume i (st2 # rest) = Some (JobDelay d (st2 # rest))" by blast
    moreover have "run_job (Suc n) ?f (JobDelay d (st2 # rest)) t = (s', None)"
      using s'(1) [folded n_def] assms(2) by (simp add: job_delay_def)
    ultimately show ?thesis using head by simp
  next
    case False
    then have "signed_resume i (st2 # rest) = Some (JobPublish st2 rest)"
      by (auto simp: signed_resume_def split: signed_firmware_status.splits option.splits)
    with head more show ?thesis by simp
  qed
  with s' t show ?case by auto
qed



end
