(* ===== verification/Certificates.thy ===== *)
theory Certificates
  imports Invariants
begin

text \<open>
  The security and certificates profiles (internal/ocppclient/simulator_security_extensions.go):
  the station's own chain, and installing, listing and deleting root certificates. PEM decoding,
  X.509 parsing and SHA-256 are parameters of the model.
\<close>

section \<open>What the code takes from the crypto packages\<close>

record x509_certificate =
  RawIssuer :: string
  RawSubjectPublicKeyInfo :: string
  SerialNumber :: int

record pem_block =
  block_type :: string
  block_bytes :: string

record crypto =
  pem_decode :: "string \<Rightarrow> pem_block option \<times> string"
  parse_certificate :: "string \<Rightarrow> err + x509_certificate"
  sha256 :: "string \<Rightarrow> string"

text \<open>Documented of \<open>pem.Decode\<close>: when it finds a block, the rest is what follows the block.\<close>

definition crypto_ok :: "crypto \<Rightarrow> bool" where
  "crypto_ok k \<longleftrightarrow> (\<forall>s b rest. pem_decode k s = (Some b, rest) \<longrightarrow> length rest < length s)"

section \<open>The first certificate of a chain\<close>

text \<open>
  The loop over the PEM blocks, with fuel: \<^term>\<open>None\<close> stands for a loop that has not ended.
  One unit per byte of the chain is enough when every block takes at least one byte.
\<close>

fun parse_blocks :: "nat \<Rightarrow> crypto \<Rightarrow> string \<Rightarrow> (err + x509_certificate) option" where
  "parse_blocks 0 k rest = None"
| "parse_blocks (Suc n) k rest =
     (if rest = [] then Some (Inl (Library PlainError ''no PEM encoded certificate found''))
      else case pem_decode k rest of
        (None, _) \<Rightarrow> Some (Inl (Library PlainError ''no PEM encoded certificate found''))
      | (Some block, remaining) \<Rightarrow>
         if block_type block \<noteq> ''CERTIFICATE'' then parse_blocks n k remaining
         else (case parse_certificate k (block_bytes block) of
             Inl er \<Rightarrow> Some (Inl (Wrapf er (''parse certificate: '' @ error_text er)))
           | Inr certificate \<Rightarrow> Some (Inr certificate)))"

definition parseFirstCertificate :: "crypto \<Rightarrow> string \<Rightarrow> (err + x509_certificate) option" where
  "parseFirstCertificate k value = parse_blocks (Suc (length value)) k value"

section \<open>Certificate hashes\<close>

definition hex_encode :: "string \<Rightarrow> string" where
  "hex_encode s = concat (map (\<lambda>c. let n = (of_char c :: nat) in [hex_digit (n div 16), hex_digit (n mod 16)]) s)"

fun hex_nat :: "nat \<Rightarrow> string" where
  "hex_nat n = (if n < 16 then [hex_digit n] else hex_nat (n div 16) @ [hex_digit (n mod 16)])"

declare hex_nat.simps [simp del]

definition hex_int :: "int \<Rightarrow> string" where
  "hex_int i = (if i < 0 then ''-'' @ hex_nat (nat (- i)) else hex_nat (nat i))"

definition certificateHash :: "crypto \<Rightarrow> x509_certificate \<Rightarrow> certificate_hash_data" where
  "certificateHash k certificate =
     \<lparr>h_algorithm = ''SHA256'',
      h_issuer_name = hex_encode (sha256 k (RawIssuer certificate)),
      h_issuer_key = hex_encode (sha256 k (RawSubjectPublicKeyInfo certificate)),
      h_serial = to_upper (hex_int (SerialNumber certificate))\<rparr>"

section \<open>The handlers\<close>

datatype signed_status = ChainAccepted | ChainRejected

fun signed_status_text :: "signed_status \<Rightarrow> string" where
  "signed_status_text ChainAccepted = ''Accepted''"
| "signed_status_text ChainRejected = ''Rejected''"

definition OnCertificateSigned :: "crypto \<Rightarrow> env \<Rightarrow> simulator \<Rightarrow> string \<Rightarrow> (simulator \<times> signed_status) option" where
  "OnCertificateSigned k e s chain = do {
     parsed \<leftarrow> parseFirstCertificate k chain;
     let (s1, st) = (case parsed of Inl _ \<Rightarrow> (s, ChainRejected)
       | Inr _ \<Rightarrow> (s\<lparr>stationCertificateChain := chain\<rparr>, ChainAccepted));
     Some (emit e ''inbound'' ''CertificateSigned'' (signed_status_text st) None
       (''chain_bytes='' @ itoa (int (length chain))) s1, st) }"

datatype install_status = InstallAccepted | InstallFailed

fun install_status_text :: "install_status \<Rightarrow> string" where
  "install_status_text InstallAccepted = ''Accepted''"
| "install_status_text InstallFailed = ''Failed''"

definition OnInstallCertificate ::
  "crypto \<Rightarrow> env \<Rightarrow> simulator \<Rightarrow> certificate_use \<Rightarrow> string \<Rightarrow> (simulator \<times> install_status) option" where
  "OnInstallCertificate k e s ty text_pem = do {
     parsed \<leftarrow> parseFirstCertificate k text_pem;
     (case parsed of
        Inl er \<Rightarrow> Some (emit e ''inbound'' ''InstallCertificate'' (install_status_text InstallFailed) None
            (error_text er) s, InstallFailed)
      | Inr certificate \<Rightarrow>
         (let h = certificateHash k certificate;
              s1 = s\<lparr>installedCertificates := gm_put (certificateHashKey h)
                 \<lparr>ic_type = ty, ic_hash = h, ic_pem = text_pem\<rparr> (installedCertificates s)\<rparr> in
          Some (emit e ''inbound'' ''InstallCertificate'' (install_status_text InstallAccepted) None
            (use_text ty @ '':'' @ h_serial h) s1, InstallAccepted))) }"

datatype list_status = ListAccepted | ListNotFound

fun list_status_text :: "list_status \<Rightarrow> string" where
  "list_status_text ListAccepted = ''Accepted''"
| "list_status_text ListNotFound = ''NotFound''"

text \<open>The keys of the store are distinct, so sorting by key leaves nothing to the visiting order.\<close>

definition OnGetInstalledCertificateIds ::
  "env \<Rightarrow> simulator \<Rightarrow> certificate_use \<Rightarrow> simulator \<times> list_status \<times> certificate_hash_data list" where
  "OnGetInstalledCertificateIds e s ty =
     (let entries = sort_key certificateHashKey
            (map (\<lambda>(_, c). ic_hash c) (filter (\<lambda>(_, c). use_text (ic_type c) = use_text ty) (installedCertificates s)));
          st = (if entries = [] then ListNotFound else ListAccepted) in
      (emit e ''inbound'' ''GetInstalledCertificateIds'' (list_status_text st) None
         (''type='' @ use_text ty @ '' count='' @ itoa (int (length entries))) s, st, entries))"

datatype delete_status = DeleteAccepted | DeleteNotFound

fun delete_status_text :: "delete_status \<Rightarrow> string" where
  "delete_status_text DeleteAccepted = ''Accepted''"
| "delete_status_text DeleteNotFound = ''NotFound''"

definition OnDeleteCertificate :: "env \<Rightarrow> simulator \<Rightarrow> certificate_hash_data \<Rightarrow> simulator \<times> delete_status" where
  "OnDeleteCertificate e s h =
     (let key = certificateHashKey h;
          found = (map_of (installedCertificates s) key \<noteq> None);
          s1 = (if found then s\<lparr>installedCertificates := gm_del key (installedCertificates s)\<rparr> else s);
          st = (if found then DeleteAccepted else DeleteNotFound) in
      (emit e ''inbound'' ''DeleteCertificate'' (delete_status_text st) None (h_serial h) s1, st))"

section \<open>The loop over the blocks ends\<close>

lemma parse_blocks_ends:
  assumes "crypto_ok k"
  shows "length rest < n \<Longrightarrow> parse_blocks n k rest \<noteq> None"
proof (induction n arbitrary: rest)
  case (Suc n)
  show ?case
  proof (cases "pem_decode k rest")
    case (Pair b remaining)
    show ?thesis
    proof (cases b)
      case (Some block)
      with Pair assms have "length remaining < length rest" by (simp add: crypto_ok_def)
      with Suc have "parse_blocks n k remaining \<noteq> None" by auto
      with Pair Some show ?thesis by (simp split: sum.split)
    qed (simp add: Pair)
  qed
qed simp

lemma parseFirstCertificate_ends: "crypto_ok k \<Longrightarrow> \<exists>r. parseFirstCertificate k v = Some r"
  using parse_blocks_ends [of k v "Suc (length v)"] unfolding parseFirstCertificate_def by auto

section \<open>Well-formedness\<close>

lemma certificates_ok_put:
  "certificates_ok cs \<Longrightarrow> certificates_ok (gm_put (certificateHashKey (ic_hash c)) c cs)"
  unfolding certificates_ok_def by (simp del: map_of_eq_Some_iff)

lemma certificates_ok_del: "certificates_ok cs \<Longrightarrow> certificates_ok (gm_del k cs)"
  unfolding certificates_ok_def by (simp del: map_of_eq_Some_iff)

lemma OnCertificateSigned_wf [wf_intros]:
  assumes "sim_wf s" "crypto_ok k"
  shows "keeps fst s (OnCertificateSigned k e s chain)"
proof -
  obtain r where "parseFirstCertificate k chain = Some r" using parseFirstCertificate_ends [OF assms(2)] by blast
  with assms(1) show ?thesis by (cases r) (simp_all add: OnCertificateSigned_def)
qed

lemma OnInstallCertificate_wf [wf_intros]:
  assumes "sim_wf s" "crypto_ok k"
  shows "keeps fst s (OnInstallCertificate k e s ty p)"
proof -
  obtain r where r: "parseFirstCertificate k p = Some r" using parseFirstCertificate_ends [OF assms(2)] by blast
  show ?thesis
  proof (cases r)
    case (Inr c)
    let ?h = "certificateHash k c"
    have "certificates_ok (gm_put (certificateHashKey ?h) \<lparr>ic_type = ty, ic_hash = ?h, ic_pem = p\<rparr> (installedCertificates s))"
      using certificates_ok_put [of "installedCertificates s" "\<lparr>ic_type = ty, ic_hash = ?h, ic_pem = p\<rparr>"] assms(1)
      by (simp add: sim_wf_def)
    with assms(1) have "sim_wf (s\<lparr>installedCertificates :=
        gm_put (certificateHashKey ?h) \<lparr>ic_type = ty, ic_hash = ?h, ic_pem = p\<rparr> (installedCertificates s)\<rparr>)"
      by (simp add: sim_wf_def)
    with r Inr show ?thesis by (simp add: OnInstallCertificate_def Let_def)
  qed (use r assms(1) in \<open>simp add: OnInstallCertificate_def\<close>)
qed

lemma OnGetInstalledCertificateIds_wf [wf_intros]:
  "sim_wf s \<Longrightarrow> sim_wf (fst (OnGetInstalledCertificateIds e s ty)) \<and> opts (fst (OnGetInstalledCertificateIds e s ty)) = opts s"
  by (simp add: OnGetInstalledCertificateIds_def Let_def)

lemma OnDeleteCertificate_wf [wf_intros]:
  assumes "sim_wf s"
  shows "sim_wf (fst (OnDeleteCertificate e s h)) \<and> opts (fst (OnDeleteCertificate e s h)) = opts s"
proof -
  have "sim_wf (s\<lparr>installedCertificates := gm_del (certificateHashKey h) (installedCertificates s)\<rparr>)"
    using assms by (simp add: sim_wf_def certificates_ok_del)
  with assms show ?thesis by (simp add: OnDeleteCertificate_def Let_def)
qed

section \<open>Install, list, delete\<close>

lemma get_ids_set:
  assumes "sim_wf s" "OnGetInstalledCertificateIds e s ty = (s', st, entries)"
  shows "h \<in> set entries \<longleftrightarrow> (\<exists>c. map_of (installedCertificates s) (certificateHashKey h) = Some c \<and>
      ic_hash c = h \<and> use_text (ic_type c) = use_text ty)"
proof -
  have ok: "certificates_ok (installedCertificates s)" using assms(1) by (simp add: sim_wf_def)
  have "set entries = (\<lambda>(_, c). ic_hash c) ` {(k, c) \<in> set (installedCertificates s). use_text (ic_type c) = use_text ty}"
    using assms(2) by (auto simp: OnGetInstalledCertificateIds_def Let_def)
  then have "h \<in> set entries \<longleftrightarrow> (\<exists>k c. map_of (installedCertificates s) k = Some c \<and> ic_hash c = h \<and> use_text (ic_type c) = use_text ty)"
    using ok by (force simp: certificates_ok_def)
  also have "\<dots> \<longleftrightarrow> (\<exists>c. map_of (installedCertificates s) (certificateHashKey h) = Some c \<and>
      ic_hash c = h \<and> use_text (ic_type c) = use_text ty)"
    using ok unfolding certificates_ok_def by blast
  finally show ?thesis .
qed

text \<open>
  C34: the list of installed certificates of a type is sorted by key and holds exactly the hashes
  stored with that type, each once; it is \<open>NotFound\<close> exactly when there is none.
\<close>

theorem installed_ids_exact:
  assumes "sim_wf s" "OnGetInstalledCertificateIds e s ty = (s', st, entries)"
  shows "sorted (map certificateHashKey entries) \<and> distinct entries \<and>
    (\<forall>h. h \<in> set entries \<longleftrightarrow> (\<exists>c. map_of (installedCertificates s) (certificateHashKey h) = Some c \<and>
      ic_hash c = h \<and> use_text (ic_type c) = use_text ty)) \<and>
    (st = ListNotFound \<longleftrightarrow> entries = [])"
proof -
  have ok: "certificates_ok (installedCertificates s)" using assms(1) by (simp add: sim_wf_def)
  let ?raw = "map (\<lambda>(_, c). ic_hash c) (filter (\<lambda>(_, c). use_text (ic_type c) = use_text ty) (installedCertificates s))"
  have entries: "entries = sort_key certificateHashKey ?raw" and st: "st = ListNotFound \<longleftrightarrow> entries = []"
    using assms(2) by (auto simp: OnGetInstalledCertificateIds_def Let_def split: if_splits)
  have keys: "map certificateHashKey (map (\<lambda>(_, c). ic_hash c) (filter P (installedCertificates s))) =
      map fst (filter P (installedCertificates s))" for P
    using ok by (auto simp: certificates_ok_def)
  have "distinct (map fst (filter P (installedCertificates s)))" for P
    using ok by (simp add: certificates_ok_def distinct_map_filter)
  then have "distinct (map certificateHashKey ?raw)" unfolding keys by blast
  then have "distinct ?raw" by (metis distinct_map)
  with entries have "distinct entries" by simp
  moreover have "sorted (map certificateHashKey entries)" unfolding entries by simp
  ultimately show ?thesis using st get_ids_set [OF assms] by blast
qed

text \<open>
  C30: a certificate that parses is installed and then listed under its type; deleting it by its
  hash, in whatever letter case, is accepted once and only removes that entry.
\<close>

theorem certificate_round_trip:
  assumes "sim_wf s" "parseFirstCertificate k p = Some (Inr c)"
    and "OnInstallCertificate k e s ty p = Some (s1, st1)"
    and "certificateHashKey h = certificateHashKey (certificateHash k c)"
    and "OnDeleteCertificate e s1 h = (s2, st2)"
  shows "st1 = InstallAccepted \<and>
    certificateHash k c \<in> set (snd (snd (OnGetInstalledCertificateIds e s1 ty))) \<and>
    st2 = DeleteAccepted \<and> snd (OnDeleteCertificate e s2 h) = DeleteNotFound \<and>
    map_of (installedCertificates s2) = (map_of (installedCertificates s))(certificateHashKey h := None)"
proof -
  let ?h = "certificateHash k c"
  let ?entry = "\<lparr>ic_type = ty, ic_hash = ?h, ic_pem = p\<rparr>"
  have s1: "st1 = InstallAccepted" "installedCertificates s1 = gm_put (certificateHashKey ?h) ?entry (installedCertificates s)"
    using assms(2,3) by (auto simp: OnInstallCertificate_def Let_def)
  have "certificates_ok (installedCertificates s1)"
    using certificates_ok_put [of "installedCertificates s" ?entry] assms(1) s1(2) by (simp add: sim_wf_def)
  moreover have "s1 = emit e ''inbound'' ''InstallCertificate'' ''Accepted'' None (use_text ty @ '':'' @ h_serial ?h)
      (s\<lparr>installedCertificates := gm_put (certificateHashKey ?h) ?entry (installedCertificates s)\<rparr>)"
    using assms(2,3) by (auto simp: OnInstallCertificate_def Let_def)
  moreover have "certificates_ok (installedCertificates s1) \<Longrightarrow>
      sim_wf (s\<lparr>installedCertificates := gm_put (certificateHashKey ?h) ?entry (installedCertificates s)\<rparr>)"
    using assms(1) s1(2) by (simp add: sim_wf_def)
  ultimately have wf1: "sim_wf s1" by simp
  have hit: "map_of (installedCertificates s1) (certificateHashKey h) = Some ?entry"
    unfolding s1(2) assms(4) by simp
  obtain s' st es where ids: "OnGetInstalledCertificateIds e s1 ty = (s', st, es)" by (metis prod_cases3)
  have "?h \<in> set es" using get_ids_set [OF wf1 ids, of ?h] hit unfolding assms(4) by simp
  moreover have s2: "st2 = DeleteAccepted" "installedCertificates s2 = gm_del (certificateHashKey h) (installedCertificates s1)"
    using assms(5) hit by (auto simp: OnDeleteCertificate_def Let_def)
  moreover have "map_of (installedCertificates s2) = (map_of (installedCertificates s))(certificateHashKey h := None)"
    unfolding s2(2) s1(2) assms(4) by (simp add: fun_eq_iff del: map_of_eq_Some_iff)
  moreover from this have "snd (OnDeleteCertificate e s2 h) = DeleteNotFound"
    by (simp add: OnDeleteCertificate_def Let_def)
  ultimately show ?thesis using s1 ids by simp
qed

text \<open>A toy instance of the crypto packages: every chain is one certificate block.\<close>

definition sample_crypto :: crypto where
  "sample_crypto = \<lparr>pem_decode = (\<lambda>s. if s = [] then (None, []) else (Some \<lparr>block_type = ''CERTIFICATE'', block_bytes = s\<rparr>, [])),
     parse_certificate = (\<lambda>b. Inr \<lparr>RawIssuer = b, RawSubjectPublicKeyInfo = b, SerialNumber = int (length b) + 170\<rparr>),
     sha256 = (\<lambda>s. take 2 s)\<rparr>"

lemma sample_crypto_ok: "crypto_ok sample_crypto"
  by (auto simp: crypto_ok_def sample_crypto_def split: if_splits)

theorem certificate_round_trip_witness:
  "\<exists>s1 s2 h. OnInstallCertificate sample_crypto (list_env 1 True) test_station CentralSystemRootCertificate ''PEM''
       = Some (s1, InstallAccepted) \<and>
     OnDeleteCertificate (list_env 1 True) s1 h = (s2, DeleteAccepted) \<and>
     snd (OnDeleteCertificate (list_env 1 True) s2 h) = DeleteNotFound"
proof -
  let ?e = "list_env 1 True"
  let ?c = "\<lparr>RawIssuer = ''PEM'', RawSubjectPublicKeyInfo = ''PEM'', SerialNumber = 173\<rparr>"
  have parse: "parseFirstCertificate sample_crypto ''PEM'' = Some (Inr ?c)" by code_simp
  define h where "h = certificateHash sample_crypto ?c"
  obtain s1 st1 where run: "OnInstallCertificate sample_crypto ?e test_station CentralSystemRootCertificate ''PEM'' = Some (s1, st1)"
    using OnInstallCertificate_wf [OF test_station_wf sample_crypto_ok] by (fastforce simp: keeps_def)
  obtain s2 st2 where del: "OnDeleteCertificate ?e s1 h = (s2, st2)" by fastforce
  have same: "certificateHashKey h = certificateHashKey (certificateHash sample_crypto ?c)" by (simp add: h_def)
  from certificate_round_trip [OF test_station_wf parse run same del] run del show ?thesis by blast
qed

theorem installed_ids_exact_witness:
  "OnGetInstalledCertificateIds (list_env 1 True) test_station CentralSystemRootCertificate =
     (fst (OnGetInstalledCertificateIds (list_env 1 True) test_station CentralSystemRootCertificate), ListNotFound, [])"
proof -
  obtain s' st es where run: "OnGetInstalledCertificateIds (list_env 1 True) test_station CentralSystemRootCertificate = (s', st, es)"
    by (metis prod_cases3)
  have "installedCertificates test_station = []" by code_simp
  with installed_ids_exact [OF test_station_wf run] have "st = ListNotFound" "es = []" by auto
  with run show ?thesis by simp
qed

end
