(* ===== verification/Triggers.thy ===== *)
theory Triggers
  imports JobProofs
begin

text \<open>
  The remote trigger profile (simulator_optional_profiles.go) and its security extension
  (simulator_security_extensions.go): the answer to a trigger, and the goroutine that sends the
  triggered messages after a short delay, one connector at a time.
\<close>

section \<open>The answer\<close>

fun trigger_text :: "trigger_message \<Rightarrow> string" where
  "trigger_text TriggerBootNotification = ''BootNotification''"
| "trigger_text TriggerHeartbeat = ''Heartbeat''"
| "trigger_text TriggerMeterValues = ''MeterValues''"
| "trigger_text TriggerStatusNotification = ''StatusNotification''"
| "trigger_text TriggerDiagnosticsStatus = ''DiagnosticsStatusNotification''"
| "trigger_text TriggerFirmwareStatus = ''FirmwareStatusNotification''"
| "trigger_text (TriggerOther t) = t"

fun extended_trigger_text :: "extended_trigger_message \<Rightarrow> string" where
  "extended_trigger_text ExtBootNotification = ''BootNotification''"
| "extended_trigger_text ExtHeartbeat = ''Heartbeat''"
| "extended_trigger_text ExtMeterValues = ''MeterValues''"
| "extended_trigger_text ExtStatusNotification = ''StatusNotification''"
| "extended_trigger_text ExtFirmwareStatus = ''FirmwareStatusNotification''"
| "extended_trigger_text ExtLogStatus = ''LogStatusNotification''"
| "extended_trigger_text ExtSignChargingStationCertificate = ''SignChargePointCertificate''"
| "extended_trigger_text (ExtOther t) = t"

datatype trigger_status = TrigAccepted | TrigRejected | TrigNotImplemented

fun trigger_status_text :: "trigger_status \<Rightarrow> string" where
  "trigger_status_text TrigAccepted = ''Accepted''"
| "trigger_status_text TrigRejected = ''Rejected''"
| "trigger_status_text TrigNotImplemented = ''NotImplemented''"

fun trigger_supported :: "trigger_message \<Rightarrow> bool" where
  "trigger_supported (TriggerOther _) = False"
| "trigger_supported _ = True"

fun extendedTriggerSupported :: "extended_trigger_message \<Rightarrow> bool" where
  "extendedTriggerSupported (ExtOther _) = False"
| "extendedTriggerSupported _ = True"

definition trigger_decision :: "simulator \<Rightarrow> go_int option \<Rightarrow> bool \<Rightarrow> trigger_status" where
  "trigger_decision s connectorID supported =
     (if \<not> supported then TrigNotImplemented
      else (case connectorID of
          Some i \<Rightarrow> if i > 0 \<and> map_of (connectors s) i = None then TrigRejected else TrigAccepted
        | None \<Rightarrow> TrigAccepted))"

definition OnTriggerMessage :: "env \<Rightarrow> simulator \<Rightarrow> trigger_message \<Rightarrow> go_int option \<Rightarrow> simulator \<times> trigger_status" where
  "OnTriggerMessage e s message connectorID =
     (let st = trigger_decision s connectorID (trigger_supported message);
          s1 = emit e ''inbound'' ''TriggerMessage'' (trigger_status_text st) connectorID (trigger_text message) s in
      (if st = TrigAccepted \<and> is_connected e then spawn (GoTrigger message connectorID TriggerTimer) s1 else s1, st))"

definition OnExtendedTriggerMessage ::
  "env \<Rightarrow> simulator \<Rightarrow> extended_trigger_message \<Rightarrow> go_int option \<Rightarrow> simulator \<times> trigger_status" where
  "OnExtendedTriggerMessage e s message connectorID =
     (let st = trigger_decision s connectorID (extendedTriggerSupported message);
          s1 = emit e ''inbound'' ''ExtendedTriggerMessage'' (trigger_status_text st) connectorID
            (extended_trigger_text message) s in
      (if st = TrigAccepted \<and> is_connected e then spawn (GoExtendedTrigger message connectorID TriggerTimer) s1 else s1, st))"

section \<open>The triggered messages\<close>

text \<open>The end of \<open>executeTrigger\<close>: an error is only reported as an event.\<close>

definition trigger_end ::
  "env \<Rightarrow> string \<Rightarrow> go_int option \<Rightarrow> simulator \<times> err option \<Rightarrow> trigger_pc option \<Rightarrow> simulator \<times> trigger_pc option" where
  "trigger_end e label connectorID r continue = (case r of
     (s, Some er) \<Rightarrow> (emit e ''outbound'' label ''Error'' connectorID (error_text er) s, None)
   | (s, None) \<Rightarrow> (s, continue))"

definition unknown_connector :: "go_int \<Rightarrow> err" where
  "unknown_connector i = Library PlainError (''unknown connector '' @ itoa i)"

definition more_statuses :: "go_int list \<Rightarrow> trigger_pc option" where
  "more_statuses ids = (if ids = [] then None else Some (TriggerStatuses ids))"

definition more_meters :: "go_int list \<Rightarrow> trigger_pc option" where
  "more_meters ids = (if ids = [] then None else Some (TriggerMeters ids))"

text \<open>\<open>sendTriggeredStatuses\<close> up to its first message; the status of a connector is read before it is sent.\<close>

definition sendTriggeredStatuses ::
  "env \<Rightarrow> string \<Rightarrow> go_int option \<Rightarrow> simulator \<Rightarrow> simulator \<times> trigger_pc option" where
  "sendTriggeredStatuses e label connectorID s = (case connectorID of
     None \<Rightarrow> (s, Some (TriggerNotify 0 Available [1..Connectors (opts s)]))
   | Some i \<Rightarrow>
      if i = 0 then (s, Some (TriggerNotify 0 Available []))
      else (case map_of (connectors s) i of
          None \<Rightarrow> trigger_end e label connectorID (s, Some (unknown_connector i)) None
        | Some c \<Rightarrow> (s, Some (TriggerNotify i (status c) []))))"

text \<open>\<open>sendTriggeredMeterValues\<close>: the connectors to sample.\<close>

definition triggered_meter_ids :: "simulator \<Rightarrow> go_int option \<Rightarrow> go_int list" where
  "triggered_meter_ids s connectorID = (case connectorID of
     None \<Rightarrow> [1..Connectors (opts s)]
   | Some i \<Rightarrow> if i = 0 then [1..Connectors (opts s)] else [i])"

definition drop_result :: "'s \<times> (err + 'b) \<Rightarrow> 's \<times> err option" where
  "drop_result r = (case r of (s, Inl er) \<Rightarrow> (s, Some er) | (s, Inr _) \<Rightarrow> (s, None))"

definition executeTrigger ::
  "env \<Rightarrow> answers \<Rightarrow> trigger_message \<Rightarrow> go_int option \<Rightarrow> simulator \<Rightarrow> simulator \<times> trigger_pc option" where
  "executeTrigger e a message connectorID s = (let label = trigger_text message in (case message of
     TriggerBootNotification \<Rightarrow> trigger_end e label connectorID (drop_result (sendBootNotification e a s)) None
   | TriggerHeartbeat \<Rightarrow> trigger_end e label connectorID (sendHeartbeat e a s) None
   | TriggerStatusNotification \<Rightarrow> sendTriggeredStatuses e label connectorID s
   | TriggerMeterValues \<Rightarrow> (s, more_meters (triggered_meter_ids s connectorID))
   | TriggerDiagnosticsStatus \<Rightarrow> (s, Some (TriggerDiagnostics (ReportPublish (diagnosticsStatus s))))
   | TriggerFirmwareStatus \<Rightarrow> (s, Some (TriggerFirmware (ReportPublish (firmwareStatus s))))
   | TriggerOther _ \<Rightarrow> (s, None)))"

definition sign_request :: "env \<Rightarrow> answers \<Rightarrow> simulator \<Rightarrow> simulator \<times> err option" where
  "sign_request e a s = (case a_csr a of
     Inl er \<Rightarrow> (s, Some er)
   | Inr csr \<Rightarrow>
      (let s1 = send_msg (OutSignCertificate csr) s in
       case await (a_sign a) of
         Inl er \<Rightarrow> (s1, Some er)
       | Inr _ \<Rightarrow> (emit e ''outbound'' ''SignCertificate'' ''Sent'' None ''generated ECDSA P-256 CSR'' s1, None)))"

definition executeExtendedTrigger ::
  "env \<Rightarrow> answers \<Rightarrow> extended_trigger_message \<Rightarrow> go_int option \<Rightarrow> simulator \<Rightarrow> simulator \<times> trigger_pc option" where
  "executeExtendedTrigger e a message connectorID s = (let label = extended_trigger_text message in (case message of
     ExtBootNotification \<Rightarrow> trigger_end e label connectorID (drop_result (sendBootNotification e a s)) None
   | ExtHeartbeat \<Rightarrow> trigger_end e label connectorID (sendHeartbeat e a s) None
   | ExtMeterValues \<Rightarrow> (s, more_meters (triggered_meter_ids s connectorID))
   | ExtStatusNotification \<Rightarrow> sendTriggeredStatuses e label connectorID s
   | ExtFirmwareStatus \<Rightarrow> (s, Some (TriggerFirmware (ReportPublish (firmwareStatus s))))
   | ExtLogStatus \<Rightarrow> (s, Some (TriggerLog (activeLogRequestID s) (ReportPublish (logStatus s))))
   | ExtSignChargingStationCertificate \<Rightarrow> trigger_end e label connectorID (sign_request e a s) None
   | ExtOther _ \<Rightarrow> (s, None)))"

text \<open>
  The goroutine: 25 milliseconds of delay, the dispatch on the message (\<open>execute\<close>), and then in
  turn a section under the mutex (a connector's status or meter is read, a status is published)
  and the awaited message with what was read. A status is published although it may be older
  than the present one by then.
\<close>

fun trigger_continue ::
  "env \<Rightarrow> answers \<Rightarrow> string \<Rightarrow> go_int option \<Rightarrow> (simulator \<Rightarrow> simulator \<times> trigger_pc option) \<Rightarrow> trigger_pc \<Rightarrow> simulator \<Rightarrow>
     (simulator \<times> trigger_pc option) option" where
  "trigger_continue e a label connectorID execute TriggerTimer s = Some (s, if a_wait a then Some TriggerRun else None)"
| "trigger_continue e a label connectorID execute TriggerRun s = Some (execute s)"
| "trigger_continue e a label connectorID execute (TriggerStatuses []) s = Some (s, None)"
| "trigger_continue e a label connectorID execute (TriggerStatuses (i # ids)) s = do {
     c \<leftarrow> map_of (connectors s) i;
     Some (s, Some (TriggerNotify i (status c) ids)) }"
| "trigger_continue e a label connectorID execute (TriggerNotify i st ids) s =
     Some (trigger_end e label connectorID (notifyStatus e a i st s) (more_statuses ids))"
| "trigger_continue e a label connectorID execute (TriggerMeters []) s = Some (s, None)"
| "trigger_continue e a label connectorID execute (TriggerMeters (i # ids)) s = Some (case map_of (connectors s) i of
     None \<Rightarrow> trigger_end e label connectorID (s, Some (unknown_connector i)) None
   | Some c \<Rightarrow> (s, Some (TriggerSample i (meter c) (transactionID c) ids)))"
| "trigger_continue e a label connectorID execute (TriggerSample i m transaction ids) s =
     Some (trigger_end e label connectorID (sendMeterSample e a i m transaction ''Trigger'' s) (more_meters ids))"
| "trigger_continue e a label connectorID execute (TriggerDiagnostics (ReportPublish st)) s =
     Some (publish_diagnostics st s, Some (TriggerDiagnostics (ReportAwait st)))"
| "trigger_continue e a label connectorID execute (TriggerDiagnostics (ReportAwait st)) s =
     Some (trigger_end e label connectorID (report_diagnostics e a st s) None)"
| "trigger_continue e a label connectorID execute (TriggerFirmware (ReportPublish st)) s =
     Some (publish_firmware st s, Some (TriggerFirmware (ReportAwait st)))"
| "trigger_continue e a label connectorID execute (TriggerFirmware (ReportAwait st)) s =
     Some (trigger_end e label connectorID (report_firmware e a st s) None)"
| "trigger_continue e a label connectorID execute (TriggerLog r (ReportPublish st)) s = Some (case publish_log r st s of
     None \<Rightarrow> (s, None)
   | Some s1 \<Rightarrow> (s1, Some (TriggerLog r (ReportAwait st))))"
| "trigger_continue e a label connectorID execute (TriggerLog r (ReportAwait st)) s =
     Some (trigger_end e label connectorID (report_log e a r st s) None)"

definition trigger_step ::
  "env \<Rightarrow> answers \<Rightarrow> trigger_message \<Rightarrow> go_int option \<Rightarrow> trigger_pc \<Rightarrow> simulator \<Rightarrow> (simulator \<times> trigger_pc option) option" where
  "trigger_step e a message connectorID =
     trigger_continue e a (trigger_text message) connectorID (executeTrigger e a message connectorID)"

definition extended_trigger_step ::
  "env \<Rightarrow> answers \<Rightarrow> extended_trigger_message \<Rightarrow> go_int option \<Rightarrow> trigger_pc \<Rightarrow> simulator \<Rightarrow>
     (simulator \<times> trigger_pc option) option" where
  "extended_trigger_step e a message connectorID =
     trigger_continue e a (extended_trigger_text message) connectorID (executeExtendedTrigger e a message connectorID)"

section \<open>Well-formedness\<close>

lemma trigger_end_wf:
  "sim_wf (fst r) \<Longrightarrow> opts (fst r) = opts s \<Longrightarrow>
     sim_wf (fst (trigger_end e l c r k)) \<and> opts (fst (trigger_end e l c r k)) = opts s"
  by (cases r; cases "snd r") (simp_all add: trigger_end_def)

lemma drop_result_fst [simp]: "fst (drop_result r) = fst r"
  by (simp add: drop_result_def split: prod.split sum.split)

lemma OnTriggerMessage_wf [wf_intros]:
  "sim_wf s \<Longrightarrow> sim_wf (fst (OnTriggerMessage e s m c)) \<and> opts (fst (OnTriggerMessage e s m c)) = opts s"
  by (simp add: OnTriggerMessage_def Let_def)

lemma OnExtendedTriggerMessage_wf [wf_intros]:
  "sim_wf s \<Longrightarrow> sim_wf (fst (OnExtendedTriggerMessage e s m c)) \<and> opts (fst (OnExtendedTriggerMessage e s m c)) = opts s"
  by (simp add: OnExtendedTriggerMessage_def Let_def)

text \<open>The connectors still to be announced exist; the first equation is what every step owes.\<close>

abbreviation trigger_left_ok :: "go_int \<Rightarrow> trigger_pc option \<Rightarrow> bool" where
  "trigger_left_ok n q \<equiv> (\<forall>pc. q = Some pc \<longrightarrow> trigger_pc_ok n pc)"

definition trigger_owes :: "simulator \<Rightarrow> simulator \<times> trigger_pc option \<Rightarrow> bool" where
  "trigger_owes s r \<longleftrightarrow> sim_wf (fst r) \<and> opts (fst r) = opts s \<and> trigger_left_ok (Connectors (opts s)) (snd r)"

lemma trigger_owes_pair [simp]:
  "trigger_owes s (s', q) \<longleftrightarrow> sim_wf s' \<and> opts s' = opts s \<and> trigger_left_ok (Connectors (opts s)) q"
  by (simp add: trigger_owes_def)

lemma trigger_end_owes:
  "sim_wf (fst r) \<Longrightarrow> opts (fst r) = opts s \<Longrightarrow> trigger_left_ok (Connectors (opts s)) k \<Longrightarrow>
     trigger_owes s (trigger_end e l c r k)"
  using trigger_end_wf [of r s e l c k]
  by (auto simp: trigger_owes_def trigger_end_def split: prod.splits option.splits)

lemma more_ok [simp]:
  "list_all (connector_id n) ids \<Longrightarrow> trigger_left_ok n (more_statuses ids)" "trigger_left_ok n (more_meters ids)"
  by (auto simp: more_statuses_def more_meters_def)

lemma range_ids_ok [simp]: "list_all (connector_id n) [1..n]"
  by (simp add: list_all_iff)

lemma sendTriggeredStatuses_owes: "sim_wf s \<Longrightarrow> trigger_owes s (sendTriggeredStatuses e l c s)"
  by (auto simp: sendTriggeredStatuses_def trigger_end_owes split: option.split)

lemma sign_request_wf: "sim_wf s \<Longrightarrow> sim_wf (fst (sign_request e a s)) \<and> opts (fst (sign_request e a s)) = opts s"
  by (simp add: sign_request_def Let_def split: sum.split)

lemma executeTrigger_owes: "sim_wf s \<Longrightarrow> trigger_owes s (executeTrigger e a m c s)"
  by (cases m) (simp_all add: executeTrigger_def Let_def trigger_end_owes sendBootNotification_wf sendHeartbeat_wf
      sendTriggeredStatuses_owes more_meters_def)

lemma executeExtendedTrigger_owes: "sim_wf s \<Longrightarrow> trigger_owes s (executeExtendedTrigger e a m c s)"
  by (cases m) (simp_all add: executeExtendedTrigger_def Let_def trigger_end_owes sendBootNotification_wf sendHeartbeat_wf
      sendTriggeredStatuses_owes sign_request_wf more_meters_def)

lemma trigger_continue_keeps:
  assumes "sim_wf s" "trigger_pc_ok (Connectors (opts s)) pc" "trigger_owes s (execute s)"
  shows "\<exists>r. trigger_continue e a l c execute pc s = Some r \<and> trigger_owes s r"
proof (cases "(e, a, l, c, execute, pc, s)" rule: trigger_continue.cases)
  case (4 e a l c execute i ids s)
  with assms have i: "connector_id (Connectors (opts s)) i" and wf: "sim_wf s" by simp_all
  from wf_connector [OF wf i] obtain conn where "map_of (connectors s) i = Some conn" by blast
  with 4 assms show ?thesis by simp
qed (use assms in \<open>auto simp: trigger_end_owes dest: publish_log_wf split: option.split\<close>)

lemma owes_keeps:
  "(\<exists>r. m = Some r \<and> trigger_owes s r) \<Longrightarrow> \<exists>s' q. m = Some (s', q) \<and> sim_wf s' \<and> opts s' = opts s \<and>
     trigger_left_ok (Connectors (opts s)) q"
  by auto

lemma trigger_step_keeps:
  assumes "sim_wf s" "trigger_pc_ok (Connectors (opts s)) pc"
  shows "\<exists>s' q. trigger_step e a m c pc s = Some (s', q) \<and> sim_wf s' \<and> opts s' = opts s \<and>
    trigger_left_ok (Connectors (opts s)) q"
  unfolding trigger_step_def
  by (rule owes_keeps, rule trigger_continue_keeps [OF assms], rule executeTrigger_owes [OF assms(1)])

lemma extended_trigger_step_keeps:
  assumes "sim_wf s" "trigger_pc_ok (Connectors (opts s)) pc"
  shows "\<exists>s' q. extended_trigger_step e a m c pc s = Some (s', q) \<and> sim_wf s' \<and> opts s' = opts s \<and>
    trigger_left_ok (Connectors (opts s)) q"
  unfolding extended_trigger_step_def
  by (rule owes_keeps, rule trigger_continue_keeps [OF assms], rule executeExtendedTrigger_owes [OF assms(1)])

section \<open>What is sent\<close>

text \<open>
  A trigger is \<open>NotImplemented\<close> for a message outside the profile, \<open>Rejected\<close> for a
  positive connector the station does not have, \<open>Accepted\<close> otherwise; only an accepted trigger
  on a live connection starts the one goroutine that will send, and nothing is sent before that.
\<close>

lemma trigger_decision_exact:
  "case OnTriggerMessage e s m c of (s', st) \<Rightarrow>
     st = (if \<not> trigger_supported m then TrigNotImplemented
           else if (\<exists>i. c = Some i \<and> i > 0 \<and> map_of (connectors s) i = None) then TrigRejected else TrigAccepted) \<and>
     goroutines s' = goroutines s @ (if st = TrigAccepted \<and> is_connected e then [GoTrigger m c TriggerTimer] else []) \<and>
     sent s' = sent s \<and> connectors s' = connectors s"
  by (auto simp: OnTriggerMessage_def trigger_decision_def Let_def split: option.split)

fun run_trigger ::
  "nat \<Rightarrow> env \<Rightarrow> answers \<Rightarrow> trigger_message \<Rightarrow> go_int option \<Rightarrow> trigger_pc \<Rightarrow> simulator \<Rightarrow> (simulator \<times> trigger_pc option) option" where
  "run_trigger 0 e a m c pc s = Some (s, Some pc)"
| "run_trigger (Suc n) e a m c pc s = (case trigger_step e a m c pc s of
     None \<Rightarrow> None
   | Some (s', None) \<Rightarrow> Some (s', None)
   | Some (s', Some pc') \<Rightarrow> run_trigger n e a m c pc' s')"

abbreviation status_of :: "simulator \<Rightarrow> go_int \<Rightarrow> charge_point_status" where
  "status_of s i \<equiv> status (the (map_of (connectors s) i))"

lemma notifyStatus_answered:
  assumes "await (a_status a i) = Inr ()"
  shows "snd (notifyStatus e a i st s) = None"
  using assms by (simp add: notifyStatus_def Let_def)

lemma triggered_statuses_run:
  assumes "\<forall>i. await (a_status a i) = Inr ()"
  shows "ids \<noteq> [] \<Longrightarrow> \<forall>i \<in> set ids. map_of (connectors s) i \<noteq> None \<Longrightarrow>
    \<exists>s'. run_trigger (2 * length ids) e a m c (TriggerStatuses ids) s = Some (s', None) \<and> connectors s' = connectors s \<and>
      sent s' = sent s @ map (\<lambda>i. OutStatusNotification i (status_of s i)) ids"
proof (induction ids arbitrary: s)
  case (Cons i ids)
  obtain conn where c: "map_of (connectors s) i = Some conn" using Cons.prems(2) by auto
  obtain t where ok: "notifyStatus e a i (status conn) s = (t, None)"
    using notifyStatus_answered [of a i e "status conn" s] assms by (metis prod.collapse)
  have t: "connectors t = connectors s" "sent t = sent s @ [OutStatusNotification i (status conn)]"
    using notifyStatus_frame(2,7) [of e a i "status conn" s] unfolding ok by simp_all
  have step: "trigger_step e a m c (TriggerStatuses (i # ids)) s = Some (s, Some (TriggerNotify i (status conn) ids))"
    "trigger_step e a m c (TriggerNotify i (status conn) ids) s = Some (t, more_statuses ids)"
    using c ok by (simp_all add: trigger_step_def trigger_end_def)
  show ?case
  proof (cases "ids = []")
    case True
    with step c t show ?thesis by (simp add: more_statuses_def numeral_2_eq_2)
  next
    case False
    have "\<forall>i \<in> set ids. map_of (connectors t) i \<noteq> None" using Cons.prems(2) t by simp
    from Cons.IH [OF False this] obtain s' where
      "run_trigger (2 * length ids) e a m c (TriggerStatuses ids) t = Some (s', None)" "connectors s' = connectors t"
      "sent s' = sent t @ map (\<lambda>i. OutStatusNotification i (status_of t i)) ids" by blast
    with step c False t show ?thesis by (simp add: more_statuses_def)
  qed
qed simp

text \<open>
  C40: a triggered status notification without a connector, undisturbed and answered, announces
  connector zero as \<open>Available\<close> and then every connector, in ascending order, with the status
  it has, and changes no connector. Two steps for every connector and three more are enough.
\<close>

theorem triggered_statuses_complete:
  assumes "sim_wf s" "Connectors (opts s) > 0" "\<forall>i. await (a_status a i) = Inr ()" "a_wait a"
  shows "\<exists>s'. run_trigger (2 * nat (Connectors (opts s)) + 3) e a TriggerStatusNotification None TriggerTimer s = Some (s', None) \<and>
    connectors s' = connectors s \<and>
    sent s' = sent s @ OutStatusNotification 0 Available #
      map (\<lambda>i. OutStatusNotification i (status_of s i)) [1..Connectors (opts s)]"
proof -
  let ?n = "Connectors (opts s)"
  obtain t where ok: "notifyStatus e a 0 Available s = (t, None)"
    using notifyStatus_answered [of a 0 e Available s] assms(3) by (metis prod.collapse)
  have t: "connectors t = connectors s" "sent t = sent s @ [OutStatusNotification 0 Available]"
    using notifyStatus_frame(2,7) [of e a 0 Available s] unfolding ok by simp_all
  have ne: "[1..?n] \<noteq> []" using assms(2) by simp
  have run: "trigger_step e a TriggerStatusNotification None TriggerTimer s = Some (s, Some TriggerRun)"
    "trigger_step e a TriggerStatusNotification None TriggerRun s = Some (s, Some (TriggerNotify 0 Available [1..?n]))"
    "trigger_step e a TriggerStatusNotification None (TriggerNotify 0 Available [1..?n]) s = Some (t, Some (TriggerStatuses [1..?n]))"
    using ne assms(4)
    by (simp_all add: trigger_step_def executeTrigger_def sendTriggeredStatuses_def more_statuses_def ok trigger_end_def)
  have len: "length [1..?n] = nat ?n" by simp
  have "\<forall>i \<in> set [1..?n]. map_of (connectors t) i \<noteq> None"
    using wf_connector [OF assms(1)] t(1) by fastforce
  from triggered_statuses_run [OF assms(3) ne this, of e TriggerStatusNotification None] obtain s' where s':
    "run_trigger (2 * nat ?n) e a TriggerStatusNotification None (TriggerStatuses [1..?n]) t = Some (s', None)"
    "connectors s' = connectors t" "sent s' = sent t @ map (\<lambda>i. OutStatusNotification i (status_of t i)) [1..?n]"
    unfolding len by blast
  have "run_trigger (2 * nat ?n + 3) e a TriggerStatusNotification None TriggerTimer s = Some (s', None)"
    using s'(1) run by (simp add: numeral_3_eq_3)
  with s' t show ?thesis by simp
qed

theorem triggered_statuses_complete_witness:
  "\<exists>s'. run_trigger 7 (list_env 1 True) (accepting 1) TriggerStatusNotification None TriggerTimer test_station
     = Some (s', None) \<and> sent s' = [OutStatusNotification 0 Available, OutStatusNotification 1 Available, OutStatusNotification 2 Available]"
proof -
  have "\<forall>i. await (a_status (accepting 1) i) = Inr ()" "a_wait (accepting 1)" by (simp_all add: accepting_def)
  from triggered_statuses_complete [OF test_station_wf _ this, of "list_env 1 True"]
  show ?thesis by (auto simp: test_options_def upto.simps fresh_connector_def)
qed

end
