(* ===== verification/World.thy ===== *)
theory World
  imports Transactions LocalAuth SmartCharging JobProofs Certificates Triggers
begin

text \<open>
  The running simulator as a transition system: the central system's requests, the goroutines
  and the \<open>Run\<close> loop interleave in any order, every section under the mutex being one step.
  Every reachable state is well formed and no step panics.
\<close>

section \<open>Requests\<close>

datatype request =
    ReqChangeAvailability go_int availability_type
  | ReqChangeConfiguration string string
  | ReqClearCache
  | ReqDataTransfer string string string
  | ReqGetConfiguration "string list"
  | ReqRemoteStart "go_int option" string "charging_profile option"
  | ReqRemoteStop go_int
  | ReqReset string
  | ReqUnlock go_int
  | ReqReserveNow reserve_now_request
  | ReqCancelReservation go_int
  | ReqGetLocalListVersion
  | ReqSendLocalList go_int update_type "authorization_entry list"
  | ReqTrigger trigger_message "go_int option"
  | ReqGetDiagnostics string
  | ReqUpdateFirmware string "time option"
  | ReqSetChargingProfile go_int "charging_profile option"
  | ReqClearChargingProfile clear_profile_request
  | ReqGetCompositeSchedule go_int go_int rate_unit
  | ReqCertificateSigned string
  | ReqInstallCertificate certificate_use string
  | ReqGetInstalledCertificateIds certificate_use
  | ReqDeleteCertificate certificate_hash_data
  | ReqGetLog string go_int string
  | ReqSignedUpdateFirmware signed_firmware_request
  | ReqExtendedTrigger extended_trigger_message "go_int option"

text \<open>The state a request leaves; \<^term>\<open>None\<close> is a panic (or a loop that does not end).\<close>

definition handle :: "crypto \<Rightarrow> env \<Rightarrow> request \<Rightarrow> simulator \<Rightarrow> simulator option" where
  "handle k e r s = (case r of
     ReqChangeAvailability c ty \<Rightarrow> map_option fst (OnChangeAvailability e s c ty)
   | ReqChangeConfiguration key v \<Rightarrow> Some (fst (OnChangeConfiguration e s key v))
   | ReqClearCache \<Rightarrow> Some (OnClearCache e s)
   | ReqDataTransfer vendor message payload \<Rightarrow> Some (fst (OnDataTransfer e s vendor message payload))
   | ReqGetConfiguration keys \<Rightarrow> Some (fst (OnGetConfiguration e s keys))
   | ReqRemoteStart c tag p \<Rightarrow> map_option fst (OnRemoteStartTransaction e s c tag p)
   | ReqRemoteStop tx \<Rightarrow> map_option fst (OnRemoteStopTransaction e s tx)
   | ReqReset ty \<Rightarrow> OnReset e s ty
   | ReqUnlock c \<Rightarrow> Some (fst (OnUnlockConnector e s c))
   | ReqReserveNow q \<Rightarrow> map_option fst (OnReserveNow e s q)
   | ReqCancelReservation i \<Rightarrow> map_option fst (OnCancelReservation e s i)
   | ReqGetLocalListVersion \<Rightarrow> Some (fst (OnGetLocalListVersion e s))
   | ReqSendLocalList v ty es \<Rightarrow> Some (fst (OnSendLocalList e s v ty es))
   | ReqTrigger m c \<Rightarrow> Some (fst (OnTriggerMessage e s m c))
   | ReqGetDiagnostics l \<Rightarrow> Some (fst (OnGetDiagnostics e s l))
   | ReqUpdateFirmware l t \<Rightarrow> Some (OnUpdateFirmware e s l t)
   | ReqSetChargingProfile c p \<Rightarrow> Some (fst (OnSetChargingProfile e s c p))
   | ReqClearChargingProfile q \<Rightarrow> map_option fst (OnClearChargingProfile e s q)
   | ReqGetCompositeSchedule c d u \<Rightarrow> Some (fst (OnGetCompositeSchedule e s c d u))
   | ReqCertificateSigned chain \<Rightarrow> map_option fst (OnCertificateSigned k e s chain)
   | ReqInstallCertificate ty p \<Rightarrow> map_option fst (OnInstallCertificate k e s ty p)
   | ReqGetInstalledCertificateIds ty \<Rightarrow> Some (fst (OnGetInstalledCertificateIds e s ty))
   | ReqDeleteCertificate h \<Rightarrow> Some (fst (OnDeleteCertificate e s h))
   | ReqGetLog ty i l \<Rightarrow> Some (fst (OnGetLog e s ty i l))
   | ReqSignedUpdateFirmware q \<Rightarrow> Some (fst (OnSignedUpdateFirmware e s q))
   | ReqExtendedTrigger m c \<Rightarrow> Some (fst (OnExtendedTriggerMessage e s m c)))"

section \<open>Goroutines\<close>

text \<open>One step of a goroutine: the state it leaves and what is left of the goroutine.\<close>

fun resume :: "env \<Rightarrow> answers \<Rightarrow> goroutine \<Rightarrow> simulator \<Rightarrow> (simulator \<times> goroutine option) option" where
  "resume e a (GoNotify c st) s = Some (fst (notifyStatus e a c st s), None)"
| "resume e a (GoBegin c tag r pc) s =
     map_option (map_prod id (map_option (GoBegin c tag r))) (beginRemoteTransaction e a c tag r pc s)"
| "resume e a (GoFinish c tx pc) s =
     map_option (map_prod id (map_option (GoFinish c tx))) (finishRemoteTransaction e a c tx pc s)"
| "resume e a (GoTrigger m c pc) s =
     map_option (map_prod id (map_option (GoTrigger m c))) (trigger_step e a m c pc s)"
| "resume e a (GoExtendedTrigger m c pc) s =
     map_option (map_prod id (map_option (GoExtendedTrigger m c))) (extended_trigger_step e a m c pc s)"
| "resume e a (GoDiagnostics pc) s =
     Some (map_prod id (map_option GoDiagnostics) (simulateDiagnosticsUpload e a pc s))"
| "resume e a (GoFirmware pc) s =
     Some (map_prod id (map_option GoFirmware) (simulateFirmwareUpdate e a pc s))"
| "resume e a (GoLog r pc) s =
     Some (map_prod id (map_option (GoLog r)) (simulateLogUpload e a r pc s))"
| "resume e a (GoSignedFirmware r install pc) s =
     Some (map_prod id (map_option (GoSignedFirmware r install)) (simulateSignedFirmwareUpdate e a r install pc s))"

definition put_back :: "simulator \<times> goroutine option \<Rightarrow> simulator" where
  "put_back r = (case r of (s, None) \<Rightarrow> s | (s, Some g) \<Rightarrow> spawn g s)"

text \<open>Step number \<open>i\<close> of the pool: the goroutine is taken out, runs, and is put back if it goes on.\<close>

definition schedule :: "env \<Rightarrow> answers \<Rightarrow> nat \<Rightarrow> simulator \<Rightarrow> simulator option" where
  "schedule e a i s = map_option put_back
     (resume e a (goroutines s ! i) (s\<lparr>goroutines := take i (goroutines s) @ drop (Suc i) (goroutines s)\<rparr>))"

section \<open>The transition system\<close>

datatype action =
    Request request
  | Schedule nat
  | Loop loop_event
  | Start bool "err option"
  | Consume

fun perform :: "crypto \<Rightarrow> env \<Rightarrow> answers \<Rightarrow> action \<Rightarrow> simulator \<Rightarrow> simulator option" where
  "perform k e a (Request r) s = handle k e r s"
| "perform k e a (Schedule i) s = schedule e a i s"
| "perform k e a (Loop ev) s = map_option fst (run_round e a ev s)"
| "perform k e a (Start cancelled er) s = Some (fst (run_start e a cancelled er s))"
| "perform k e a Consume s = Some (case take_event s of None \<Rightarrow> s | Some (ev, s') \<Rightarrow> s')"

text \<open>An action that can be taken: a scheduled goroutine exists.\<close>

fun enabled :: "action \<Rightarrow> simulator \<Rightarrow> bool" where
  "enabled (Schedule i) s = (i < length (goroutines s))"
| "enabled _ s = True"

inductive step :: "crypto \<Rightarrow> simulator \<Rightarrow> simulator \<Rightarrow> bool" for k where
  act: "env_ok e \<Longrightarrow> enabled x s \<Longrightarrow> perform k e a x s = Some s' \<Longrightarrow> step k s s'"

inductive_cases stepE: "step k s s'"

inductive reachable :: "crypto \<Rightarrow> simulator \<Rightarrow> simulator \<Rightarrow> bool" for k s0 where
  initial: "reachable k s0 s0"
| stepped: "reachable k s0 s \<Longrightarrow> step k s s' \<Longrightarrow> reachable k s0 s'"

section \<open>Invariants of a transition system\<close>

text \<open>What holds at the start and is kept by every step holds in every reachable state.\<close>

locale invariant_system =
  fixes k :: crypto and I :: "simulator \<Rightarrow> bool"
  assumes kept: "crypto_ok k \<Longrightarrow> I s \<Longrightarrow> env_ok e \<Longrightarrow> enabled x s \<Longrightarrow> \<exists>s'. perform k e a x s = Some s' \<and> I s'"
begin

lemma step_kept: "crypto_ok k \<Longrightarrow> step k s s' \<Longrightarrow> I s \<Longrightarrow> I s'"
proof (elim stepE)
  fix e x a
  assume "crypto_ok k" "I s" "env_ok e" "enabled x s" "perform k e a x s = Some s'"
  with kept [of s e x a] show "I s'" by auto
qed

lemma reachable_kept: "reachable k s0 s \<Longrightarrow> crypto_ok k \<Longrightarrow> I s0 \<Longrightarrow> I s"
  by (induction rule: reachable.induct) (auto intro: step_kept)

lemma never_stuck:
  "reachable k s0 s \<Longrightarrow> crypto_ok k \<Longrightarrow> I s0 \<Longrightarrow> env_ok e \<Longrightarrow> enabled x s \<Longrightarrow> perform k e a x s \<noteq> None"
  using reachable_kept kept by fastforce

end

section \<open>Every action keeps the station well formed\<close>

lemma keeps_map [simp]: "keeps (\<lambda>s. s) s (map_option fst m) = keeps fst s m"
  by (auto simp: keeps_def)

lemma OnReserveNow_keeps: "sim_wf s \<Longrightarrow> env_ok e \<Longrightarrow> keeps fst s (OnReserveNow e s q)"
  using OnReserveNow_wf [of s e q] by (fastforce simp: keeps_def)

lemma OnCancelReservation_keeps: "sim_wf s \<Longrightarrow> keeps fst s (OnCancelReservation e s i)"
  using OnCancelReservation_wf [of s e i] by (fastforce simp: keeps_def)

lemma handle_keeps:
  assumes "sim_wf s" "env_ok e" "crypto_ok k"
  shows "keeps (\<lambda>s. s) s (handle k e r s)"
  using assms
  by (cases r) (simp_all add: handle_def wf_intros OnReserveNow_keeps OnCancelReservation_keeps
      OnClearCache_def OnDataTransfer_def OnUnlockConnector_def Let_def)

lemma pool_wf:
  assumes "sim_wf s" "i < length (goroutines s)"
  shows "sim_wf (s\<lparr>goroutines := take i (goroutines s) @ drop (Suc i) (goroutines s)\<rparr>)"
    and "goroutine_ok (Connectors (opts s)) (goroutines s ! i)"
proof -
  have all: "list_all (goroutine_ok (Connectors (opts s))) (goroutines s)" using assms(1) by (simp add: sim_wf_def)
  then show "goroutine_ok (Connectors (opts s)) (goroutines s ! i)" using assms(2) by (simp add: list_all_length)
  from all have "list_all (goroutine_ok (Connectors (opts s))) (take i (goroutines s) @ drop (Suc i) (goroutines s))"
    by (auto simp: list_all_iff dest: in_set_takeD in_set_dropD)
  then show "sim_wf (s\<lparr>goroutines := take i (goroutines s) @ drop (Suc i) (goroutines s)\<rparr>)"
    using assms(1) by (simp add: sim_wf_def)
qed

abbreviation resumed :: "simulator \<Rightarrow> (simulator \<times> goroutine option) option \<Rightarrow> bool" where
  "resumed s m \<equiv> (\<exists>s' q. m = Some (s', q) \<and> sim_wf s' \<and> opts s' = opts s \<and>
     (\<forall>g. q = Some g \<longrightarrow> goroutine_ok (Connectors (opts s)) g))"

lemma resumed_map:
  assumes "\<exists>s' q. m = Some (s', q) \<and> sim_wf s' \<and> opts s' = opts s \<and> (\<forall>pc. q = Some pc \<longrightarrow> P pc)"
    and "\<And>pc. P pc \<Longrightarrow> goroutine_ok (Connectors (opts s)) (f pc)"
  shows "resumed s (map_option (map_prod id (map_option f)) m)"
  using assms by auto

lemma keeps_resumed: "keeps fst s m \<Longrightarrow> \<exists>s' q. m = Some (s', q) \<and> sim_wf s' \<and> opts s' = opts s \<and> (\<forall>pc. q = Some pc \<longrightarrow> True)"
  by (auto simp: keeps_def)

lemma pair_resumed:
  "sim_wf (fst x) \<and> opts (fst x) = opts s \<Longrightarrow> (\<And>pc. goroutine_ok (Connectors (opts s)) (f pc)) \<Longrightarrow>
     resumed s (Some (map_prod id (map_option f) x))"
  by (cases x) auto

lemma resume_resumed:
  assumes "sim_wf s" "goroutine_ok (Connectors (opts s)) g"
  shows "resumed s (resume e a g s)"
proof (cases g)
  case (GoBegin c tag r pc)
  with assms show ?thesis
    using resumed_map [OF keeps_resumed [OF beginRemoteTransaction_wf [OF assms(1), of c e a tag r pc]], of "GoBegin c tag r"] by simp
next
  case (GoFinish c tx pc)
  with assms show ?thesis
    using resumed_map [OF keeps_resumed [OF finishRemoteTransaction_wf [OF assms(1), of c e a tx pc]], of "GoFinish c tx"] by simp
next
  case (GoTrigger m c pc)
  with assms show ?thesis
    using resumed_map [OF trigger_step_keeps [OF assms(1), of pc e a m c], of "GoTrigger m c"] by simp
next
  case (GoExtendedTrigger m c pc)
  with assms show ?thesis
    using resumed_map [OF extended_trigger_step_keeps [OF assms(1), of pc e a m c], of "GoExtendedTrigger m c"] by simp
next
  case (GoDiagnostics pc)
  show ?thesis unfolding GoDiagnostics resume.simps
    by (rule pair_resumed) (simp_all add: simulateDiagnosticsUpload_wf assms(1))
next
  case (GoFirmware pc)
  show ?thesis unfolding GoFirmware resume.simps
    by (rule pair_resumed) (simp_all add: simulateFirmwareUpdate_wf assms(1))
next
  case (GoLog r pc)
  show ?thesis unfolding GoLog resume.simps
    by (rule pair_resumed) (simp_all add: simulateLogUpload_wf assms(1))
next
  case (GoSignedFirmware r i pc)
  show ?thesis unfolding GoSignedFirmware resume.simps
    by (rule pair_resumed) (simp_all add: simulateSignedFirmwareUpdate_wf assms(1))
qed (use assms in simp)

lemma schedule_keeps:
  assumes "sim_wf s" "i < length (goroutines s)"
  shows "keeps (\<lambda>s. s) s (schedule e a i s)"
proof -
  let ?s = "s\<lparr>goroutines := take i (goroutines s) @ drop (Suc i) (goroutines s)\<rparr>"
  have "resumed ?s (resume e a (goroutines s ! i) ?s)"
    using resume_resumed [OF pool_wf(1) [OF assms]] pool_wf(2) [OF assms] by simp
  then obtain s' q where r: "resume e a (goroutines s ! i) ?s = Some (s', q)" "sim_wf s'" "opts s' = opts s"
    "\<forall>g. q = Some g \<longrightarrow> goroutine_ok (Connectors (opts s)) g" by auto
  then show ?thesis unfolding schedule_def by (cases q) (simp_all add: put_back_def)
qed

lemma take_event_wf: "sim_wf s \<Longrightarrow> take_event s = Some (ev, s') \<Longrightarrow> sim_wf s' \<and> opts s' = opts s"
  by (auto simp: take_event_def sim_wf_def split: list.splits)

lemma perform_keeps:
  assumes "sim_wf s" "env_ok e" "crypto_ok k" "enabled x s"
  shows "keeps (\<lambda>s. s) s (perform k e a x s)"
proof (cases x)
  case (Request r)
  with handle_keeps [OF assms(1-3)] show ?thesis by simp
next
  case (Schedule i)
  with schedule_keeps [OF assms(1)] assms(4) show ?thesis by simp
next
  case (Loop ev)
  with run_round_wf [OF assms(1,2)] show ?thesis by simp
next
  case (Start cancelled er)
  with run_start_wf [OF assms(1)] show ?thesis by simp
next
  case Consume
  with take_event_wf [OF assms(1)] assms(1) show ?thesis by (cases "take_event s") auto
qed

text \<open>The locale on the model's own invariant, for any crypto packages of a run.\<close>

interpretation station: invariant_system k "\<lambda>s. sim_wf s \<and> opts s = o1" for k o1
  by unfold_locales (use perform_keeps in \<open>fastforce simp: keeps_def\<close>)

text \<open>What the invariant says of the maps, in terms of looking up.\<close>

lemma sim_wf_facts:
  assumes "sim_wf s"
  shows "(\<forall>i. map_of (connectors s) i \<noteq> None \<longleftrightarrow> 1 \<le> i \<and> i \<le> Connectors (opts s)) \<and>
    (\<forall>i j r q. map_of (reservations s) i = Some r \<longrightarrow> map_of (reservations s) j = Some q \<longrightarrow>
       (r_connectorID r = 0 \<or> 1 \<le> r_connectorID r \<and> r_connectorID r \<le> Connectors (opts s)) \<and>
       (r_connectorID r = r_connectorID q \<longrightarrow> r_connectorID r \<noteq> 0 \<longrightarrow> i = j)) \<and>
    (\<forall>i sp. map_of (chargingProfiles s) i = Some sp \<longrightarrow> (\<exists>p. sp_profile sp = Some p \<and> cp_id p = i)) \<and>
    (\<forall>key ic. map_of (installedCertificates s) key = Some ic \<longrightarrow> key = certificateHashKey (ic_hash ic)) \<and>
    length (events s) \<le> 256"
proof -
  have "connectors_ok (Connectors (opts s)) (connectors s)" "reservations_ok (Connectors (opts s)) (reservations s)"
    "profiles_ok (chargingProfiles s)" "certificates_ok (installedCertificates s)" "length (events s) \<le> 256"
    using assms by (auto simp: sim_wf_def)
  then show ?thesis
    using connectors_ok_look unfolding reservations_ok_def profiles_ok_def certificates_ok_def by blast
qed

text \<open>
  The simulator alone: in whatever order requests, goroutines, rounds of \<open>Run\<close> and the consumer of
  events interleave, no step panics and every reachable state is well formed.
\<close>

lemma reachable_safe:
  assumes "crypto_ok k" "reachable k (build_simulator c o1) s"
  shows "sim_wf s \<and> opts s = o1 \<and> (\<forall>e a x. env_ok e \<longrightarrow> enabled x s \<longrightarrow> perform k e a x s \<noteq> None)"
proof -
  have start: "sim_wf (build_simulator c o1) \<and> opts (build_simulator c o1) = o1"
    by (simp add: build_simulator_wf build_simulator_frame)
  from station.reachable_kept [OF assms(2,1) start] station.never_stuck [OF assms(2,1) start] show ?thesis by blast
qed

end
