(* ===== verification/Stability.thy ===== *)
theory Stability
  imports World
begin

text \<open>
  What the running simulator does not touch: only \<open>ChangeConfiguration\<close> writes the
  configuration, and never a read-only key; only \<open>SendLocalList\<close> writes the local list, and
  its version never falls. Handlers and goroutines only append to the event channel, never to a
  closed one, and only \<open>Run\<close> closes it; nothing writes the client configuration or the options.
\<close>

section \<open>Steps that leave configuration and local list alone and only append events\<close>

definition settled :: "simulator \<Rightarrow> simulator \<Rightarrow> bool" where
  "settled s s' \<longleftrightarrow> configuration s' = configuration s \<and> localAuthListVersion s' = localAuthListVersion s"

definition grows :: "simulator \<Rightarrow> simulator \<Rightarrow> bool" where
  "grows s s' \<longleftrightarrow> cfg s' = cfg s \<and> opts s' = opts s \<and> eventsClosed s' = eventsClosed s \<and>
     (\<exists>new. events s' = events s @ new \<and> (eventsClosed s \<longrightarrow> new = []))"

definition quiet :: "simulator \<Rightarrow> simulator \<Rightarrow> bool" where
  "quiet s s' \<longleftrightarrow> settled s s' \<and> grows s s'"

lemma grows_refl [simp]: "grows s s"
  by (simp add: grows_def)

lemma grows_trans: "grows s t \<Longrightarrow> grows t u \<Longrightarrow> grows s u"
  by (auto simp: grows_def)

lemma grows_emit [simp]: "grows s t \<Longrightarrow> grows s (emit e d a st c x t)"
  by (auto simp: grows_def emit_def)

lemma quiet_refl [simp]: "quiet s s"
  by (simp add: quiet_def settled_def)

lemma quiet_trans: "quiet s t \<Longrightarrow> quiet t u \<Longrightarrow> quiet s u"
  by (auto simp: quiet_def settled_def intro: grows_trans)

lemma quiet_grows: "quiet s t \<Longrightarrow> grows s t"
  by (simp add: quiet_def)

lemma quiet_settled: "quiet s t \<Longrightarrow> settled s t"
  by (simp add: quiet_def)

lemma quiet_emit [simp]: "quiet s t \<Longrightarrow> quiet s (emit e d a st c x t)"
  by (simp add: quiet_def settled_def)

lemma quiet_simps [simp]:
  "quiet s (spawn g t) = quiet s t" "quiet s (send_msg m t) = quiet s t"
  "quiet s (notify_updates e us t) = quiet s t" "quiet s (notifyStatusAsync e i stat t) = quiet s t"
  "quiet s (t\<lparr>connectors := cs\<rparr>) = quiet s t" "quiet s (t\<lparr>reservations := rs\<rparr>) = quiet s t"
  "quiet s (t\<lparr>chargingProfiles := ps\<rparr>) = quiet s t" "quiet s (t\<lparr>goroutines := gs\<rparr>) = quiet s t"
  "quiet s (t\<lparr>lastBoot := b\<rparr>) = quiet s t" 
  "quiet s (t\<lparr>installedCertificates := ics\<rparr>) = quiet s t" "quiet s (t\<lparr>stationCertificateChain := ch\<rparr>) = quiet s t"
  "quiet s (t\<lparr>diagnosticsStatus := ds\<rparr>) = quiet s t" "quiet s (t\<lparr>firmwareStatus := fw\<rparr>) = quiet s t"
  "quiet s (t\<lparr>activeLogRequestID := i\<rparr>) = quiet s t" "quiet s (t\<lparr>logStatus := l\<rparr>) = quiet s t"
  "quiet s (t\<lparr>signedFirmwareRequestID := i\<rparr>) = quiet s t" "quiet s (t\<lparr>signedFirmwareStatus := sf\<rparr>) = quiet s t"
  by (simp_all add: quiet_def settled_def grows_def)

lemma quiet_before [simp]:
  "quiet (s\<lparr>connectors := cs\<rparr>) t = quiet s t" "quiet (s\<lparr>reservations := rs\<rparr>) t = quiet s t"
  "quiet (s\<lparr>goroutines := gs\<rparr>) t = quiet s t"
  by (simp_all add: quiet_def settled_def grows_def)

lemma write_connector_quiet: "write_connector i f s = Some s' \<Longrightarrow> quiet s s'"
  by (auto simp: write_connector_Some)

lemma make_idle_quiet: "make_idle e i s = Some (s', st) \<Longrightarrow> quiet s s'"
  by (auto simp: make_idle_Some)

lemma notifyStatus_quiet [simp]: "quiet s t \<Longrightarrow> quiet s (fst (notifyStatus e a c st t))"
  by (simp add: notifyStatus_def Let_def split: sum.split)

lemma availability_loop_quiet: "availability_loop e ty ids s b us = Some (s', b', us') \<Longrightarrow> quiet s s'"
proof (induction ids arbitrary: ty s b us)
  case (Cons i ids)
  then show ?case
    by (auto simp: write_connector_Some make_idle_Some removeReservationsForConnectorLocked_def Let_def split: if_splits
        dest!: Cons.IH)
qed simp

lemma reset_loop_quiet: "reset_loop e ids s us = Some (s', us') \<Longrightarrow> quiet s s'"
proof (induction ids arbitrary: s us)
  case (Cons i ids)
  then show ?case by (auto simp: write_connector_Some make_idle_Some dest!: Cons.IH)
qed simp

lemma expire_loop_quiet: "expire_loop e rs s us ex = Some (s', us', ex') \<Longrightarrow> quiet s s'"
proof (induction rs arbitrary: s us ex)
  case (Cons r rs)
  then show ?case
    by (cases r) (auto simp: make_idle_Some Let_def split: if_splits dest!: Cons.IH)
qed simp

lemma emits_quiet: "quiet s t \<Longrightarrow> quiet s (fold (\<lambda>i s. emit e d a st c (f i) s) xs t)"
  by (induction xs arbitrary: t) auto

lemma notify_connected_quiet: "quiet s t \<Longrightarrow> quiet s (notify_connected e a us t)"
proof (induction us arbitrary: t)
  case (Cons u us)
  then show ?case by (cases u) (simp split: if_split)
qed simp

lemma expireReservations_quiet:
  assumes "expireReservations e a s = Some s'"
  shows "quiet s s'"
proof -
  obtain s1 us ex where l: "expire_loop e (gm_range (range_order e 5 0) (reservations s)) s [] [] = Some (s1, us, ex)"
    using assms by (auto simp: expireReservations_def)
  show ?thesis using assms expire_loop_quiet [OF l]
    by (auto simp: expireReservations_def l emits_quiet notify_connected_quiet)
qed

lemma drop_same_quiet: "drop_same_reservation e i s = Some (s', us) \<Longrightarrow> quiet s s'"
  by (auto simp: drop_same_reservation_def make_idle_Some Let_def split: option.splits if_splits)

lemma reserve_locked_quiet:
  assumes "reserve_locked e q t s = Some (s', us, st)"
  shows "quiet s s'"
proof -
  obtain s1 us1 where d: "drop_same_reservation e (rn_reservation q) s = Some (s1, us1)"
    using assms by (auto simp: reserve_locked_def)
  have "quiet s1 s'"
    using assms d by (auto simp: reserve_locked_def store_reservation_def set_status_def write_connector_Some Let_def
        split: if_splits)
  with drop_same_quiet [OF d] show ?thesis by (rule quiet_trans)
qed

lemma OnReserveNow_quiet: "OnReserveNow e s q = Some (s', st) \<Longrightarrow> quiet s s'"
  by (auto simp: OnReserveNow_def Let_def dest: reserve_locked_quiet split: option.splits if_splits)

lemma OnCancelReservation_quiet: "OnCancelReservation e s i = Some (s', st) \<Longrightarrow> quiet s s'"
  by (auto simp: OnCancelReservation_def Let_def dest: drop_same_quiet split: option.splits)

lemma OnChangeAvailability_quiet: "OnChangeAvailability e s c ty = Some (s', st) \<Longrightarrow> quiet s s'"
  by (auto simp: OnChangeAvailability_def Let_def dest: availability_loop_quiet split: option.splits)

lemma OnReset_quiet: "OnReset e s ty = Some s' \<Longrightarrow> quiet s s'"
  by (auto simp: OnReset_def Let_def dest: reset_loop_quiet)

lemma OnRemoteStart_quiet: "OnRemoteStartTransaction e s c tag p = Some (s', st) \<Longrightarrow> quiet s s'"
  by (auto simp: OnRemoteStartTransaction_def store_start_profile_def write_connector_Some Let_def split: option.splits)

lemma OnRemoteStop_quiet: "OnRemoteStopTransaction e s tx = Some (s', st) \<Longrightarrow> quiet s s'"
  by (auto simp: OnRemoteStopTransaction_def set_status_def write_connector_Some Let_def split: option.splits)

lemma OnClear_quiet: "OnClearChargingProfile e s q = Some (s', st) \<Longrightarrow> quiet s s'"
  by (auto simp: OnClearChargingProfile_def Let_def)

section \<open>What a request may write\<close>

lemma handle_configuration:
  assumes "handle k e r s = Some s'"
  shows "quiet s s' \<or> (\<exists>key v. r = ReqChangeConfiguration key v \<and> s' = fst (OnChangeConfiguration e s key v)) \<or>
    (\<exists>v ty es. r = ReqSendLocalList v ty es \<and> s' = fst (OnSendLocalList e s v ty es))"
proof (cases r)
  case (ReqCertificateSigned chain)
  with assms show ?thesis
    by (auto simp: handle_def OnCertificateSigned_def Let_def split: sum.splits prod.splits) (metis sum.exhaust)
next
  case (ReqInstallCertificate ty p)
  from assms obtain st where ok: "OnInstallCertificate k e s ty p = Some (s', st)"
    unfolding ReqInstallCertificate by (auto simp: handle_def)
  show ?thesis
  proof (cases "parseFirstCertificate k p")
    case (Some x)
    with ok show ?thesis by (cases x) (auto simp: OnInstallCertificate_def Let_def)
  qed (use ok in \<open>simp add: OnInstallCertificate_def\<close>)
next
  case (ReqSetChargingProfile c p)
  with assms show ?thesis by (auto simp: handle_def OnSetChargingProfile_def Let_def split: option.splits)
next
  case (ReqGetCompositeSchedule c d u)
  with assms show ?thesis by (auto simp: handle_def OnGetCompositeSchedule_def split: option.splits)
qed (use assms in \<open>auto simp: handle_def OnClearCache_def OnDataTransfer_def OnUnlockConnector_def Let_def
    OnGetConfiguration_def OnGetLocalListVersion_def OnTriggerMessage_def OnExtendedTriggerMessage_def
    OnGetDiagnostics_def OnUpdateFirmware_def OnGetInstalledCertificateIds_def OnDeleteCertificate_def
    OnGetLog_def OnSignedUpdateFirmware_def
    dest: OnChangeAvailability_quiet OnRemoteStart_quiet OnRemoteStop_quiet OnReset_quiet OnReserveNow_quiet
      OnCancelReservation_quiet OnClear_quiet\<close>)

section \<open>Goroutines, the loop and the start are quiet\<close>

lemma outbound_quiet [simp]:
  assumes "quiet s t"
  shows "quiet s (fst (sendHeartbeat e a t))"
    "quiet s (fst (sendMeterSample e a c m x rc t))"
    "quiet s (fst (sendBootNotification e a t))"
    "quiet s (fst (report_diagnostics e a d t))" "quiet s (fst (report_firmware e a fw t))"
    "quiet s (fst (report_log e a r l t))" "quiet s (fst (report_signed e a r sf t))"
    "quiet s (publish_diagnostics d t)" "quiet s (publish_firmware fw t)"
    "quiet s (fst (sign_request e a t))"
  using assms
  by (simp_all add: sendHeartbeat_def sendMeterSample_def sendBootNotification_def report_diagnostics_def
      report_firmware_def report_log_def report_signed_def publish_diagnostics_def publish_firmware_def
      sign_request_def Let_def split: sum.split)

lemma fst_quiet:
  "notifyStatus e a c st t = (t', x) \<Longrightarrow> quiet t t'"
  "sendMeterSample e a c m tx rc t = (t', x) \<Longrightarrow> quiet t t'"
  "report_diagnostics e a d t = (t', x) \<Longrightarrow> quiet t t'"
  "report_firmware e a fw t = (t', x) \<Longrightarrow> quiet t t'"
  "report_log e a r l t = (t', x) \<Longrightarrow> quiet t t'"
  "report_signed e a r sf t = (t', x) \<Longrightarrow> quiet t t'"
  "sendBootNotification e a t = (t', y) \<Longrightarrow> quiet t t'"
  using notifyStatus_quiet [of t t e a c st] outbound_quiet [of t t] by (metis fst_conv quiet_refl)+

lemma send_samples_quiet: "quiet s t \<Longrightarrow> quiet s (fst (send_samples e a xs t))"
proof (induction xs arbitrary: t)
  case (Cons x xs)
  obtain i m tx where x: "x = (i, m, tx)" by (cases x)
  obtain t' r where r: "sendMeterSample e a i m tx ''Sample.Periodic'' t = (t', r)" by fastforce
  with Cons quiet_trans [OF Cons.prems fst_quiet(2) [OF r]] x show ?case by (cases r) simp_all
qed simp

lemma send_statuses_quiet: "quiet s t \<Longrightarrow> quiet s (fst (send_statuses e a ids t))"
proof (induction ids arbitrary: t)
  case (Cons i ids)
  obtain t' r where r: "notifyStatus e a i Available t = (t', r)" by fastforce
  with Cons quiet_trans [OF Cons.prems fst_quiet(1) [OF r]] show ?case by (cases r) simp_all
qed simp

lemma sendMeterValues_quiet [simp]: "quiet s t \<Longrightarrow> quiet s (fst (sendMeterValues e a t))"
  by (simp add: sendMeterValues_def split_def meter_tick_def Let_def send_samples_quiet)

lemma settled_close [simp]: "settled s (close_events t) = settled s t"
  by (simp add: settled_def close_events_def)

lemma run_start_settled: "settled s (fst (run_start e a cancelled er s))"
proof -
  let ?s1 = "emit e ''system'' ''Connect'' ''Connected'' None (CentralSystemURL (cfg s) @ ''/'' @ ChargePointID (cfg s)) s"
  obtain s2 r where b: "sendBootNotification e a ?s1 = (s2, r)" by fastforce
  obtain s3 q where i: "sendInitialStatuses e a s2 = (s3, q)" by fastforce
  have "quiet s s2" using fst_quiet(7) [OF b] by (rule quiet_trans [rotated]) simp
  moreover from this have "quiet s s3" using send_statuses_quiet [of s s2 e a "0 # [1..Connectors (opts s2)]"] i
    by (simp add: sendInitialStatuses_def)
  moreover have "settled s s" by (simp add: settled_def)
  ultimately show ?thesis using b i
    by (cases r; cases q) (simp_all add: run_start_def Let_def quiet_settled split: option.split)
qed

lemma loop_of_settled: "quiet s (fst r) \<Longrightarrow> settled s (fst (loop_of r))"
  by (cases r rule: loop_of.cases) (simp_all add: quiet_settled)

lemma run_round_settled:
  assumes "run_round e a ev s = Some (s', r)"
  shows "settled s s'"
proof (cases ev)
  case HeartbeatTick
  with assms have "s' = fst (loop_of (sendHeartbeat e a s))" by (simp add: run_round_def)
  then show ?thesis by (simp add: loop_of_settled)
next
  case MeterTick
  with assms have "s' = fst (loop_of (sendMeterValues e a s))" by (simp add: run_round_def)
  then show ?thesis by (simp add: loop_of_settled)
next
  case ContextCancelled
  with assms have "s' = close_events (emit e ''system'' ''Shutdown'' ''Stopped'' None ''context cancelled'' s)"
    by (simp add: run_round_def)
  then show ?thesis by (simp add: quiet_settled)
next
  case (TransportError er)
  with assms show ?thesis by (cases er) (auto simp: run_round_def settled_def close_events_def)
next
  case ReservationTick
  with assms show ?thesis by (auto simp: run_round_def quiet_settled dest: expireReservations_quiet)
qed

lemma fail_start_quiet: "fail_start e c act st d t = Some (s', q) \<Longrightarrow> quiet s t \<Longrightarrow> quiet s s'"
  by (auto simp: fail_start_def restoreConnectorAfterFailedStart_def make_idle_Some write_connector_Some)

lemma begin_quiet: "beginRemoteTransaction e a c tag r pc s = Some (s', q) \<Longrightarrow> quiet s s'"
proof (cases pc)
  case BeginAuthorize
  assume "beginRemoteTransaction e a c tag r pc s = Some (s', q)"
  with BeginAuthorize show ?thesis
    by (auto simp: Let_def fail_start_quiet split: sum.splits if_splits)
next
  case (BeginStart m)
  assume "beginRemoteTransaction e a c tag r pc s = Some (s', q)"
  with BeginStart show ?thesis
    by (auto simp: Let_def fail_start_quiet start_outcome_def write_connector_Some make_idle_Some
        consumeReservationLocked_def split: sum.splits if_splits)
qed auto

lemma finish_quiet: "finishRemoteTransaction e a c tx pc s = Some (s', q) \<Longrightarrow> quiet s s'"
  by (cases pc) (auto simp: Let_def write_connector_Some make_idle_Some split: sum.splits)

lemma publish_quiet:
  "publish_log r st t = Some t' \<Longrightarrow> quiet t t'"
  "publish_signed r sf t = Some t' \<Longrightarrow> quiet t t'"
  by (auto simp: publish_log_def publish_signed_def split: if_splits)

lemma diagnostics_quiet: "quiet s (fst (simulateDiagnosticsUpload e a pc s))"
  by (cases pc) (auto dest!: fst_quiet split: prod.split option.split)

lemma firmware_quiet: "quiet s (fst (simulateFirmwareUpdate e a pc s))"
  by (cases pc) (auto dest!: fst_quiet split: prod.split option.split)

lemma log_quiet: "quiet s (fst (simulateLogUpload e a r pc s))"
  by (cases pc) (auto dest!: fst_quiet publish_quiet split: prod.split option.split)

lemma signed_quiet: "quiet s (fst (simulateSignedFirmwareUpdate e a r i pc s))"
  by (cases pc) (auto dest!: fst_quiet publish_quiet split: prod.split option.split)

lemma trigger_end_quiet [simp]: "quiet s (fst r) \<Longrightarrow> quiet s (fst (trigger_end e l c r k))"
  by (cases r; cases "snd r") (simp_all add: trigger_end_def)

lemma executeTrigger_quiet: "quiet s (fst (executeTrigger e a m c s))"
  by (cases m) (simp_all add: executeTrigger_def Let_def sendTriggeredStatuses_def split: option.split)

lemma executeExtendedTrigger_quiet: "quiet s (fst (executeExtendedTrigger e a m c s))"
  by (cases m) (simp_all add: executeExtendedTrigger_def Let_def sendTriggeredStatuses_def split: option.split)

lemma trigger_continue_quiet:
  assumes "trigger_continue e a l c execute pc s = Some r" "quiet s (fst (execute s))"
  shows "quiet s (fst r)"
  using assms by (cases "(e, a, l, c, execute, pc, s)" rule: trigger_continue.cases)
    (auto dest!: publish_quiet split: option.splits)

lemma trigger_step_quiet: "trigger_step e a m c pc s = Some (s', q) \<Longrightarrow> quiet s s'"
  unfolding trigger_step_def by (drule trigger_continue_quiet) (simp_all add: executeTrigger_quiet)

lemma extended_trigger_step_quiet: "extended_trigger_step e a m c pc s = Some (s', q) \<Longrightarrow> quiet s s'"
  unfolding extended_trigger_step_def by (drule trigger_continue_quiet) (simp_all add: executeExtendedTrigger_quiet)

lemma resume_quiet: "resume e a g s = Some (s', q) \<Longrightarrow> quiet s s'"
proof (cases g)
  case (GoDiagnostics pc)
  assume "resume e a g s = Some (s', q)"
  with GoDiagnostics diagnostics_quiet [of s e a pc] show ?thesis by (cases "simulateDiagnosticsUpload e a pc s") auto
next
  case (GoFirmware pc)
  assume "resume e a g s = Some (s', q)"
  with GoFirmware firmware_quiet [of s e a pc] show ?thesis by (cases "simulateFirmwareUpdate e a pc s") auto
next
  case (GoLog r pc)
  assume "resume e a g s = Some (s', q)"
  with GoLog log_quiet [of s e a r pc] show ?thesis by (cases "simulateLogUpload e a r pc s") auto
next
  case (GoSignedFirmware r i pc)
  assume "resume e a g s = Some (s', q)"
  with GoSignedFirmware signed_quiet [of s e a r i pc] show ?thesis by (cases "simulateSignedFirmwareUpdate e a r i pc s") auto
qed (auto dest: begin_quiet finish_quiet trigger_step_quiet extended_trigger_step_quiet)

lemma schedule_quiet: "schedule e a i s = Some s' \<Longrightarrow> quiet s s'"
proof -
  let ?s = "s\<lparr>goroutines := take i (goroutines s) @ drop (Suc i) (goroutines s)\<rparr>"
  assume "schedule e a i s = Some s'"
  then obtain t q where t: "resume e a (goroutines s ! i) ?s = Some (t, q)" "s' = put_back (t, q)"
    by (auto simp: schedule_def)
  have "quiet ?s t" by (rule resume_quiet [OF t(1)])
  then have "quiet s t" by simp
  with t(2) show ?thesis by (cases q) (simp_all add: put_back_def)
qed

lemma perform_settled:
  assumes "perform k e a x s = Some s'" "\<And>r. x \<noteq> Request r"
  shows "settled s s'"
  using assms
proof (cases x)
  case (Schedule i)
  with assms schedule_quiet show ?thesis by (auto intro: quiet_settled)
next
  case (Start c er)
  with assms run_start_settled [of s e a c er] show ?thesis by auto
next
  case (Loop ev)
  with assms(1) run_round_settled show ?thesis by auto
next
  case Consume
  with assms(1) show ?thesis by (auto simp: take_event_def settled_def split: list.splits)
qed blast

lemma configuration_grows: "grows s (fst (OnChangeConfiguration e s key v))" "grows s (fst (OnSendLocalList e s n ty es))"
  by (auto simp: OnChangeConfiguration_def OnSendLocalList_def Let_def grows_def emit_def split: option.split)

lemma handle_grows: "handle k e r s = Some s' \<Longrightarrow> grows s s'"
  using handle_configuration [of k e r s s'] configuration_grows by (auto intro: quiet_grows)

section \<open>Read-only keys and the version of the local list\<close>

definition fixed_keys :: "simulator \<Rightarrow> string \<rightharpoonup> configuration_key" where
  "fixed_keys s key = (case map_of (configuration s) key of
     Some c \<Rightarrow> if k_readonly c then Some c else None | None \<Rightarrow> None)"

lemma OnChangeConfiguration_fixed: "fixed_keys (fst (OnChangeConfiguration e s k v)) = fixed_keys s"
proof
  fix key
  show "fixed_keys (fst (OnChangeConfiguration e s k v)) key = fixed_keys s key"
    by (auto simp: OnChangeConfiguration_def fixed_keys_def Let_def split: option.split simp del: map_of_eq_Some_iff)
qed

lemma OnChangeConfiguration_version: "localAuthListVersion (fst (OnChangeConfiguration e s k v)) = localAuthListVersion s"
  by (auto simp: OnChangeConfiguration_def Let_def split: option.split)

lemma OnSendLocalList_frame:
  "fixed_keys (fst (OnSendLocalList e s v ty es)) = fixed_keys s"
  "localAuthListVersion s \<le> localAuthListVersion (fst (OnSendLocalList e s v ty es))"
  by (auto simp: OnSendLocalList_def fixed_keys_def fun_eq_iff Let_def)

lemma settled_fixed: "settled s s' \<Longrightarrow> fixed_keys s' = fixed_keys s \<and> localAuthListVersion s' = localAuthListVersion s"
  by (simp add: settled_def fixed_keys_def fun_eq_iff)

lemma step_fixed:
  assumes "step k s s'"
  shows "fixed_keys s' = fixed_keys s \<and> localAuthListVersion s \<le> localAuthListVersion s'"
proof -
  obtain e x a where 1: "env_ok e" "enabled x s" "perform k e a x s = Some s'" using assms by (rule stepE)
  show ?thesis
  proof (cases x)
    case (Request r)
    with 1 have "handle k e r s = Some s'" by simp
    from handle_configuration [OF this] show ?thesis
      using settled_fixed [OF quiet_settled] OnChangeConfiguration_fixed OnChangeConfiguration_version OnSendLocalList_frame by auto
  qed (use 1 perform_settled [OF 1(3)] settled_fixed in auto)
qed



end
