(* ===== verification/RunLoop.thy ===== *)
theory RunLoop
  imports Stability
begin

text \<open>
  The goroutine that executes \<open>Run\<close> (internal/ocppclient/simulator.go), one atomic step at a time:
  every awaited call, every event and every section under the mutex is a step of its own, so that
  requests, other goroutines and the consumer of events come in between. Run without interruption
  it is \<open>run_start\<close> followed by rounds of \<open>run_round\<close>.
\<close>

section \<open>Where the goroutine stands\<close>

text \<open>The channels of the \<open>select\<close>: a ticker that does not exist and a nil \<open>errorC\<close> are never ready.\<close>

record loop_channels =
  heartbeatC :: "duration option"
  meterC :: "duration option"
  errorC :: bool

type_synonym meter_sample = "go_int \<times> go_int \<times> go_int"

text \<open>
  \<open>RunClosing\<close>: the deferred \<open>close\<close> is due. \<open>RunSending\<close>: \<open>Run\<close> has returned and its result is
  not yet in the channel of the command. \<open>RunReturned\<close>: it is.
\<close>

datatype run_pc =
    RunEntry
  | RunConnected
  | RunBoot
  | RunStatuses boot_confirmation "go_int list"
  | RunSelect loop_channels
  | RunSamples loop_channels "meter_sample list"
  | RunExpired loop_channels "go_int list" "(go_int \<times> charge_point_status) list"
  | RunExpiring loop_channels "(go_int \<times> charge_point_status) list"
  | RunClosing "err option"
  | RunSending "err option"
  | RunReturned "err option"

definition enter_loop :: "boot_confirmation \<Rightarrow> simulator \<Rightarrow> loop_channels" where
  "enter_loop confirmation s = \<lparr>heartbeatC = optionalTicker (heartbeat_interval s confirmation),
     meterC = optionalTicker (MeterInterval (opts s)), errorC = True\<rparr>"

text \<open>An error ends \<open>Run\<close>: the deferred calls come next.\<close>

fun unless_error :: "run_pc \<Rightarrow> simulator \<times> err option \<Rightarrow> simulator \<times> run_pc" where
  "unless_error pc (s, None) = (s, pc)"
| "unless_error pc (s, Some er) = (s, RunClosing (Some er))"

section \<open>Steps\<close>

text \<open>
  Outside the \<open>select\<close> the goroutine has one way to go on. \<open>cancelled\<close> says whether the context
  is done when \<open>Run\<close> asks at its start, \<open>startError\<close> what connecting returns.
\<close>

fun run_continue ::
  "env \<Rightarrow> answers \<Rightarrow> bool \<Rightarrow> err option \<Rightarrow> run_pc \<Rightarrow> simulator \<Rightarrow> simulator \<times> run_pc" where
  "run_continue e a cancelled startError RunEntry s =
     (s, if cancelled then RunSending None
         else case startError of
           Some er \<Rightarrow> RunSending (Some (classify_error er ErrConnection))
         | None \<Rightarrow> RunConnected)"
| "run_continue e a cancelled startError RunConnected s =
     (emit e ''system'' ''Connect'' ''Connected'' None (CentralSystemURL (cfg s) @ ''/'' @ ChargePointID (cfg s)) s, RunBoot)"
| "run_continue e a cancelled startError RunBoot s =
     (case sendBootNotification e a s of
        (s', Inl er) \<Rightarrow> (s', RunClosing (Some er))
      | (s', Inr confirmation) \<Rightarrow>
         (s', if bc_status confirmation = RegRejected
            then RunClosing (Some (wrap_text ErrRejected
               (''BootNotification status is '' @ registration_text (bc_status confirmation))))
            else RunStatuses confirmation (0 # [1..Connectors (opts s')])))"
| "run_continue e a cancelled startError (RunStatuses confirmation []) s =
     (s, RunSelect (enter_loop confirmation s))"
| "run_continue e a cancelled startError (RunStatuses confirmation (i # ids)) s =
     unless_error (RunStatuses confirmation ids) (notifyStatus e a i Available s)"
| "run_continue e a cancelled startError (RunSelect ch) s = (s, RunSelect ch)"
| "run_continue e a cancelled startError (RunSamples ch []) s = (s, RunSelect ch)"
| "run_continue e a cancelled startError (RunSamples ch ((i, m, transaction) # samples)) s =
     unless_error (RunSamples ch samples) (sendMeterSample e a i m transaction ''Sample.Periodic'' s)"
| "run_continue e a cancelled startError (RunExpired ch (i # ids) updates) s =
     (emit e ''system'' ''ReservationExpired'' ''Expired'' None (itoa i) s, RunExpired ch ids updates)"
| "run_continue e a cancelled startError (RunExpired ch [] updates) s = (s, RunExpiring ch updates)"
| "run_continue e a cancelled startError (RunExpiring ch ((i, st) # updates)) s =
     (if is_connected e then fst (notifyStatus e a i st s) else s, RunExpiring ch updates)"
| "run_continue e a cancelled startError (RunExpiring ch []) s = (s, RunSelect ch)"
| "run_continue e a cancelled startError (RunClosing result) s = (close_events s, RunSending result)"
| "run_continue e a cancelled startError (RunSending result) s = (s, RunReturned result)"
| "run_continue e a cancelled startError (RunReturned result) s = (s, RunReturned result)"

text \<open>Which cases of the \<open>select\<close> can be ready, and what each does up to its next atomic step.\<close>

fun selectable :: "bool \<Rightarrow> loop_channels \<Rightarrow> loop_event \<Rightarrow> bool" where
  "selectable cancelled ch ContextCancelled = cancelled"
| "selectable cancelled ch (TransportError er) = errorC ch"
| "selectable cancelled ch HeartbeatTick = (heartbeatC ch \<noteq> None)"
| "selectable cancelled ch MeterTick = (meterC ch \<noteq> None)"
| "selectable cancelled ch ReservationTick = True"

fun run_select ::
  "env \<Rightarrow> answers \<Rightarrow> loop_event \<Rightarrow> loop_channels \<Rightarrow> simulator \<Rightarrow> (simulator \<times> run_pc) option" where
  "run_select e a ContextCancelled ch s =
     Some (emit e ''system'' ''Shutdown'' ''Stopped'' None ''context cancelled'' s, RunClosing None)"
| "run_select e a (TransportError (Some er)) ch s = Some (s, RunClosing (Some (classify_error er ErrConnection)))"
| "run_select e a (TransportError None) ch s = Some (s, RunSelect (ch\<lparr>errorC := False\<rparr>))"
| "run_select e a HeartbeatTick ch s = Some (unless_error (RunSelect ch) (sendHeartbeat e a s))"
| "run_select e a MeterTick ch s = (case meter_tick s of (s1, samples) \<Rightarrow> Some (s1, RunSamples ch samples))"
| "run_select e a ReservationTick ch s = do {
     (s1, updates, expired) \<leftarrow> expire_loop e (gm_range (range_order e 5 0) (reservations s)) s [] [];
     Some (s1, RunExpired ch (sort expired) (gm_range (range_order e 11 0) updates)) }"

section \<open>The goroutine alone\<close>

fun at_rest :: "run_pc \<Rightarrow> bool" where
  "at_rest (RunSelect ch) = True"
| "at_rest (RunReturned result) = True"
| "at_rest _ = False"

text \<open>How many steps it is away from its next \<open>select\<close> or its end, at most.\<close>

fun run_left :: "run_pc \<Rightarrow> simulator \<Rightarrow> nat" where
  "run_left RunEntry s = nat (Connectors (opts s)) + 7"
| "run_left RunConnected s = nat (Connectors (opts s)) + 6"
| "run_left RunBoot s = nat (Connectors (opts s)) + 5"
| "run_left (RunStatuses confirmation ids) s = length ids + 3"
| "run_left (RunSelect ch) s = 0"
| "run_left (RunSamples ch samples) s = length samples + 3"
| "run_left (RunExpired ch ids updates) s = length ids + length updates + 2"
| "run_left (RunExpiring ch updates) s = length updates + 1"
| "run_left (RunClosing result) s = 2"
| "run_left (RunSending result) s = 1"
| "run_left (RunReturned result) s = 0"

lemma run_left_0 [simp]: "at_rest pc \<Longrightarrow> run_left pc s = 0"
  by (cases pc) simp_all

lemma unless_error_frame [simp]: "fst (unless_error pc r) = fst r"
  by (cases "(pc, r)" rule: unless_error.cases) simp_all

lemma unless_error_left: "run_left pc s < n \<Longrightarrow> 2 < n \<Longrightarrow> run_left (snd (unless_error pc r)) s < n"
  by (cases "(pc, r)" rule: unless_error.cases) simp_all

lemma sendBootNotification_opts: "sendBootNotification e a s = (s', r) \<Longrightarrow> opts s' = opts s"
  by (auto simp: sendBootNotification_def Let_def split: sum.splits)

lemma run_continue_opts [simp]: "opts (fst (run_continue e a cancelled er pc s)) = opts s"
  by (cases "(e, a, cancelled, er, pc, s)" rule: run_continue.cases)
    (auto dest: sendBootNotification_opts split: prod.split sum.split)

lemma run_left_cong: "opts s' = opts s \<Longrightarrow> run_left pc s' = run_left pc s"
  by (cases pc) simp_all

lemma run_continue_decreases:
  assumes "\<not> at_rest pc" "run_continue e a cancelled er pc s = (s', pc')"
  shows "run_left pc' s' < run_left pc s"
proof -
  have "run_left (snd (run_continue e a cancelled er pc s)) s < run_left pc s"
    using assms(1)
  proof (cases "(e, a, cancelled, er, pc, s)" rule: run_continue.cases)
    case (3 e a cancelled er s)
    obtain s' r where "sendBootNotification e a s = (s', r)" by fastforce
    with 3 sendBootNotification_opts [OF this] show ?thesis by (cases r) simp_all
  qed (simp_all add: unless_error_left split: option.split)
  then show ?thesis using assms(2) run_left_cong [of s' s pc'] run_continue_opts [of e a cancelled er pc s] by simp
qed

function run_alone :: "env \<Rightarrow> answers \<Rightarrow> bool \<Rightarrow> err option \<Rightarrow> run_pc \<Rightarrow> simulator \<Rightarrow> simulator \<times> run_pc" where
  "run_alone e a cancelled er pc s =
     (if at_rest pc then (s, pc)
      else case run_continue e a cancelled er pc s of (s', pc') \<Rightarrow> run_alone e a cancelled er pc' s')"
  by pat_completeness auto

termination by (relation "measure (\<lambda>(e, a, cancelled, er, pc, s). run_left pc s)") (auto simp: run_continue_decreases)

declare run_alone.simps [simp del]

lemma run_alone_rest [simp]: "at_rest pc \<Longrightarrow> run_alone e a cancelled er pc s = (s, pc)"
  by (simp add: run_alone.simps)

lemma run_alone_step:
  "\<not> at_rest pc \<Longrightarrow> run_alone e a cancelled er pc s =
     (case run_continue e a cancelled er pc s of (s', pc') \<Rightarrow> run_alone e a cancelled er pc' s')"
  by (simp add: run_alone.simps)

lemma run_alone_closing [simp]:
  "run_alone e a cancelled er (RunClosing result) s = (close_events s, RunReturned result)"
  "run_alone e a cancelled er (RunSending result) s = (s, RunReturned result)"
  by (simp_all add: run_alone_step)

lemma run_alone_statuses:
  "run_alone e a cancelled er (RunStatuses confirmation ids) s =
     (case send_statuses e a ids s of
        (s', Some er) \<Rightarrow> (close_events s', RunReturned (Some er))
      | (s', None) \<Rightarrow> (s', RunSelect (enter_loop confirmation s')))"
proof (induction ids arbitrary: s)
  case (Cons i ids)
  obtain s' r where r: "notifyStatus e a i Available s = (s', r)" by fastforce
  with Cons show ?case by (cases r) (simp_all add: run_alone_step)
qed (simp add: run_alone_step)

lemma run_alone_samples:
  "run_alone e a cancelled er (RunSamples ch samples) s =
     (case send_samples e a samples s of
        (s', Some er) \<Rightarrow> (close_events s', RunReturned (Some er))
      | (s', None) \<Rightarrow> (s', RunSelect ch))"
proof (induction samples arbitrary: s)
  case (Cons x samples)
  obtain i m tx where x: "x = (i, m, tx)" by (cases x)
  obtain s' r where r: "sendMeterSample e a i m tx ''Sample.Periodic'' s = (s', r)" by fastforce
  with Cons x show ?case by (cases r) (simp_all add: run_alone_step)
qed (simp add: run_alone_step)

lemma run_alone_expiring:
  "run_alone e a cancelled er (RunExpiring ch updates) s = (notify_connected e a updates s, RunSelect ch)"
proof (induction updates arbitrary: s)
  case (Cons u updates)
  obtain i st where "u = (i, st)" by (cases u)
  with Cons show ?case by (simp add: run_alone_step)
qed (simp add: run_alone_step)

lemma run_alone_expired:
  "run_alone e a cancelled er (RunExpired ch ids updates) s =
     (notify_connected e a updates
        (fold (\<lambda>i s. emit e ''system'' ''ReservationExpired'' ''Expired'' None (itoa i) s) ids s), RunSelect ch)"
  by (induction ids arbitrary: s) (simp_all add: run_alone_step run_alone_expiring)

section \<open>It refines the rounds of Run\<close>

definition after_start :: "simulator \<times> (err option + duration option \<times> duration option) \<Rightarrow> simulator \<times> run_pc" where
  "after_start r = (case r of
     (s', Inl result) \<Rightarrow> (s', RunReturned result)
   | (s', Inr (hb, mt)) \<Rightarrow> (s', RunSelect \<lparr>heartbeatC = hb, meterC = mt, errorC = True\<rparr>))"

definition after_round :: "loop_event \<Rightarrow> loop_channels \<Rightarrow> simulator \<times> loop_result \<Rightarrow> simulator \<times> run_pc" where
  "after_round ev ch r = (case r of
     (s', Return result) \<Rightarrow> (s', RunReturned result)
   | (s', Continue) \<Rightarrow> (s', RunSelect (if ev = TransportError None then ch\<lparr>errorC := False\<rparr> else ch)))"

lemma run_alone_start:
  "run_alone e a cancelled er RunEntry s = after_start (run_start e a cancelled er s)"
proof (cases "cancelled \<or> er \<noteq> None")
  case True
  then show ?thesis by (auto simp: run_alone_step run_start_def after_start_def)
next
  case False
  let ?s1 = "emit e ''system'' ''Connect'' ''Connected'' None (CentralSystemURL (cfg s) @ ''/'' @ ChargePointID (cfg s)) s"
  obtain s2 r where b: "sendBootNotification e a ?s1 = (s2, r)" by fastforce
  obtain s3 q where i: "send_statuses e a (0 # [1..Connectors (opts s2)]) s2 = (s3, q)" by fastforce
  from False b i show ?thesis
    by (cases r; cases q) (simp_all add: run_alone_step [of RunEntry] run_alone_step [of RunConnected]
        run_alone_step [of RunBoot] run_alone_statuses run_start_def after_start_def sendInitialStatuses_def
        enter_loop_def Let_def)
qed

lemma run_alone_round:
  "map_option (\<lambda>(s1, pc). run_alone e a cancelled er pc s1) (run_select e a ev ch s) =
     map_option (after_round ev ch) (run_round e a ev s)"
proof (cases "(e, a, ev, ch, s)" rule: run_select.cases)
  case (4 e a ch s)
  then show ?thesis
    by (cases "sendHeartbeat e a s"; cases "snd (sendHeartbeat e a s)") (simp_all add: run_round_def after_round_def)
next
  case (5 e a ch s)
  obtain s1 samples where t: "meter_tick s = (s1, samples)" by fastforce
  obtain s2 r where r: "send_samples e a samples s1 = (s2, r)" by fastforce
  from 5 t r show ?thesis
    by (cases r) (simp_all add: run_round_def after_round_def sendMeterValues_def run_alone_samples)
next
  case (6 e a ch s)
  then show ?thesis
    by (cases "expire_loop e (gm_range (range_order e 5 0) (reservations s)) s [] []")
      (auto simp: run_round_def after_round_def expireReservations_def run_alone_expired)
qed (simp_all add: run_round_def after_round_def)


section \<open>What the goroutine keeps\<close>

lemma run_continue_wf [wf_intros]: "sim_wf s \<Longrightarrow> sim_wf (fst (run_continue e a cancelled er pc s))"
  using sendBootNotification_wf [of s e a]
  by (cases "(e, a, cancelled, er, pc, s)" rule: run_continue.cases) (auto split: prod.split sum.split)

lemma run_select_keeps [wf_intros]:
  assumes "sim_wf s" "env_ok e"
  shows "keeps fst s (run_select e a ev ch s)"
proof (cases "(e, a, ev, ch, s)" rule: run_select.cases)
  case (5 e a ch s)
  with meter_tick_wf [of s] assms show ?thesis by (cases "meter_tick s") simp
next
  case (6 e a ch s)
  with expiry_total [of s e] assms show ?thesis by auto
qed (use assms sendHeartbeat_wf in auto)

lemma run_continue_quiet:
  assumes "\<And>result. pc \<noteq> RunClosing result"
  shows "quiet s (fst (run_continue e a cancelled er pc s))"
  using assms by (cases "(e, a, cancelled, er, pc, s)" rule: run_continue.cases)
    (auto dest!: fst_quiet split: prod.split sum.split)

lemma run_select_quiet:
  assumes "run_select e a ev ch s = Some (s', pc)"
  shows "quiet s s'"
  using assms
proof (cases "(e, a, ev, ch, s)" rule: run_select.cases)
  case (4 e a ch s)
  with assms have "s' = fst (unless_error (RunSelect ch) (sendHeartbeat e a s))" by simp
  with 4 show ?thesis by simp
qed (auto simp: meter_tick_def Let_def dest: expire_loop_quiet)

text \<open>\<open>Run\<close> has returned. Once connected, it has returned exactly when the event channel is closed.\<close>

fun finished :: "run_pc \<Rightarrow> bool" where
  "finished (RunSending result) = True"
| "finished (RunReturned result) = True"
| "finished _ = False"

definition linked :: "run_pc \<Rightarrow> simulator \<Rightarrow> bool" where
  "linked pc s \<longleftrightarrow> pc \<noteq> RunEntry \<and> eventsClosed s = finished pc"

lemma unless_error_pc [simp]:
  "\<not> finished pc \<Longrightarrow> \<not> finished (snd (unless_error pc r))"
  "pc \<noteq> RunEntry \<Longrightarrow> snd (unless_error pc r) \<noteq> RunEntry"
  by (cases "(pc, r)" rule: unless_error.cases, simp_all)+

lemma run_continue_closed:
  "eventsClosed (fst (run_continue e a cancelled er pc s)) = (eventsClosed s \<or> (\<exists>result. pc = RunClosing result))"
  using run_continue_quiet [of pc s e a cancelled er]
  by (cases pc) (auto simp: quiet_def grows_def close_events_def)

lemma run_continue_finished:
  "finished pc \<or> (\<exists>result. pc = RunClosing result) \<Longrightarrow> finished (snd (run_continue e a cancelled er pc s))"
  "pc \<noteq> RunEntry \<Longrightarrow> \<not> finished pc \<Longrightarrow> \<forall>result. pc \<noteq> RunClosing result \<Longrightarrow>
     \<not> finished (snd (run_continue e a cancelled er pc s))"
  "pc \<noteq> RunEntry \<Longrightarrow> snd (run_continue e a cancelled er pc s) \<noteq> RunEntry"
  by (cases "(e, a, cancelled, er, pc, s)" rule: run_continue.cases; auto split: prod.split sum.split)+

lemma run_continue_cases:
  assumes "run_continue e a cancelled er pc s = (s', pc')"
  shows "opts s' = opts s" "\<exists>new. events s' = events s @ new \<and> (eventsClosed s \<longrightarrow> new = [])"
    "eventsClosed s' = (eventsClosed s \<or> (\<exists>result. pc = RunClosing result))"
    "finished pc \<or> (\<exists>result. pc = RunClosing result) \<Longrightarrow> finished pc'"
proof -
  show "opts s' = opts s" using run_continue_opts [of e a cancelled er pc s] assms by simp
  show "eventsClosed s' = (eventsClosed s \<or> (\<exists>result. pc = RunClosing result))"
    using run_continue_closed [of e a cancelled er pc s] assms by simp
  show "finished pc \<or> (\<exists>result. pc = RunClosing result) \<Longrightarrow> finished pc'"
    using run_continue_finished(1) [of pc e a cancelled er s] assms by simp
  show "\<exists>new. events s' = events s @ new \<and> (eventsClosed s \<longrightarrow> new = [])"
  proof (cases "\<exists>result. pc = RunClosing result")
    case True
    with assms show ?thesis by (auto simp: close_events_def)
  next
    case False
    with run_continue_quiet [of pc s e a cancelled er] assms show ?thesis by (auto simp: quiet_def grows_def)
  qed
qed

lemma run_continue_linked:
  "linked pc s \<Longrightarrow> linked (snd (run_continue e a cancelled er pc s)) (fst (run_continue e a cancelled er pc s))"
  using run_continue_closed [of e a cancelled er pc s] run_continue_finished [where e = e and a = a and er = er and s = s]
  by (auto simp: linked_def)

lemma run_select_linked:
  assumes "run_select e a ev ch s = Some (s', pc)"
  shows "eventsClosed s' = eventsClosed s" "\<not> finished pc" "pc \<noteq> RunEntry"
proof -
  show "eventsClosed s' = eventsClosed s" using run_select_quiet [OF assms] by (simp add: quiet_def grows_def)
  have "\<not> finished pc \<and> pc \<noteq> RunEntry"
    using assms
  proof (cases "(e, a, ev, ch, s)" rule: run_select.cases)
    case (4 e a ch s)
    with assms have "pc = snd (unless_error (RunSelect ch) (sendHeartbeat e a s))" by simp
    then show ?thesis by simp
  qed (auto split: prod.splits)
  then show "\<not> finished pc" "pc \<noteq> RunEntry" by simp_all
qed

end
