(* ===== verification/Client.thy ===== *)
theory Client
  imports Outbound
begin

text \<open>
  The one-shot client (internal/ocppclient/client.go, operations.go, types.go and logging.go):
  building the WebSocket client with its TLS configuration, connecting, the operations of the
  \<open>Station\<close> interface and closing. The OCPP library, certificate stores and key files are
  arguments; the answer of the central system to a call is the outcome of the race in \<open>await\<close>.
\<close>

section \<open>Requests and results\<close>

text \<open>Decoded JSON, as \<open>any\<close> values and struct values carry it.\<close>

datatype json =
    JNull | JBool bool | JInt go_int | JNumber string | JText string | JTime "time option"
  | JArray "json list" | JObject "(string \<times> json) list"

record boot_request =
  br_model :: string
  br_vendor :: string
  br_firmware :: string
  br_serial :: string
  br_meter_serial :: string
  br_meter_type :: string

record authorization_result =
  ar_status :: string
  ar_expiry :: "time option"
  ar_parent :: string

record status_request =
  sq_connector :: go_int
  sq_status :: string
  sq_error_code :: string
  sq_info :: string
  sq_vendor :: string
  sq_vendor_error :: string
  sq_timestamp :: time

record meter_request =
  mq_connector :: go_int
  mq_transaction :: "go_int option"
  mq_value :: string
  mq_measurand :: string
  mq_unit :: string
  mq_context :: string
  mq_location :: string
  mq_phase :: string
  mq_timestamp :: time

record start_request =
  tq_connector :: go_int
  tq_tag :: string
  tq_meter :: go_int
  tq_reservation :: "go_int option"
  tq_timestamp :: time

record start_result =
  ts_transaction :: go_int
  ts_authorization :: authorization_result

record stop_request =
  pq_transaction :: go_int
  pq_meter :: go_int
  pq_tag :: string
  pq_reason :: string
  pq_timestamp :: time

record data_request =
  dq_vendor :: string
  dq_message :: string
  dq_data :: json

record data_result =
  dr_status :: string
  dr_data :: json

record security_request =
  eq_type :: string
  eq_tech_info :: string
  eq_timestamp :: time

record sampled_value =
  sv_value :: string
  sv_measurand :: string
  sv_unit :: string
  sv_context :: string
  sv_location :: string
  sv_phase :: string
  sv_format :: string

text \<open>What an operation hands to the OCPP library.\<close>

datatype call =
    CallBoot boot_request
  | CallHeartbeat
  | CallAuthorize string
  | CallStatus status_request
  | CallMeterValues go_int sampled_value time "go_int option"
  | CallStart start_request
  | CallStop stop_request
  | CallDataTransfer data_request
  | CallDiagnostics string
  | CallFirmware string
  | CallSecurityEvent security_request
  | CallLogStatus string go_int
  | CallSignedFirmware string "go_int option"
  | CallSignCertificate string string

section \<open>The operations\<close>

definition rejected :: "string \<Rightarrow> string \<Rightarrow> err" where
  "rejected label st = wrap_text ErrRejected (label @ '' status is '' @ st)"

definition zero_boot :: boot_result where
  "zero_boot = \<lparr>b_status = '''', b_interval = 0, b_current_time = None\<rparr>"

definition boot_answer :: "boot_confirmation \<Rightarrow> boot_result" where
  "boot_answer c = \<lparr>b_status = registration_text (bc_status c), b_interval = bc_interval c,
     b_current_time = bc_current_time c\<rparr>"

definition Boot :: "boot_request \<Rightarrow> boot_confirmation race \<Rightarrow> call \<times> boot_result \<times> err option" where
  "Boot request outcome = (CallBoot request, case await outcome of
     Inl er \<Rightarrow> (zero_boot, Some (classify_error er ErrProtocol))
   | Inr confirmation \<Rightarrow> (boot_answer confirmation,
       if bc_status confirmation = RegRejected
       then Some (rejected ''BootNotification'' (registration_text (bc_status confirmation))) else None))"

definition Heartbeat :: "time option race \<Rightarrow> call \<times> time option \<times> err option" where
  "Heartbeat outcome = (CallHeartbeat, case await outcome of
     Inl er \<Rightarrow> (None, Some (classify_error er ErrProtocol))
   | Inr current \<Rightarrow> (current, None))"

definition zero_authorization :: authorization_result where
  "zero_authorization = \<lparr>ar_status = '''', ar_expiry = None, ar_parent = ''''\<rparr>"

definition authorizationResult :: "id_tag_info option \<Rightarrow> authorization_result" where
  "authorizationResult info = (case info of
     None \<Rightarrow> zero_authorization
   | Some i \<Rightarrow> \<lparr>ar_status = authorization_text (t_status i), ar_expiry = t_expiry i, ar_parent = t_parent i\<rparr>)"

definition Authorize :: "string \<Rightarrow> id_tag_info option race \<Rightarrow> call \<times> authorization_result \<times> err option" where
  "Authorize tag outcome = (CallAuthorize tag, case await outcome of
     Inl er \<Rightarrow> (zero_authorization, Some (classify_error er ErrProtocol))
   | Inr info \<Rightarrow> (let result = authorizationResult info in (result,
       if ar_status result \<noteq> authorization_text AuthAccepted
       then Some (rejected ''authorization'' (ar_status result)) else None)))"

text \<open>An operation whose confirmation carries nothing: \<open>return classify(err, ErrProtocol)\<close>.\<close>

definition acknowledged :: "unit race \<Rightarrow> err option" where
  "acknowledged outcome = classify (case await outcome of Inl er \<Rightarrow> Some er | Inr _ \<Rightarrow> None) ErrProtocol"

definition StatusNotification :: "status_request \<Rightarrow> unit race \<Rightarrow> call \<times> err option" where
  "StatusNotification request outcome = (CallStatus request, acknowledged outcome)"

definition MeterValues :: "meter_request \<Rightarrow> unit race \<Rightarrow> call \<times> err option" where
  "MeterValues request outcome =
     (let sampled = \<lparr>sv_value = mq_value request, sv_measurand = mq_measurand request, sv_unit = mq_unit request,
            sv_context = mq_context request, sv_location = mq_location request, sv_phase = mq_phase request,
            sv_format = ''Raw''\<rparr> in
      (CallMeterValues (mq_connector request) sampled (mq_timestamp request) (mq_transaction request),
       acknowledged outcome))"

definition zero_start :: start_result where
  "zero_start = \<lparr>ts_transaction = 0, ts_authorization = zero_authorization\<rparr>"

definition start_answer :: "go_int \<times> id_tag_info option \<Rightarrow> start_result" where
  "start_answer c = \<lparr>ts_transaction = fst c, ts_authorization = authorizationResult (snd c)\<rparr>"

definition StartTransaction ::
  "start_request \<Rightarrow> (go_int \<times> id_tag_info option) race \<Rightarrow> call \<times> start_result \<times> err option" where
  "StartTransaction request outcome = (CallStart request, case await outcome of
     Inl er \<Rightarrow> (zero_start, Some (classify_error er ErrProtocol))
   | Inr confirmation \<Rightarrow> (let result = start_answer confirmation in (result,
       if ar_status (ts_authorization result) \<noteq> authorization_text AuthAccepted
       then Some (rejected ''transaction authorization'' (ar_status (ts_authorization result))) else None)))"

text \<open>The result of a stop is its optional authorization.\<close>

definition StopTransaction ::
  "stop_request \<Rightarrow> id_tag_info option race \<Rightarrow> call \<times> authorization_result option \<times> err option" where
  "StopTransaction request outcome = (CallStop request, case await outcome of
     Inl er \<Rightarrow> (None, Some (classify_error er ErrProtocol))
   | Inr None \<Rightarrow> (None, None)
   | Inr (Some info) \<Rightarrow> (let auth = authorizationResult (Some info) in (Some auth,
       if ar_status auth \<noteq> authorization_text AuthAccepted
       then Some (rejected ''stop transaction authorization'' (ar_status auth)) else None)))"

definition DataTransfer :: "data_request \<Rightarrow> data_result race \<Rightarrow> call \<times> data_result \<times> err option" where
  "DataTransfer request outcome = (CallDataTransfer request, case await outcome of
     Inl er \<Rightarrow> (\<lparr>dr_status = '''', dr_data = JNull\<rparr>, Some (classify_error er ErrProtocol))
   | Inr confirmation \<Rightarrow> (confirmation,
       if dr_status confirmation \<noteq> ''Accepted''
       then Some (rejected ''DataTransfer'' (dr_status confirmation)) else None))"

definition DiagnosticsStatusNotification :: "string \<Rightarrow> unit race \<Rightarrow> call \<times> err option" where
  "DiagnosticsStatusNotification st outcome = (CallDiagnostics st, acknowledged outcome)"

definition FirmwareStatusNotification :: "string \<Rightarrow> unit race \<Rightarrow> call \<times> err option" where
  "FirmwareStatusNotification st outcome = (CallFirmware st, acknowledged outcome)"

definition SecurityEventNotification :: "security_request \<Rightarrow> unit race \<Rightarrow> call \<times> err option" where
  "SecurityEventNotification request outcome = (CallSecurityEvent request, acknowledged outcome)"

definition LogStatusNotification :: "string \<Rightarrow> go_int \<Rightarrow> unit race \<Rightarrow> call \<times> err option" where
  "LogStatusNotification st requestID outcome = (CallLogStatus st requestID, acknowledged outcome)"

definition SignedFirmwareStatusNotification :: "string \<Rightarrow> go_int option \<Rightarrow> unit race \<Rightarrow> call \<times> err option" where
  "SignedFirmwareStatusNotification st requestID outcome = (CallSignedFirmware st requestID, acknowledged outcome)"

definition SignCertificate :: "string \<Rightarrow> string \<Rightarrow> string race \<Rightarrow> call \<times> string \<times> err option" where
  "SignCertificate csr ty outcome = (CallSignCertificate csr ty, case await outcome of
     Inl er \<Rightarrow> ('''', Some (classify_error er ErrProtocol))
   | Inr st \<Rightarrow> (st, if st \<noteq> ''Accepted'' then Some (rejected ''SignCertificate'' st) else None))"

section \<open>The WebSocket client and its TLS configuration\<close>

text \<open>
  \<open>crypto/x509\<close>, \<open>crypto/tls\<close> and reading files: certificate pools are a type \<open>'p\<close>,
  key pairs a type \<open>'k\<close>. \<open>append_pem\<close> gives the extended pool and whether a certificate was found.
\<close>

record ('p, 'k) tls_env =
  system_pool :: "'p option"
  empty_pool :: 'p
  append_pem :: "'p \<Rightarrow> string \<Rightarrow> 'p \<times> bool"
  read_pem :: "string \<Rightarrow> err + string"
  load_key_pair :: "string \<Rightarrow> string \<Rightarrow> err + 'k"
  parse_key_pair :: "string \<Rightarrow> string \<Rightarrow> err + 'k"

record ('p, 'k) tls_config =
  tc_roots :: 'p
  tc_certificates :: "'k list"
  tc_server_name :: string
  tc_insecure :: bool
  tc_min_version :: string

definition ca_pem :: "('p, 'k) tls_env \<Rightarrow> client_config \<Rightarrow> err + string" where
  "ca_pem te c =
     (if CACertFile c \<noteq> '''' then
        (case read_pem te (CACertFile c) of
          Inl er \<Rightarrow> Inl (wrap_text ErrAuthSecurity (''read CA certificate: '' @ error_text er))
        | Inr text \<Rightarrow> Inr text)
      else Inr (CACertPEM c))"

definition client_certificates :: "('p, 'k) tls_env \<Rightarrow> client_config \<Rightarrow> err + 'k list" where
  "client_certificates te c =
     (if ClientCertFile c \<noteq> '''' then
        (case load_key_pair te (ClientCertFile c) (ClientKeyFile c) of
          Inl er \<Rightarrow> Inl (wrap_text ErrAuthSecurity (''load client certificate: '' @ error_text er))
        | Inr k \<Rightarrow> Inr [k])
      else if length (ClientCertPEM c) > 0 then
        (case parse_key_pair te (ClientCertPEM c) (ClientKeyPEM c) of
          Inl er \<Rightarrow> Inl (wrap_text ErrAuthSecurity (''parse inline client certificate: '' @ error_text er))
        | Inr k \<Rightarrow> Inr [k])
      else Inr [])"

definition buildTLSConfig :: "('p, 'k) tls_env \<Rightarrow> client_config \<Rightarrow> err + ('p, 'k) tls_config" where
  "buildTLSConfig te c =
     (let roots = (case system_pool te of None \<Rightarrow> empty_pool te | Some p \<Rightarrow> p) in
      case ca_pem te c of Inl er \<Rightarrow> Inl er
      | Inr caPEM \<Rightarrow>
         (let (roots2, found) = (if length caPEM > 0 then append_pem te roots caPEM else (roots, True)) in
          if \<not> found then
            Inl (wrap_text ErrAuthSecurity ''CA certificate does not contain valid PEM certificates'')
          else (case client_certificates te c of Inl er \<Rightarrow> Inl er
            | Inr certs \<Rightarrow> Inr \<lparr>tc_roots = roots2, tc_certificates = certs, tc_server_name = TLSServerName c,
                tc_insecure = InsecureSkipVerify c, tc_min_version = ''TLS12''\<rparr>)))"

record ('p, 'k) ws_client =
  ws_tls :: "('p, 'k) tls_config option"
  ws_handshake_timeout :: duration
  ws_write_wait :: duration
  ws_basic_auth :: "(string \<times> string) option"

definition newWebSocketClient :: "('p, 'k) tls_env \<Rightarrow> client_config \<Rightarrow> err + ('p, 'k) ws_client" where
  "newWebSocketClient te c =
     (let finish = (\<lambda>tls. \<lparr>ws_tls = tls, ws_handshake_timeout = Timeout c, ws_write_wait = Timeout c,
            ws_basic_auth = (if Username c \<noteq> '''' then Some (Username c, Password c) else None)\<rparr>) in
      if has_prefix ''wss://'' (to_lower (CentralSystemURL c)) then
        (case buildTLSConfig te c of Inl er \<Rightarrow> Inl er | Inr tls \<Rightarrow> Inr (finish (Some tls)))
      else Inr (finish None))"

section \<open>The station\<close>

record ('p, 'k) client =
  cl_cfg :: client_config
  cl_ws :: "('p, 'k) ws_client"
  cl_closed :: bool   \<comment> \<open>whether \<open>closeOnce\<close> has run\<close>

definition New :: "config_env \<Rightarrow> ('p, 'k) tls_env \<Rightarrow> client_config \<Rightarrow> err + ('p, 'k) client" where
  "New env te c = (case ValidateClientConfig env c of
     Some er \<Rightarrow> Inl (wrap_err ErrValidation er)
   | None \<Rightarrow> (case newWebSocketClient te c of
       Inl er \<Rightarrow> Inl er
     | Inr w \<Rightarrow> Inr \<lparr>cl_cfg = c, cl_ws = w, cl_closed = False\<rparr>))"

text \<open>
  \<open>Connect\<close>: \<open>reason\<close> is \<open>ctx.Err()\<close> when the context is done, \<open>start\<close> what the library's
  \<open>Start\<close> returns for a URL. The result is the URL it was started with, if it was, and the error.
\<close>

definition Connect ::
  "('p, 'k) client \<Rightarrow> sentinel option \<Rightarrow> (string \<Rightarrow> err option) \<Rightarrow> string option \<times> err option" where
  "Connect cl reason start = (case reason of
     Some r \<Rightarrow> (None, Some (wrap_err ErrTimeout (Sentinel r)))
   | None \<Rightarrow> (let url = trim_right CHR ''/'' (CentralSystemURL (cl_cfg cl)) in
       (Some url, classify (start url) ErrConnection)))"

text \<open>\<open>Close\<close>: the result says whether the library's \<open>Stop\<close> was called.\<close>

definition Close :: "bool \<Rightarrow> ('p, 'k) client \<Rightarrow> ('p, 'k) client \<times> bool" where
  "Close up cl = (if cl_closed cl then (cl, False) else (cl\<lparr>cl_closed := True\<rparr>, up))"

section \<open>Logging of the protocol library\<close>

record protocol_logger =
  pl_verbose :: bool
  pl_debug :: bool

datatype log_level = LevelDebug | LevelInfo | LevelError

definition configureLogging :: "bool \<Rightarrow> bool \<Rightarrow> protocol_logger" where
  "configureLogging verbose debug = \<lparr>pl_verbose = verbose \<or> debug, pl_debug = debug\<rparr>"

fun log_prefix :: "log_level \<Rightarrow> string" where
  "log_prefix LevelDebug = ''ocpp debug: ''"
| "log_prefix LevelInfo = ''ocpp: ''"
| "log_prefix LevelError = ''ocpp error: ''"

text \<open>The text a message (already formatted) adds to the standard error stream.\<close>

definition log_line :: "protocol_logger \<Rightarrow> log_level \<Rightarrow> string \<Rightarrow> string" where
  "log_line l level message =
     (if (case level of LevelDebug \<Rightarrow> pl_debug l | _ \<Rightarrow> pl_verbose l)
      then log_prefix level @ message @ [CHR 0x0A] else '''')"

end
