(* ===== verification/GoFlags.thy ===== *)
theory GoFlags
  imports Config
begin

text \<open>
  What the command line uses of the standard package \<open>flag\<close>: flag sets with string, integer,
  boolean and duration flags, \<open>FlagSet.Parse\<close> with its errors, and reading the flags that were
  set. Parsing integers and durations are arguments.
\<close>

section \<open>Flags\<close>

datatype flag_kind = StringFlag | IntFlag | BoolFlag | DurationFlag

datatype flag_value = VString string | VInt go_int | VBool bool | VDuration duration

type_synonym flag_set = "(string \<times> flag_kind) list"
type_synonym parsed_flags = "(string \<times> flag_value) list"

record number_env =
  parse_int :: "string \<Rightarrow> string + go_int"   \<comment> \<open>the text of the error, or the value\<close>
  parse_span :: "string \<Rightarrow> duration option"

section \<open>One argument\<close>

datatype flag_token = NotAFlag | Terminator | BadSyntax | FlagToken string "string option"

definition flag_token :: "string \<Rightarrow> flag_token" where
  "flag_token s =
     (if length s < 2 \<or> hd s \<noteq> CHR ''-'' then NotAFlag
      else if s = ''--'' then Terminator
      else (let name = (if s ! 1 = CHR ''-'' then drop 2 s else drop 1 s) in
        if name = [] \<or> hd name = CHR ''-'' \<or> hd name = CHR ''='' then BadSyntax
        else FlagToken (takeWhile (\<lambda>c. c \<noteq> CHR ''='') name)
          (if CHR ''='' \<in> set name then Some (tl (dropWhile (\<lambda>c. c \<noteq> CHR ''='') name)) else None)))"

fun set_flag :: "number_env \<Rightarrow> flag_kind \<Rightarrow> string \<Rightarrow> string + flag_value" where
  "set_flag ne StringFlag v = Inr (VString v)"
| "set_flag ne IntFlag v = (case parse_int ne v of Inl t \<Rightarrow> Inl t | Inr i \<Rightarrow> Inr (VInt i))"
| "set_flag ne BoolFlag v = (case parse_bool v of None \<Rightarrow> Inl ''parse error'' | Some b \<Rightarrow> Inr (VBool b))"
| "set_flag ne DurationFlag v = (case parse_span ne v of None \<Rightarrow> Inl ''parse error'' | Some d \<Rightarrow> Inr (VDuration d))"

definition flag_error :: "string \<Rightarrow> err + 'a" where
  "flag_error t = Inl (Library PlainError t)"

definition bad_value :: "flag_kind \<Rightarrow> string \<Rightarrow> string \<Rightarrow> string \<Rightarrow> err + 'a" where
  "bad_value kind name v t =
     (if kind = BoolFlag then flag_error (''invalid boolean value '' @ go_quote v @ '' for -'' @ name @ '': '' @ t)
      else flag_error (''invalid value '' @ go_quote v @ '' for flag -'' @ name @ '': '' @ t))"

section \<open>Parsing\<close>

text \<open>
  \<open>parseOne\<close>: the flag that was set with its value, if the first argument is one, and the
  arguments that are left. A boolean flag takes its value only after an equals sign; another
  flag takes the next argument.
\<close>

definition flag_value_of ::
  "number_env \<Rightarrow> flag_kind \<Rightarrow> string \<Rightarrow> string option \<Rightarrow> string list \<Rightarrow> err + flag_value \<times> string list" where
  "flag_value_of ne kind name value rest =
     (let use = (\<lambda>v left. case set_flag ne kind v of Inl t \<Rightarrow> bad_value kind name v t | Inr x \<Rightarrow> Inr (x, left)) in
      case value of
        Some v \<Rightarrow> use v rest
      | None \<Rightarrow>
         if kind = BoolFlag then Inr (VBool True, rest)
         else (case rest of [] \<Rightarrow> flag_error (''flag needs an argument: -'' @ name) | v # left \<Rightarrow> use v left))"

definition parse_one ::
  "number_env \<Rightarrow> flag_set \<Rightarrow> string \<Rightarrow> string list \<Rightarrow> err + (string \<times> flag_value) option \<times> string list" where
  "parse_one ne defs s rest = (case flag_token s of
     NotAFlag \<Rightarrow> Inr (None, s # rest)
   | Terminator \<Rightarrow> Inr (None, rest)
   | BadSyntax \<Rightarrow> flag_error (''bad flag syntax: '' @ s)
   | FlagToken name value \<Rightarrow> (case map_of defs name of
       None \<Rightarrow> (if name = ''help'' \<or> name = ''h'' then Inl (Sentinel ErrHelp)
         else flag_error (''flag provided but not defined: -'' @ name))
     | Some kind \<Rightarrow> (case flag_value_of ne kind name value rest of
         Inl er \<Rightarrow> Inl er
       | Inr (x, left) \<Rightarrow> Inr (Some (name, x), left))))"

lemma flag_value_of_left:
  "flag_value_of ne kind name value rest = Inr (x, left) \<Longrightarrow> length left \<le> length rest"
  by (auto simp: flag_value_of_def bad_value_def flag_error_def Let_def
      split: option.splits sum.splits list.splits if_splits)

lemma parse_one_left:
  "parse_one ne defs s rest = Inr (Some nx, left) \<Longrightarrow> length left < length (s # rest)"
  by (auto simp: parse_one_def flag_error_def le_imp_less_Suc flag_value_of_left
      split: flag_token.splits option.splits sum.splits if_splits)

text \<open>\<open>Parse\<close>: the flags that were set, with the last value of each, and the positional arguments.\<close>

function parse_flags ::
  "number_env \<Rightarrow> flag_set \<Rightarrow> string list \<Rightarrow> parsed_flags \<Rightarrow> err + parsed_flags \<times> string list" where
  "parse_flags ne defs [] acc = Inr (acc, [])"
| "parse_flags ne defs (s # rest) acc = (case parse_one ne defs s rest of
     Inl er \<Rightarrow> Inl er
   | Inr (None, left) \<Rightarrow> Inr (acc, left)
   | Inr (Some (name, x), left) \<Rightarrow> parse_flags ne defs left (gm_put name x acc))"
  by pat_completeness auto

termination
  by (relation "measure (\<lambda>(ne, defs, args, acc). length args)") (auto dest: parse_one_left)

section \<open>Reading flags\<close>

definition wasSet :: "parsed_flags \<Rightarrow> string \<Rightarrow> bool" where
  "wasSet fs name \<longleftrightarrow> map_of fs name \<noteq> None"

definition string_flag :: "parsed_flags \<Rightarrow> string \<Rightarrow> string \<Rightarrow> string" where
  "string_flag fs name fallback = (case map_of fs name of Some (VString v) \<Rightarrow> v | _ \<Rightarrow> fallback)"

definition int_flag :: "parsed_flags \<Rightarrow> string \<Rightarrow> go_int \<Rightarrow> go_int" where
  "int_flag fs name fallback = (case map_of fs name of Some (VInt i) \<Rightarrow> i | _ \<Rightarrow> fallback)"

definition bool_flag :: "parsed_flags \<Rightarrow> string \<Rightarrow> bool" where
  "bool_flag fs name = (case map_of fs name of Some (VBool b) \<Rightarrow> b | _ \<Rightarrow> False)"

definition duration_flag :: "parsed_flags \<Rightarrow> string \<Rightarrow> duration" where
  "duration_flag fs name = (case map_of fs name of Some (VDuration d) \<Rightarrow> d | _ \<Rightarrow> 0)"

section \<open>What parsing guarantees\<close>

text \<open>Every flag that was set is defined, once, and has a value of its kind.\<close>

fun of_kind :: "flag_kind \<Rightarrow> flag_value \<Rightarrow> bool" where
  "of_kind StringFlag (VString _) = True"
| "of_kind IntFlag (VInt _) = True"
| "of_kind BoolFlag (VBool _) = True"
| "of_kind DurationFlag (VDuration _) = True"
| "of_kind _ _ = False"

definition flags_ok :: "flag_set \<Rightarrow> parsed_flags \<Rightarrow> bool" where
  "flags_ok defs fs \<longleftrightarrow> gm_ok fs \<and>
     (\<forall>name v. map_of fs name = Some v \<longrightarrow> (\<exists>kind. map_of defs name = Some kind \<and> of_kind kind v))"

lemma set_flag_kind: "set_flag ne kind v = Inr x \<Longrightarrow> of_kind kind x"
  by (cases kind) (auto split: sum.splits option.splits)

lemma flags_ok_Nil [simp]: "flags_ok defs []"
  by (simp add: flags_ok_def)

lemma flags_ok_put:
  "flags_ok defs fs \<Longrightarrow> map_of defs name = Some kind \<Longrightarrow> of_kind kind v \<Longrightarrow> flags_ok defs (gm_put name v fs)"
  by (auto simp: flags_ok_def simp del: map_of_eq_Some_iff)

lemma bad_value_not_Inr [simp]: "bad_value kind name v t \<noteq> Inr r"
  by (simp add: bad_value_def flag_error_def)

lemma flag_value_of_kind: "flag_value_of ne kind name value rest = Inr (x, left) \<Longrightarrow> of_kind kind x"
  by (auto simp: flag_value_of_def bad_value_def flag_error_def Let_def set_flag_kind
      split: option.splits sum.splits list.splits if_splits)

lemma parse_one_kind:
  "parse_one ne defs s rest = Inr (Some (name, x), left) \<Longrightarrow> \<exists>kind. map_of defs name = Some kind \<and> of_kind kind x"
  by (auto simp: parse_one_def flag_error_def flag_value_of_kind simp del: map_of_eq_Some_iff
      split: flag_token.splits option.splits sum.splits if_splits)

lemma parse_flags_ok:
  "parse_flags ne defs args acc = Inr (fs, rest) \<Longrightarrow> flags_ok defs acc \<Longrightarrow> flags_ok defs fs"
proof (induction ne defs args acc rule: parse_flags.induct)
  case (2 ne defs s args acc)
  show ?case
  proof (cases "parse_one ne defs s args")
    case (Inr r)
    obtain nx left where r: "r = (nx, left)" by (cases r)
    show ?thesis
    proof (cases nx)
      case (Some p)
      obtain name x where p: "p = (name, x)" by (cases p)
      from parse_one_kind [of ne defs s args name x left] obtain kind
        where "map_of defs name = Some kind" "of_kind kind x" using Inr r Some p by blast
      with 2 Inr r Some p show ?thesis by (simp add: flags_ok_put del: map_of_eq_Some_iff)
    qed (use 2 Inr r in simp)
  qed (use 2 in simp)
qed simp

end
