(* ===== verification/Cli.thy ===== *)
theory Cli
  imports Client GoFlags Clock
begin

text \<open>
  What the commands of internal/cli share: the surroundings of the program, the trace of what a
  command does to them, output formats and snapshots (formats.go, render.go), resolving the
  configuration from file and flags (flags.go), connecting and checking values (helpers.go) and
  exit codes (exit_codes.go).
\<close>

section \<open>The surroundings\<close>

text \<open>The formats of the shared output package; \<open>OtherFormat\<close> is any other text.\<close>

datatype output_format = FormatTable | FormatText | FormatJSON | FormatJSONL | FormatCSV | OtherFormat string

text \<open>How the central system answers each operation.\<close>

record replies =
  on_boot :: "boot_confirmation race"
  on_heartbeat :: "time option race"
  on_authorize :: "id_tag_info option race"
  on_notice :: "unit race"
  on_start :: "(go_int \<times> id_tag_info option) race"
  on_stop :: "id_tag_info option race"
  on_data :: "data_result race"
  on_sign :: "string race"

text \<open>
  The code the commands call outside the repository, and the factory of the \<open>App\<close>: reading and
  parsing files, numbers, times and JSON, the writers and the safety switch of the shared
  packages (its result says whether the mode is \<open>DryRun\<close>, and its text), the normaliser of
  global flags, building and connecting a station, opening and writing a file.
\<close>

record cli_env =
  files :: config_env
  numbers :: number_env
  parse_rfc3339 :: "string \<Rightarrow> time option"
  parse_json :: "string \<Rightarrow> err + json"
  marshal_json :: "json \<Rightarrow> err + string"
  wall_clock :: time
  resolve_mode :: "bool \<Rightarrow> bool \<Rightarrow> err + bool \<times> string"
  normalise_format :: "string \<Rightarrow> output_format"
  format_name :: "output_format \<Rightarrow> string"
  write_table :: "string list \<Rightarrow> string list list \<Rightarrow> string \<times> err option"
  write_text :: "string \<Rightarrow> string \<times> err option"
  write_json :: "json \<Rightarrow> string \<times> err option"
  write_csv :: "string list \<Rightarrow> string list list \<Rightarrow> string \<times> err option"
  output_text :: string   \<comment> \<open>the text of the shared \<open>ErrOutput\<close>\<close>
  normalise_flags :: "string list \<Rightarrow> err + string list"
  usage_text :: string
  completion_script :: "string \<Rightarrow> string \<times> err option"
  open_file :: "string \<Rightarrow> bool \<Rightarrow> err option"   \<comment> \<open>truncating when the flag is set, exclusive otherwise\<close>
  write_file :: "string \<Rightarrow> string \<Rightarrow> err option"
  new_station :: "client_config \<Rightarrow> err option"
  dial :: "client_config \<Rightarrow> err option"
  answers_of :: replies

text \<open>What a command does, in order, and the error it returns.\<close>

datatype effect =
    Opened client_config   \<comment> \<open>a station was built\<close>
  | Dialled
  | Called call
  | Closed
  | Out string
  | ErrOut string
  | Created string bool   \<comment> \<open>a file was opened for writing, truncating or exclusively\<close>
  | FileWritten string string

type_synonym outcome = "effect list \<times> err option"

definition newline :: string where
  "newline = [CHR 0x0A]"

definition refuse :: "string \<Rightarrow> outcome" where
  "refuse t = ([], Some (wrap_text ErrConfig t))"

definition fail :: "err \<Rightarrow> outcome" where
  "fail er = ([], Some er)"

section \<open>Values\<close>

definition parseTimestamp :: "cli_env \<Rightarrow> string \<Rightarrow> err + time" where
  "parseTimestamp io value =
     (if value = '''' \<or> to_lower value = ''now'' then Inr (wall_clock io)
      else (case parse_rfc3339 io value of
        None \<Rightarrow> Inl (wrap_text ErrConfig (''invalid timestamp '' @ go_quote value @ '': use RFC3339 or now''))
      | Some t \<Rightarrow> Inr t))"

text \<open>The zero of \<open>time.Time\<close>, 1 January of the year 1; \<^term>\<open>None\<close> stands for a field never set, which is the same value.\<close>

definition zero_time :: time where
  "zero_time = - 62135596800 * second"

definition formatTime :: "time option \<Rightarrow> string" where
  "formatTime value = (case value of
     None \<Rightarrow> ''''
   | Some t \<Rightarrow> if t = zero_time then '''' else format_rfc3339 t)"

definition validStatus :: "string \<Rightarrow> bool" where
  "validStatus v \<longleftrightarrow> v \<in> set [''Available'', ''Preparing'', ''Charging'', ''SuspendedEVSE'', ''SuspendedEV'',
     ''Finishing'', ''Reserved'', ''Unavailable'', ''Faulted'']"

definition validErrorCode :: "string \<Rightarrow> bool" where
  "validErrorCode v \<longleftrightarrow> v \<in> set [''ConnectorLockFailure'', ''EVCommunicationError'', ''GroundFailure'',
     ''HighTemperature'', ''InternalError'', ''LocalListConflict'', ''NoError'', ''OtherError'', ''OverCurrentFailure'',
     ''OverVoltage'', ''PowerMeterFailure'', ''PowerSwitchFailure'', ''ReaderFailure'', ''ResetFailure'',
     ''UnderVoltage'', ''WeakSignal'']"

definition validMeasurand :: "string \<Rightarrow> bool" where
  "validMeasurand v \<longleftrightarrow> v \<in> set [''Current.Export'', ''Current.Import'', ''Current.Offered'',
     ''Energy.Active.Export.Register'', ''Energy.Active.Import.Register'', ''Energy.Reactive.Export.Register'',
     ''Energy.Reactive.Import.Register'', ''Energy.Active.Export.Interval'', ''Energy.Active.Import.Interval'',
     ''Energy.Reactive.Export.Interval'', ''Energy.Reactive.Import.Interval'', ''Frequency'', ''Power.Active.Export'',
     ''Power.Active.Import'', ''Power.Factor'', ''Power.Offered'', ''Power.Reactive.Export'', ''Power.Reactive.Import'',
     ''RPM'', ''SoC'', ''Temperature'', ''Voltage'']"

definition validUnit :: "string \<Rightarrow> bool" where
  "validUnit v \<longleftrightarrow> v \<in> set [''Wh'', ''kWh'', ''varh'', ''kvarh'', ''W'', ''kW'', ''VA'', ''kVA'', ''var'', ''kvar'',
     ''A'', ''V'', ''Celsius'', ''Fahrenheit'', ''K'', ''Percent'']"

definition validReadingContext :: "string \<Rightarrow> bool" where
  "validReadingContext v \<longleftrightarrow> v \<in> set [''Interruption.Begin'', ''Interruption.End'', ''Other'', ''Sample.Clock'',
     ''Sample.Periodic'', ''Transaction.Begin'', ''Transaction.End'', ''Trigger'']"

definition validLocation :: "string \<Rightarrow> bool" where
  "validLocation v \<longleftrightarrow> v = '''' \<or> v \<in> set [''Body'', ''Cable'', ''EV'', ''Inlet'', ''Outlet'']"

definition validPhase :: "string \<Rightarrow> bool" where
  "validPhase v \<longleftrightarrow> v = '''' \<or> v \<in> set [''L1'', ''L2'', ''L3'', ''N'', ''L1-N'', ''L2-N'', ''L3-N'', ''L1-L2'',
     ''L2-L3'', ''L3-L1'']"

definition validStopReason :: "string \<Rightarrow> bool" where
  "validStopReason v \<longleftrightarrow> v \<in> set [''DeAuthorized'', ''EmergencyStop'', ''EVDisconnected'', ''HardReset'', ''Local'',
     ''Other'', ''PowerLoss'', ''Reboot'', ''Remote'', ''SoftReset'', ''UnlockCommand'']"

definition validDiagnosticsStatus :: "string \<Rightarrow> bool" where
  "validDiagnosticsStatus v \<longleftrightarrow> v \<in> set [''Idle'', ''Uploaded'', ''UploadFailed'', ''Uploading'']"

definition validFirmwareStatus :: "string \<Rightarrow> bool" where
  "validFirmwareStatus v \<longleftrightarrow> v \<in> set [''Downloaded'', ''DownloadFailed'', ''Downloading'', ''Idle'',
     ''InstallationFailed'', ''Installing'', ''Installed'']"

definition validLogStatus :: "string \<Rightarrow> bool" where
  "validLogStatus v \<longleftrightarrow> v \<in> set [''BadMessage'', ''Idle'', ''NotSupportedOperation'', ''PermissionDenied'',
     ''Uploaded'', ''UploadFailure'', ''Uploading'']"

definition validSignedFirmwareStatus :: "string \<Rightarrow> bool" where
  "validSignedFirmwareStatus v \<longleftrightarrow> v \<in> set [''Downloaded'', ''DownloadFailed'', ''Downloading'',
     ''DownloadScheduled'', ''DownloadPaused'', ''Idle'', ''InstallationFailed'', ''Installing'', ''Installed'',
     ''InstallRebooting'', ''InstallScheduled'', ''InstallVerificationFailed'', ''InvalidSignature'', ''SignatureVerified'']"

section \<open>Formats and snapshots\<close>

definition format_error :: "string \<Rightarrow> err + 'a" where
  "format_error t = Inl (Library PlainError t)"

definition validateSnapshotFormat :: "cli_env \<Rightarrow> string \<Rightarrow> err + output_format" where
  "validateSnapshotFormat io value = (let format = normalise_format io value in
     if format \<in> {FormatTable, FormatText, FormatJSON, FormatCSV} then Inr format
     else if format = FormatJSONL then
       format_error (''format '' @ go_quote value @ '' is stream-only; snapshots support table, text, json, and csv'')
     else format_error (''unsupported snapshot format '' @ go_quote value @ ''; use table, text, json, or csv''))"

definition validateStreamFormat :: "cli_env \<Rightarrow> string \<Rightarrow> err + output_format" where
  "validateStreamFormat io value = (let format = normalise_format io value in
     if format \<in> {FormatText, FormatJSONL, FormatCSV} then Inr format
     else if format \<in> {FormatTable, FormatJSON} then
       format_error (''format '' @ go_quote value @ '' is snapshot-only; streams support text, jsonl, and csv'')
     else format_error (''unsupported stream format '' @ go_quote value @ ''; use text, jsonl, or csv''))"

record snapshot =
  sn_headers :: "string list"
  sn_rows :: "string list list"
  sn_text :: string
  sn_value :: json

definition keyValueSnapshot :: "json \<Rightarrow> (string \<times> string) list \<Rightarrow> snapshot" where
  "keyValueSnapshot value pairs =
     \<lparr>sn_headers = [''FIELD'', ''VALUE''], sn_rows = map (\<lambda>(k, v). [k, v]) pairs,
      sn_text = join_with newline (map (\<lambda>(k, v). k @ '': '' @ v) pairs), sn_value = value\<rparr>"

definition written :: "string \<times> err option \<Rightarrow> outcome" where
  "written r = ([Out (fst r)], snd r)"

definition renderSnapshot :: "cli_env \<Rightarrow> output_format \<Rightarrow> snapshot \<Rightarrow> outcome" where
  "renderSnapshot io format result = (case format of
     FormatTable \<Rightarrow> written (write_table io (sn_headers result) (sn_rows result))
   | FormatText \<Rightarrow> written (write_text io (sn_text result))
   | FormatJSON \<Rightarrow> written (write_json io (sn_value result))
   | FormatCSV \<Rightarrow> written (write_csv io (sn_headers result) (sn_rows result))
   | _ \<Rightarrow> fail (Library PlainError (''unsupported output format '' @ go_quote (format_name io format))))"

section \<open>Flags and configuration\<close>

definition common_flags :: flag_set where
  "common_flags = map (\<lambda>n. (n, StringFlag)) [''config'', ''profile'', ''central-system-url'', ''charge-point-id'',
       ''username'', ''password'', ''ca-cert'', ''client-cert'', ''client-key'', ''tls-server-name''] @
     [(''insecure-skip-verify'', BoolFlag), (''timeout'', DurationFlag), (''format'', StringFlag),
      (''verbose'', BoolFlag), (''debug'', BoolFlag)]"

text \<open>The beginning of every command: parse its flags, refuse positional arguments.\<close>

definition parse_command :: "cli_env \<Rightarrow> string \<Rightarrow> flag_set \<Rightarrow> string list \<Rightarrow> err + parsed_flags" where
  "parse_command io name defs args = (case parse_flags (numbers io) defs args [] of
     Inl er \<Rightarrow> Inl er
   | Inr (fs, rest) \<Rightarrow>
      if rest \<noteq> [] then Inl (wrap_text ErrConfig (name @ '' does not accept positional arguments'')) else Inr fs)"

definition set_text :: "parsed_flags \<Rightarrow> string \<Rightarrow> string \<Rightarrow> string" where
  "set_text fs name old = (if wasSet fs name then string_flag fs name '''' else old)"

definition set_bool :: "parsed_flags \<Rightarrow> string \<Rightarrow> bool \<Rightarrow> bool" where
  "set_bool fs name old = (if wasSet fs name then bool_flag fs name else old)"

definition apply_flags :: "parsed_flags \<Rightarrow> client_config \<Rightarrow> client_config" where
  "apply_flags fs c = c\<lparr>
     CentralSystemURL := set_text fs ''central-system-url'' (CentralSystemURL c),
     ChargePointID := set_text fs ''charge-point-id'' (ChargePointID c),
     Username := set_text fs ''username'' (Username c),
     Password := set_text fs ''password'' (Password c),
     CACertFile := set_text fs ''ca-cert'' (CACertFile c),
     CACertPEM := (if wasSet fs ''ca-cert'' then '''' else CACertPEM c),
     ClientCertFile := set_text fs ''client-cert'' (ClientCertFile c),
     ClientCertPEM := (if wasSet fs ''client-cert'' then '''' else ClientCertPEM c),
     ClientKeyFile := set_text fs ''client-key'' (ClientKeyFile c),
     ClientKeyPEM := (if wasSet fs ''client-key'' then '''' else ClientKeyPEM c),
     TLSServerName := set_text fs ''tls-server-name'' (TLSServerName c),
     InsecureSkipVerify := set_bool fs ''insecure-skip-verify'' (InsecureSkipVerify c),
     Timeout := (if wasSet fs ''timeout'' then duration_flag fs ''timeout'' else Timeout c),
     Format := set_text fs ''format'' (Format c),
     Verbose := set_bool fs ''verbose'' (Verbose c),
     Debug := set_bool fs ''debug'' (Debug c)\<rparr>"

definition resolveClientConfig :: "cli_env \<Rightarrow> parsed_flags \<Rightarrow> err + client_config" where
  "resolveClientConfig io fs =
     (case LoadClientConfigForProfile (files io) (string_flag fs ''config'' DefaultConfigPath)
         (string_flag fs ''profile'' '''') of
       Inl er \<Rightarrow> Inl er
     | Inr c \<Rightarrow> (let c2 = apply_flags fs c in
         case ValidateClientConfig (files io) c2 of Some er \<Rightarrow> Inl er | None \<Rightarrow> Inr c2))"

definition resolveCommon :: "cli_env \<Rightarrow> parsed_flags \<Rightarrow> err + client_config \<times> output_format" where
  "resolveCommon io fs = (case resolveClientConfig io fs of
     Inl er \<Rightarrow> Inl er
   | Inr c \<Rightarrow> (case validateSnapshotFormat io (Format c) of
       Inl er \<Rightarrow> Inl (wrap_err ErrConfig er)
     | Inr format \<Rightarrow> Inr (c, format)))"

section \<open>Connecting\<close>

definition connect :: "cli_env \<Rightarrow> client_config \<Rightarrow> outcome" where
  "connect io c = (case new_station io c of
     Some er \<Rightarrow> ([], Some er)
   | None \<Rightarrow>
      (let log = (if Verbose c then [ErrOut (''connecting to '' @ trim_right CHR ''/'' (CentralSystemURL c) @ ''/'' @
             ChargePointID c @ '' using ocpp1.6'' @ newline)] else []) in
       case dial io c of
         Some er \<Rightarrow> (Opened c # log @ [Dialled, Closed], Some er)
       | None \<Rightarrow> (Opened c # log @ [Dialled], None)))"

text \<open>The rest of a command between \<open>connect\<close> and its deferred \<open>Close\<close>.\<close>

definition with_station :: "cli_env \<Rightarrow> client_config \<Rightarrow> outcome \<Rightarrow> outcome" where
  "with_station io c body = (case connect io c of
     (es, Some er) \<Rightarrow> (es, Some er)
   | (es, None) \<Rightarrow> (es @ fst body @ [Closed], snd body))"

text \<open>
  The two ends of a command: an operation that may be refused is rendered all the same and its
  error returned; the others are rendered when they succeed.
\<close>

definition report_result :: "cli_env \<Rightarrow> output_format \<Rightarrow> call \<Rightarrow> err option \<Rightarrow> snapshot \<Rightarrow> outcome" where
  "report_result io format c operationErr result = (case operationErr of
     Some er \<Rightarrow>
       if \<not> error_is ErrRejected er then ([Called c], Some er)
       else (case renderSnapshot io format result of
           (es, Some renderErr) \<Rightarrow> (Called c # es, Some renderErr)
         | (es, None) \<Rightarrow> (Called c # es, Some er))
   | None \<Rightarrow> (case renderSnapshot io format result of (es, eo) \<Rightarrow> (Called c # es, eo)))"

definition report_sent :: "cli_env \<Rightarrow> output_format \<Rightarrow> call \<Rightarrow> err option \<Rightarrow> snapshot \<Rightarrow> outcome" where
  "report_sent io format c eo result = (case eo of
     Some er \<Rightarrow> ([Called c], Some er)
   | None \<Rightarrow> (case renderSnapshot io format result of (es, e2) \<Rightarrow> (Called c # es, e2)))"

section \<open>Exit codes\<close>

datatype exit_code =
    ExitSuccess | ExitGeneral | ExitConfig | ExitConnection | ExitRequest | ExitAuthSecurity
  | ExitResourceMissing | ExitRejected | ExitTimeout | ExitOutput

definition isFlagParseError :: "err \<Rightarrow> bool" where
  "isFlagParseError er \<longleftrightarrow> str_contains (error_text er) ''flag provided but not defined''
     \<or> str_contains (error_text er) ''flag needs an argument''
     \<or> str_contains (error_text er) ''invalid value''
     \<or> str_contains (error_text er) ''is required''"

definition mapExitCode :: "err option \<Rightarrow> exit_code" where
  "mapExitCode eo = (case eo of
     None \<Rightarrow> ExitSuccess
   | Some er \<Rightarrow>
      if error_is ErrHelp er then ExitSuccess
      else if isFlagParseError er \<or> error_is ErrConfig er \<or> error_is ErrValidation er then ExitConfig
      else if error_is DeadlineExceeded er \<or> error_is ErrTimeout er then ExitTimeout
      else if error_as OutputError er then ExitOutput
      else if error_is ErrAuthSecurity er then ExitAuthSecurity
      else if error_is ErrRejected er then ExitRejected
      else if error_is ErrProtocol er then ExitRequest
      else if error_is ErrConnection er then ExitConnection
      else ExitGeneral)"

end
