(* ===== verification/Commands.thy ===== *)
theory Commands
  imports Cli
begin

text \<open>
  The one-shot commands (commands_station.go, commands_meter.go, commands_extended.go,
  commands_config.go): the flags each defines, its checks in the order of the code, the request
  it makes and what it renders.
\<close>

section \<open>Struct values as JSON\<close>

definition boot_json :: "boot_result \<Rightarrow> json" where
  "boot_json r = JObject [(''status'', JText (b_status r)), (''interval_seconds'', JInt (b_interval r)),
     (''current_time'', JTime (b_current_time r))]"

definition authorization_json :: "authorization_result \<Rightarrow> json" where
  "authorization_json r = JObject ([(''status'', JText (ar_status r))] @
     (case ar_expiry r of None \<Rightarrow> [] | Some t \<Rightarrow> [(''expiry_date'', JTime (Some t))]) @
     (if ar_parent r = '''' then [] else [(''parent_id_tag'', JText (ar_parent r))]))"

definition start_json :: "start_result \<Rightarrow> json" where
  "start_json r = JObject [(''transaction_id'', JInt (ts_transaction r)),
     (''authorization'', authorization_json (ts_authorization r))]"

definition stop_json :: "authorization_result option \<Rightarrow> json" where
  "stop_json r = JObject (case r of None \<Rightarrow> [] | Some a \<Rightarrow> [(''authorization'', authorization_json a)])"

definition data_json :: "data_result \<Rightarrow> json" where
  "data_json r = JObject ([(''status'', JText (dr_status r))] @
     (if dr_data r = JNull then [] else [(''data'', dr_data r)]))"

definition sent_json :: "string \<Rightarrow> (string \<times> json) list \<Rightarrow> json" where
  "sent_json action extra = JObject ([(''sent'', JBool True), (''action'', JText action)] @ extra)"

definition expiry_text :: "authorization_result \<Rightarrow> string" where
  "expiry_text r = (case ar_expiry r of None \<Rightarrow> '''' | Some t \<Rightarrow> formatTime (Some t))"

section \<open>Boot, heartbeat, authorize, status\<close>

definition boot_flags :: flag_set where
  "boot_flags = common_flags @ map (\<lambda>n. (n, StringFlag))
     [''model'', ''vendor'', ''firmware-version'', ''serial-number'', ''meter-serial-number'', ''meter-type'']"

definition boot_metadata :: "parsed_flags \<Rightarrow> client_config \<Rightarrow> boot_request" where
  "boot_metadata fs c = \<lparr>br_model = set_text fs ''model'' (ChargePointModel c),
     br_vendor = set_text fs ''vendor'' (ChargePointVendor c),
     br_firmware = set_text fs ''firmware-version'' (FirmwareVersion c),
     br_serial = set_text fs ''serial-number'' (SerialNumber c),
     br_meter_serial = set_text fs ''meter-serial-number'' (MeterSerialNumber c),
     br_meter_type = set_text fs ''meter-type'' (MeterType c)\<rparr>"

definition bootNotification :: "cli_env \<Rightarrow> string list \<Rightarrow> outcome" where
  "bootNotification io args = (case parse_command io ''boot-notification'' boot_flags args of
     Inl er \<Rightarrow> fail er
   | Inr fs \<Rightarrow> (case resolveCommon io fs of
       Inl er \<Rightarrow> fail er
     | Inr (c, format) \<Rightarrow>
        (let request = boot_metadata fs c in
         if br_model request = '''' \<or> length (br_model request) > 20 then
           refuse ''model is required and must not exceed 20 characters''
         else if br_vendor request = '''' \<or> length (br_vendor request) > 20 then
           refuse ''vendor is required and must not exceed 20 characters''
         else if length (br_firmware request) > 50 \<or> length (br_serial request) > 25 \<or>
             length (br_meter_serial request) > 25 \<or> length (br_meter_type request) > 25 then
           refuse ''boot metadata exceeds OCPP 1.6 field limits''
         else (case Boot request (on_boot (answers_of io)) of (k, result, operationErr) \<Rightarrow>
           with_station io c (report_result io format k operationErr (keyValueSnapshot (boot_json result)
             [(''STATUS'', b_status result), (''INTERVAL_SECONDS'', itoa (b_interval result)),
              (''CURRENT_TIME'', formatTime (b_current_time result))]))))))"

definition heartbeat :: "cli_env \<Rightarrow> string list \<Rightarrow> outcome" where
  "heartbeat io args = (case parse_command io ''heartbeat'' common_flags args of
     Inl er \<Rightarrow> fail er
   | Inr fs \<Rightarrow> (case resolveCommon io fs of
       Inl er \<Rightarrow> fail er
     | Inr (c, format) \<Rightarrow>
        (case Heartbeat (on_heartbeat (answers_of io)) of (k, result, eo) \<Rightarrow>
          with_station io c (report_sent io format k eo (keyValueSnapshot (JObject [(''current_time'', JTime result)])
            [(''CURRENT_TIME'', formatTime result)])))))"

definition authorize_flags :: flag_set where
  "authorize_flags = common_flags @ [(''id-tag'', StringFlag)]"

definition authorize :: "cli_env \<Rightarrow> string list \<Rightarrow> outcome" where
  "authorize io args = (case parse_command io ''authorize'' authorize_flags args of
     Inl er \<Rightarrow> fail er
   | Inr fs \<Rightarrow>
      (let tag = string_flag fs ''id-tag'' '''' in
       if tag = '''' \<or> length tag > 20 then refuse ''id-tag is required and must not exceed 20 characters''
       else (case resolveCommon io fs of
         Inl er \<Rightarrow> fail er
       | Inr (c, format) \<Rightarrow>
          (case Authorize tag (on_authorize (answers_of io)) of (k, result, operationErr) \<Rightarrow>
            with_station io c (report_result io format k operationErr (keyValueSnapshot (authorization_json result)
              [(''STATUS'', ar_status result), (''EXPIRY_DATE'', expiry_text result),
               (''PARENT_ID_TAG'', ar_parent result)]))))))"

definition status_flags :: flag_set where
  "status_flags = common_flags @ (''connector'', IntFlag) # map (\<lambda>n. (n, StringFlag))
     [''status'', ''error-code'', ''info'', ''vendor-id'', ''vendor-error-code'', ''timestamp'']"

definition statusNotification :: "cli_env \<Rightarrow> string list \<Rightarrow> outcome" where
  "statusNotification io args = (case parse_command io ''status-notification'' status_flags args of
     Inl er \<Rightarrow> fail er
   | Inr fs \<Rightarrow>
      (let connector = int_flag fs ''connector'' 0; st = string_flag fs ''status'' ''Available'';
           errorCode = string_flag fs ''error-code'' ''NoError''; info = string_flag fs ''info'' '''';
           vendorID = string_flag fs ''vendor-id'' ''''; vendorError = string_flag fs ''vendor-error-code'' '''' in
       if connector < 0 then refuse ''connector must be zero or greater''
       else if \<not> validStatus st then refuse (''invalid status '' @ go_quote st)
       else if \<not> validErrorCode errorCode then refuse (''invalid error-code '' @ go_quote errorCode)
       else if length info > 50 \<or> length vendorID > 255 \<or> length vendorError > 50 then
         refuse ''status metadata exceeds OCPP 1.6 field limits''
       else (case parseTimestamp io (string_flag fs ''timestamp'' ''now'') of
         Inl er \<Rightarrow> fail er
       | Inr ts \<Rightarrow> (case resolveCommon io fs of
           Inl er \<Rightarrow> fail er
         | Inr (c, format) \<Rightarrow>
            (case StatusNotification \<lparr>sq_connector = connector, sq_status = st, sq_error_code = errorCode,
                 sq_info = info, sq_vendor = vendorID, sq_vendor_error = vendorError, sq_timestamp = ts\<rparr>
               (on_notice (answers_of io)) of (k, eo) \<Rightarrow>
              with_station io c (report_sent io format k eo (keyValueSnapshot
                (sent_json ''StatusNotification'' [(''connector_id'', JInt connector), (''status'', JText st)])
                [(''SENT'', ''true''), (''ACTION'', ''StatusNotification''), (''CONNECTOR_ID'', itoa connector),
                 (''STATUS'', st)])))))))"

section \<open>Meter values and transactions\<close>

definition meter_flags :: flag_set where
  "meter_flags = common_flags @ [(''connector'', IntFlag), (''transaction-id'', IntFlag)] @ map (\<lambda>n. (n, StringFlag))
     [''value'', ''measurand'', ''unit'', ''context'', ''location'', ''phase'', ''timestamp'']"

definition optional_id :: "go_int \<Rightarrow> go_int option" where
  "optional_id i = (if i \<ge> 0 then Some i else None)"

definition meterValues :: "cli_env \<Rightarrow> string list \<Rightarrow> outcome" where
  "meterValues io args = (case parse_command io ''meter-values'' meter_flags args of
     Inl er \<Rightarrow> fail er
   | Inr fs \<Rightarrow>
      (let connector = int_flag fs ''connector'' 1; transactionID = int_flag fs ''transaction-id'' (- 1);
           value = string_flag fs ''value'' ''''; measurand = string_flag fs ''measurand'' ''Energy.Active.Import.Register'';
           unit = string_flag fs ''unit'' ''Wh''; readingContext = string_flag fs ''context'' ''Sample.Periodic'';
           location = string_flag fs ''location'' ''Outlet''; phase = string_flag fs ''phase'' '''' in
       if connector < 0 then refuse ''connector must be zero or greater''
       else if value = '''' then refuse ''value is required''
       else if \<not> validMeasurand measurand \<or> \<not> validUnit unit \<or> \<not> validReadingContext readingContext \<or>
           \<not> validLocation location \<or> \<not> validPhase phase then refuse ''invalid meter-value metadata''
       else (case parseTimestamp io (string_flag fs ''timestamp'' ''now'') of
         Inl er \<Rightarrow> fail er
       | Inr ts \<Rightarrow> (case resolveCommon io fs of
           Inl er \<Rightarrow> fail er
         | Inr (c, format) \<Rightarrow>
            (case MeterValues \<lparr>mq_connector = connector, mq_transaction = optional_id transactionID, mq_value = value,
                 mq_measurand = measurand, mq_unit = unit, mq_context = readingContext, mq_location = location,
                 mq_phase = phase, mq_timestamp = ts\<rparr> (on_notice (answers_of io)) of (k, eo) \<Rightarrow>
              with_station io c (report_sent io format k eo (keyValueSnapshot
                (sent_json ''MeterValues'' [(''connector_id'', JInt connector), (''value'', JText value),
                   (''measurand'', JText measurand), (''unit'', JText unit)])
                [(''SENT'', ''true''), (''ACTION'', ''MeterValues''), (''CONNECTOR_ID'', itoa connector),
                 (''VALUE'', value), (''MEASURAND'', measurand), (''UNIT'', unit)])))))))"

definition start_flags :: flag_set where
  "start_flags = common_flags @ [(''connector'', IntFlag), (''id-tag'', StringFlag), (''meter-start'', IntFlag),
     (''reservation-id'', IntFlag), (''timestamp'', StringFlag), (''yes'', BoolFlag), (''dry-run'', BoolFlag)]"

definition start_request_json :: "string \<Rightarrow> start_request \<Rightarrow> json" where
  "start_request_json mode q = JObject ([(''mode'', JText mode), (''action'', JText ''StartTransaction''),
     (''connector_id'', JInt (tq_connector q)), (''id_tag'', JText (tq_tag q)), (''meter_start'', JInt (tq_meter q))] @
     (case tq_reservation q of None \<Rightarrow> [] | Some r \<Rightarrow> [(''reservation_id'', JInt r)]))"

definition startTransaction :: "cli_env \<Rightarrow> string list \<Rightarrow> outcome" where
  "startTransaction io args = (case parse_command io ''start-transaction'' start_flags args of
     Inl er \<Rightarrow> fail er
   | Inr fs \<Rightarrow>
      (let connector = int_flag fs ''connector'' 1; tag = string_flag fs ''id-tag'' '''';
           meterStart = int_flag fs ''meter-start'' (- 1); reservationID = int_flag fs ''reservation-id'' (- 1) in
       if connector \<le> 0 then refuse ''connector must be greater than zero''
       else if tag = '''' \<or> length tag > 20 then refuse ''id-tag is required and must not exceed 20 characters''
       else if meterStart < 0 then refuse ''meter-start is required and must be zero or greater''
       else (case parseTimestamp io (string_flag fs ''timestamp'' ''now'') of
         Inl er \<Rightarrow> fail er
       | Inr ts \<Rightarrow> (case resolveCommon io fs of
           Inl er \<Rightarrow> fail er
         | Inr (c, format) \<Rightarrow> (case resolve_mode io (bool_flag fs ''yes'') (bool_flag fs ''dry-run'') of
             Inl er \<Rightarrow> fail (wrap_err ErrConfig er)
           | Inr (dryRun, mode) \<Rightarrow>
              (let request = \<lparr>tq_connector = connector, tq_tag = tag, tq_meter = meterStart,
                     tq_reservation = optional_id reservationID, tq_timestamp = ts\<rparr> in
               if dryRun then renderSnapshot io format (keyValueSnapshot (start_request_json mode request)
                 [(''MODE'', mode), (''ACTION'', ''StartTransaction''), (''CONNECTOR_ID'', itoa connector),
                  (''ID_TAG'', tag), (''METER_START'', itoa meterStart)])
               else (case StartTransaction request (on_start (answers_of io)) of (k, result, operationErr) \<Rightarrow>
                 with_station io c (report_result io format k operationErr (keyValueSnapshot (start_json result)
                   [(''TRANSACTION_ID'', itoa (ts_transaction result)),
                    (''STATUS'', ar_status (ts_authorization result)),
                    (''EXPIRY_DATE'', expiry_text (ts_authorization result))])))))))))"

definition stop_flags :: flag_set where
  "stop_flags = common_flags @ [(''transaction-id'', IntFlag), (''meter-stop'', IntFlag), (''id-tag'', StringFlag),
     (''reason'', StringFlag), (''timestamp'', StringFlag), (''yes'', BoolFlag), (''dry-run'', BoolFlag)]"

definition stopTransaction :: "cli_env \<Rightarrow> string list \<Rightarrow> outcome" where
  "stopTransaction io args = (case parse_command io ''stop-transaction'' stop_flags args of
     Inl er \<Rightarrow> fail er
   | Inr fs \<Rightarrow>
      (let transactionID = int_flag fs ''transaction-id'' (- 1); meterStop = int_flag fs ''meter-stop'' (- 1);
           tag = string_flag fs ''id-tag'' ''''; reason = string_flag fs ''reason'' ''Local'' in
       if transactionID < 0 then refuse ''transaction-id is required and must be zero or greater''
       else if meterStop < 0 then refuse ''meter-stop is required and must be zero or greater''
       else if length tag > 20 then refuse ''id-tag must not exceed 20 characters''
       else if \<not> validStopReason reason then refuse (''invalid reason '' @ go_quote reason)
       else (case parseTimestamp io (string_flag fs ''timestamp'' ''now'') of
         Inl er \<Rightarrow> fail er
       | Inr ts \<Rightarrow> (case resolveCommon io fs of
           Inl er \<Rightarrow> fail er
         | Inr (c, format) \<Rightarrow> (case resolve_mode io (bool_flag fs ''yes'') (bool_flag fs ''dry-run'') of
             Inl er \<Rightarrow> fail (wrap_err ErrConfig er)
           | Inr (dryRun, mode) \<Rightarrow>
              (let request = \<lparr>pq_transaction = transactionID, pq_meter = meterStop, pq_tag = tag, pq_reason = reason,
                     pq_timestamp = ts\<rparr> in
               if dryRun then renderSnapshot io format (keyValueSnapshot
                 (JObject [(''mode'', JText mode), (''action'', JText ''StopTransaction''),
                    (''transaction_id'', JInt transactionID), (''meter_stop'', JInt meterStop), (''reason'', JText reason)])
                 [(''MODE'', mode), (''ACTION'', ''StopTransaction''), (''TRANSACTION_ID'', itoa transactionID),
                  (''METER_STOP'', itoa meterStop), (''REASON'', reason)])
               else (case StopTransaction request (on_stop (answers_of io)) of (k, result, operationErr) \<Rightarrow>
                 with_station io c (report_result io format k operationErr (keyValueSnapshot (stop_json result)
                   [(''STOPPED'', ''true''), (''TRANSACTION_ID'', itoa transactionID),
                    (''AUTHORIZATION_STATUS'', (case result of None \<Rightarrow> '''' | Some a \<Rightarrow> ar_status a))])))))))))"

section \<open>Data transfer and the statuses of the extensions\<close>

definition parseJSONPayload :: "cli_env \<Rightarrow> string \<Rightarrow> string \<Rightarrow> err + json" where
  "parseJSONPayload io inline file =
     (let decode = (\<lambda>raw. case parse_json io raw of
            Inl er \<Rightarrow> Inl (wrap_text ErrConfig (''data payload must be valid JSON: '' @ error_text er))
          | Inr v \<Rightarrow> Inr v) in
      if inline \<noteq> '''' \<and> file \<noteq> '''' then Inl (wrap_text ErrConfig ''use either data or data-file, not both'')
      else if file \<noteq> '''' then (case read_file (files io) file of
          Inl er \<Rightarrow> Inl (wrap_text ErrConfig (''read data file '' @ go_quote file @ '': '' @ error_text er))
        | Inr contents \<Rightarrow> decode contents)
      else if inline \<noteq> '''' then decode inline
      else Inr JNull)"

definition compactJSON :: "cli_env \<Rightarrow> json \<Rightarrow> err + string" where
  "compactJSON io value = (if value = JNull then Inr '''' else case marshal_json io value of
     Inl er \<Rightarrow> Inl (Wrapf er (''marshal data transfer response: '' @ error_text er))
   | Inr text \<Rightarrow> Inr text)"

definition data_flags :: flag_set where
  "data_flags = common_flags @ map (\<lambda>n. (n, StringFlag)) [''vendor-id'', ''message-id'', ''data'', ''data-file'']"

definition data_report ::
  "cli_env \<Rightarrow> output_format \<Rightarrow> call \<Rightarrow> data_result \<Rightarrow> err option \<Rightarrow> outcome" where
  "data_report io format k result operationErr =
     (if (case operationErr of Some er \<Rightarrow> \<not> error_is ErrRejected er | None \<Rightarrow> False) then ([Called k], operationErr)
      else (case compactJSON io (dr_data result) of
        Inl er \<Rightarrow> ([Called k], Some er)
      | Inr text \<Rightarrow> report_result io format k operationErr (keyValueSnapshot (data_json result)
          [(''STATUS'', dr_status result), (''DATA'', text)])))"

definition dataTransfer :: "cli_env \<Rightarrow> string list \<Rightarrow> outcome" where
  "dataTransfer io args = (case parse_command io ''data-transfer'' data_flags args of
     Inl er \<Rightarrow> fail er
   | Inr fs \<Rightarrow>
      (let vendorID = string_flag fs ''vendor-id'' ''''; messageID = string_flag fs ''message-id'' '''' in
       if vendorID = '''' \<or> length vendorID > 255 then refuse ''vendor-id is required and must not exceed 255 characters''
       else if length messageID > 50 then refuse ''message-id must not exceed 50 characters''
       else (case parseJSONPayload io (string_flag fs ''data'' '''') (string_flag fs ''data-file'' '''') of
         Inl er \<Rightarrow> fail er
       | Inr payload \<Rightarrow> (case resolveCommon io fs of
           Inl er \<Rightarrow> fail er
         | Inr (c, format) \<Rightarrow>
            (case DataTransfer \<lparr>dq_vendor = vendorID, dq_message = messageID, dq_data = payload\<rparr>
                (on_data (answers_of io)) of (k, result, operationErr) \<Rightarrow>
              with_station io c (data_report io format k result operationErr))))))"

definition sendStatusOnly :: "cli_env \<Rightarrow> parsed_flags \<Rightarrow> string \<Rightarrow> string \<Rightarrow> call \<times> err option \<Rightarrow> outcome" where
  "sendStatusOnly io fs action st send = (case resolveCommon io fs of
     Inl er \<Rightarrow> fail er
   | Inr (c, format) \<Rightarrow> with_station io c (report_sent io format (fst send) (snd send) (keyValueSnapshot
       (sent_json action [(''status'', JText st)])
       [(''SENT'', ''true''), (''ACTION'', action), (''STATUS'', st)])))"

definition plain_status_flags :: flag_set where
  "plain_status_flags = common_flags @ [(''status'', StringFlag)]"

definition diagnosticsStatus_command :: "cli_env \<Rightarrow> string list \<Rightarrow> outcome" where
  "diagnosticsStatus_command io args = (case parse_command io ''diagnostics-status'' plain_status_flags args of
     Inl er \<Rightarrow> fail er
   | Inr fs \<Rightarrow>
      (let st = string_flag fs ''status'' '''' in
       if \<not> validDiagnosticsStatus st then refuse (''invalid diagnostics status '' @ go_quote st)
       else sendStatusOnly io fs ''DiagnosticsStatusNotification'' st
         (DiagnosticsStatusNotification st (on_notice (answers_of io)))))"

definition firmwareStatus_command :: "cli_env \<Rightarrow> string list \<Rightarrow> outcome" where
  "firmwareStatus_command io args = (case parse_command io ''firmware-status'' plain_status_flags args of
     Inl er \<Rightarrow> fail er
   | Inr fs \<Rightarrow>
      (let st = string_flag fs ''status'' '''' in
       if \<not> validFirmwareStatus st then refuse (''invalid firmware status '' @ go_quote st)
       else sendStatusOnly io fs ''FirmwareStatusNotification'' st
         (FirmwareStatusNotification st (on_notice (answers_of io)))))"

definition security_flags :: flag_set where
  "security_flags = common_flags @ map (\<lambda>n. (n, StringFlag)) [''type'', ''tech-info'', ''timestamp'']"

definition securityEvent :: "cli_env \<Rightarrow> string list \<Rightarrow> outcome" where
  "securityEvent io args = (case parse_command io ''security-event'' security_flags args of
     Inl er \<Rightarrow> fail er
   | Inr fs \<Rightarrow>
      (let typ = string_flag fs ''type'' ''''; techInfo = string_flag fs ''tech-info'' '''' in
       if typ = '''' \<or> length typ > 50 then refuse ''type is required and must not exceed 50 characters''
       else if length techInfo > 255 then refuse ''tech-info must not exceed 255 characters''
       else (case parseTimestamp io (string_flag fs ''timestamp'' ''now'') of
         Inl er \<Rightarrow> fail er
       | Inr ts \<Rightarrow> (case resolveCommon io fs of
           Inl er \<Rightarrow> fail er
         | Inr (c, format) \<Rightarrow>
            (case SecurityEventNotification \<lparr>eq_type = typ, eq_tech_info = techInfo, eq_timestamp = ts\<rparr>
                (on_notice (answers_of io)) of (k, eo) \<Rightarrow>
              with_station io c (report_sent io format k eo (keyValueSnapshot
                (sent_json ''SecurityEventNotification'' [(''type'', JText typ),
                   (''timestamp'', JText (formatTime (Some ts)))])
                [(''SENT'', ''true''), (''ACTION'', ''SecurityEventNotification''), (''TYPE'', typ),
                 (''TIMESTAMP'', formatTime (Some ts))])))))))"

definition request_flags :: flag_set where
  "request_flags = common_flags @ [(''status'', StringFlag), (''request-id'', IntFlag)]"

definition logStatus_command :: "cli_env \<Rightarrow> string list \<Rightarrow> outcome" where
  "logStatus_command io args = (case parse_command io ''log-status'' request_flags args of
     Inl er \<Rightarrow> fail er
   | Inr fs \<Rightarrow>
      (let st = string_flag fs ''status'' ''''; requestID = int_flag fs ''request-id'' (- 1) in
       if \<not> validLogStatus st then refuse (''invalid log status '' @ go_quote st)
       else if requestID < 0 then refuse ''request-id is required and must be zero or greater''
       else (case resolveCommon io fs of
         Inl er \<Rightarrow> fail er
       | Inr (c, format) \<Rightarrow>
          (case LogStatusNotification st requestID (on_notice (answers_of io)) of (k, eo) \<Rightarrow>
            with_station io c (report_sent io format k eo (keyValueSnapshot
              (sent_json ''LogStatusNotification'' [(''status'', JText st), (''request_id'', JInt requestID)])
              [(''SENT'', ''true''), (''ACTION'', ''LogStatusNotification''), (''STATUS'', st),
               (''REQUEST_ID'', itoa requestID)]))))))"

definition signedFirmwareStatus_command :: "cli_env \<Rightarrow> string list \<Rightarrow> outcome" where
  "signedFirmwareStatus_command io args = (case parse_command io ''signed-firmware-status'' request_flags args of
     Inl er \<Rightarrow> fail er
   | Inr fs \<Rightarrow>
      (let st = string_flag fs ''status'' ''''; requestID = optional_id (int_flag fs ''request-id'' (- 1)) in
       if \<not> validSignedFirmwareStatus st then refuse (''invalid signed firmware status '' @ go_quote st)
       else (case resolveCommon io fs of
         Inl er \<Rightarrow> fail er
       | Inr (c, format) \<Rightarrow>
          (case SignedFirmwareStatusNotification st requestID (on_notice (answers_of io)) of (k, eo) \<Rightarrow>
            with_station io c (report_sent io format k eo (keyValueSnapshot
              (sent_json ''SignedFirmwareStatusNotification'' ((''status'', JText st) #
                 (case requestID of None \<Rightarrow> [] | Some i \<Rightarrow> [(''request_id'', JInt i)])))
              [(''SENT'', ''true''), (''ACTION'', ''SignedFirmwareStatusNotification''), (''STATUS'', st),
               (''REQUEST_ID'', (case requestID of None \<Rightarrow> '''' | Some i \<Rightarrow> itoa i))]))))))"

definition sign_flags :: flag_set where
  "sign_flags = common_flags @ map (\<lambda>n. (n, StringFlag)) [''csr-file'', ''certificate-type'']"

definition signCertificate :: "cli_env \<Rightarrow> string list \<Rightarrow> outcome" where
  "signCertificate io args = (case parse_command io ''sign-certificate'' sign_flags args of
     Inl er \<Rightarrow> fail er
   | Inr fs \<Rightarrow>
      (let csrFile = string_flag fs ''csr-file'' '''';
           certificateType = string_flag fs ''certificate-type'' ''ChargingStationCertificate'' in
       if csrFile = '''' then refuse ''csr-file is required''
       else if certificateType \<noteq> '''' \<and> certificateType \<noteq> ''ChargingStationCertificate'' then
         refuse (''unsupported certificate-type '' @ go_quote certificateType)
       else (case read_file (files io) csrFile of
         Inl er \<Rightarrow> refuse (''read CSR file '' @ go_quote csrFile @ '': '' @ error_text er)
       | Inr csr \<Rightarrow>
          (let csrText = trim_space csr in
           if csrText = '''' \<or> length csrText > 5500 then refuse ''CSR must contain 1 to 5500 characters''
           else (case resolveCommon io fs of
             Inl er \<Rightarrow> fail er
           | Inr (c, format) \<Rightarrow>
              (case SignCertificate csrText certificateType (on_sign (answers_of io)) of (k, result, operationErr) \<Rightarrow>
                with_station io c (report_result io format k operationErr
                  (keyValueSnapshot (JObject [(''status'', JText result)]) [(''STATUS'', result)]))))))))"

section \<open>Configuration commands\<close>

definition StarterConfigYAML :: string where
  "StarterConfigYAML = concat (map (\<lambda>l. l @ newline) [
     ''# ocpp-cli uses OCPP 1.6-J over WebSocket.'',
     ''default_profile: local'',
     '''',
     ''profiles:'',
     ''  local:'',
     ''    central_system_url: ws://localhost:8080/ocpp'',
     ''    charge_point_id: CP001'',
     ''    timeout: 10s'',
     ''    format: table'',
     '''',
     ''    # Optional HTTP Basic authentication for the WebSocket handshake.'',
     ''    username: \"\"'',
     ''    password: \"\"'',
     '''',
     ''    # TLS options for wss:// endpoints. PEM data may instead be supplied'',
     ''    # through ca_cert_base64, client_cert_base64, and client_key_base64.'',
     ''    ca_cert: \"\"'',
     ''    client_cert: \"\"'',
     ''    client_key: \"\"'',
     ''    tls_server_name: \"\"'',
     ''    insecure_skip_verify: false'',
     '''',
     ''    # BootNotification defaults.'',
     ''    charge_point_model: ocpp-cli'',
     ''    charge_point_vendor: DishanRajapaksha'',
     ''    firmware_version: \"\"'',
     ''    charge_point_serial_number: \"\"'',
     ''    meter_serial_number: \"\"'',
     ''    meter_type: \"\"''])"

definition initConfig :: "cli_env \<Rightarrow> string list \<Rightarrow> outcome" where
  "initConfig io args =
     (case parse_command io ''init-config'' [(''output'', StringFlag), (''force'', BoolFlag)] args of
       Inl er \<Rightarrow> fail er
     | Inr fs \<Rightarrow>
        (let path = string_flag fs ''output'' DefaultConfigPath; force = bool_flag fs ''force'' in
         case open_file io path force of
           Some er \<Rightarrow>
             if error_is ErrExist er then refuse (path @ '' already exists; use --force to overwrite it'')
             else refuse (''create '' @ path @ '': '' @ error_text er)
         | None \<Rightarrow> (case write_file io path StarterConfigYAML of
             Some er \<Rightarrow> ([Created path force], Some (Wrapf er (''write '' @ path @ '': '' @ error_text er)))
           | None \<Rightarrow> ([Created path force, FileWritten path StarterConfigYAML, Out (''wrote '' @ path @ newline)], None))))"

definition validateConfig :: "cli_env \<Rightarrow> string list \<Rightarrow> outcome" where
  "validateConfig io args = (case parse_command io ''validate-config'' common_flags args of
     Inl er \<Rightarrow> fail er
   | Inr fs \<Rightarrow> (case resolveCommon io fs of
       Inl er \<Rightarrow> fail er
     | Inr (c, format) \<Rightarrow> renderSnapshot io format (keyValueSnapshot
         (JObject [(''valid'', JBool True), (''protocol'', JText ''ocpp1.6''),
            (''central_system_url'', JText (CentralSystemURL c)), (''charge_point_id'', JText (ChargePointID c)),
            (''format'', JText (format_name io format))])
         [(''VALID'', ''true''), (''PROTOCOL'', ''ocpp1.6''), (''CENTRAL_SYSTEM_URL'', CentralSystemURL c),
          (''CHARGE_POINT_ID'', ChargePointID c), (''FORMAT'', format_name io format)])))"

text \<open>Closing comes before rendering here.\<close>

definition testConnection :: "cli_env \<Rightarrow> string list \<Rightarrow> outcome" where
  "testConnection io args = (case parse_command io ''test-connection'' common_flags args of
     Inl er \<Rightarrow> fail er
   | Inr fs \<Rightarrow> (case resolveCommon io fs of
       Inl er \<Rightarrow> fail er
     | Inr (c, format) \<Rightarrow> (case with_station io c ([], None) of
         (es, Some er) \<Rightarrow> (es, Some er)
       | (es, None) \<Rightarrow> (case renderSnapshot io format (keyValueSnapshot
             (JObject [(''connected'', JBool True), (''protocol'', JText ''ocpp1.6''),
                (''central_system_url'', JText (CentralSystemURL c)), (''charge_point_id'', JText (ChargePointID c))])
             [(''CONNECTED'', ''true''), (''PROTOCOL'', ''ocpp1.6''), (''CENTRAL_SYSTEM_URL'', CentralSystemURL c),
              (''CHARGE_POINT_ID'', ChargePointID c)]) of (out, eo) \<Rightarrow> (es @ out, eo)))))"

end
