(* ===== verification/RunCommand.thy ===== *)
theory RunCommand
  imports Cli CoreProfile
begin

text \<open>
  The \<open>run\<close> command (commands_run.go) and the writer of the event stream (stream.go): the checks
  and the configuration of the simulator, and the loop that copies events to the output until
  the simulator's \<open>Run\<close> has returned and the event channel is closed.
\<close>

section \<open>Writing one event\<close>

text \<open>
  What the writer calls: the JSON encoder, writing to the output (its error for a text), and the
  error of handing one row to the CSV writer, which buffers.
\<close>

record stream_env =
  encode_json :: "json \<Rightarrow> string"
  sink :: "string \<Rightarrow> err option"
  row_error :: "string list \<Rightarrow> err option"

record stream_writer =
  sw_format :: output_format
  sw_header :: bool

definition newSimulatorStreamWriter :: "output_format \<Rightarrow> stream_writer" where
  "newSimulatorStreamWriter format = \<lparr>sw_format = format, sw_header = False\<rparr>"

definition output_error :: "cli_env \<Rightarrow> string \<Rightarrow> err" where
  "output_error io t = Wrapf (Library OutputError (output_text io)) (output_text io @ '': '' @ t)"

definition format_millis :: "time \<Rightarrow> string" where
  "format_millis t = (case date_time t of ((y, m, d), (hh, mm, ss)) \<Rightarrow>
     pad_to 4 (itoa y) @ ''-'' @ pad_to 2 (itoa m) @ ''-'' @ pad_to 2 (itoa d) @ ''T'' @
     pad_to 2 (itoa hh) @ '':'' @ pad_to 2 (itoa mm) @ '':'' @ pad_to 2 (itoa ss) @ ''.'' @
     pad_to 3 (itoa ((t mod second) div millisecond)) @ ''Z'')"

text \<open>A row of the package \<open>encoding/csv\<close>: fields are quoted when they have to be.\<close>

definition csv_needs_quotes :: "string \<Rightarrow> bool" where
  "csv_needs_quotes f \<longleftrightarrow> f \<noteq> '''' \<and>
     (f = [CHR 0x5C, CHR ''.''] \<or> (\<exists>c \<in> set f. c = CHR '','' \<or> c = CHR 0x22 \<or> c = CHR 0x0D \<or> c = CHR 0x0A)
      \<or> is_space (hd f))"

definition csv_field :: "string \<Rightarrow> string" where
  "csv_field f = (if csv_needs_quotes f
     then [CHR 0x22] @ concat (map (\<lambda>c. if c = CHR 0x22 then [CHR 0x22, CHR 0x22] else [c]) f) @ [CHR 0x22] else f)"

definition csv_row :: "string list \<Rightarrow> string" where
  "csv_row fs = join_with '','' (map csv_field fs) @ newline"

definition csv_header :: "string list" where
  "csv_header = [''timestamp'', ''direction'', ''action'', ''status'', ''connector_id'', ''detail'']"

definition event_row :: "simulator_event \<Rightarrow> string list" where
  "event_row ev = [format_millis (ev_timestamp ev), ev_direction ev, ev_action ev, ev_status ev,
     (case ev_connector ev of None \<Rightarrow> '''' | Some i \<Rightarrow> itoa i), ev_detail ev]"

definition event_text :: "simulator_event \<Rightarrow> string" where
  "event_text ev = format_millis (ev_timestamp ev) @ '' direction='' @ ev_direction ev @ '' action='' @ ev_action ev @
     '' status='' @ ev_status ev @ (case ev_connector ev of None \<Rightarrow> '''' | Some i \<Rightarrow> '' connector='' @ itoa i) @
     (if ev_detail ev \<noteq> '''' then '' detail='' @ go_quote (ev_detail ev) else '''') @ newline"

definition event_json :: "simulator_event \<Rightarrow> json" where
  "event_json ev = JObject ([(''timestamp'', JTime (Some (ev_timestamp ev))), (''direction'', JText (ev_direction ev)),
       (''action'', JText (ev_action ev))] @
     (if ev_status ev = '''' then [] else [(''status'', JText (ev_status ev))]) @
     (case ev_connector ev of None \<Rightarrow> [] | Some i \<Rightarrow> [(''connector_id'', JInt i)]) @
     (if ev_detail ev = '''' then [] else [(''detail'', JText (ev_detail ev))]))"

text \<open>The text an output error leaves unwritten is not counted as written.\<close>

definition put_text :: "cli_env \<Rightarrow> stream_env \<Rightarrow> string \<Rightarrow> string \<times> err option" where
  "put_text io se t = (case sink se t of None \<Rightarrow> (t, None) | Some er \<Rightarrow> ('''', Some (output_error io (error_text er))))"

definition write_csv_event ::
  "cli_env \<Rightarrow> stream_env \<Rightarrow> stream_writer \<Rightarrow> simulator_event \<Rightarrow> stream_writer \<times> string \<times> err option" where
  "write_csv_event io se w ev =
     (case (if sw_header w then None else row_error se csv_header) of
       Some er \<Rightarrow> (w, '''', Some (output_error io (error_text er)))
     | None \<Rightarrow>
        (let w2 = w\<lparr>sw_header := True\<rparr>;
             head = (if sw_header w then '''' else csv_row csv_header) in
         case row_error se (event_row ev) of
           Some er \<Rightarrow> (w2, '''', Some (output_error io (error_text er)))
         | None \<Rightarrow> (w2, put_text io se (head @ csv_row (event_row ev)))))"

definition write_event ::
  "cli_env \<Rightarrow> stream_env \<Rightarrow> stream_writer \<Rightarrow> simulator_event \<Rightarrow> stream_writer \<times> string \<times> err option" where
  "write_event io se w ev = (case sw_format w of
     FormatText \<Rightarrow> (w, put_text io se (event_text ev))
   | FormatJSONL \<Rightarrow> (w, put_text io se (encode_json se (event_json ev) @ newline))
   | FormatCSV \<Rightarrow> write_csv_event io se w ev
   | f \<Rightarrow> (w, '''', Some (output_error io (''unsupported stream format '' @ go_quote (format_name io f)))))"

section \<open>The loop of the command\<close>

text \<open>
  What the \<open>select\<close> receives: an event, the closing of the channel (after which the result of
  \<open>Run\<close> is awaited), or that result first, with the events then in the channel and whether the
  channel is closed. Nothing received and nothing to come is \<open>Blocked\<close>.
\<close>

datatype received =
    GotEvent simulator_event
  | GotClosed "err option"
  | GotResult "err option" "simulator_event list" bool

datatype run_end = Returned "err option" | Blocked

text \<open>\<open>for event := range simulator.Events()\<close>: it ends when the channel is closed.\<close>

fun drain ::
  "cli_env \<Rightarrow> stream_env \<Rightarrow> stream_writer \<Rightarrow> simulator_event list \<Rightarrow> bool \<Rightarrow> err option \<Rightarrow> string \<times> run_end" where
  "drain io se w [] shut result = ('''', if shut then Returned result else Blocked)"
| "drain io se w (ev # evs) shut result = (case write_event io se w ev of
     (w', t, Some er) \<Rightarrow> (t, Returned (Some er))
   | (w', t, None) \<Rightarrow> (case drain io se w' evs shut result of (t2, r) \<Rightarrow> (t @ t2, r)))"

fun run_loop :: "cli_env \<Rightarrow> stream_env \<Rightarrow> stream_writer \<Rightarrow> received list \<Rightarrow> string \<times> run_end" where
  "run_loop io se w [] = ('''', Blocked)"
| "run_loop io se w (GotEvent ev # rest) = (case write_event io se w ev of
     (w', t, Some er) \<Rightarrow> (t, Returned (Some er))
   | (w', t, None) \<Rightarrow> (case run_loop io se w' rest of (t2, r) \<Rightarrow> (t @ t2, r)))"
| "run_loop io se w (GotClosed result # rest) = ('''', Returned result)"
| "run_loop io se w (GotResult result evs shut # rest) = drain io se w evs shut result"

section \<open>The command\<close>

definition run_flags :: flag_set where
  "run_flags = common_flags @ [(''connectors'', IntFlag), (''heartbeat-interval'', DurationFlag),
     (''meter-interval'', DurationFlag), (''meter-start'', IntFlag), (''meter-step'', IntFlag),
     (''duration'', DurationFlag), (''model'', StringFlag), (''vendor'', StringFlag), (''firmware-version'', StringFlag)]"

definition run_config :: "parsed_flags \<Rightarrow> client_config \<Rightarrow> client_config" where
  "run_config fs c = c\<lparr>ChargePointModel := set_text fs ''model'' (ChargePointModel c),
     ChargePointVendor := set_text fs ''vendor'' (ChargePointVendor c),
     FirmwareVersion := set_text fs ''firmware-version'' (FirmwareVersion c)\<rparr>"

text \<open>A snapshot format of the configuration file falls back to text, one given as a flag does not.\<close>

definition stream_format :: "cli_env \<Rightarrow> parsed_flags \<Rightarrow> string \<Rightarrow> err + output_format" where
  "stream_format io fs value =
     validateStreamFormat io (if \<not> wasSet fs ''format'' \<and>
         normalise_format io value \<notin> {FormatText, FormatJSONL, FormatCSV} then format_name io FormatText else value)"

text \<open>Up to the start of the simulator: the simulator, the stream format and the duration of the run.\<close>

definition prepare_run ::
  "cli_env \<Rightarrow> (client_config \<Rightarrow> simulator_options \<Rightarrow> err + simulator) \<Rightarrow> string list \<Rightarrow>
     err + simulator \<times> output_format \<times> duration" where
  "prepare_run io newSimulator args = (case parse_command io ''run'' run_flags args of
     Inl er \<Rightarrow> Inl er
   | Inr fs \<Rightarrow>
      (let connectors = int_flag fs ''connectors'' 1; heartbeatInterval = duration_flag fs ''heartbeat-interval'';
           meterInterval = duration_flag fs ''meter-interval''; meterStart = int_flag fs ''meter-start'' 0;
           meterStep = int_flag fs ''meter-step'' 100; duration = duration_flag fs ''duration'' in
       if connectors \<le> 0 then Inl (wrap_text ErrConfig ''connectors must be greater than zero'')
       else if heartbeatInterval < 0 \<or> meterInterval < 0 \<or> duration < 0 then
         Inl (wrap_text ErrConfig ''intervals and duration cannot be negative'')
       else if meterStart < 0 \<or> meterStep < 0 then
         Inl (wrap_text ErrConfig ''meter-start and meter-step cannot be negative'')
       else (case resolveClientConfig io fs of
         Inl er \<Rightarrow> Inl er
       | Inr c \<Rightarrow>
          (let c2 = run_config fs c in
           case ValidateClientConfig (files io) c2 of
             Some er \<Rightarrow> Inl er
           | None \<Rightarrow> (case stream_format io fs (Format c2) of
               Inl er \<Rightarrow> Inl (wrap_err ErrConfig er)
             | Inr format \<Rightarrow> (case newSimulator c2 \<lparr>Connectors = connectors, HeartbeatInterval = heartbeatInterval,
                   MeterInterval = meterInterval, MeterStart = meterStart, MeterStep = meterStep\<rparr> of
                 Inl er \<Rightarrow> Inl er
               | Inr s \<Rightarrow> Inr (s, format, duration)))))))"

text \<open>
  The whole command: \<open>arrivals\<close> is what the \<open>select\<close> receives for the simulator that was
  started. \<^term>\<open>None\<close>: the command does not return.
\<close>

definition runSimulator ::
  "cli_env \<Rightarrow> stream_env \<Rightarrow> (client_config \<Rightarrow> simulator_options \<Rightarrow> err + simulator) \<Rightarrow>
     (simulator \<Rightarrow> duration \<Rightarrow> received list) \<Rightarrow> string list \<Rightarrow> outcome option" where
  "runSimulator io se newSimulator arrivals args = (case prepare_run io newSimulator args of
     Inl er \<Rightarrow> Some (fail er)
   | Inr (s, format, duration) \<Rightarrow>
      (case run_loop io se (newSimulatorStreamWriter format) (arrivals s duration) of
        (t, Returned eo) \<Rightarrow> Some ([Out t], eo)
      | (t, Blocked) \<Rightarrow> None))"

end
