(* ===== verification/App.thy ===== *)
theory App
  imports Commands RunCommand
begin

text \<open>
  The program (app.go, registry.go, completions.go): the registry of commands and their flags,
  the dispatch of the \<open>send\<close> namespace and of the top level, each with its own table, and the
  exit code. The third-party registry package, which normalises global flags and writes help and
  completions from the registry, is part of the \<open>cli_env\<close>.
\<close>

section \<open>The registry\<close>

record command_flag =
  fl_name :: string
  fl_takes_value :: bool

record command_entry =
  co_name :: string
  co_flags :: "command_flag list"
  co_subcommands :: "string list"

definition flags :: "string list \<Rightarrow> command_flag list" where
  "flags names = map (\<lambda>n. \<lparr>fl_name = n,
     fl_takes_value = (n \<noteq> ''force'' \<and> n \<noteq> ''yes'' \<and> n \<noteq> ''dry-run'')\<rparr>) names"

definition operation :: "string \<Rightarrow> string list \<Rightarrow> command_entry" where
  "operation name names = \<lparr>co_name = name, co_flags = flags names, co_subcommands = []\<rparr>"

definition operationCommands :: "command_entry list" where
  "operationCommands = [
     operation ''boot-notification'' [''model'', ''vendor'', ''firmware-version'', ''serial-number'',
       ''meter-serial-number'', ''meter-type''],
     operation ''heartbeat'' [],
     operation ''authorize'' [''id-tag''],
     operation ''status-notification'' [''connector'', ''status'', ''error-code'', ''info'', ''vendor-id'',
       ''vendor-error-code'', ''timestamp''],
     operation ''meter-values'' [''connector'', ''transaction-id'', ''value'', ''measurand'', ''unit'', ''context'',
       ''location'', ''phase'', ''timestamp''],
     operation ''start-transaction'' [''connector'', ''id-tag'', ''meter-start'', ''reservation-id'', ''timestamp'',
       ''yes'', ''dry-run''],
     operation ''stop-transaction'' [''transaction-id'', ''meter-stop'', ''id-tag'', ''reason'', ''timestamp'', ''yes'',
       ''dry-run''],
     operation ''data-transfer'' [''vendor-id'', ''message-id'', ''data'', ''data-file''],
     operation ''diagnostics-status'' [''status''],
     operation ''firmware-status'' [''status''],
     operation ''security-event'' [''type'', ''tech-info'', ''timestamp''],
     operation ''log-status'' [''status'', ''request-id''],
     operation ''signed-firmware-status'' [''status'', ''request-id''],
     operation ''sign-certificate'' [''csr-file'', ''certificate-type'']]"

definition globalFlags :: "command_flag list" where
  "globalFlags = map (\<lambda>(n, v). \<lparr>fl_name = n, fl_takes_value = v\<rparr>)
     [(''config'', True), (''profile'', True), (''central-system-url'', True), (''charge-point-id'', True),
      (''username'', True), (''password'', True), (''ca-cert'', True), (''client-cert'', True), (''client-key'', True),
      (''tls-server-name'', True), (''insecure-skip-verify'', False), (''timeout'', True), (''format'', True),
      (''verbose'', False), (''debug'', False)]"

definition registeredCommands :: "command_entry list" where
  "registeredCommands =
     [operation ''run'' [''connectors'', ''heartbeat-interval'', ''meter-interval'', ''meter-start'', ''meter-step'',
        ''duration'', ''model'', ''vendor'', ''firmware-version''],
      operation ''init-config'' [''output'', ''force''],
      operation ''validate-config'' [],
      operation ''test-connection'' [],
      operation ''status'' [],
      \<lparr>co_name = ''send'', co_flags = [], co_subcommands = map co_name operationCommands\<rparr>] @
     operationCommands @
     [operation ''completions'' [], operation ''help'' [], operation ''version'' []]"

section \<open>The application\<close>

text \<open>
  The fields of \<open>App\<close>: what the commands use, and for \<open>run\<close> the event writer's output, the
  simulator factory and what arrives from the simulator it starts.
\<close>

record app =
  ap_io :: cli_env
  ap_stream :: stream_env
  ap_new_simulator :: "client_config \<Rightarrow> simulator_options \<Rightarrow> err + simulator"
  ap_arrivals :: "simulator \<Rightarrow> duration \<Rightarrow> received list"

definition line :: "string \<Rightarrow> effect" where
  "line t = Out (t @ newline)"

definition completions :: "cli_env \<Rightarrow> string list \<Rightarrow> outcome" where
  "completions io args =
     (if length args = 1 \<and> (hd args = ''--help'' \<or> hd args = ''-h'') then
        ([ErrOut (''Usage of completions:'' @ newline), ErrOut (''  ocpp-cli completions bash|zsh'' @ newline)],
         Some (Sentinel ErrHelp))
      else if length args \<noteq> 1 then ([], Some (Library PlainError ''usage: ocpp-cli completions <bash|zsh>''))
      else written (completion_script io (to_lower (trim_space (hd args)))))"

definition wants_help :: "string list \<Rightarrow> bool" where
  "wants_help args \<longleftrightarrow> (case args of [] \<Rightarrow> True | a # _ \<Rightarrow> a = ''help'' \<or> a = ''--help'' \<or> a = ''-h'')"

definition send_usage :: "effect list" where
  "send_usage = [line ''Usage: ocpp-cli send <operation> [flags]'',
     line (''Operations: boot-notification heartbeat authorize status-notification meter-values start-transaction '' @
       ''stop-transaction data-transfer diagnostics-status firmware-status security-event log-status '' @
       ''signed-firmware-status sign-certificate'')]"

definition dispatch_send :: "cli_env \<Rightarrow> string \<Rightarrow> string list \<Rightarrow> outcome" where
  "dispatch_send io name args =
     (if name = ''boot-notification'' then bootNotification io args
      else if name = ''heartbeat'' then heartbeat io args
      else if name = ''authorize'' then authorize io args
      else if name = ''status-notification'' then statusNotification io args
      else if name = ''meter-values'' then meterValues io args
      else if name = ''start-transaction'' then startTransaction io args
      else if name = ''stop-transaction'' then stopTransaction io args
      else if name = ''data-transfer'' then dataTransfer io args
      else if name = ''diagnostics-status'' then diagnosticsStatus_command io args
      else if name = ''firmware-status'' then firmwareStatus_command io args
      else if name = ''security-event'' then securityEvent io args
      else if name = ''log-status'' then logStatus_command io args
      else if name = ''signed-firmware-status'' then signedFirmwareStatus_command io args
      else if name = ''sign-certificate'' then signCertificate io args
      else ([], Some (Library PlainError (''unknown OCPP operation '' @ go_quote name))))"

definition send :: "cli_env \<Rightarrow> string list \<Rightarrow> outcome" where
  "send io args = (case normalise_flags io args of
     Inl er \<Rightarrow> fail er
   | Inr normalised \<Rightarrow>
       if wants_help normalised then (send_usage, None)
       else dispatch_send io (hd normalised) (tl normalised))"

text \<open>
  The \<open>switch\<close> of \<open>Run\<close>: \<^term>\<open>None\<close> is the unknown command, an inner \<^term>\<open>None\<close> a
  command that does not return.
\<close>

definition dispatch :: "app \<Rightarrow> string \<Rightarrow> string list \<Rightarrow> outcome option option" where
  "dispatch a name args = (let io = ap_io a; once = (\<lambda>command. Some (Some (command io args))) in
     if name = ''version'' \<or> name = ''--version'' \<or> name = ''-v'' then
       Some (Some ([line ''ocpp-cli development''], None))
     else if name = ''run'' then Some (runSimulator io (ap_stream a) (ap_new_simulator a) (ap_arrivals a) args)
     else if name = ''init-config'' then once initConfig
     else if name = ''validate-config'' then once validateConfig
     else if name = ''test-connection'' then once testConnection
     else if name = ''status'' then once testConnection
     else if name = ''send'' then once send
     else if name = ''boot-notification'' then once bootNotification
     else if name = ''heartbeat'' then once heartbeat
     else if name = ''authorize'' then once authorize
     else if name = ''status-notification'' then once statusNotification
     else if name = ''meter-values'' then once meterValues
     else if name = ''start-transaction'' then once startTransaction
     else if name = ''stop-transaction'' then once stopTransaction
     else if name = ''data-transfer'' then once dataTransfer
     else if name = ''diagnostics-status'' then once diagnosticsStatus_command
     else if name = ''firmware-status'' then once firmwareStatus_command
     else if name = ''security-event'' then once securityEvent
     else if name = ''log-status'' then once logStatus_command
     else if name = ''signed-firmware-status'' then once signedFirmwareStatus_command
     else if name = ''sign-certificate'' then once signCertificate
     else if name = ''completions'' then once completions
     else None)"

text \<open>The end of \<open>Run\<close>: an error other than the request for help is printed.\<close>

definition finish :: "outcome \<Rightarrow> effect list \<times> exit_code" where
  "finish r = (case r of
     (es, None) \<Rightarrow> (es, ExitSuccess)
   | (es, Some er) \<Rightarrow> if error_is ErrHelp er then (es, ExitSuccess)
       else (es @ [ErrOut (error_text er @ newline)], mapExitCode (Some er)))"

definition run_normalised :: "app \<Rightarrow> string list \<Rightarrow> (effect list \<times> exit_code) option" where
  "run_normalised a args =
     (if wants_help args then Some ([Out (usage_text (ap_io a))], ExitSuccess)
      else (case dispatch a (hd args) (tl args) of
        None \<Rightarrow> Some ([ErrOut (usage_text (ap_io a)), ErrOut (''unknown command '' @ go_quote (hd args) @ newline)],
          ExitConfig)
      | Some r \<Rightarrow> map_option finish r))"

definition Run :: "app \<Rightarrow> string list \<Rightarrow> (effect list \<times> exit_code) option" where
  "Run a args = (case normalise_flags (ap_io a) args of
     Inl er \<Rightarrow> Some ([ErrOut (error_text er @ newline)], ExitConfig)
   | Inr normalised \<Rightarrow> run_normalised a normalised)"

end
