(* ===== verification/ConfigProofs.thy ===== *)
theory ConfigProofs
  imports Config
begin

text \<open>
  Correctness of loading the configuration: base64 settings survive, every error is a
  configuration error, and what is loaded is the default or valid.
\<close>

section \<open>Base64 settings\<close>

text \<open>
  C32: a certificate or key given in base64, padded or not and with white space anywhere in
  it, decodes to the bytes that were encoded.
\<close>

theorem base64_round_trip:
  assumes "filter (\<lambda>c. \<not> is_space c) text = b64_encode padded bytes"
  shows "decodeBase64 text = Inr bytes"
  using b64_encode_raw_or_padded [of padded bytes] by (auto simp: decodeBase64_def assms)

theorem base64_round_trip_witness:
  "decodeBase64 (''TUlJ'' @ [CHR 0x0A] @ ''  RA'') = Inr ''MIID''"
  by (rule base64_round_trip [where padded = False]) code_simp

section \<open>Errors\<close>

definition config_failure :: "err \<Rightarrow> bool" where
  "config_failure e \<longleftrightarrow> (\<exists>t. e = wrap_text ErrConfig t)"

lemma config_failure_wrap [simp]: "config_failure (wrap_text ErrConfig t)" "config_failure (wrap_err ErrConfig e)"
  by (auto simp: config_failure_def wrap_err_def)

lemma config_failure_sentinel: "config_failure e \<Longrightarrow> error_is s e = (s = ErrConfig)"
  by (auto simp: config_failure_def)

lemma ValidateClientConfig_failure: "ValidateClientConfig env c = Some e \<Longrightarrow> config_failure e"
  by (auto simp: ValidateClientConfig_def config_error_def split: if_splits)

lemma decode_field_failure: "decode_field name v old = Inl e \<Longrightarrow> config_failure e"
  by (auto simp: decode_field_def split: if_splits sum.splits)

lemma timeout_field_failure: "timeout_field env v old = Inl e \<Longrightarrow> config_failure e"
  by (auto simp: timeout_field_def split: if_splits sum.splits)

lemma applySettings_failure: "applySettings env c s = Inl e \<Longrightarrow> config_failure e"
  by (auto simp: applySettings_def dest: decode_field_failure timeout_field_failure split: sum.splits)

lemma select_profile_failure: "select_profile env f p c = Inl e \<Longrightarrow> config_failure e"
  by (auto simp: select_profile_def Let_def split: if_splits sum.splits option.splits)

lemma LoadClientConfig_failure: "LoadClientConfigForProfile env path profile = Inl e \<Longrightarrow> config_failure e"
  by (auto simp: LoadClientConfigForProfile_def Let_def split: if_splits sum.splits option.splits
      dest: applySettings_failure select_profile_failure ValidateClientConfig_failure)

section \<open>What is loaded\<close>

lemma LoadClientConfig_valid:
  "LoadClientConfigForProfile env path profile = Inr c \<Longrightarrow>
     c = DefaultClientConfig \<or> ValidateClientConfig env c = None"
  by (auto simp: LoadClientConfigForProfile_def Let_def split: if_splits sum.splits option.splits)

lemma ValidateClientConfig_None:
  "ValidateClientConfig env c = None \<longleftrightarrow>
     trim_space (CentralSystemURL c) \<noteq> [] \<and> url_ok env (CentralSystemURL c) \<and> trim_space (ChargePointID c) \<noteq> [] \<and>
     \<not> str_contains (ChargePointID c) ''/'' \<and> Timeout c > 0 \<and> (Username c = []) = (Password c = []) \<and>
     (ClientCertFile c = []) = (ClientKeyFile c = []) \<and> (ClientCertPEM c = []) = (ClientKeyPEM c = []) \<and>
     (ClientCertFile c = [] \<or> ClientCertPEM c = []) \<and>
     ChargePointModel c \<noteq> [] \<and> length (ChargePointModel c) \<le> 20 \<and>
     ChargePointVendor c \<noteq> [] \<and> length (ChargePointVendor c) \<le> 20"
  by (auto simp: ValidateClientConfig_def config_error_def)

end
