(* ===== verification/ClientProofs.thy ===== *)
theory ClientProofs
  imports Client
begin

text \<open>
  The contract of the \<open>Station\<close> interface: every operation is one call, and its outcome is the
  answer, the answer with \<open>ErrRejected\<close>, or nothing with exactly one other sentinel. It is
  proved once in the locale \<open>station_operation\<close> and interpreted for every operation of the
  client. Then the errors of building and connecting a station, and closing it.
\<close>

section \<open>The contract of an operation\<close>

definition outcome_sentinels :: "sentinel set" where
  "outcome_sentinels = {ErrTimeout, ErrProtocol, ErrConnection, ErrAuthSecurity}"

lemma classify_error_sentinel:
  "\<exists>s. s \<in> outcome_sentinels \<and> (\<forall>t. error_is t (classify_error e ErrProtocol) = (t = s))"
  unfolding classify_error_def outcome_sentinels_def by auto

lemma classify_error_not_rejected: "\<not> error_is ErrRejected (classify_error e ErrProtocol)"
  by (simp add: classify_error_def)

text \<open>What a caller can see: the result and the error, for every outcome of the race.\<close>

definition obeys ::
  "'c race \<Rightarrow> ('c \<Rightarrow> 'r) \<Rightarrow> 'r \<Rightarrow> ('c \<Rightarrow> string option) \<Rightarrow> 'r \<times> err option \<Rightarrow> bool" where
  "obeys outcome answer blank refusal r \<longleftrightarrow> (case await outcome of
     Inr c \<Rightarrow> r = (answer c, map_option (wrap_text ErrRejected) (refusal c))
   | Inl er \<Rightarrow> fst r = blank \<and> (\<exists>s e. s \<in> outcome_sentinels \<and> snd r = Some e \<and> (\<forall>t. error_is t e = (t = s))))"

locale station_operation =
  fixes operation :: "'c race \<Rightarrow> 'r \<times> err option"
    and answer :: "'c \<Rightarrow> 'r"
    and blank :: 'r
    and refusal :: "'c \<Rightarrow> string option"
  assumes failed: "await outcome = Inl er \<Longrightarrow> operation outcome = (blank, Some (classify_error er ErrProtocol))"
    and answered: "await outcome = Inr c \<Longrightarrow>
      operation outcome = (answer c, map_option (wrap_text ErrRejected) (refusal c))"
begin

lemma accepted_iff: "snd (operation outcome) = None \<longleftrightarrow> (\<exists>c. await outcome = Inr c \<and> refusal c = None)"
  by (cases "await outcome") (auto simp: failed answered)

lemma rejected_iff:
  "(\<exists>e. snd (operation outcome) = Some e \<and> error_is ErrRejected e) \<longleftrightarrow>
   (\<exists>c. await outcome = Inr c \<and> refusal c \<noteq> None)"
  by (cases "await outcome") (auto simp: failed answered classify_error_not_rejected)

lemma result_kept: "await outcome = Inr c \<Longrightarrow> fst (operation outcome) = answer c"
  by (simp add: answered)

lemma one_sentinel:
  "snd (operation outcome) = Some e \<Longrightarrow>
   \<exists>s. s \<in> insert ErrRejected outcome_sentinels \<and> (\<forall>t. error_is t e = (t = s))"
  using classify_error_sentinel by (cases "await outcome") (auto simp: failed answered)

lemma cancelled: "outcome = ContextDone r \<Longrightarrow> \<exists>e. operation outcome = (blank, Some e) \<and> error_is ErrTimeout e"
  by (simp add: failed classify_error_def timeout_like_def)

lemma contract: "obeys outcome answer blank refusal (operation outcome)"
  using classify_error_sentinel by (cases "await outcome") (auto simp: obeys_def failed answered)

end

section \<open>The operations of the client keep the contract\<close>

definition status_refusal :: "string \<Rightarrow> string \<Rightarrow> string option" where
  "status_refusal label st = (if st \<noteq> ''Accepted'' then Some (label @ '' status is '' @ st) else None)"

interpretation boot: station_operation "\<lambda>outcome. snd (Boot request outcome)" boot_answer zero_boot
  "\<lambda>c. if bc_status c = RegRejected then Some ''BootNotification status is Rejected'' else None" for request
  by unfold_locales (auto simp: Boot_def rejected_def)

interpretation heartbeat: station_operation "\<lambda>outcome. snd (Heartbeat outcome)" "\<lambda>c. c" None "\<lambda>c. None"
  by unfold_locales (auto simp: Heartbeat_def)

interpretation authorize: station_operation "\<lambda>outcome. snd (Authorize tag outcome)" authorizationResult
  zero_authorization "\<lambda>c. status_refusal ''authorization'' (ar_status (authorizationResult c))" for tag
  by unfold_locales (auto simp: Authorize_def Let_def rejected_def status_refusal_def)

interpretation start: station_operation "\<lambda>outcome. snd (StartTransaction request outcome)" start_answer zero_start
  "\<lambda>c. status_refusal ''transaction authorization'' (ar_status (authorizationResult (snd c)))" for request
  by unfold_locales (auto simp: StartTransaction_def Let_def rejected_def status_refusal_def start_answer_def)

interpretation stop: station_operation "\<lambda>outcome. snd (StopTransaction request outcome)"
  "map_option (\<lambda>i. authorizationResult (Some i))" None
  "\<lambda>c. case c of None \<Rightarrow> None
     | Some i \<Rightarrow> status_refusal ''stop transaction authorization'' (authorization_text (t_status i))" for request
  by unfold_locales
    (auto simp: StopTransaction_def Let_def rejected_def status_refusal_def authorizationResult_def split: option.split)

interpretation data: station_operation "\<lambda>outcome. snd (DataTransfer request outcome)" "\<lambda>c. c"
  "\<lparr>dr_status = '''', dr_data = JNull\<rparr>" "\<lambda>c. status_refusal ''DataTransfer'' (dr_status c)" for request
  by unfold_locales (auto simp: DataTransfer_def rejected_def status_refusal_def)

interpretation sign: station_operation "\<lambda>outcome. snd (SignCertificate csr ty outcome)" "\<lambda>c. c" "''''"
  "\<lambda>c. status_refusal ''SignCertificate'' c" for csr ty
  by unfold_locales (auto simp: SignCertificate_def rejected_def status_refusal_def)

text \<open>The notifications, whose confirmation is empty.\<close>

interpretation acknowledgement: station_operation "\<lambda>outcome. ((), acknowledged outcome)" "\<lambda>c. ()" "()" "\<lambda>c. None"
  by unfold_locales (auto simp: acknowledged_def classify_def)

lemmas notification_defs = StatusNotification_def MeterValues_def DiagnosticsStatusNotification_def
  FirmwareStatusNotification_def SecurityEventNotification_def LogStatusNotification_def
  SignedFirmwareStatusNotification_def Let_def



section \<open>Building a station\<close>

lemma buildTLSConfig_error:
  "buildTLSConfig te c = Inl er \<Longrightarrow> error_is ErrAuthSecurity er"
  by (auto simp: buildTLSConfig_def ca_pem_def client_certificates_def Let_def split: sum.splits if_splits prod.splits)

lemma buildTLSConfig_shape:
  "buildTLSConfig te c = Inr t \<Longrightarrow> tc_min_version t = ''TLS12'' \<and> tc_insecure t = InsecureSkipVerify c \<and>
     tc_server_name t = TLSServerName c \<and>
     (length (tc_certificates t) = (if ClientCertFile c \<noteq> '''' \<or> ClientCertPEM c \<noteq> '''' then 1 else 0))"
  by (auto simp: buildTLSConfig_def client_certificates_def Let_def split: sum.splits if_splits prod.splits)


text \<open>A \<open>wss\<close> address with a certificate file that cannot be read.\<close>

definition sample_tls :: "(unit, unit) tls_env" where
  "sample_tls = \<lparr>system_pool = None, empty_pool = (), append_pem = (\<lambda>p t. (p, False)),
     read_pem = (\<lambda>t. Inl (Library PlainError ''no such file'')), load_key_pair = (\<lambda>c k. Inr ()), parse_key_pair = (\<lambda>c k. Inr ())\<rparr>"

definition sample_urls :: config_env where
  "sample_urls = \<lparr>read_file = (\<lambda>p. Inl (Sentinel ErrNotExist)), parse_yaml = (\<lambda>t. Inl (Library PlainError ''yaml'')),
     parse_duration = (\<lambda>t. Inl (Library PlainError ''duration'')), parse_url = (\<lambda>t. Some (''wss'', ''host''))\<rparr>"


section \<open>Connecting and closing\<close>

lemma Connect_timeout: "Connect cl (Some r) start = (None, Some e) \<Longrightarrow> error_is ErrTimeout e"
  by (auto simp: Connect_def)

lemma Close_once: "snd (Close up (fst (Close up' cl))) = False" "cl_closed (fst (Close up cl))"
  by (auto simp: Close_def)

end
