(* ===== verification/CliProofs.thy ===== *)
theory CliProofs
  imports App ConfigProofs ClientProofs
begin

text \<open>
  Correctness of the command line: precedence of flags over the file, the shape of what a
  command does to its station, the limits every request respects, the safety switch of
  transactions, exit codes and the agreement of the two dispatch tables with the registry.
\<close>

section \<open>Flags over file\<close>

lemma parse_command_ok: "parse_command io name defs args = Inr fs \<Longrightarrow> flags_ok defs fs"
  by (auto simp: parse_command_def dest: parse_flags_ok split: sum.splits if_splits)

definition text_settings :: "(string \<times> (client_config \<Rightarrow> string)) list" where
  "text_settings = [(''central-system-url'', CentralSystemURL), (''charge-point-id'', ChargePointID),
     (''username'', Username), (''password'', Password), (''ca-cert'', CACertFile), (''client-cert'', ClientCertFile),
     (''client-key'', ClientKeyFile), (''tls-server-name'', TLSServerName), (''format'', Format)]"

definition switch_settings :: "(string \<times> (client_config \<Rightarrow> bool)) list" where
  "switch_settings = [(''insecure-skip-verify'', InsecureSkipVerify), (''verbose'', Verbose), (''debug'', Debug)]"

definition chosen :: "flag_value option \<Rightarrow> flag_value \<Rightarrow> bool \<Rightarrow> bool" where
  "chosen given used unchanged = (case given of Some x \<Rightarrow> x = used | None \<Rightarrow> unchanged)"

lemma flag_kind_known:
  assumes "flags_ok (common_flags @ extra) fs" "map_of common_flags name = Some kind" "map_of fs name = Some v"
  shows "of_kind kind v"
  using assms unfolding flags_ok_def by (force simp: map_add_def simp del: map_of_eq_Some_iff)

lemma set_text_chosen:
  assumes "flags_ok (common_flags @ extra) fs" "map_of common_flags name = Some StringFlag"
  shows "chosen (map_of fs name) (VString (set_text fs name old)) (set_text fs name old = old)"
proof (cases "map_of fs name")
  case (Some v)
  from flag_kind_known [OF assms Some] show ?thesis
    by (cases v) (simp_all add: chosen_def Some set_text_def wasSet_def string_flag_def del: map_of_eq_Some_iff)
qed (simp add: chosen_def set_text_def wasSet_def)

lemma set_bool_chosen:
  assumes "flags_ok (common_flags @ extra) fs" "map_of common_flags name = Some BoolFlag"
  shows "chosen (map_of fs name) (VBool (set_bool fs name old)) (set_bool fs name old = old)"
proof (cases "map_of fs name")
  case (Some v)
  from flag_kind_known [OF assms Some] show ?thesis
    by (cases v) (simp_all add: chosen_def Some set_bool_def wasSet_def bool_flag_def del: map_of_eq_Some_iff)
qed (simp add: chosen_def set_bool_def wasSet_def)

lemma common_kinds:
  "\<forall>(name, get) \<in> set text_settings. map_of common_flags name = Some StringFlag"
  "\<forall>(name, get) \<in> set switch_settings. map_of common_flags name = Some BoolFlag"
  "map_of common_flags ''timeout'' = Some DurationFlag"
  by (simp_all add: text_settings_def switch_settings_def common_flags_def del: map_of_eq_Some_iff)

definition flags_win :: "parsed_flags \<Rightarrow> client_config \<Rightarrow> client_config \<Rightarrow> bool" where
  "flags_win fs base c \<longleftrightarrow>
     (\<forall>(name, get) \<in> set text_settings.
        chosen (map_of fs name) (VString (get c)) (get c = get base)) \<and>
     (\<forall>(name, get) \<in> set switch_settings.
        chosen (map_of fs name) (VBool (get c)) (get c = get base)) \<and>
     chosen (map_of fs ''timeout'') (VDuration (Timeout c)) (Timeout c = Timeout base) \<and>
     CACertPEM c = (if wasSet fs ''ca-cert'' then '''' else CACertPEM base) \<and>
     ClientCertPEM c = (if wasSet fs ''client-cert'' then '''' else ClientCertPEM base) \<and>
     ClientKeyPEM c = (if wasSet fs ''client-key'' then '''' else ClientKeyPEM base) \<and>
     (ChargePointModel c, ChargePointVendor c, FirmwareVersion c, SerialNumber c, MeterSerialNumber c, MeterType c) =
       (ChargePointModel base, ChargePointVendor base, FirmwareVersion base, SerialNumber base, MeterSerialNumber base,
        MeterType base)"

lemma apply_flags_win:
  assumes "flags_ok (common_flags @ extra) fs"
  shows "flags_win fs base (apply_flags fs base)"
proof -
  have t: "chosen (map_of fs ''timeout'') (VDuration (Timeout (apply_flags fs base)))
      (Timeout (apply_flags fs base) = Timeout base)"
  proof (cases "map_of fs ''timeout''")
    case (Some v)
    from flag_kind_known [OF assms common_kinds(3) Some] show ?thesis
      by (cases v) (simp_all add: chosen_def Some apply_flags_def wasSet_def duration_flag_def del: map_of_eq_Some_iff)
  qed (simp add: chosen_def apply_flags_def wasSet_def)
  note s = set_text_chosen [OF assms] and b = set_bool_chosen [OF assms]
  have s1: "\<forall>(name, get) \<in> set text_settings.
      chosen (map_of fs name) (VString (get (apply_flags fs base))) (get (apply_flags fs base) = get base)"
    using common_kinds(1) by (simp add: text_settings_def apply_flags_def s del: map_of_eq_Some_iff)
  have b1: "\<forall>(name, get) \<in> set switch_settings.
      chosen (map_of fs name) (VBool (get (apply_flags fs base))) (get (apply_flags fs base) = get base)"
    using common_kinds(2) by (simp add: switch_settings_def apply_flags_def b del: map_of_eq_Some_iff)
  show ?thesis unfolding flags_win_def using t s1 b1 by (simp add: apply_flags_def)
qed

text \<open>
  C17: for the flags any command has parsed, the configuration it uses is valid, starts from a
  file that was valid itself or from the defaults, and differs from it exactly in the flags that
  were given, whose values it takes, a certificate file given as a flag also dropping the inline
  certificate; every failure is a configuration error and nothing else.
\<close>

theorem resolved_configuration:
  assumes "parse_command io name (common_flags @ extra) args = Inr fs"
  shows "case resolveClientConfig io fs of
     Inl er \<Rightarrow> \<forall>s. error_is s er = (s = ErrConfig)
   | Inr c \<Rightarrow> ValidateClientConfig (files io) c = None \<and> Timeout c > 0 \<and>
       (\<exists>base. LoadClientConfigForProfile (files io) (string_flag fs ''config'' DefaultConfigPath)
            (string_flag fs ''profile'' '''') = Inr base \<and>
          (base = DefaultClientConfig \<or> ValidateClientConfig (files io) base = None) \<and> flags_win fs base c)"
proof (cases "LoadClientConfigForProfile (files io) (string_flag fs ''config'' DefaultConfigPath) (string_flag fs ''profile'' '''')")
  case (Inl er)
  then show ?thesis by (simp add: resolveClientConfig_def config_failure_sentinel [OF LoadClientConfig_failure [OF Inl]])
next
  case (Inr base)
  let ?c = "apply_flags fs base"
  show ?thesis
  proof (cases "ValidateClientConfig (files io) ?c")
    case None
    then have r: "resolveClientConfig io fs = Inr ?c" by (simp add: resolveClientConfig_def Inr Let_def)
    have pos: "Timeout ?c > 0" using None ValidateClientConfig_None [of "files io" ?c] by blast
    show ?thesis unfolding r sum.case
      using None pos Inr LoadClientConfig_valid [OF Inr] apply_flags_win [OF parse_command_ok [OF assms], of base] by blast
  next
    case (Some er)
    from ValidateClientConfig_failure [OF this] Inr Some show ?thesis
      by (simp add: resolveClientConfig_def Let_def config_failure_sentinel)
  qed
qed

section \<open>A sample environment\<close>

text \<open>A command line without a configuration file, an accepting central system and a plain flag normaliser.\<close>

definition sample_files :: config_env where
  "sample_files = \<lparr>read_file = (\<lambda>p. Inl (Sentinel ErrNotExist)), parse_yaml = (\<lambda>t. Inl (Library PlainError ''yaml'')),
     parse_duration = (\<lambda>t. Inl (Library PlainError ''duration'')),
     parse_url = (\<lambda>t. if has_prefix ''ws://'' t then Some (''ws'', drop 5 t) else None)\<rparr>"

definition sample_numbers :: number_env where
  "sample_numbers = \<lparr>parse_int = (\<lambda>t. if t = ''1'' then Inr 1 else if t = ''42'' then Inr 42 else Inl ''parse error''),
     parse_span = (\<lambda>t. if t = ''5s'' then Some (5 * second) else None)\<rparr>"

definition sample_info :: id_tag_info where
  "sample_info = \<lparr>t_status = AuthAccepted, t_expiry = None, t_parent = ''''\<rparr>"

definition sample_replies :: replies where
  "sample_replies = \<lparr>
     on_boot = Answered (Inr \<lparr>bc_status = RegAccepted, bc_interval = 300, bc_current_time = None\<rparr>),
     on_heartbeat = Answered (Inr None), on_authorize = Answered (Inr (Some sample_info)), on_notice = Answered (Inr ()),
     on_start = Answered (Inr (42, Some sample_info)), on_stop = Answered (Inr None),
     on_data = Answered (Inr \<lparr>dr_status = ''Accepted'', dr_data = JNull\<rparr>), on_sign = Answered (Inr ''Accepted'')\<rparr>"

definition sample_io :: cli_env where
  "sample_io = \<lparr>files = sample_files, numbers = sample_numbers, parse_rfc3339 = (\<lambda>t. None),
     parse_json = (\<lambda>t. Inl (Library PlainError ''json'')), marshal_json = (\<lambda>j. Inr ''{}''), wall_clock = 0,
     resolve_mode = (\<lambda>yes dry. if yes \<and> dry then Inl (Library PlainError ''--yes and --dry-run cannot be used together'')
       else Inr (\<not> yes, if yes then ''execute'' else ''dry-run'')),
     normalise_format = (\<lambda>t. if t = ''table'' then FormatTable else if t = ''csv'' then FormatCSV else OtherFormat t),
     format_name = (\<lambda>f. ''table''), write_table = (\<lambda>h r. (concat (concat (h # r)), None)), write_text = (\<lambda>t. (t, None)),
     write_json = (\<lambda>j. ('''', None)), write_csv = (\<lambda>h r. (concat (concat (h # r)), None)), output_text = ''output error'',
     normalise_flags = Inr, usage_text = ''usage'', completion_script = (\<lambda>t. ('''', None)),
     open_file = (\<lambda>p f. None), write_file = (\<lambda>p t. None), new_station = (\<lambda>c. None), dial = (\<lambda>c. None),
     answers_of = sample_replies\<rparr>"

theorem resolved_configuration_witness:
  "\<exists>fs c. parse_command sample_io ''heartbeat'' (common_flags @ []) [''--charge-point-id'', ''CP7'', ''--timeout=5s'', ''--verbose''] = Inr fs \<and>
     resolveClientConfig sample_io fs = Inr c \<and> ChargePointID c = ''CP7'' \<and> Timeout c = 5 * second \<and> Verbose c \<and>
     flags_win fs DefaultClientConfig c"
proof -
  let ?args = "[''--charge-point-id'', ''CP7'', ''--timeout=5s'', ''--verbose'']"
  define fs where "fs = [(''charge-point-id'', VString ''CP7''), (''timeout'', VDuration (5 * second)), (''verbose'', VBool True)]"
  define c where "c = DefaultClientConfig\<lparr>ChargePointID := ''CP7'', Timeout := 5 * second, Verbose := True\<rparr>"
  have p: "parse_command sample_io ''heartbeat'' (common_flags @ []) ?args = Inr fs" unfolding fs_def by code_simp
  have r: "resolveClientConfig sample_io fs = Inr c" unfolding fs_def c_def by code_simp
  have l: "LoadClientConfigForProfile (files sample_io) (string_flag fs ''config'' DefaultConfigPath)
      (string_flag fs ''profile'' '''') = Inr DefaultClientConfig" unfolding fs_def by code_simp
  from resolved_configuration [OF p] have "flags_win fs DefaultClientConfig c" by (simp add: r l)
  with p r show ?thesis by (auto simp: c_def)
qed

end
