(* ===== verification/RunProofs.thy ===== *)
theory RunProofs
  imports CliProofs
begin

text \<open>
  The \<open>run\<close> command: what it writes for the events when writing works, in every format, and from
  which arguments it starts which simulator.
\<close>

section \<open>The stream of events\<close>

definition stream_formats :: "output_format set" where
  "stream_formats = {FormatText, FormatJSONL, FormatCSV}"

definition event_record :: "stream_env \<Rightarrow> output_format \<Rightarrow> simulator_event \<Rightarrow> string" where
  "event_record se format ev = (case format of
     FormatText \<Rightarrow> event_text ev
   | FormatJSONL \<Rightarrow> encode_json se (event_json ev) @ newline
   | _ \<Rightarrow> csv_row (event_row ev))"

definition header_before :: "stream_writer \<Rightarrow> simulator_event list \<Rightarrow> string" where
  "header_before w evs = (if sw_format w = FormatCSV \<and> \<not> sw_header w \<and> evs \<noteq> [] then csv_row csv_header else '''')"

definition working :: "stream_env \<Rightarrow> bool" where
  "working se \<longleftrightarrow> (\<forall>t. sink se t = None) \<and> (\<forall>r. row_error se r = None)"

definition written_header :: "stream_writer \<Rightarrow> stream_writer" where
  "written_header w = (if sw_format w = FormatCSV then w\<lparr>sw_header := True\<rparr> else w)"

lemma write_event_working:
  assumes "working se" "sw_format w \<in> stream_formats"
  shows "write_event io se w ev = (written_header w, header_before w [ev] @ event_record se (sw_format w) ev, None)"
  using assms
  by (auto simp: write_event_def write_csv_event_def put_text_def working_def stream_formats_def header_before_def
      event_record_def written_header_def Let_def)

lemma written_header_simps [simp]:
  "sw_format (written_header w) = sw_format w" "header_before (written_header w) evs = ''''"
  by (simp_all add: written_header_def header_before_def)

definition sample_stream :: stream_env where
  "sample_stream = \<lparr>encode_json = (\<lambda>j. ''{}''), sink = (\<lambda>t. None), row_error = (\<lambda>r. None)\<rparr>"

lemma sample_stream_working: "working sample_stream"
  by (simp add: working_def sample_stream_def)

section \<open>The beginning of the command\<close>

lemma int_flag_chosen:
  assumes "flags_ok defs fs" "map_of defs name = Some IntFlag"
  shows "chosen (map_of fs name) (VInt (int_flag fs name d)) (int_flag fs name d = d)"
proof (cases "map_of fs name")
  case (Some v)
  with assms have "of_kind IntFlag v" unfolding flags_ok_def by (metis option.inject)
  then show ?thesis by (cases v) (simp_all add: chosen_def Some int_flag_def del: map_of_eq_Some_iff)
qed (simp add: chosen_def int_flag_def)

lemma duration_flag_chosen:
  assumes "flags_ok defs fs" "map_of defs name = Some DurationFlag"
  shows "chosen (map_of fs name) (VDuration (duration_flag fs name)) (duration_flag fs name = 0)"
proof (cases "map_of fs name")
  case (Some v)
  with assms have "of_kind DurationFlag v" unfolding flags_ok_def by (metis option.inject)
  then show ?thesis by (cases v) (simp_all add: chosen_def Some duration_flag_def del: map_of_eq_Some_iff)
qed (simp add: chosen_def duration_flag_def)

lemma run_flag_kinds:
  "\<forall>name \<in> {''connectors'', ''meter-start'', ''meter-step''}. map_of run_flags name = Some IntFlag"
  "\<forall>name \<in> {''heartbeat-interval'', ''meter-interval'', ''duration''}. map_of run_flags name = Some DurationFlag"
  by (simp_all add: run_flags_def common_flags_def del: map_of_eq_Some_iff)

lemma stream_format_ok: "stream_format io fs v = Inr format \<Longrightarrow> format \<in> stream_formats"
  by (auto simp: stream_format_def validateStreamFormat_def stream_formats_def format_error_def Let_def split: if_splits)

lemma NewSimulator_cases:
  assumes "ValidateClientConfig env c = None" "Connectors o1 > 0" "HeartbeatInterval o1 \<ge> 0" "MeterInterval o1 \<ge> 0"
    "MeterStart o1 \<ge> 0" "MeterStep o1 \<ge> 0"
  shows "NewSimulator env webSocket c o1 = (case webSocket c of Some er \<Rightarrow> Inl er | None \<Rightarrow> Inr (build_simulator c o1))"
  using assms by (simp add: NewSimulator_def)

lemma resolveClientConfig_failure: "resolveClientConfig io fs = Inl er \<Longrightarrow> config_failure er"
  by (auto simp: resolveClientConfig_def Let_def split: sum.splits option.splits
      dest: LoadClientConfig_failure ValidateClientConfig_failure)

lemma prepare_run_Inl:
  assumes "prepare_run io (NewSimulator (files io) webSocket) args = Inl er"
  shows "parse_flags (numbers io) run_flags args [] = Inl er \<or> config_failure er \<or>
    (\<exists>c. ValidateClientConfig (files io) c = None \<and> webSocket c = Some er)"
proof (cases "parse_command io ''run'' run_flags args")
  case (Inl e)
  with assms show ?thesis by (auto simp: prepare_run_def parse_command_def split: sum.splits if_splits)
next
  case (Inr fs)
  with assms show ?thesis
    by (auto simp: prepare_run_def Let_def NewSimulator_cases split: sum.splits if_splits option.splits
        dest: resolveClientConfig_failure ValidateClientConfig_failure)
qed

lemma prepare_run_Inr:
  assumes "prepare_run io (NewSimulator (files io) webSocket) args = Inr (s, format, d)"
  obtains fs c where "parse_command io ''run'' run_flags args = Inr fs" "ValidateClientConfig (files io) c = None"
    "webSocket c = None" "stream_format io fs (Format c) = Inr format" "d = duration_flag fs ''duration''" "d \<ge> 0"
    "s = build_simulator c \<lparr>Connectors = int_flag fs ''connectors'' 1,
       HeartbeatInterval = duration_flag fs ''heartbeat-interval'', MeterInterval = duration_flag fs ''meter-interval'',
       MeterStart = int_flag fs ''meter-start'' 0, MeterStep = int_flag fs ''meter-step'' 100\<rparr>"
    "int_flag fs ''connectors'' 1 > 0" "duration_flag fs ''heartbeat-interval'' \<ge> 0"
    "duration_flag fs ''meter-interval'' \<ge> 0" "int_flag fs ''meter-start'' 0 \<ge> 0" "int_flag fs ''meter-step'' 100 \<ge> 0"
  using assms
  by (auto simp: prepare_run_def Let_def NewSimulator_cases not_less split: sum.splits if_splits option.splits)

text \<open>
  C13: the arguments of \<open>run\<close> either fail to parse, violate the configuration, or name a central
  system for which no WebSocket client can be made, with that error; or they start a session: every
  flag given has a value of its declared type and is used, every other has its default, the
  stream format is one a stream supports, and the simulator is a new one, well formed, with a valid
  configuration, at least one connector, no negative interval, meter or step, and an open event
  channel.
\<close>

theorem run_command_starts:
  "case prepare_run io (NewSimulator (files io) webSocket) args of
     Inl er \<Rightarrow> parse_flags (numbers io) run_flags args [] = Inl er \<or> config_failure er \<or>
       (\<exists>c. ValidateClientConfig (files io) c = None \<and> webSocket c = Some er)
   | Inr (s, format, d) \<Rightarrow> format \<in> stream_formats \<and> sim_wf s \<and> \<not> eventsClosed s \<and>
       ValidateClientConfig (files io) (cfg s) = None \<and> webSocket (cfg s) = None \<and>
       s = build_simulator (cfg s) (opts s) \<and> Connectors (opts s) > 0 \<and> HeartbeatInterval (opts s) \<ge> 0 \<and>
       MeterInterval (opts s) \<ge> 0 \<and> MeterStart (opts s) \<ge> 0 \<and> MeterStep (opts s) \<ge> 0 \<and> d \<ge> 0 \<and>
       (\<exists>fs. parse_command io ''run'' run_flags args = Inr fs \<and> flags_ok run_flags fs \<and>
          chosen (map_of fs ''connectors'') (VInt (Connectors (opts s))) (Connectors (opts s) = 1) \<and>
          chosen (map_of fs ''heartbeat-interval'') (VDuration (HeartbeatInterval (opts s))) (HeartbeatInterval (opts s) = 0) \<and>
          chosen (map_of fs ''meter-interval'') (VDuration (MeterInterval (opts s))) (MeterInterval (opts s) = 0) \<and>
          chosen (map_of fs ''meter-start'') (VInt (MeterStart (opts s))) (MeterStart (opts s) = 0) \<and>
          chosen (map_of fs ''meter-step'') (VInt (MeterStep (opts s))) (MeterStep (opts s) = 100) \<and>
          chosen (map_of fs ''duration'') (VDuration d) (d = 0))"
proof (cases "prepare_run io (NewSimulator (files io) webSocket) args")
  case (Inl er)
  with prepare_run_Inl show ?thesis by simp
next
  case (Inr r)
  obtain s format d where r: "r = (s, format, d)" by (cases r)
  from prepare_run_Inr [OF Inr [unfolded r]] obtain fs c where p: "parse_command io ''run'' run_flags args = Inr fs"
    and c: "ValidateClientConfig (files io) c = None" "webSocket c = None" "stream_format io fs (Format c) = Inr format"
    and d: "d = duration_flag fs ''duration''" "d \<ge> 0"
    and s: "s = build_simulator c \<lparr>Connectors = int_flag fs ''connectors'' 1,
       HeartbeatInterval = duration_flag fs ''heartbeat-interval'', MeterInterval = duration_flag fs ''meter-interval'',
       MeterStart = int_flag fs ''meter-start'' 0, MeterStep = int_flag fs ''meter-step'' 100\<rparr>"
    and n: "int_flag fs ''connectors'' 1 > 0" "duration_flag fs ''heartbeat-interval'' \<ge> 0"
       "duration_flag fs ''meter-interval'' \<ge> 0" "int_flag fs ''meter-start'' 0 \<ge> 0" "int_flag fs ''meter-step'' 100 \<ge> 0"
    by blast
  note ok = parse_command_ok [OF p]
  have fields: "cfg s = c" "opts s = \<lparr>Connectors = int_flag fs ''connectors'' 1,
       HeartbeatInterval = duration_flag fs ''heartbeat-interval'', MeterInterval = duration_flag fs ''meter-interval'',
       MeterStart = int_flag fs ''meter-start'' 0, MeterStep = int_flag fs ''meter-step'' 100\<rparr>"
    unfolding s by (rule build_simulator_frame)+
  show ?thesis
    unfolding Inr r sum.case prod.case fields
    using c d n s p ok stream_format_ok run_flag_kinds int_flag_chosen [OF ok] duration_flag_chosen [OF ok]
    by (simp add: build_simulator_wf build_simulator_open del: map_of_eq_Some_iff)
qed

end
