(* ===== verification/Session.thy ===== *)
theory Session
  imports RunLoop RunProofs
begin

text \<open>
  The \<open>run\<close> command at work: its own goroutine (commands_run.go), the goroutine it starts for
  \<open>Run\<close>, the handlers and goroutines of the simulator, and the end of the context by a signal, the
  time limit or the command itself, interleaved in any order. The two goroutines share the
  event channel, the channel of the result and the context.
\<close>

section \<open>The state of a session\<close>

text \<open>
  Where the command stands: in its \<open>select\<close>, waiting for the result after the event channel was
  found closed, in the \<open>range\<close> over the remaining events after it has the result, or returned.
\<close>

datatype command_pc = CmdSelect | CmdAwait | CmdDrain "err option" | CmdReturned "err option"

text \<open>\<open>se_seen\<close> records the events the command has received; nothing reads it.\<close>

record session =
  se_sim :: simulator
  se_run :: run_pc
  se_done :: bool
  se_cmd :: command_pc
  se_writer :: stream_writer
  se_out :: string
  se_seen :: "simulator_event list"

definition start_session :: "simulator \<Rightarrow> output_format \<Rightarrow> session" where
  "start_session s format = \<lparr>se_sim = s, se_run = RunEntry, se_done = False, se_cmd = CmdSelect,
     se_writer = newSimulatorStreamWriter format, se_out = '''', se_seen = []\<rparr>"

section \<open>The steps of the command\<close>

datatype receipt = ReceiveEvent | SeeClosed | ReceiveResult

text \<open>Which receive operation can go on: an event is there, the channel is closed and empty, the result is there.\<close>

fun receivable :: "receipt \<Rightarrow> session \<Rightarrow> bool" where
  "receivable ReceiveEvent ss =
     (events (se_sim ss) \<noteq> [] \<and> (case se_cmd ss of CmdSelect \<Rightarrow> True | CmdDrain r \<Rightarrow> True | _ \<Rightarrow> False))"
| "receivable SeeClosed ss =
     (events (se_sim ss) = [] \<and> eventsClosed (se_sim ss) \<and>
      (case se_cmd ss of CmdSelect \<Rightarrow> True | CmdDrain r \<Rightarrow> True | _ \<Rightarrow> False))"
| "receivable ReceiveResult ss =
     ((case se_run ss of RunReturned r \<Rightarrow> True | _ \<Rightarrow> False) \<and>
      (case se_cmd ss of CmdSelect \<Rightarrow> True | CmdAwait \<Rightarrow> True | _ \<Rightarrow> False))"

text \<open>Every return of the command runs \<open>stopSignals\<close> and \<open>cancel\<close>, which end the context.\<close>

definition command_return :: "err option \<Rightarrow> session \<Rightarrow> session" where
  "command_return r ss = ss\<lparr>se_cmd := CmdReturned r, se_done := True\<rparr>"

definition receive_event :: "cli_env \<Rightarrow> stream_env \<Rightarrow> session \<Rightarrow> session" where
  "receive_event io se ss = (case take_event (se_sim ss) of
     None \<Rightarrow> ss
   | Some (ev, s) \<Rightarrow> (case write_event io se (se_writer ss) ev of (w, t, er) \<Rightarrow>
       let ss1 = ss\<lparr>se_sim := s, se_writer := w, se_out := se_out ss @ t, se_seen := se_seen ss @ [ev]\<rparr> in
       (case er of None \<Rightarrow> ss1 | Some er \<Rightarrow> command_return (Some er) ss1)))"

fun command_step :: "cli_env \<Rightarrow> stream_env \<Rightarrow> receipt \<Rightarrow> session \<Rightarrow> session" where
  "command_step io se ReceiveEvent ss = receive_event io se ss"
| "command_step io se SeeClosed ss = (case se_cmd ss of
     CmdSelect \<Rightarrow> ss\<lparr>se_cmd := CmdAwait\<rparr>
   | CmdDrain r \<Rightarrow> command_return r ss
   | _ \<Rightarrow> ss)"
| "command_step io se ReceiveResult ss = (case se_run ss of
     RunReturned r \<Rightarrow> (case se_cmd ss of
         CmdSelect \<Rightarrow> ss\<lparr>se_cmd := CmdDrain r\<rparr>
       | CmdAwait \<Rightarrow> command_return r ss
       | _ \<Rightarrow> ss)
   | _ \<Rightarrow> ss)"

section \<open>The system\<close>

text \<open>
  A request is handled, a goroutine of the simulator goes on, \<open>Run\<close> goes on, its \<open>select\<close> takes a
  case, the context ends, or the command receives.
\<close>

datatype session_action =
    Deliver request
  | Resume nat
  | Advance
  | Select loop_event
  | ContextDone
  | Command receipt

definition advance_run :: "env \<Rightarrow> answers \<Rightarrow> err option \<Rightarrow> session \<Rightarrow> session" where
  "advance_run e a startError ss = (case run_continue e a (se_done ss) startError (se_run ss) (se_sim ss) of
     (s, pc) \<Rightarrow> ss\<lparr>se_sim := s, se_run := pc\<rparr>)"

definition select_run :: "env \<Rightarrow> answers \<Rightarrow> loop_event \<Rightarrow> session \<Rightarrow> session option" where
  "select_run e a ev ss = (case se_run ss of
     RunSelect ch \<Rightarrow> map_option (\<lambda>(s, pc). ss\<lparr>se_sim := s, se_run := pc\<rparr>) (run_select e a ev ch (se_sim ss))
   | _ \<Rightarrow> Some ss)"

text \<open>\<^term>\<open>None\<close> is a panic.\<close>

fun session_perform ::
  "crypto \<Rightarrow> cli_env \<Rightarrow> stream_env \<Rightarrow> env \<Rightarrow> answers \<Rightarrow> err option \<Rightarrow> session_action \<Rightarrow> session \<Rightarrow> session option" where
  "session_perform k io se e a startError (Deliver r) ss =
     map_option (\<lambda>s. ss\<lparr>se_sim := s\<rparr>) (handle k e r (se_sim ss))"
| "session_perform k io se e a startError (Resume i) ss =
     map_option (\<lambda>s. ss\<lparr>se_sim := s\<rparr>) (schedule e a i (se_sim ss))"
| "session_perform k io se e a startError Advance ss = Some (advance_run e a startError ss)"
| "session_perform k io se e a startError (Select ev) ss = select_run e a ev ss"
| "session_perform k io se e a startError ContextDone ss = Some (ss\<lparr>se_done := True\<rparr>)"
| "session_perform k io se e a startError (Command c) ss = Some (command_step io se c ss)"

fun session_enabled :: "session_action \<Rightarrow> session \<Rightarrow> bool" where
  "session_enabled (Resume i) ss = (i < length (goroutines (se_sim ss)))"
| "session_enabled Advance ss = (\<not> at_rest (se_run ss))"
| "session_enabled (Select ev) ss =
     (case se_run ss of RunSelect ch \<Rightarrow> selectable (se_done ss) ch ev | _ \<Rightarrow> False)"
| "session_enabled (Command c) ss = receivable c ss"
| "session_enabled _ ss = True"

inductive session_step :: "crypto \<Rightarrow> cli_env \<Rightarrow> stream_env \<Rightarrow> session \<Rightarrow> session \<Rightarrow> bool" for k io se where
  act: "env_ok e \<Longrightarrow> session_enabled x ss \<Longrightarrow> session_perform k io se e a startError x ss = Some ss' \<Longrightarrow>
    session_step k io se ss ss'"

inductive_cases session_stepE: "session_step k io se ss ss'"

inductive session_reachable :: "crypto \<Rightarrow> cli_env \<Rightarrow> stream_env \<Rightarrow> session \<Rightarrow> session \<Rightarrow> bool" for k io se ss0 where
  initial: "session_reachable k io se ss0 ss0"
| stepped: "session_reachable k io se ss0 ss \<Longrightarrow> session_step k io se ss ss' \<Longrightarrow> session_reachable k io se ss0 ss'"

section \<open>What every step keeps\<close>

text \<open>A property of sessions that no step breaks; the properties below are interpretations of it.\<close>

locale session_invariant =
  fixes k :: crypto and io :: cli_env and se :: stream_env and I :: "session \<Rightarrow> bool"
  assumes kept: "env_ok e \<Longrightarrow> session_enabled x ss \<Longrightarrow> session_perform k io se e a er x ss = Some ss' \<Longrightarrow> I ss \<Longrightarrow> I ss'"
begin

lemma step_kept: "session_step k io se ss ss' \<Longrightarrow> I ss \<Longrightarrow> I ss'"
  by (elim session_stepE) (rule kept)

lemma reachable_kept: "session_reachable k io se ss0 ss \<Longrightarrow> I ss0 \<Longrightarrow> I ss"
  by (induction rule: session_reachable.induct) (auto intro: step_kept)

end

text \<open>
  The steps, sorted by the part they change: handlers and goroutines let the event channel grow,
  \<open>Run\<close> moves on and may close it, the end of the context changes a flag, the command receives.
\<close>

lemma session_cases [consumes 2, case_names handled advanced selected ended received]:
  assumes perform: "session_perform k io se e a er x ss = Some ss'" and enabled: "session_enabled x ss"
  obtains (handled) s where "ss' = ss\<lparr>se_sim := s\<rparr>" "grows (se_sim ss) s"
    "\<And>c. x \<noteq> Command c" "x \<noteq> Advance" "\<And>ev. x \<noteq> Select ev"
  | (advanced) s pc where "x = Advance" "\<not> at_rest (se_run ss)"
      "run_continue e a (se_done ss) er (se_run ss) (se_sim ss) = (s, pc)" "ss' = ss\<lparr>se_sim := s, se_run := pc\<rparr>"
  | (selected) ev ch s pc where "x = Select ev" "se_run ss = RunSelect ch" "selectable (se_done ss) ch ev"
      "run_select e a ev ch (se_sim ss) = Some (s, pc)" "ss' = ss\<lparr>se_sim := s, se_run := pc\<rparr>"
  | (ended) "x = ContextDone" "ss' = ss\<lparr>se_done := True\<rparr>"
  | (received) c where "x = Command c" "receivable c ss" "ss' = command_step io se c ss"
proof (cases x)
  case (Deliver r)
  with perform obtain s where "handle k e r (se_sim ss) = Some s" "ss' = ss\<lparr>se_sim := s\<rparr>" by auto
  with Deliver handle_grows handled show ?thesis by auto
next
  case (Resume i)
  with perform obtain s where "schedule e a i (se_sim ss) = Some s" "ss' = ss\<lparr>se_sim := s\<rparr>" by auto
  with Resume schedule_quiet quiet_grows handled show ?thesis by auto
next
  case Advance
  obtain s pc where "run_continue e a (se_done ss) er (se_run ss) (se_sim ss) = (s, pc)" by fastforce
  with Advance perform enabled advanced show ?thesis by (auto simp: advance_run_def)
next
  case (Select ev)
  with enabled obtain ch where ch: "se_run ss = RunSelect ch" "selectable (se_done ss) ch ev"
    by (cases "se_run ss") auto
  with Select perform obtain s pc where "run_select e a ev ch (se_sim ss) = Some (s, pc)"
    "ss' = ss\<lparr>se_sim := s, se_run := pc\<rparr>" by (auto simp: select_run_def)
  with Select ch selected show ?thesis by auto
next
  case ContextDone
  with perform ended show ?thesis by auto
next
  case (Command c)
  with perform enabled received show ?thesis by auto
qed

end
