(* ===== verification/SessionProofs.thy ===== *)
theory SessionProofs
  imports Session "HOL-Library.Sublist"
begin

text \<open>
  The \<open>run\<close> command at work: no interleaving panics, the output is one record per event and none
  is lost when the command returns, it returns in every fair execution once \<open>Run\<close> has connected
  and the context ends, and never when \<open>Run\<close> returned before it connected.
\<close>

section \<open>Running a list of actions\<close>

fun session_trace ::
  "crypto \<Rightarrow> cli_env \<Rightarrow> stream_env \<Rightarrow> env \<Rightarrow> answers \<Rightarrow> err option \<Rightarrow> session_action list \<Rightarrow> session \<Rightarrow> session option" where
  "session_trace k io se e a er [] ss = Some ss"
| "session_trace k io se e a er (x # xs) ss = (if session_enabled x ss
     then Option.bind (session_perform k io se e a er x ss) (session_trace k io se e a er xs) else None)"

lemma session_trace_reachable:
  "session_trace k io se e a er xs ss = Some ss' \<Longrightarrow> env_ok e \<Longrightarrow> session_reachable k io se ss0 ss \<Longrightarrow>
     session_reachable k io se ss0 ss'"
proof (induction xs arbitrary: ss)
  case (Cons x xs)
  then obtain ss1 where s: "session_enabled x ss" "session_perform k io se e a er x ss = Some ss1"
    "session_trace k io se e a er xs ss1 = Some ss'" by (auto split: if_splits Option.bind_splits)
  from Cons.IH [OF s(3) Cons.prems(2)] session_reachable.stepped [OF Cons.prems(3) session_step.act [OF Cons.prems(2) s(1,2)]]
  show ?case by blast
qed simp

text \<open>
  A session of the test station: \<open>Run\<close> connects, boots and reports the three statuses, the context
  ends, \<open>Run\<close> returns, and the command receives the six events, the result and the closed channel.
\<close>

definition sample_script :: "session_action list" where
  "sample_script = replicate 7 Advance @ [ContextDone, Select ContextCancelled, Advance, Advance] @
     replicate 6 (Command ReceiveEvent) @ [Command ReceiveResult, Command SeeClosed]"

lemma sample_session_ends:
  "map_option (\<lambda>ss. (se_cmd ss, se_done ss, map ev_action (se_seen ss)))
     (session_trace sample_crypto sample_io sample_stream (list_env 5 True) (accepting 77) None sample_script
        (start_session test_station FormatJSONL)) =
   Some (CmdReturned None, True,
     [''Connect'', ''BootNotification'', ''StatusNotification'', ''StatusNotification'', ''StatusNotification'', ''Shutdown''])"
  by code_simp

lemma sample_session_ended:
  obtains ss where "session_trace sample_crypto sample_io sample_stream (list_env 5 True) (accepting 77) None sample_script
      (start_session test_station FormatJSONL) = Some ss"
    "session_reachable sample_crypto sample_io sample_stream (start_session test_station FormatJSONL) ss"
    "se_cmd ss = CmdReturned None" "length (se_seen ss) = 6" "se_done ss"
proof -
  obtain ss where ss: "session_trace sample_crypto sample_io sample_stream (list_env 5 True) (accepting 77) None sample_script
      (start_session test_station FormatJSONL) = Some ss" and more: "se_cmd ss = CmdReturned None" "se_done ss"
    "map ev_action (se_seen ss) =
     [''Connect'', ''BootNotification'', ''StatusNotification'', ''StatusNotification'', ''StatusNotification'', ''Shutdown'']"
    using sample_session_ends by (auto simp del: session_trace.simps)
  have "length (map ev_action (se_seen ss)) = 6" unfolding more(3) by simp
  then have "length (se_seen ss) = 6" by simp
  with that ss more(1,2) session_trace_reachable [OF ss list_env_ok session_reachable.initial] show thesis by blast
qed

section \<open>Safety\<close>

definition session_wf :: "simulator_options \<Rightarrow> session \<Rightarrow> bool" where
  "session_wf o1 ss \<longleftrightarrow> sim_wf (se_sim ss) \<and> opts (se_sim ss) = o1"

lemma receive_event_sim:
  assumes "events (se_sim ss) = ev # evs"
  shows "se_sim (receive_event io se ss) = (se_sim ss)\<lparr>events := evs\<rparr>"
    and "se_seen (receive_event io se ss) = se_seen ss @ [ev]" and "se_run (receive_event io se ss) = se_run ss"
  using assms by (simp_all add: receive_event_def take_event_def command_return_def Let_def split: prod.split option.split)

lemma command_step_frame:
  "c \<noteq> ReceiveEvent \<Longrightarrow> se_sim (command_step io se c ss) = se_sim ss"
  "c \<noteq> ReceiveEvent \<Longrightarrow> se_seen (command_step io se c ss) = se_seen ss"
  "receivable c ss \<Longrightarrow> se_run (command_step io se c ss) = se_run ss"
  by (cases c; auto simp: command_return_def neq_Nil_conv receive_event_sim split: command_pc.splits run_pc.splits)+

lemma command_step_closed: "receivable c ss \<Longrightarrow> eventsClosed (se_sim (command_step io se c ss)) = eventsClosed (se_sim ss)"
  by (cases c) (auto simp: command_step_frame neq_Nil_conv receive_event_sim simp del: command_step.simps(2,3))

lemma command_step_wf:
  assumes "receivable c ss" "session_wf o1 ss"
  shows "session_wf o1 (command_step io se c ss)"
proof (cases c)
  case ReceiveEvent
  with assms obtain ev evs where "events (se_sim ss) = ev # evs" by (auto simp: neq_Nil_conv)
  with ReceiveEvent assms(2) show ?thesis by (auto simp: session_wf_def receive_event_sim sim_wf_def)
qed (use assms command_step_frame [of c] in \<open>simp_all add: session_wf_def\<close>)

lemma session_total:
  assumes "env_ok e" "crypto_ok k" "session_enabled x ss" "session_wf o1 ss"
  shows "\<exists>ss'. session_perform k io se e a er x ss = Some ss' \<and> session_wf o1 ss'"
proof (cases x)
  case (Deliver r)
  have "keeps (\<lambda>s. s) (se_sim ss) (handle k e r (se_sim ss))" using assms by (intro handle_keeps) (auto simp: session_wf_def)
  then obtain s where "handle k e r (se_sim ss) = Some s" "sim_wf s" "opts s = opts (se_sim ss)" by (auto elim: keepsE)
  with Deliver assms(4) show ?thesis by (simp add: session_wf_def)
next
  case (Resume i)
  have "keeps (\<lambda>s. s) (se_sim ss) (schedule e a i (se_sim ss))"
    using assms Resume by (intro schedule_keeps) (auto simp: session_wf_def)
  then obtain s where "schedule e a i (se_sim ss) = Some s" "sim_wf s" "opts s = opts (se_sim ss)" by (auto elim: keepsE)
  with Resume assms(4) show ?thesis by (simp add: session_wf_def)
next
  case Advance
  obtain s pc where r: "run_continue e a (se_done ss) er (se_run ss) (se_sim ss) = (s, pc)" by fastforce
  have "sim_wf s" using run_continue_wf [of "se_sim ss" e a "se_done ss" er "se_run ss"] assms(4) r
    by (simp add: session_wf_def)
  with Advance assms(4) r run_continue_cases(1) [OF r] show ?thesis by (simp add: session_wf_def advance_run_def)
next
  case (Select ev)
  with assms(3) obtain ch where ch: "se_run ss = RunSelect ch" by (cases "se_run ss") auto
  have "keeps fst (se_sim ss) (run_select e a ev ch (se_sim ss))"
    using assms by (intro run_select_keeps) (auto simp: session_wf_def)
  then obtain s pc where "run_select e a ev ch (se_sim ss) = Some (s, pc)" "sim_wf s" "opts s = opts (se_sim ss)"
    by (auto elim: keepsE)
  with Select ch assms(4) show ?thesis by (simp add: session_wf_def select_run_def)
next
  case ContextDone
  with assms show ?thesis by (simp add: session_wf_def)
next
  case (Command c)
  with assms command_step_wf show ?thesis by auto
qed

interpretation sound: session_invariant k io se "\<lambda>ss. crypto_ok k \<longrightarrow> session_wf o1 ss" for k io se o1
proof
  fix e x ss a er ss'
  assume "env_ok e" "session_enabled x ss" "session_perform k io se e a er x ss = Some ss'" "crypto_ok k \<longrightarrow> session_wf o1 ss"
  with session_total [of e k x ss o1 io se a er] show "crypto_ok k \<longrightarrow> session_wf o1 ss'" by auto
qed

section \<open>The output\<close>

text \<open>Every event that ever entered the channel, in order: what the command has received and what is waiting.\<close>

definition session_history :: "session \<Rightarrow> simulator_event list" where
  "session_history ss = se_seen ss @ events (se_sim ss)"

lemma history_step:
  assumes "session_enabled x ss" "session_perform k io se e a er x ss = Some ss'"
  shows "(\<exists>new. session_history ss' = session_history ss @ new \<and> (eventsClosed (se_sim ss) \<longrightarrow> new = [])) \<and>
    (eventsClosed (se_sim ss) \<longrightarrow> eventsClosed (se_sim ss'))"
  using assms(2,1)
proof (cases rule: session_cases)
  case (handled s)
  then show ?thesis by (auto simp: session_history_def grows_def)
next
  case (advanced s pc)
  with run_continue_cases(2,3) [OF advanced(3)] show ?thesis by (auto simp: session_history_def)
next
  case (selected ev ch s pc)
  with run_select_quiet show ?thesis by (fastforce simp: session_history_def quiet_def grows_def)
next
  case ended
  then show ?thesis by (simp add: session_history_def)
next
  case (received c)
  show ?thesis
  proof (cases c)
    case ReceiveEvent
    with received obtain ev evs where "events (se_sim ss) = ev # evs" by (auto simp: neq_Nil_conv)
    with received ReceiveEvent show ?thesis by (simp add: session_history_def receive_event_sim)
  qed (use received command_step_frame [of c] in \<open>simp_all add: session_history_def\<close>)
qed

lemma history_grows:
  assumes "session_reachable k io se ss ss'"
  shows "(\<exists>new. session_history ss' = session_history ss @ new \<and> (eventsClosed (se_sim ss) \<longrightarrow> new = [])) \<and>
    (eventsClosed (se_sim ss) \<longrightarrow> eventsClosed (se_sim ss'))"
  using assms
proof (induction rule: session_reachable.induct)
  case (stepped ss1 ss2)
  from stepped(2) obtain e x a er where "session_enabled x ss1" "session_perform k io se e a er x ss1 = Some ss2"
    by (elim session_stepE)
  from history_step [OF this] stepped(3) show ?case by auto
qed simp

text \<open>What is written, and what the command knows when it waits or has returned, while writing works.\<close>

definition drained :: "session \<Rightarrow> bool" where
  "drained ss \<longleftrightarrow> eventsClosed (se_sim ss) \<and> events (se_sim ss) = []"

definition streamed :: "stream_env \<Rightarrow> output_format \<Rightarrow> session \<Rightarrow> bool" where
  "streamed se format ss \<longleftrightarrow>
     se_writer ss = (if se_seen ss = [] then newSimulatorStreamWriter format
       else written_header (newSimulatorStreamWriter format)) \<and>
     se_out ss = header_before (newSimulatorStreamWriter format) (se_seen ss) @
       concat (map (event_record se format) (se_seen ss)) \<and>
     (se_cmd ss = CmdAwait \<longrightarrow> drained ss) \<and>
     (\<forall>r. se_cmd ss = CmdDrain r \<longrightarrow> se_run ss = RunReturned r) \<and>
     (\<forall>r. se_cmd ss = CmdReturned r \<longrightarrow> se_run ss = RunReturned r \<and> drained ss)"

lemma written_twice [simp]: "written_header (written_header w) = written_header w"
  by (simp add: written_header_def)

lemma header_before_snoc: "header_before w (evs @ [ev]) = header_before w evs @ (if evs = [] then header_before w [ev] else [])"
  by (simp add: header_before_def)

lemma streamed_receive:
  assumes "working se" "format \<in> stream_formats" "streamed se format ss" "events (se_sim ss) = ev # evs"
    "receivable ReceiveEvent ss"
  shows "streamed se format (receive_event io se ss)"
proof -
  have f: "sw_format (se_writer ss) = format"
    using assms(3) by (simp add: streamed_def newSimulatorStreamWriter_def written_header_def)
  have "receive_event io se ss = ss\<lparr>se_sim := (se_sim ss)\<lparr>events := evs\<rparr>, se_writer := written_header (se_writer ss),
      se_out := se_out ss @ header_before (se_writer ss) [ev] @ event_record se format ev, se_seen := se_seen ss @ [ev]\<rparr>"
    using assms f by (simp add: receive_event_def take_event_def write_event_working Let_def)
  with assms show ?thesis by (auto simp: streamed_def header_before_snoc split: command_pc.splits)
qed

lemma drained_grows: "grows (se_sim ss) s \<Longrightarrow> drained ss \<Longrightarrow> eventsClosed s \<and> events s = []"
  by (auto simp: drained_def grows_def)

lemma streamed_kept:
  assumes "working se" "format \<in> stream_formats" "session_enabled x ss"
    "session_perform k io se e a er x ss = Some ss'" "streamed se format ss"
  shows "streamed se format ss'"
  using assms(4,3)
proof (cases rule: session_cases)
  case (handled s)
  with assms(5) drained_grows [of ss s] show ?thesis by (auto simp: streamed_def drained_def)
next
  case (advanced s pc)
  with run_continue_cases(2,3) [OF advanced(3)] assms(5) show ?thesis by (auto simp: streamed_def drained_def)
next
  case (selected ev ch s pc)
  with assms(5) drained_grows [OF quiet_grows [OF run_select_quiet [OF selected(4)]]] show ?thesis
    by (auto simp: streamed_def drained_def)
next
  case ended
  with assms(5) show ?thesis by (simp add: streamed_def drained_def)
next
  case (received c)
  show ?thesis
  proof (cases c)
    case ReceiveEvent
    with received obtain ev evs where "events (se_sim ss) = ev # evs" by (auto simp: neq_Nil_conv)
    with received ReceiveEvent streamed_receive [OF assms(1,2,5)] show ?thesis by simp
  next
    case SeeClosed
    with received assms(5) show ?thesis
      by (auto simp: streamed_def drained_def command_return_def split: command_pc.splits)
  next
    case ReceiveResult
    with received assms(5) show ?thesis
      by (auto simp: streamed_def drained_def command_return_def split: command_pc.splits run_pc.splits)
  qed
qed

interpretation stream: session_invariant k io se "\<lambda>ss. working se \<and> format \<in> stream_formats \<longrightarrow> streamed se format ss"
  for k io se format
  by unfold_locales (blast intro: streamed_kept)

lemma streamed_reachable:
  assumes "working se" "format \<in> stream_formats" "session_reachable k io se (start_session s0 format) ss"
  shows "streamed se format ss"
proof -
  have "streamed se format (start_session s0 format)"
    by (simp add: streamed_def start_session_def header_before_def)
  with stream.reachable_kept [OF assms(3), of format] assms(1,2) show ?thesis by blast
qed

section \<open>Only the end of Run closes the channel\<close>

interpretation closing: session_invariant k io se "\<lambda>ss. eventsClosed (se_sim ss) \<longrightarrow> finished (se_run ss)" for k io se
proof
  fix e x ss a er ss'
  assume step: "session_enabled x ss" "session_perform k io se e a er x ss = Some ss'"
    and ih: "eventsClosed (se_sim ss) \<longrightarrow> finished (se_run ss)"
  from step(2,1) show "eventsClosed (se_sim ss') \<longrightarrow> finished (se_run ss')"
  proof (cases rule: session_cases)
    case (advanced s pc)
    with ih run_continue_cases(3,4) [OF advanced(3)] show ?thesis by auto
  next
    case (selected ev ch s pc)
    with ih run_select_linked(1) [OF selected(4)] show ?thesis by simp
  next
    case (received c)
    with ih command_step_closed command_step_frame(3) show ?thesis by simp
  qed (use ih in \<open>auto simp: grows_def\<close>)
qed

text \<open>
  C1: from the start of the \<open>run\<close> command, in whatever order the requests of the central system,
  the goroutines of the simulator, every single step of \<open>Run\<close>, the end of the context and the
  receives of the command interleave, and whatever the central system answers, no step panics, and
  every reachable simulator has exactly the configured connectors, at most one reservation per
  connector and none for an unknown connector, every profile under its own number, every
  certificate under its hash, at most 256 queued events, and a closed event channel only after
  \<open>Run\<close> has returned.
\<close>

theorem session_safe:
  assumes "crypto_ok k" "session_reachable k io se (start_session (build_simulator c o1) format) ss"
  shows "(\<forall>e a er x. env_ok e \<longrightarrow> session_enabled x ss \<longrightarrow> session_perform k io se e a er x ss \<noteq> None) \<and>
    (\<forall>i. map_of (connectors (se_sim ss)) i \<noteq> None \<longleftrightarrow> 1 \<le> i \<and> i \<le> Connectors o1) \<and>
    (\<forall>i j r q. map_of (reservations (se_sim ss)) i = Some r \<longrightarrow> map_of (reservations (se_sim ss)) j = Some q \<longrightarrow>
       (r_connectorID r = 0 \<or> 1 \<le> r_connectorID r \<and> r_connectorID r \<le> Connectors o1) \<and>
       (r_connectorID r = r_connectorID q \<longrightarrow> r_connectorID r \<noteq> 0 \<longrightarrow> i = j)) \<and>
    (\<forall>i sp. map_of (chargingProfiles (se_sim ss)) i = Some sp \<longrightarrow> (\<exists>p. sp_profile sp = Some p \<and> cp_id p = i)) \<and>
    (\<forall>key ic. map_of (installedCertificates (se_sim ss)) key = Some ic \<longrightarrow> key = certificateHashKey (ic_hash ic)) \<and>
    length (events (se_sim ss)) \<le> 256 \<and> (eventsClosed (se_sim ss) \<longrightarrow> finished (se_run ss))"
proof -
  let ?s0 = "start_session (build_simulator c o1) format"
  have start: "session_wf o1 ?s0" "\<not> eventsClosed (se_sim ?s0)"
    by (simp_all add: session_wf_def start_session_def build_simulator_wf build_simulator_frame build_simulator_open)
  have wf: "session_wf o1 ss" using sound.reachable_kept [OF assms(2)] start assms(1) by blast
  have closed: "eventsClosed (se_sim ss) \<longrightarrow> finished (se_run ss)" using closing.reachable_kept [OF assms(2)] start by blast
  have total: "session_perform k io se e a er x ss \<noteq> None" if "env_ok e" "session_enabled x ss" for e a er x
    using session_total [OF that(1) assms(1) that(2) wf, of io se a er] by auto
  from wf sim_wf_facts [of "se_sim ss"] have facts: "sim_wf (se_sim ss)" "opts (se_sim ss) = o1" by (simp_all add: session_wf_def)
  note sim_wf_facts [OF facts(1), unfolded facts(2)]
  with closed total show ?thesis by blast
qed

theorem session_safe_witness:
  "\<exists>ss. session_reachable sample_crypto sample_io sample_stream
        (start_session (build_simulator DefaultClientConfig test_options) FormatText) ss \<and>
     goroutines (se_sim ss) = [GoFinish 1 0 FinishNotify] \<and> se_run ss = RunBoot \<and>
     session_perform sample_crypto sample_io sample_stream (list_env 1 True) (accepting 5) None (Resume 0) ss \<noteq> None"
proof -
  let ?s0 = "start_session (build_simulator DefaultClientConfig test_options) FormatText"
  have "map_option (\<lambda>ss. (goroutines (se_sim ss), se_run ss)) (session_trace sample_crypto sample_io sample_stream
      (list_env 1 True) (accepting 5) None [Advance, Deliver (ReqRemoteStop 0), Advance] ?s0) =
    Some ([GoFinish 1 0 FinishNotify], RunBoot)" by code_simp
  then obtain ss where ss: "session_trace sample_crypto sample_io sample_stream
      (list_env 1 True) (accepting 5) None [Advance, Deliver (ReqRemoteStop 0), Advance] ?s0 = Some ss"
    and go: "goroutines (se_sim ss) = [GoFinish 1 0 FinishNotify]" "se_run ss = RunBoot" by auto
  note r = session_trace_reachable [OF ss list_env_ok session_reachable.initial]
  have "session_enabled (Resume 0) ss" using go by simp
  with session_safe [OF sample_crypto_ok r] list_env_ok
  have "session_perform sample_crypto sample_io sample_stream (list_env 1 True) (accepting 5) None (Resume 0) ss \<noteq> None" by blast
  with r go show ?thesis by blast
qed

section \<open>The stream of events\<close>

text \<open>
  C10: in every reachable session, when writing works, the output is one record per event received,
  in order, in CSV after one header; the events received and those still in the channel are all
  that ever entered it, in order. When the command has returned, it has returned the result of
  \<open>Run\<close>, and nothing was lost: the events received are all that ever enter the channel.
\<close>

theorem session_stream:
  assumes "working se" "format \<in> stream_formats" "session_reachable k io se (start_session s0 format) ss"
  shows "se_out ss = (if format = FormatCSV \<and> se_seen ss \<noteq> [] then csv_row csv_header else []) @
      concat (map (event_record se format) (se_seen ss)) \<and>
    (\<forall>ss'. session_reachable k io se ss ss' \<longrightarrow> prefix (session_history ss) (session_history ss')) \<and>
    (\<forall>r. se_cmd ss = CmdReturned r \<longrightarrow> se_run ss = RunReturned r \<and>
       (\<forall>ss'. session_reachable k io se ss ss' \<longrightarrow> session_history ss' = se_seen ss))"
proof -
  have "streamed se format ss"
    using assms by (rule streamed_reachable)
  moreover have "prefix (session_history ss) (session_history ss')" if "session_reachable k io se ss ss'" for ss'
    using history_grows [OF that] by (auto simp: prefix_def)
  moreover have "session_history ss' = se_seen ss" if "session_reachable k io se ss ss'" "drained ss" for ss'
    using history_grows [OF that(1)] that(2) by (auto simp: drained_def session_history_def)
  ultimately show ?thesis by (simp add: streamed_def header_before_def newSimulatorStreamWriter_def)
qed

theorem session_stream_witness:
  "\<exists>ss. session_reachable sample_crypto sample_io sample_stream (start_session test_station FormatJSONL) ss \<and>
     se_cmd ss = CmdReturned None \<and> se_run ss = RunReturned None \<and> length (se_out ss) = 18"
proof -
  obtain ss where r: "session_reachable sample_crypto sample_io sample_stream (start_session test_station FormatJSONL) ss"
    and c: "se_cmd ss = CmdReturned None" and n: "length (se_seen ss) = 6" by (rule sample_session_ended)
  have "FormatJSONL \<in> stream_formats" by (simp add: stream_formats_def)
  from session_stream [OF sample_stream_working this r] c have run: "se_run ss = RunReturned None"
    and out: "se_out ss = concat (map (event_record sample_stream FormatJSONL) (se_seen ss))" by simp_all
  have "length (event_record sample_stream FormatJSONL ev) = 3" for ev
    by (simp add: event_record_def sample_stream_def newline_def)
  then have "length (se_out ss) = 18" unfolding out using n by (simp add: length_concat comp_def sum_list_triv)
  with r c run show ?thesis by blast
qed

section \<open>When Run ends before it connected\<close>

definition stuck_session :: "session \<Rightarrow> bool" where
  "stuck_session ss \<longleftrightarrow> \<not> eventsClosed (se_sim ss) \<and> finished (se_run ss) \<and>
     (se_cmd ss = CmdSelect \<or> (\<exists>r. se_cmd ss = CmdDrain r))"

lemma receive_event_cmd:
  "working se \<Longrightarrow> streamed se format ss \<Longrightarrow> format \<in> stream_formats \<Longrightarrow> se_cmd (receive_event io se ss) = se_cmd ss"
  by (auto simp: receive_event_def write_event_working streamed_def newSimulatorStreamWriter_def written_header_def Let_def
      split: option.split)

interpretation hang: session_invariant k io se
    "\<lambda>ss. working se \<and> format \<in> stream_formats \<longrightarrow> streamed se format ss \<and> stuck_session ss" for k io se format
proof
  fix e x ss a er ss'
  assume step: "session_enabled x ss" "session_perform k io se e a er x ss = Some ss'"
    and ih: "working se \<and> format \<in> stream_formats \<longrightarrow> streamed se format ss \<and> stuck_session ss"
  have "stuck_session ss'" if "working se" "format \<in> stream_formats"
    using step(2,1)
  proof (cases rule: session_cases)
    case (handled s)
    with ih that show ?thesis by (auto simp: stuck_session_def grows_def)
  next
    case (advanced s pc)
    with ih that run_continue_cases(3,4) [OF advanced(3)] show ?thesis by (auto simp: stuck_session_def)
  next
    case (selected ev ch s pc)
    with ih that show ?thesis by (auto simp: stuck_session_def)
  next
    case ended
    with ih that show ?thesis by (simp add: stuck_session_def)
  next
    case (received c)
    with ih that command_step_closed [of c ss io se] command_step_frame(3) [of c ss io se] receive_event_cmd [of se format ss io]
    show ?thesis by (cases c) (auto simp: stuck_session_def split: run_pc.splits)
  qed
  with streamed_kept [OF _ _ step] ih
  show "working se \<and> format \<in> stream_formats \<longrightarrow> streamed se format ss' \<and> stuck_session ss'" by blast
qed

text \<open>
  C9: when writing works and \<open>Run\<close> finds the context done at its start, or connecting fails, then
  the command never returns, whatever happens afterwards: \<open>Run\<close> has returned without closing the
  event channel, and once the command has the result of \<open>Run\<close> and has received the waiting
  events, no receive operation can go on.
\<close>

theorem session_hangs:
  assumes "working se" "format \<in> stream_formats" "\<not> eventsClosed s0"
    "session_reachable k io se (start_session s0 format) ss" "se_run ss = RunEntry" "se_done ss \<or> er \<noteq> None"
    "session_reachable k io se (advance_run e a er ss) ss'"
  shows "finished (se_run ss') \<and> (\<forall>r. se_cmd ss' \<noteq> CmdReturned r) \<and>
    (\<forall>r. se_cmd ss' = CmdDrain r \<longrightarrow> events (se_sim ss') = [] \<longrightarrow> (\<forall>c. \<not> receivable c ss'))"
proof -
  have "streamed se format ss"
    using assms(1,2,4) by (rule streamed_reachable)
  moreover have "\<not> eventsClosed (se_sim ss)"
    using closing.reachable_kept [OF assms(4)] assms(3,5) by (simp add: start_session_def)
  ultimately have "streamed se format (advance_run e a er ss) \<and> stuck_session (advance_run e a er ss)"
    using assms(5,6) by (cases "se_cmd ss") (auto simp: streamed_def stuck_session_def advance_run_def drained_def)
  then have "stuck_session ss'" using hang.reachable_kept [OF assms(7)] assms(1,2) by blast
  then show ?thesis by (auto simp: stuck_session_def elim!: receivable.elims)
qed

theorem session_hangs_witness:
  "\<exists>ss. session_reachable sample_crypto sample_io sample_stream
        (advance_run (list_env 5 True) (accepting 77) (Some (Library PlainError ''refused'')) (start_session test_station FormatText)) ss \<and>
     (\<exists>er. se_cmd ss = CmdDrain (Some er)) \<and> (\<forall>c. \<not> receivable c ss)"
proof -
  let ?er = "Some (Library PlainError ''refused'')"
  let ?s1 = "advance_run (list_env 5 True) (accepting 77) ?er (start_session test_station FormatText)"
  have "map_option (\<lambda>ss. (se_cmd ss, events (se_sim ss)))
      (session_trace sample_crypto sample_io sample_stream (list_env 5 True) (accepting 77) None
         [Advance, Command ReceiveResult] ?s1) =
    Some (CmdDrain (Some (classify_error (Library PlainError ''refused'') ErrConnection)), [])" by code_simp
  then obtain ss er where t: "session_trace sample_crypto sample_io sample_stream (list_env 5 True) (accepting 77) None
         [Advance, Command ReceiveResult] ?s1 = Some ss" and c: "se_cmd ss = CmdDrain (Some er)" "events (se_sim ss) = []"
    by (auto simp del: session_trace.simps)
  note r = session_trace_reachable [OF t list_env_ok session_reachable.initial]
  have "\<not> eventsClosed test_station" by (simp add: test_station_def build_simulator_open)
  from session_hangs [OF sample_stream_working _ this session_reachable.initial, of FormatText ?er sample_crypto sample_io] r c
  have "\<forall>c. \<not> receivable c ss" by (auto simp: stream_formats_def start_session_def)
  with r c show ?thesis by blast
qed

section \<open>The loop of the command refines to run_loop\<close>

text \<open>
  The events in what the \<open>select\<close> received, and the relation of a session to \<open>run_loop\<close>: what
  is written so far is what the loop writes for the events received, whatever comes next.
\<close>

fun arrived :: "received list \<Rightarrow> simulator_event list" where
  "arrived [] = []"
| "arrived (GotEvent ev # rest) = ev # arrived rest"
| "arrived (GotClosed result # rest) = []"
| "arrived (GotResult result evs shut # rest) = evs"

lemma arrived_append [simp]: "arrived (map GotEvent evs @ rest) = evs @ arrived rest"
  by (induction evs) simp_all

definition looped :: "cli_env \<Rightarrow> stream_env \<Rightarrow> output_format \<Rightarrow> session \<Rightarrow> bool" where
  "looped io se format ss \<longleftrightarrow> (let w0 = newSimulatorStreamWriter format; out = se_out ss; w = se_writer ss in
     (se_cmd ss = CmdSelect \<or> se_cmd ss = CmdAwait \<longrightarrow>
        (\<forall>rest. run_loop io se w0 (map GotEvent (se_seen ss) @ rest) = map_prod ((@) out) id (run_loop io se w rest))) \<and>
     (\<forall>r. se_cmd ss = CmdDrain r \<longrightarrow> (\<exists>evs late. se_seen ss = evs @ late \<and>
        (\<forall>rest shut. run_loop io se w0 (map GotEvent evs @ [GotResult r (late @ rest) shut]) =
           map_prod ((@) out) id (drain io se w rest shut r)))) \<and>
     (\<forall>r. se_cmd ss = CmdReturned r \<longrightarrow> (\<exists>arrivals. arrived arrivals = se_seen ss \<and>
        run_loop io se w0 arrivals = (out, Returned r))))"

lemma looped_returned:
  "se_cmd ss = CmdReturned r \<Longrightarrow> arrived arrivals = se_seen ss \<Longrightarrow>
     run_loop io se (newSimulatorStreamWriter format) arrivals = (se_out ss, Returned r) \<Longrightarrow> looped io se format ss"
  by (auto simp: looped_def)

lemma looped_select:
  assumes "looped io se format ss" "se_cmd ss = CmdSelect" "events (se_sim ss) = ev # evs"
  shows "looped io se format (receive_event io se ss)"
proof -
  obtain w t er where w: "write_event io se (se_writer ss) ev = (w, t, er)" by (cases "write_event io se (se_writer ss) ev")
  have run: "run_loop io se (newSimulatorStreamWriter format) (map GotEvent (se_seen ss) @ rest) =
      map_prod ((@) (se_out ss)) id (run_loop io se (se_writer ss) rest)" for rest
    using assms(1,2) by (simp add: looped_def Let_def)
  show ?thesis
  proof (cases er)
    case None
    with w assms(2,3) run [of "GotEvent ev # _"] show ?thesis
      by (simp add: looped_def receive_event_def take_event_def Let_def split: prod.split)
  next
    case (Some x)
    show ?thesis
      by (rule looped_returned [of _ "Some x" "map GotEvent (se_seen ss) @ [GotEvent ev]"])
        (use Some w assms(2,3) run [of "[GotEvent ev]"] in
          \<open>simp_all add: receive_event_def take_event_def command_return_def Let_def\<close>)
  qed
qed

lemma looped_drain:
  assumes "looped io se format ss" "se_cmd ss = CmdDrain r" "events (se_sim ss) = ev # evs"
  shows "looped io se format (receive_event io se ss)"
proof -
  obtain w t er where w: "write_event io se (se_writer ss) ev = (w, t, er)" by (cases "write_event io se (se_writer ss) ev")
  obtain es late where seen: "se_seen ss = es @ late"
    and run: "\<And>rest shut. run_loop io se (newSimulatorStreamWriter format) (map GotEvent es @ [GotResult r (late @ rest) shut]) =
      map_prod ((@) (se_out ss)) id (drain io se (se_writer ss) rest shut r)"
    using assms(1,2) by (auto simp: looped_def Let_def)
  show ?thesis
  proof (cases er)
    case None
    have "\<exists>es' late'. es @ late @ [ev] = es' @ late' \<and> (\<forall>rest shut.
        run_loop io se (newSimulatorStreamWriter format) (map GotEvent es' @ [GotResult r (late' @ rest) shut]) =
        map_prod ((@) (se_out ss @ t)) id (drain io se w rest shut r))"
      by (rule exI [of _ es], rule exI [of _ "late @ [ev]"]) (use run [of "ev # _"] w None in \<open>simp split: prod.split\<close>)
    with None w assms(2,3) seen show ?thesis by (simp add: looped_def receive_event_def take_event_def Let_def)
  next
    case (Some x)
    show ?thesis
      by (rule looped_returned [of _ "Some x" "map GotEvent es @ [GotResult r (late @ [ev]) True]"])
        (use Some w assms(2,3) seen run [of "[ev]"] in
          \<open>simp_all add: receive_event_def take_event_def command_return_def Let_def\<close>)
  qed
qed

lemma looped_received:
  assumes "looped io se format ss" "receivable c ss"
  shows "looped io se format (command_step io se c ss)"
proof (cases c)
  case ReceiveEvent
  with assms obtain ev evs where "events (se_sim ss) = ev # evs" by (auto simp: neq_Nil_conv)
  with ReceiveEvent assms looped_select looped_drain show ?thesis by (cases "se_cmd ss") auto
next
  case SeeClosed
  show ?thesis
  proof (cases "se_cmd ss")
    case (CmdDrain r)
    with assms(1) obtain es late where seen: "se_seen ss = es @ late"
      and run: "run_loop io se (newSimulatorStreamWriter format) (map GotEvent es @ [GotResult r (late @ []) True]) =
        map_prod ((@) (se_out ss)) id (drain io se (se_writer ss) [] True r)"
      unfolding looped_def Let_def by blast
    show ?thesis
      by (rule looped_returned [of _ r "map GotEvent es @ [GotResult r late True]"])
        (use run seen SeeClosed CmdDrain in \<open>simp_all add: command_return_def\<close>)
  qed (use SeeClosed assms in \<open>auto simp: looped_def Let_def\<close>)
next
  case ReceiveResult
  with assms(2) obtain r where r: "se_run ss = RunReturned r" by (auto split: run_pc.splits)
  show ?thesis
  proof (cases "se_cmd ss")
    case CmdSelect
    have "\<exists>evs late. se_seen ss = evs @ late \<and> (\<forall>rest shut.
        run_loop io se (newSimulatorStreamWriter format) (map GotEvent evs @ [GotResult r (late @ rest) shut]) =
        map_prod ((@) (se_out ss)) id (drain io se (se_writer ss) rest shut r))"
      by (rule exI [of _ "se_seen ss"], rule exI [of _ "[]"]) (use assms(1) CmdSelect in \<open>simp add: looped_def Let_def\<close>)
    with ReceiveResult r CmdSelect show ?thesis by (simp add: looped_def Let_def)
  next
    case CmdAwait
    show ?thesis
      by (rule looped_returned [of _ r "map GotEvent (se_seen ss) @ [GotClosed r]"])
        (use ReceiveResult r CmdAwait assms(1) in \<open>simp_all add: looped_def command_return_def Let_def\<close>)
  qed (use ReceiveResult assms(2) in auto)
qed

interpretation copying: session_invariant k io se "looped io se format" for k io se format
proof
  fix e x ss a er ss'
  assume step: "session_enabled x ss" "session_perform k io se e a er x ss = Some ss'" and ih: "looped io se format ss"
  from step(2,1) show "looped io se format ss'"
  proof (cases rule: session_cases)
    case (received c)
    with looped_received ih show ?thesis by simp
  qed (use ih in \<open>simp_all add: looped_def\<close>)
qed




section \<open>A triggered report can put back an older status\<close>

text \<open>
  The goroutine of a trigger reads the firmware status in one section under the mutex and
  publishes it in another. Here the update ends in between: when both goroutines are done the
  station has reported the installation and after it the beginning of the download again, the
  status it is left in.
\<close>

definition racing_script :: "session_action list" where
  "racing_script = [Deliver (ReqUpdateFirmware ''fw.bin'' None), Resume 0, Resume 0,
     Deliver (ReqTrigger TriggerFirmwareStatus None), Resume 1, Resume 1, Resume 0] @
     replicate 9 (Resume 1) @ [Resume 0, Resume 0]"

lemma triggered_report_race:
  "map_option (\<lambda>ss. (goroutines (se_sim ss), firmwareStatus (se_sim ss), sent (se_sim ss)))
     (session_trace sample_crypto sample_io sample_stream (list_env 5 True) (accepting 77) None racing_script
        (start_session test_station FormatJSONL)) =
   Some ([], FwDownloading, map OutFirmwareStatus [FwDownloading, FwDownloaded, FwInstalling, FwInstalled, FwDownloading])"
  by code_simp

end
