(* ===== verification/SessionLiveness.thy ===== *)
theory SessionLiveness
  imports SessionProofs
begin

text \<open>
  When the \<open>run\<close> command returns: in every fair execution in which \<open>Run\<close> has connected and the
  context ends at some time.
\<close>

section \<open>When the command returns\<close>

text \<open>
  An infinite execution. It is fair when the command is not kept from receiving for ever, \<open>Run\<close> is
  not kept from going on for ever outside its \<open>select\<close>, and a \<open>select\<close> that is again and again
  ready for the end of the context takes it some time.
\<close>

definition session_execution ::
  "crypto \<Rightarrow> cli_env \<Rightarrow> stream_env \<Rightarrow> (nat \<Rightarrow> session_action) \<Rightarrow> (nat \<Rightarrow> session) \<Rightarrow> bool" where
  "session_execution k io se xs f \<longleftrightarrow> (\<forall>i. session_enabled (xs i) (f i) \<and>
     (\<exists>e a er. env_ok e \<and> session_perform k io se e a er (xs i) (f i) = Some (f (Suc i))))"

definition session_fair :: "(nat \<Rightarrow> session_action) \<Rightarrow> (nat \<Rightarrow> session) \<Rightarrow> bool" where
  "session_fair xs f \<longleftrightarrow>
     (\<forall>i. \<exists>j \<ge> i. (\<exists>c. xs j = Command c) \<or> (\<forall>c. \<not> receivable c (f j))) \<and>
     (\<forall>i. \<exists>j \<ge> i. xs j = Advance \<or> at_rest (se_run (f j))) \<and>
     ((\<forall>i. \<exists>j \<ge> i. session_enabled (Select ContextCancelled) (f j)) \<longrightarrow>
      (\<forall>i. \<exists>j \<ge> i. xs j = Select ContextCancelled))"

text \<open>How many receive operations the command is away from its return once nothing new can arrive.\<close>

definition command_left :: "session \<Rightarrow> nat" where
  "command_left ss = 2 * length (events (se_sim ss)) +
     (case se_cmd ss of CmdSelect \<Rightarrow> 2 | CmdReturned r \<Rightarrow> 0 | _ \<Rightarrow> 1)"

lemma receive_event_left:
  "receivable ReceiveEvent ss \<Longrightarrow> command_left (receive_event io se ss) < command_left ss"
  by (auto simp: command_left_def receive_event_def take_event_def command_return_def Let_def
      split: list.splits prod.split option.split command_pc.splits)

lemma command_step_left: "receivable c ss \<Longrightarrow> command_left (command_step io se c ss) < command_left ss"
  using receive_event_left [of ss io se]
  by (cases c) (auto simp: command_left_def command_return_def split: command_pc.splits run_pc.splits)

text \<open>Between the goroutines: what one step of an execution does to the place where \<open>Run\<close> stands.\<close>

lemma command_step_opts: "receivable c ss \<Longrightarrow> opts (se_sim (command_step io se c ss)) = opts (se_sim ss)"
  by (cases c) (auto simp: command_step_frame neq_Nil_conv receive_event_sim simp del: command_step.simps(2,3))

lemma command_step_done: "se_done ss \<Longrightarrow> se_done (command_step io se c ss)"
  by (cases c) (auto simp: receive_event_def command_return_def Let_def split: option.split prod.split command_pc.split run_pc.split)

lemma run_place:
  assumes "session_enabled x ss" "session_perform k io se e a er x ss = Some ss'"
  shows "opts (se_sim ss') = opts (se_sim ss) \<and> (se_done ss \<longrightarrow> se_done ss') \<and>
    (linked (se_run ss) (se_sim ss) \<longrightarrow> linked (se_run ss') (se_sim ss')) \<and>
    (x \<noteq> Advance \<longrightarrow> (\<forall>ev. x \<noteq> Select ev) \<longrightarrow> se_run ss' = se_run ss)"
  using assms(2,1)
proof (cases rule: session_cases)
  case (handled s)
  then show ?thesis by (auto simp: grows_def linked_def)
next
  case (advanced s pc)
  with run_continue_cases(1) [OF advanced(3)] run_continue_linked [of "se_run ss" "se_sim ss" e a "se_done ss" er]
  show ?thesis by simp
next
  case (selected ev ch s pc)
  with run_select_linked [OF selected(4)] run_select_quiet [OF selected(4)] show ?thesis
    by (auto simp: linked_def quiet_def grows_def)
next
  case ended
  then show ?thesis by simp
next
  case (received c)
  with command_step_opts [of c ss io se] command_step_done [of ss io se c] command_step_closed [of c ss io se]
    command_step_frame(3) [of c ss io se]
  show ?thesis by (simp add: linked_def)
qed

lemma run_steps:
  assumes "session_enabled x ss" "session_perform k io se e a er x ss = Some ss'"
  shows "x = Advance \<Longrightarrow> run_left (se_run ss') (se_sim ss') < run_left (se_run ss) (se_sim ss)"
    and "x = Select ContextCancelled \<Longrightarrow> se_run ss' = RunClosing None"
    and "finished (se_run ss) \<or> (\<exists>r. se_run ss = RunClosing r) \<Longrightarrow> finished (se_run ss') \<or> (\<exists>r. se_run ss' = RunClosing r)"
    and "se_run ss = RunReturned r \<Longrightarrow> eventsClosed (se_sim ss) \<Longrightarrow>
      se_run ss' = RunReturned r \<and> eventsClosed (se_sim ss') \<and> command_left ss' \<le> command_left ss \<and>
      ((\<exists>c. x = Command c) \<longrightarrow> command_left ss' < command_left ss)"
proof -
  note c = session_cases [OF assms(2,1)]
  show "run_left (se_run ss') (se_sim ss') < run_left (se_run ss) (se_sim ss)" if "x = Advance"
  proof (rule c)
    fix s pc
    assume "\<not> at_rest (se_run ss)" "run_continue e a (se_done ss) er (se_run ss) (se_sim ss) = (s, pc)"
      "ss' = ss\<lparr>se_sim := s, se_run := pc\<rparr>"
    with run_continue_decreases show ?thesis by fastforce
  qed (use that in auto)
  show "se_run ss' = RunClosing None" if "x = Select ContextCancelled"
    by (rule c) (use that in auto)
  show "finished (se_run ss') \<or> (\<exists>r. se_run ss' = RunClosing r)" if "finished (se_run ss) \<or> (\<exists>r. se_run ss = RunClosing r)"
    by (rule c) (use that run_continue_cases(4) command_step_frame(3) in auto)
  show "se_run ss' = RunReturned r \<and> eventsClosed (se_sim ss') \<and> command_left ss' \<le> command_left ss \<and>
      ((\<exists>c. x = Command c) \<longrightarrow> command_left ss' < command_left ss)"
    if "se_run ss = RunReturned r" "eventsClosed (se_sim ss)"
  proof (rule c)
    fix y
    assume "x = Command y" "receivable y ss" "ss' = command_step io se y ss"
    with that command_step_left command_step_frame(3) command_step_closed show ?thesis by (simp add: less_imp_le)
  qed (use that in \<open>auto simp: grows_def command_left_def\<close>)
qed

text \<open>A natural number that never rises cannot fall again and again.\<close>

lemma falls_finitely:
  fixes g :: "nat \<Rightarrow> nat"
  assumes "\<And>m. m \<ge> i \<Longrightarrow> g (Suc m) \<le> g m" "\<And>m. m \<ge> i \<Longrightarrow> P m \<Longrightarrow> g (Suc m) < g m" "\<And>m. m \<ge> i \<Longrightarrow> \<exists>j \<ge> m. P j"
  shows False
proof -
  have down: "g j \<le> g m" if "m \<ge> i" "m \<le> j" for m j
    using that(2)
  proof (induction j rule: dec_induct)
    case (step j)
    with assms(1) [of j] that(1) show ?case by simp
  qed simp
  have "\<And>m. m \<ge> i \<Longrightarrow> g m = n \<Longrightarrow> False" for n
  proof (induction n rule: less_induct)
    case (less n)
    obtain j where j: "j \<ge> m" "P j" using assms(3) less(2) by blast
    with assms(2) [of j] down [of m j] less have "g (Suc j) < n" by simp
    with less(1) [of "g (Suc j)" "Suc j"] j less(2) show False by simp
  qed
  then show False by blast
qed

lemma execution_step:
  assumes "session_execution k io se xs f"
  obtains e a er where "env_ok e" "session_enabled (xs i) (f i)" "session_perform k io se e a er (xs i) (f i) = Some (f (Suc i))"
  using assms unfolding session_execution_def by blast

lemma execution_linked:
  assumes "session_execution k io se xs f" "linked (se_run (f n)) (se_sim (f n))" "n \<le> i"
  shows "linked (se_run (f i)) (se_sim (f i))"
  using assms(3)
proof (induction i rule: dec_induct)
  case (step i)
  with execution_step [OF assms(1), of i] run_place show ?case by metis
qed (rule assms)

lemma execution_done:
  assumes "session_execution k io se xs f" "se_done (f n)" "n \<le> i"
  shows "se_done (f i)"
  using assms(3)
proof (induction i rule: dec_induct)
  case (step i)
  with execution_step [OF assms(1), of i] run_place show ?case by metis
qed (rule assms)

text \<open>Outside its \<open>select\<close>, \<open>Run\<close> comes back to it or returns.\<close>

lemma run_settles:
  assumes ex: "session_execution k io se xs f" and fair: "session_fair xs f"
  shows "\<exists>j \<ge> i. at_rest (se_run (f j))"
proof (rule ccontr)
  assume "\<not> ?thesis"
  then have busy: "\<not> at_rest (se_run (f j))" if "j \<ge> i" for j using that by blast
  let ?g = "\<lambda>j. run_left (se_run (f j)) (se_sim (f j))"
  have less: "?g (Suc j) < ?g j" if "xs j = Advance" for j
    using execution_step [OF ex, of j] run_steps(1) that by metis
  have "?g (Suc j) \<le> ?g j" if "j \<ge> i" for j
  proof (cases "xs j = Advance")
    case False
    obtain e a er where s: "session_enabled (xs j) (f j)" "session_perform k io se e a er (xs j) (f j) = Some (f (Suc j))"
      by (rule execution_step [OF ex, of j])
    have "xs j \<noteq> Select ev" for ev using s(1) busy [OF that] by (cases "se_run (f j)") auto
    with False run_place [OF s] run_left_cong show ?thesis by (metis order_refl)
  qed (use less in \<open>simp add: less_imp_le\<close>)
  moreover have "\<exists>j \<ge> m. xs j = Advance" if "m \<ge> i" for m
    using fair busy that unfolding session_fair_def by (meson le_trans)
  ultimately show False using falls_finitely [of i ?g "\<lambda>j. xs j = Advance"] less by blast
qed

lemma run_returns:
  assumes ex: "session_execution k io se xs f" and fair: "session_fair xs f" and ended: "se_done (f d)"
  shows "\<exists>j \<ge> i. \<exists>r. se_run (f j) = RunReturned r"
proof (rule ccontr)
  assume "\<not> ?thesis"
  then have on: "se_run (f j) \<noteq> RunReturned r" if "j \<ge> i" for j r using that by blast
  have "\<exists>j \<ge> m. session_enabled (Select ContextCancelled) (f j)" for m
  proof -
    obtain j where j: "j \<ge> max i (max m d)" "at_rest (se_run (f j))" using run_settles [OF ex fair] by blast
    with on [of j] obtain ch where "se_run (f j) = RunSelect ch" by (cases "se_run (f j)") auto
    with execution_done [OF ex ended, of j] j show ?thesis by auto
  qed
  then obtain j where j: "j \<ge> i" "xs j = Select ContextCancelled" using fair unfolding session_fair_def by blast
  have closing: "finished (se_run (f m)) \<or> (\<exists>r. se_run (f m) = RunClosing r)" if "Suc j \<le> m" for m
    using that
  proof (induction m rule: dec_induct)
    case base
    obtain e a er where "session_enabled (xs j) (f j)" "session_perform k io se e a er (xs j) (f j) = Some (f (Suc j))"
      by (rule execution_step [OF ex, of j])
    from run_steps(2) [OF this j(2)] show ?case by blast
  next
    case (step m)
    obtain e a er where "session_enabled (xs m) (f m)" "session_perform k io se e a er (xs m) (f m) = Some (f (Suc m))"
      by (rule execution_step [OF ex, of m])
    from run_steps(3) [OF this step.IH] show ?case .
  qed
  obtain m where m: "m \<ge> Suc j" "at_rest (se_run (f m))" using run_settles [OF ex fair] by blast
  with closing [OF m(1)] on [of m] j(1) show False by (cases "se_run (f m)") auto
qed

lemma ready_to_receive:
  "se_run ss = RunReturned r \<Longrightarrow> eventsClosed (se_sim ss) \<Longrightarrow> \<forall>r. se_cmd ss \<noteq> CmdReturned r \<Longrightarrow> \<exists>c. receivable c ss"
proof (cases "se_cmd ss = CmdAwait")
  case False
  assume "se_run ss = RunReturned r" "eventsClosed (se_sim ss)" "\<forall>r. se_cmd ss \<noteq> CmdReturned r"
  with False have "receivable ReceiveEvent ss \<or> receivable SeeClosed ss" by (cases "se_cmd ss") auto
  then show ?thesis by blast
qed (auto intro: exI [of _ ReceiveResult])

text \<open>
  C8: in every fair execution of a session in which \<open>Run\<close> has connected at some time and the
  context ends at some time, by a signal, the time limit or otherwise, the command returns.
\<close>

theorem session_returns:
  assumes ex: "session_execution k io se xs f" and fair: "session_fair xs f"
    and connected: "linked (se_run (f n)) (se_sim (f n))" and ended: "se_done (f d)"
  shows "\<exists>i r. se_cmd (f i) = CmdReturned r"
proof (rule ccontr)
  assume "\<not> ?thesis"
  then have on: "\<forall>r. se_cmd (f i) \<noteq> CmdReturned r" for i by blast
  obtain m r where m: "m \<ge> n" "se_run (f m) = RunReturned r" using run_returns [OF ex fair ended] by blast
  have over: "se_run (f j) = RunReturned r \<and> eventsClosed (se_sim (f j))" if "m \<le> j" for j
    using that
  proof (induction j rule: dec_induct)
    case base
    with execution_linked [OF ex connected m(1)] m(2) show ?case by (simp add: linked_def)
  next
    case (step j)
    from execution_step [OF ex, of j] run_steps(4) step show ?case by metis
  qed
  have "command_left (f (Suc j)) \<le> command_left (f j) \<and>
      ((\<exists>c. xs j = Command c) \<longrightarrow> command_left (f (Suc j)) < command_left (f j))" if "j \<ge> m" for j
    using execution_step [OF ex, of j] run_steps(4) over [OF that] by metis
  moreover have "\<exists>j \<ge> i. \<exists>c. xs j = Command c" if "i \<ge> m" for i
  proof -
    obtain j where j: "j \<ge> i" "(\<exists>c. xs j = Command c) \<or> (\<forall>c. \<not> receivable c (f j))"
      using fair unfolding session_fair_def by blast
    have "\<exists>c. receivable c (f j)" using ready_to_receive [of "f j" r] over [of j] on [of j] j(1) that by auto
    with j show ?thesis by blast
  qed
  ultimately show False using falls_finitely [of m "\<lambda>j. command_left (f j)" "\<lambda>j. \<exists>c. xs j = Command c"] by blast
qed

text \<open>A list of actions that ends with the command and \<open>Run\<close> returned is the start of a fair execution.\<close>

definition script_then_idle :: "session_action list \<Rightarrow> nat \<Rightarrow> session_action" where
  "script_then_idle xs i = (if i < length xs then xs ! i else ContextDone)"

lemma script_then_idle_Cons [simp]:
  "script_then_idle (x # xs) 0 = x" "script_then_idle (x # xs) (Suc i) = script_then_idle xs i"
  by (simp_all add: script_then_idle_def)

lemma trace_execution:
  assumes "session_trace k io se e a er xs ss = Some ss'" "env_ok e" "se_done ss'"
  shows "\<exists>f. f 0 = ss \<and> session_execution k io se (script_then_idle xs) f \<and> (\<forall>i \<ge> length xs. f i = ss')"
  using assms(1)
proof (induction xs arbitrary: ss)
  case Nil
  have "ss'\<lparr>se_done := True\<rparr> = ss'" using assms(3) by simp
  with Nil assms(2) show ?case
    by (intro exI [of _ "\<lambda>i. ss'"]) (auto simp: session_execution_def script_then_idle_def)
next
  case (Cons x xs)
  then obtain ss1 where x: "session_enabled x ss" "session_perform k io se e a er x ss = Some ss1"
    and rest: "session_trace k io se e a er xs ss1 = Some ss'" by (auto split: if_splits Option.bind_splits)
  from Cons.IH [OF rest] obtain f where f: "f 0 = ss1" "session_execution k io se (script_then_idle xs) f"
    "\<forall>i \<ge> length xs. f i = ss'" by blast
  let ?g = "case_nat ss f"
  have "session_enabled (script_then_idle (x # xs) i) (?g i) \<and>
      (\<exists>e a er. env_ok e \<and> session_perform k io se e a er (script_then_idle (x # xs) i) (?g i) = Some (?g (Suc i)))" for i
  proof (cases i)
    case 0
    with x f(1) assms(2) show ?thesis by auto
  next
    case (Suc j)
    with f(2) show ?thesis by (simp add: session_execution_def)
  qed
  moreover have "\<forall>i \<ge> length (x # xs). ?g i = ss'" using f(3) by (auto split: nat.split)
  ultimately show ?case by (intro exI [of _ ?g]) (simp add: session_execution_def)
qed

lemma idle_fair:
  assumes "\<forall>i \<ge> n. f i = ss" "se_cmd ss = CmdReturned r" "se_run ss = RunReturned q"
  shows "session_fair xs f"
proof -
  have late: "f (max i n) = ss" for i using assms(1) by simp
  have "\<not> receivable c ss" for c using assms(2) by (cases c) simp_all
  then have "\<exists>j \<ge> i. (\<exists>c. xs j = Command c) \<or> (\<forall>c. \<not> receivable c (f j))" for i
    using late [of i] by (intro exI [of _ "max i n"]) simp
  moreover have "\<exists>j \<ge> i. xs j = Advance \<or> at_rest (se_run (f j))" for i
    using late [of i] assms(3) by (intro exI [of _ "max i n"]) simp
  moreover have "\<not> (\<forall>i. \<exists>j \<ge> i. session_enabled (Select ContextCancelled) (f j))"
    using assms(1,3) by fastforce
  ultimately show ?thesis unfolding session_fair_def by blast
qed

theorem session_returns_witness:
  "\<exists>f r. f 0 = start_session test_station FormatJSONL \<and>
     session_execution sample_crypto sample_io sample_stream (script_then_idle sample_script) f \<and>
     (\<exists>i. se_cmd (f i) = CmdReturned r)"
proof -
  obtain ss where t: "session_trace sample_crypto sample_io sample_stream (list_env 5 True) (accepting 77) None sample_script
      (start_session test_station FormatJSONL) = Some ss"
    and r: "session_reachable sample_crypto sample_io sample_stream (start_session test_station FormatJSONL) ss"
    and c: "se_cmd ss = CmdReturned None" and ended: "se_done ss" by (rule sample_session_ended)
  have "streamed sample_stream FormatJSONL ss"
    by (rule streamed_reachable [OF sample_stream_working _ r]) (simp add: stream_formats_def)
  with c have run: "se_run ss = RunReturned None" "drained ss" by (auto simp: streamed_def)
  from trace_execution [OF t list_env_ok ended] obtain f where f: "f 0 = start_session test_station FormatJSONL"
    "session_execution sample_crypto sample_io sample_stream (script_then_idle sample_script) f"
    "\<forall>i \<ge> length sample_script. f i = ss" by blast
  have "linked (se_run (f (length sample_script))) (se_sim (f (length sample_script)))"
    using f(3) run by (simp add: linked_def drained_def)
  moreover have "se_done (f (length sample_script))" using f(3) ended by simp
  ultimately have "\<exists>i r. se_cmd (f i) = CmdReturned r"
    using session_returns [OF f(2) idle_fair [OF f(3) c run(1)]] by blast
  with f show ?thesis by blast
qed

end
