(* ===== verification/CommandProofs.thy ===== *)
theory CommandProofs
  imports CliProofs
begin

text \<open>
  What every command does with its station: one session of building, connecting, at most one
  request and closing, with a request that is within the limits of OCPP 1.6, and no error only
  when the central system accepted it. All commands share the predicate \<open>lawful\<close>.
\<close>

section \<open>Sessions\<close>

datatype phase = Before | Built | Online | Asked | After

fun advance :: "phase \<Rightarrow> effect \<Rightarrow> phase option" where
  "advance Before (Opened c) = Some Built"
| "advance Built Dialled = Some Online"
| "advance Online (Called k) = Some Asked"
| "advance Online Closed = Some After"
| "advance Asked Closed = Some After"
| "advance p (Out t) = Some p"
| "advance p (ErrOut t) = Some p"
| "advance Before (Created f b) = Some Before"
| "advance Before (FileWritten f t) = Some Before"
| "advance _ _ = None"

fun session :: "phase \<Rightarrow> effect list \<Rightarrow> phase option" where
  "session p [] = Some p"
| "session p (x # es) = (case advance p x of None \<Rightarrow> None | Some q \<Rightarrow> session q es)"

lemma session_append: "session p (xs @ ys) = (case session p xs of None \<Rightarrow> None | Some q \<Rightarrow> session q ys)"
  by (induction xs arbitrary: p) (auto split: option.split)

fun printed :: "effect \<Rightarrow> bool" where
  "printed (Out t) = True"
| "printed (ErrOut t) = True"
| "printed _ = False"

lemma advance_printed [simp]: "printed x \<Longrightarrow> advance p x = Some p"
  by (cases x; cases p) simp_all

lemma session_printed [simp]: "list_all printed es \<Longrightarrow> session p es = Some p"
  by (induction es) simp_all

section \<open>Requests within limits\<close>

definition text_between :: "nat \<Rightarrow> nat \<Rightarrow> string \<Rightarrow> bool" where
  "text_between low high t \<longleftrightarrow> low \<le> length t \<and> length t \<le> high"

definition id_or_none :: "go_int option \<Rightarrow> bool" where
  "id_or_none i \<longleftrightarrow> (case i of None \<Rightarrow> True | Some n \<Rightarrow> n \<ge> 0)"

fun within_limits :: "call \<Rightarrow> bool" where
  "within_limits (CallBoot q) \<longleftrightarrow> text_between 1 20 (br_model q) \<and> text_between 1 20 (br_vendor q) \<and>
     text_between 0 50 (br_firmware q) \<and> text_between 0 25 (br_serial q) \<and> text_between 0 25 (br_meter_serial q) \<and>
     text_between 0 25 (br_meter_type q)"
| "within_limits CallHeartbeat \<longleftrightarrow> True"
| "within_limits (CallAuthorize tag) \<longleftrightarrow> text_between 1 20 tag"
| "within_limits (CallStatus q) \<longleftrightarrow> sq_connector q \<ge> 0 \<and> validStatus (sq_status q) \<and> validErrorCode (sq_error_code q) \<and>
     text_between 0 50 (sq_info q) \<and> text_between 0 255 (sq_vendor q) \<and> text_between 0 50 (sq_vendor_error q)"
| "within_limits (CallMeterValues c v t tx) \<longleftrightarrow> c \<ge> 0 \<and> id_or_none tx \<and> sv_value v \<noteq> '''' \<and>
     validMeasurand (sv_measurand v) \<and> validUnit (sv_unit v) \<and> validReadingContext (sv_context v) \<and>
     validLocation (sv_location v) \<and> validPhase (sv_phase v) \<and> sv_format v = ''Raw''"
| "within_limits (CallStart q) \<longleftrightarrow> tq_connector q > 0 \<and> text_between 1 20 (tq_tag q) \<and> tq_meter q \<ge> 0 \<and>
     id_or_none (tq_reservation q)"
| "within_limits (CallStop q) \<longleftrightarrow> pq_transaction q \<ge> 0 \<and> pq_meter q \<ge> 0 \<and> text_between 0 20 (pq_tag q) \<and>
     validStopReason (pq_reason q)"
| "within_limits (CallDataTransfer q) \<longleftrightarrow> text_between 1 255 (dq_vendor q) \<and> text_between 0 50 (dq_message q)"
| "within_limits (CallDiagnostics st) \<longleftrightarrow> validDiagnosticsStatus st"
| "within_limits (CallFirmware st) \<longleftrightarrow> validFirmwareStatus st"
| "within_limits (CallSecurityEvent q) \<longleftrightarrow> text_between 1 50 (eq_type q) \<and> text_between 0 255 (eq_tech_info q)"
| "within_limits (CallLogStatus st i) \<longleftrightarrow> validLogStatus st \<and> i \<ge> 0"
| "within_limits (CallSignedFirmware st i) \<longleftrightarrow> validSignedFirmwareStatus st \<and> id_or_none i"
| "within_limits (CallSignCertificate csr ty) \<longleftrightarrow> text_between 1 5500 csr \<and> ty \<in> {'''', ''ChargingStationCertificate''}"

lemma text_between_simps:
  "text_between (Suc 0) n t \<longleftrightarrow> t \<noteq> '''' \<and> length t \<le> n" "text_between 0 n t \<longleftrightarrow> length t \<le> n"
  by (auto simp: text_between_def Suc_le_eq)

lemma id_or_none_optional [simp]: "id_or_none (optional_id i)"
  by (simp add: optional_id_def id_or_none_def)

section \<open>Acceptance\<close>

text \<open>Whether the central system answered a request and accepted it.\<close>

definition info_accepted :: "id_tag_info option \<Rightarrow> bool" where
  "info_accepted info \<longleftrightarrow> (case info of None \<Rightarrow> False | Some i \<Rightarrow> authorization_text (t_status i) = ''Accepted'')"

definition answered_with :: "'a race \<Rightarrow> ('a \<Rightarrow> bool) \<Rightarrow> bool" where
  "answered_with r P \<longleftrightarrow> (\<exists>v. r = Answered (Inr v) \<and> P v)"

fun accepted :: "replies \<Rightarrow> call \<Rightarrow> bool" where
  "accepted r (CallBoot q) \<longleftrightarrow> answered_with (on_boot r) (\<lambda>c. bc_status c \<noteq> RegRejected)"
| "accepted r CallHeartbeat \<longleftrightarrow> answered_with (on_heartbeat r) (\<lambda>_. True)"
| "accepted r (CallAuthorize tag) \<longleftrightarrow> answered_with (on_authorize r) info_accepted"
| "accepted r (CallStart q) \<longleftrightarrow> answered_with (on_start r) (\<lambda>c. info_accepted (snd c))"
| "accepted r (CallStop q) \<longleftrightarrow> answered_with (on_stop r) (\<lambda>info. info = None \<or> info_accepted info)"
| "accepted r (CallDataTransfer q) \<longleftrightarrow> answered_with (on_data r) (\<lambda>c. dr_status c = ''Accepted'')"
| "accepted r (CallSignCertificate csr ty) \<longleftrightarrow> answered_with (on_sign r) (\<lambda>st. st = ''Accepted'')"
| "accepted r _ \<longleftrightarrow> answered_with (on_notice r) (\<lambda>_. True)"

lemma await_Inr: "await r = Inr v \<longleftrightarrow> r = Answered (Inr v)"
  by (cases r) auto

lemma authorizationResult_accepted: "ar_status (authorizationResult info) = ''Accepted'' \<longleftrightarrow> info_accepted info"
  by (simp add: authorizationResult_def info_accepted_def zero_authorization_def split: option.split)

lemma acknowledged_None: "acknowledged r = None \<longleftrightarrow> answered_with r (\<lambda>_. True)"
  using acknowledgement.accepted_iff [of r] by (simp add: answered_with_def await_Inr)

text \<open>An operation without an error was accepted, by the contract of the interface.\<close>

lemma call_made:
  "fst (Boot bq o1) = CallBoot bq" "fst (Heartbeat o2) = CallHeartbeat" "fst (Authorize tag o3) = CallAuthorize tag"
  "fst (StartTransaction tq o4) = CallStart tq" "fst (StopTransaction pq o3) = CallStop pq"
  "fst (DataTransfer dq o5) = CallDataTransfer dq" "fst (SignCertificate csr ty o6) = CallSignCertificate csr ty"
  by (simp_all add: Boot_def Heartbeat_def Authorize_def StartTransaction_def StopTransaction_def DataTransfer_def
      SignCertificate_def)

lemma status_refusal_None [simp]: "status_refusal label st = None \<longleftrightarrow> st = ''Accepted''"
  by (simp add: status_refusal_def)

lemma operation_accepted:
  "Boot bq (on_boot r) = (k, v1, None) \<Longrightarrow> accepted r k"
  "Heartbeat (on_heartbeat r) = (k, v2, None) \<Longrightarrow> accepted r k"
  "Authorize tag (on_authorize r) = (k, v3, None) \<Longrightarrow> accepted r k"
  "StartTransaction tq (on_start r) = (k, v4, None) \<Longrightarrow> accepted r k"
  "StopTransaction pq (on_stop r) = (k, v5, None) \<Longrightarrow> accepted r k"
  "DataTransfer dq (on_data r) = (k, v6, None) \<Longrightarrow> accepted r k"
  "SignCertificate csr ty (on_sign r) = (k, v7, None) \<Longrightarrow> accepted r k"
  subgoal using boot.accepted_iff [of bq "on_boot r"] call_made(1) [of bq "on_boot r"]
    by (auto simp: answered_with_def await_Inr)
  subgoal using heartbeat.accepted_iff [of "on_heartbeat r"] call_made(2) [of "on_heartbeat r"]
    by (auto simp: answered_with_def await_Inr)
  subgoal using authorize.accepted_iff [of tag "on_authorize r"] call_made(3) [of tag "on_authorize r"]
    by (auto simp: answered_with_def await_Inr authorizationResult_accepted)
  subgoal using start.accepted_iff [of tq "on_start r"] call_made(4) [of tq "on_start r"]
    by (auto simp: answered_with_def await_Inr authorizationResult_accepted)
  subgoal using stop.accepted_iff [of pq "on_stop r"] call_made(5) [of pq "on_stop r"]
    by (auto simp: answered_with_def await_Inr info_accepted_def split: option.splits)
  subgoal using data.accepted_iff [of dq "on_data r"] call_made(6) [of dq "on_data r"]
    by (auto simp: answered_with_def await_Inr)
  subgoal using sign.accepted_iff [of csr ty "on_sign r"] call_made(7) [of csr ty "on_sign r"]
    by (auto simp: answered_with_def await_Inr)
  done

section \<open>Lawful outcomes\<close>

definition lawful :: "cli_env \<Rightarrow> outcome \<Rightarrow> bool" where
  "lawful io r \<longleftrightarrow> session Before (fst r) \<in> {Some Before, Some After} \<and>
     (\<forall>c. Opened c \<in> set (fst r) \<longrightarrow> ValidateClientConfig (files io) c = None) \<and>
     (\<forall>k. Called k \<in> set (fst r) \<longrightarrow> within_limits k \<and> (snd r = None \<longrightarrow> accepted (answers_of io) k))"

text \<open>What a command does between connecting and closing.\<close>

definition asks :: "cli_env \<Rightarrow> call \<Rightarrow> outcome \<Rightarrow> bool" where
  "asks io k r \<longleftrightarrow> (\<exists>es. fst r = Called k # es \<and> list_all printed es) \<and> (snd r = None \<longrightarrow> accepted (answers_of io) k)"

lemma not_printed_simps [dest]: "list_all printed es \<Longrightarrow> Opened c \<in> set es \<Longrightarrow> False"
  "list_all printed es \<Longrightarrow> Called k \<in> set es \<Longrightarrow> False"
  by (auto simp: list_all_iff)

lemma lawful_printed: "list_all printed (fst r) \<Longrightarrow> lawful io r"
  by (auto simp: lawful_def)

lemma lawful_simple [simp]: "lawful io (fail er)" "lawful io (refuse t)"
  by (simp_all add: lawful_def fail_def refuse_def)

lemma printed_render [simp]: "list_all printed (fst (renderSnapshot io format sn))"
  by (simp add: renderSnapshot_def written_def fail_def split: output_format.split)

lemma renderSnapshot_printed: "renderSnapshot io format sn = (es, eo) \<Longrightarrow> list_all printed es"
  using printed_render [of io format sn] by (simp del: printed_render)

lemma lawful_render [simp]: "lawful io (renderSnapshot io format sn)"
  by (simp add: lawful_printed)

lemma asks_result:
  "(eo = None \<Longrightarrow> accepted (answers_of io) k) \<Longrightarrow> asks io k (report_result io format k eo sn)"
  by (auto simp: asks_def report_result_def dest: renderSnapshot_printed split: option.splits prod.splits)

lemma asks_sent:
  "(eo = None \<Longrightarrow> accepted (answers_of io) k) \<Longrightarrow> asks io k (report_sent io format k eo sn)"
  by (auto simp: asks_def report_sent_def dest: renderSnapshot_printed split: option.splits prod.splits)

lemma asks_data:
  assumes "eo = None \<Longrightarrow> accepted (answers_of io) k"
  shows "asks io k (data_report io format k result eo)"
proof -
  have "asks io k (report_result io format k eo sn)" for sn using assms by (rule asks_result)
  then show ?thesis
    by (auto simp: data_report_def split: option.splits sum.splits) (auto simp: asks_def)
qed

lemma lawful_station:
  assumes "ValidateClientConfig (files io) c = None" "within_limits k" "asks io k body"
  shows "lawful io (with_station io c body)"
  using assms
  by (auto simp: lawful_def with_station_def connect_def asks_def Let_def session_append split: option.splits)

lemma resolveClientConfig_valid: "resolveClientConfig io fs = Inr c \<Longrightarrow> ValidateClientConfig (files io) c = None"
  by (auto simp: resolveClientConfig_def Let_def split: sum.splits option.splits)

lemma resolveCommon_valid: "resolveCommon io fs = Inr (c, format) \<Longrightarrow> ValidateClientConfig (files io) c = None"
  by (auto simp: resolveCommon_def resolveClientConfig_valid split: sum.splits)

section \<open>Every command is lawful\<close>

lemma call_known:
  "Boot bq o1 = (k, r1) \<Longrightarrow> k = CallBoot bq" "Heartbeat o2 = (k, r2) \<Longrightarrow> k = CallHeartbeat"
  "Authorize tag o3 = (k, r3) \<Longrightarrow> k = CallAuthorize tag" "StartTransaction tq o4 = (k, r4) \<Longrightarrow> k = CallStart tq"
  "StopTransaction pq o3 = (k, r5) \<Longrightarrow> k = CallStop pq" "DataTransfer dq o5 = (k, r6) \<Longrightarrow> k = CallDataTransfer dq"
  "SignCertificate csr ty o6 = (k, r7) \<Longrightarrow> k = CallSignCertificate csr ty"
  by (auto simp: Boot_def Heartbeat_def Authorize_def StartTransaction_def StopTransaction_def DataTransfer_def
      SignCertificate_def)

text \<open>A command whose request is known once the configuration is resolved.\<close>

lemma lawful_ask:
  assumes "resolveCommon io fs = Inr (c, format)" "within_limits k" "eo = None \<Longrightarrow> accepted (answers_of io) k"
  shows "lawful io (with_station io c (report_result io format k eo sn))"
    and "lawful io (with_station io c (report_sent io format k eo sn))"
    and "lawful io (with_station io c (data_report io format k result eo))"
  using assms by (blast intro: lawful_station resolveCommon_valid asks_result asks_sent asks_data)+

text \<open>The operations whose answer is rendered.\<close>

lemma lawful_operations:
  assumes "resolveCommon io fs = Inr (c, format)"
  shows "within_limits (CallBoot bq) \<Longrightarrow> lawful io (case Boot bq (on_boot (answers_of io)) of (k, v, eo) \<Rightarrow>
      with_station io c (report_result io format k eo (sn1 v)))"
    and "lawful io (case Heartbeat (on_heartbeat (answers_of io)) of (k, v, eo) \<Rightarrow>
      with_station io c (report_sent io format k eo (sn2 v)))"
    and "within_limits (CallAuthorize tag) \<Longrightarrow> lawful io (case Authorize tag (on_authorize (answers_of io)) of (k, v, eo) \<Rightarrow>
      with_station io c (report_result io format k eo (sn3 v)))"
    and "within_limits (CallStart tq) \<Longrightarrow> lawful io (case StartTransaction tq (on_start (answers_of io)) of (k, v, eo) \<Rightarrow>
      with_station io c (report_result io format k eo (sn4 v)))"
    and "within_limits (CallStop pq) \<Longrightarrow> lawful io (case StopTransaction pq (on_stop (answers_of io)) of (k, v, eo) \<Rightarrow>
      with_station io c (report_result io format k eo (sn5 v)))"
    and "within_limits (CallDataTransfer dq) \<Longrightarrow> lawful io (case DataTransfer dq (on_data (answers_of io)) of (k, v, eo) \<Rightarrow>
      with_station io c (data_report io format k v eo))"
    and "within_limits (CallSignCertificate csr ty) \<Longrightarrow>
      lawful io (case SignCertificate csr ty (on_sign (answers_of io)) of (k, v, eo) \<Rightarrow>
      with_station io c (report_result io format k eo (sn7 v)))"
  subgoal by (cases "Boot bq (on_boot (answers_of io))")
      (auto intro: lawful_ask [OF assms] operation_accepted(1) dest: call_known(1) simp del: within_limits.simps)
  subgoal by (cases "Heartbeat (on_heartbeat (answers_of io))")
      (auto intro!: lawful_ask(2) [OF assms] intro: operation_accepted(2) dest: call_known(2))
  subgoal by (cases "Authorize tag (on_authorize (answers_of io))")
      (auto intro: lawful_ask [OF assms] operation_accepted(3) dest: call_known(3) simp del: within_limits.simps)
  subgoal by (cases "StartTransaction tq (on_start (answers_of io))")
      (auto intro: lawful_ask [OF assms] operation_accepted(4) dest: call_known(4) simp del: within_limits.simps)
  subgoal by (cases "StopTransaction pq (on_stop (answers_of io))")
      (auto intro: lawful_ask [OF assms] operation_accepted(5) dest: call_known(5) simp del: within_limits.simps)
  subgoal by (cases "DataTransfer dq (on_data (answers_of io))")
      (auto intro: lawful_ask [OF assms] operation_accepted(6) dest: call_known(6) simp del: within_limits.simps)
  subgoal by (cases "SignCertificate csr ty (on_sign (answers_of io))")
      (auto intro: lawful_ask [OF assms] operation_accepted(7) dest: call_known(7) simp del: within_limits.simps)
  done

lemma lawful_resolved:
  "(\<And>c format. resolveCommon io fs = Inr (c, format) \<Longrightarrow> lawful io (body c format)) \<Longrightarrow>
   lawful io (case resolveCommon io fs of Inl er \<Rightarrow> fail er | Inr (c, format) \<Rightarrow> body c format)"
  by (auto split: sum.split)

lemma lawful_parsed:
  "(\<And>v. r = Inr v \<Longrightarrow> lawful io (body v)) \<Longrightarrow> lawful io (case r of Inl er \<Rightarrow> fail er | Inr v \<Rightarrow> body v)"
  by (auto split: sum.split)

lemma lawful_if: "(b \<Longrightarrow> lawful io x) \<Longrightarrow> (\<not> b \<Longrightarrow> lawful io y) \<Longrightarrow> lawful io (if b then x else y)"
  by simp

lemmas lawful_rules = lawful_simple lawful_render lawful_parsed lawful_resolved lawful_if

lemma heartbeat_lawful: "lawful io (heartbeat io args)"
  unfolding heartbeat_def by (intro lawful_rules lawful_operations)

lemma bootNotification_lawful: "lawful io (bootNotification io args)"
  unfolding bootNotification_def Let_def
  by (intro lawful_rules lawful_operations) (auto simp: text_between_simps)

lemma authorize_lawful: "lawful io (authorize io args)"
  unfolding authorize_def Let_def
  by (intro lawful_rules lawful_operations) (auto simp: text_between_simps)

lemma statusNotification_lawful: "lawful io (statusNotification io args)"
  unfolding statusNotification_def Let_def StatusNotification_def
  by (intro lawful_rules) (auto intro!: lawful_ask simp: text_between_simps acknowledged_None)

lemma meterValues_lawful: "lawful io (meterValues io args)"
  unfolding meterValues_def Let_def MeterValues_def
  by (intro lawful_rules) (auto intro!: lawful_ask simp: text_between_simps acknowledged_None)

lemma lawful_mode:
  "(\<And>d m. lawful io (body d m)) \<Longrightarrow>
   lawful io (case r of Inl er \<Rightarrow> fail (wrap_err ErrConfig er) | Inr (d, m) \<Rightarrow> body d m)"
  by (auto split: sum.split)

lemma startTransaction_lawful: "lawful io (startTransaction io args)"
  unfolding startTransaction_def Let_def
  by (intro lawful_rules lawful_mode lawful_operations) (auto simp: text_between_simps)

lemma stopTransaction_lawful: "lawful io (stopTransaction io args)"
  unfolding stopTransaction_def Let_def
  by (intro lawful_rules lawful_mode lawful_operations) (auto simp: text_between_simps)

lemma dataTransfer_lawful: "lawful io (dataTransfer io args)"
  unfolding dataTransfer_def Let_def
  by (intro lawful_rules lawful_operations) (auto simp: text_between_simps)

lemma sendStatusOnly_lawful:
  assumes "within_limits (fst ask)" "snd ask = acknowledged (on_notice (answers_of io))"
    "accepted (answers_of io) (fst ask) = answered_with (on_notice (answers_of io)) (\<lambda>_. True)"
  shows "lawful io (sendStatusOnly io fs action st ask)"
  unfolding sendStatusOnly_def
  by (intro lawful_rules) (rule lawful_ask, use assms in \<open>auto simp: acknowledged_None\<close>)

lemma status_commands_lawful:
  "lawful io (diagnosticsStatus_command io args)" "lawful io (firmwareStatus_command io args)"
  unfolding diagnosticsStatus_command_def firmwareStatus_command_def Let_def
  by (intro lawful_rules; simp add: sendStatusOnly_lawful DiagnosticsStatusNotification_def
      FirmwareStatusNotification_def)+

lemma securityEvent_lawful: "lawful io (securityEvent io args)"
  unfolding securityEvent_def Let_def SecurityEventNotification_def
  by (intro lawful_rules) (auto intro!: lawful_ask simp: text_between_simps acknowledged_None)

lemma logStatus_lawful: "lawful io (logStatus_command io args)"
  unfolding logStatus_command_def Let_def LogStatusNotification_def
  by (intro lawful_rules) (auto intro!: lawful_ask simp: acknowledged_None)

lemma signedFirmwareStatus_lawful: "lawful io (signedFirmwareStatus_command io args)"
  unfolding signedFirmwareStatus_command_def Let_def SignedFirmwareStatusNotification_def
  by (intro lawful_rules) (auto intro!: lawful_ask simp: acknowledged_None)

lemma signCertificate_lawful: "lawful io (signCertificate io args)"
  unfolding signCertificate_def Let_def
  by (intro lawful_rules) (auto intro!: lawful_operations(7) simp: text_between_simps split: sum.split)

lemma validateConfig_lawful: "lawful io (validateConfig io args)"
  unfolding validateConfig_def by (intro lawful_rules)

lemma initConfig_lawful: "lawful io (initConfig io args)"
  unfolding initConfig_def Let_def by (intro lawful_rules) (auto simp: lawful_def refuse_def split: option.split)

lemma lawful_written [simp]: "lawful io (written r)"
  by (simp add: lawful_printed written_def)

lemma lawful_connection:
  assumes "ValidateClientConfig (files io) c = None"
  shows "lawful io (case with_station io c ([], None) of (es, Some er) \<Rightarrow> (es, Some er)
    | (es, None) \<Rightarrow> (case renderSnapshot io format sn of (out, eo) \<Rightarrow> (es @ out, eo)))"
proof (cases "renderSnapshot io format sn")
  case (Pair out eo)
  with assms renderSnapshot_printed [OF Pair] show ?thesis
    by (auto simp: lawful_def with_station_def connect_def Let_def session_append split: option.splits)
qed

lemma testConnection_lawful: "lawful io (testConnection io args)"
  unfolding testConnection_def by (intro lawful_rules lawful_connection) (rule resolveCommon_valid)

lemma completions_lawful: "lawful io (completions io args)"
  unfolding completions_def by (auto simp: lawful_def written_def)

lemmas commands_lawful = bootNotification_lawful heartbeat_lawful authorize_lawful statusNotification_lawful
  meterValues_lawful startTransaction_lawful stopTransaction_lawful dataTransfer_lawful status_commands_lawful
  securityEvent_lawful logStatus_lawful signedFirmwareStatus_lawful signCertificate_lawful

lemma lawful_failure [simp]: "lawful io ([], eo)"
  by (simp add: lawful_def)

lemma dispatch_send_lawful: "lawful io (dispatch_send io name args)"
  unfolding dispatch_send_def by (intro lawful_if) (simp_all add: commands_lawful)

lemma send_lawful: "lawful io (send io args)"
  unfolding send_def by (intro lawful_rules) (auto simp: dispatch_send_lawful lawful_printed send_usage_def line_def)

lemma runSimulator_lawful: "runSimulator io se ns arrivals args = Some r \<Longrightarrow> lawful io r"
  by (auto simp: runSimulator_def lawful_printed split: sum.splits prod.splits run_end.splits)

definition all_lawful :: "cli_env \<Rightarrow> outcome option option \<Rightarrow> bool" where
  "all_lawful io m \<longleftrightarrow> (\<forall>r. m = Some (Some r) \<longrightarrow> lawful io r)"

lemma all_lawful_if: "all_lawful io x \<Longrightarrow> all_lawful io y \<Longrightarrow> all_lawful io (if b then x else y)"
  by simp

lemma all_lawful_simps [simp]:
  "all_lawful io None" "all_lawful io (Some (Some r)) = lawful io r"
  "all_lawful io (Some (runSimulator io se ns arrivals args))"
  by (simp_all add: all_lawful_def runSimulator_lawful)

lemma dispatch_lawful: "dispatch a name args = Some (Some r) \<Longrightarrow> lawful (ap_io a) r"
proof -
  have "all_lawful (ap_io a) (dispatch a name args)"
    unfolding dispatch_def Let_def
    by (intro all_lawful_if) (simp_all add: commands_lawful send_lawful initConfig_lawful validateConfig_lawful
        testConnection_lawful completions_lawful lawful_printed line_def)
  then show "dispatch a name args = Some (Some r) \<Longrightarrow> ?thesis" by (simp add: all_lawful_def)
qed

section \<open>A sample run\<close>

definition sample_app :: app where
  "sample_app = \<lparr>ap_io = sample_io, ap_stream = \<lparr>encode_json = (\<lambda>j. ''{}''), sink = (\<lambda>t. None), row_error = (\<lambda>r. None)\<rparr>,
     ap_new_simulator = (\<lambda>c o1. Inl (Library PlainError ''none'')), ap_arrivals = (\<lambda>s d. [])\<rparr>"

definition start_args :: "string list" where
  "start_args = [''--id-tag'', ''ABC'', ''--meter-start=42'', ''--yes'']"

lemma sample_start: "startTransaction sample_io start_args =
    ([Opened DefaultClientConfig, Dialled, Called (CallStart \<lparr>tq_connector = 1, tq_tag = ''ABC'', tq_meter = 42,
        tq_reservation = None, tq_timestamp = 0\<rparr>),
      Out ''FIELDVALUETRANSACTION_ID42STATUSAcceptedEXPIRY_DATE'', Closed], None)"
  by code_simp

lemma sample_run: "Run sample_app (''start-transaction'' # start_args) = Some (fst (startTransaction sample_io start_args), ExitSuccess)"
  unfolding sample_start by code_simp

section \<open>The whole program\<close>

lemma finish_effects:
  "finish r = (es, code) \<Longrightarrow> \<exists>out. es = fst r @ out \<and> list_all printed out"
  by (cases r) (auto simp: finish_def split: option.splits if_splits)

lemma run_normalised_cases:
  assumes "run_normalised a args = Some (es, code)"
  obtains (printed) "list_all printed es"
    | (dispatched) name rest r out where "dispatch a name rest = Some (Some r)" "es = fst r @ out" "list_all printed out"
proof (cases "wants_help args")
  case True
  with assms printed show ?thesis by (auto simp: run_normalised_def)
next
  case False
  show ?thesis
  proof (cases "dispatch a (hd args) (tl args)")
    case None
    with assms False printed show ?thesis by (auto simp: run_normalised_def)
  next
    case (Some m)
    with assms False obtain r where r: "m = Some r" "finish r = (es, code)"
      by (cases m) (auto simp: run_normalised_def)
    with finish_effects [OF r(2)] Some dispatched show ?thesis by blast
  qed
qed

lemma Run_cases:
  assumes "Run a args = Some (es, code)"
  obtains (printed) "list_all printed es"
    | (dispatched) name rest r out where "dispatch a name rest = Some (Some r)" "es = fst r @ out" "list_all printed out"
proof (cases "normalise_flags (ap_io a) args")
  case (Inl er)
  with assms printed show ?thesis by (auto simp: Run_def)
next
  case (Inr normalised)
  with assms have "run_normalised a normalised = Some (es, code)" by (simp add: Run_def)
  then show ?thesis by (rule run_normalised_cases) (use printed dispatched in blast)+
qed

text \<open>
  C7: whatever arguments the program is given, what it does is one session: at most one station
  is built, from a valid configuration, connected at most once, asked at most one request and
  only while connected, and closed before the program returns; a file is only written by a
  program that opens no station.
\<close>

theorem program_sessions:
  assumes "Run a args = Some (es, code)"
  shows "session Before es \<in> {Some Before, Some After} \<and>
    (\<forall>c. Opened c \<in> set es \<longrightarrow> ValidateClientConfig (files (ap_io a)) c = None) \<and>
    (\<forall>k. Called k \<in> set es \<longrightarrow> within_limits k)"
  using assms
proof (cases rule: Run_cases)
  case (dispatched name rest r out)
  from dispatch_lawful [OF this(1)] this(2,3) show ?thesis by (auto simp: lawful_def session_append)
qed auto

theorem program_sessions_witness:
  "session Before (fst (startTransaction sample_io start_args)) \<in> {Some Before, Some After} \<and>
   within_limits (CallStart \<lparr>tq_connector = 1, tq_tag = ''ABC'', tq_meter = 42, tq_reservation = None, tq_timestamp = 0\<rparr>)"
proof -
  have "Called (CallStart \<lparr>tq_connector = 1, tq_tag = ''ABC'', tq_meter = 42, tq_reservation = None, tq_timestamp = 0\<rparr>) \<in>
      set (fst (startTransaction sample_io start_args))" by (simp add: sample_start)
  with program_sessions [OF sample_run] show ?thesis by blast
qed



end
