(* ===== verification/ProgramProofs.thy ===== *)
theory ProgramProofs
  imports CommandProofs
begin

text \<open>
  The safety switch of the transaction commands, the agreement of the registry with the two
  dispatch tables and the flags of the commands, and exit codes of usage errors.
\<close>

section \<open>The safety switch\<close>

text \<open>
  What the shared package documents of its switch: a dry run unless \<open>--yes\<close> is given, and an
  error for both flags together.
\<close>

definition safety_switch :: "cli_env \<Rightarrow> bool" where
  "safety_switch io \<longleftrightarrow> (\<forall>yes dry. case resolve_mode io yes dry of
     Inl er \<Rightarrow> yes \<and> dry
   | Inr (d, mode) \<Rightarrow> \<not> (yes \<and> dry) \<and> d = (\<not> yes))"

lemma safety_switchD: "safety_switch io \<Longrightarrow> resolve_mode io yes dry = Inr (False, mode) \<Longrightarrow> yes \<and> \<not> dry"
  unfolding safety_switch_def by (metis (mono_tags, lifting) case_prod_conv old.sum.simps(6))

lemma render_opens_nothing [simp]: "Opened c \<notin> set (fst (renderSnapshot io format sn))"
  using not_printed_simps(1) [OF printed_render] by blast

lemma start_opened:
  assumes "Opened c \<in> set (fst (startTransaction io args))"
  shows "\<exists>fs mode. parse_command io ''start-transaction'' start_flags args = Inr fs \<and>
    resolve_mode io (bool_flag fs ''yes'') (bool_flag fs ''dry-run'') = Inr (False, mode)"
  using assms by (auto simp: startTransaction_def Let_def fail_def refuse_def split: sum.splits if_splits prod.splits)

lemma stop_opened:
  assumes "Opened c \<in> set (fst (stopTransaction io args))"
  shows "\<exists>fs mode. parse_command io ''stop-transaction'' stop_flags args = Inr fs \<and>
    resolve_mode io (bool_flag fs ''yes'') (bool_flag fs ''dry-run'') = Inr (False, mode)"
  using assms by (auto simp: stopTransaction_def Let_def fail_def refuse_def split: sum.splits if_splits prod.splits)

text \<open>
  C15: the commands that start or stop a transaction build a station, and so connect and send,
  only when \<open>--yes\<close> was given and \<open>--dry-run\<close> was not.
\<close>

theorem dry_run_offline:
  assumes "safety_switch io" "Opened c \<in> set (fst (startTransaction io args)) \<union> set (fst (stopTransaction io args))"
  shows "\<exists>fs. (parse_command io ''start-transaction'' start_flags args = Inr fs \<or>
      parse_command io ''stop-transaction'' stop_flags args = Inr fs) \<and>
    bool_flag fs ''yes'' \<and> \<not> bool_flag fs ''dry-run''"
  using assms start_opened [of c io args] stop_opened [of c io args] safety_switchD [OF assms(1)] by blast

lemma sample_switch: "safety_switch sample_io"
  by (simp add: safety_switch_def sample_io_def)

theorem dry_run_offline_witness:
  "\<exists>fs. (parse_command sample_io ''start-transaction'' start_flags start_args = Inr fs \<or>
      parse_command sample_io ''stop-transaction'' stop_flags start_args = Inr fs) \<and>
    bool_flag fs ''yes'' \<and> \<not> bool_flag fs ''dry-run''"
  by (rule dry_run_offline [where c = DefaultClientConfig]) (simp_all add: sample_start sample_switch)

section \<open>The registry and the two dispatch tables\<close>

text \<open>The flag set each operation's command parses.\<close>

definition command_flag_sets :: "(string \<times> flag_set) list" where
  "command_flag_sets = [(''boot-notification'', boot_flags), (''heartbeat'', common_flags), (''authorize'', authorize_flags),
     (''status-notification'', status_flags), (''meter-values'', meter_flags), (''start-transaction'', start_flags),
     (''stop-transaction'', stop_flags), (''data-transfer'', data_flags), (''diagnostics-status'', plain_status_flags),
     (''firmware-status'', plain_status_flags), (''security-event'', security_flags), (''log-status'', request_flags),
     (''signed-firmware-status'', request_flags), (''sign-certificate'', sign_flags)]"

definition registered_flags :: "command_entry \<Rightarrow> (string \<times> bool) list" where
  "registered_flags e = map (\<lambda>f. (fl_name f, fl_takes_value f)) (globalFlags @ co_flags e)"

definition takes_values :: "flag_set \<Rightarrow> (string \<times> bool) list" where
  "takes_values fs = map (\<lambda>(n, kind). (n, kind \<noteq> BoolFlag)) fs"

lemma registry_flags_agree:
  "map (\<lambda>e. (co_name e, registered_flags e)) operationCommands =
   map (\<lambda>(n, fs). (n, takes_values fs)) command_flag_sets"
  by code_simp

lemma operation_names: "map co_name operationCommands = map fst command_flag_sets"
  by code_simp

lemma operation_dispatch:
  assumes "name \<in> set (map fst command_flag_sets)"
  shows "dispatch a name args = Some (Some (dispatch_send (ap_io a) name args))"
proof -
  have "\<forall>n \<in> set (map fst command_flag_sets). dispatch a n args = Some (Some (dispatch_send (ap_io a) n args))"
    by (simp add: command_flag_sets_def dispatch_def dispatch_send_def Let_def)
  with assms show ?thesis by blast
qed

lemma operation_no_help: "name \<in> set (map fst command_flag_sets) \<Longrightarrow> \<not> wants_help (name # args)"
  by (auto simp: command_flag_sets_def wants_help_def)

lemma send_dispatch: "dispatch a ''send'' args = Some (Some (send (ap_io a) args))"
  by (simp add: dispatch_def)



section \<open>Exit codes\<close>

definition flag_messages :: "string set" where
  "flag_messages = {''flag provided but not defined: -'', ''flag needs an argument: -'', ''invalid value '',
     ''invalid boolean value '', ''bad flag syntax: ''}"

definition flag_failure :: "err \<Rightarrow> bool" where
  "flag_failure er \<longleftrightarrow> er = Sentinel ErrHelp \<or> (\<exists>p \<in> flag_messages. \<exists>t. er = Library PlainError (p @ t))"

lemma flag_failure_help: "flag_failure (Sentinel ErrHelp)"
  by (simp add: flag_failure_def)

lemma flag_failure_message: "p \<in> flag_messages \<Longrightarrow> flag_error (p @ t) = Inl er \<Longrightarrow> flag_failure er"
  unfolding flag_failure_def flag_error_def by blast

lemma flag_failures:
  "flag_error (''flag provided but not defined: -'' @ t) = Inl er \<Longrightarrow> flag_failure er"
  "flag_error (''flag needs an argument: -'' @ t) = Inl er \<Longrightarrow> flag_failure er"
  "flag_error (''invalid value '' @ t) = Inl er \<Longrightarrow> flag_failure er"
  "flag_error (''invalid boolean value '' @ t) = Inl er \<Longrightarrow> flag_failure er"
  "flag_error (''bad flag syntax: '' @ t) = Inl er \<Longrightarrow> flag_failure er"
  by (erule flag_failure_message [rotated], simp add: flag_messages_def)+

lemma bad_value_failure: "bad_value kind name v t = Inl er \<Longrightarrow> flag_failure er"
  unfolding bad_value_def by (auto simp del: append.simps append_Cons dest!: flag_failures split: if_splits)

lemma flag_value_of_failure: "flag_value_of ne kind name v rest = Inl er \<Longrightarrow> flag_failure er"
  unfolding flag_value_of_def Let_def
  by (auto simp del: append.simps append_Cons dest!: flag_failures bad_value_failure
      split: option.splits sum.splits list.splits if_splits)

lemma parse_one_failure: "parse_one ne defs s rest = Inl er \<Longrightarrow> flag_failure er"
  unfolding parse_one_def
  by (auto simp del: append.simps append_Cons map_of_eq_None_iff simp: flag_failure_help
      dest!: flag_failures flag_value_of_failure
      split: flag_token.splits option.splits sum.splits if_splits)

lemma parse_flags_failure: "parse_flags ne defs args acc = Inl er \<Longrightarrow> flag_failure er"
proof (induction ne defs args acc rule: parse_flags.induct)
  case (2 ne defs s args acc)
  then show ?case by (cases "parse_one ne defs s args") (auto dest: parse_one_failure split: option.splits)
qed simp

lemma str_contains_message:
  "str_contains (''flag provided but not defined: -'' @ t) ''flag provided but not defined''"
  "str_contains (''flag needs an argument: -'' @ t) ''flag needs an argument''"
  "str_contains (''invalid value '' @ t) ''invalid value''"
  by (rule str_contains_appendI(2), code_simp)+

lemma flag_message_code:
  assumes "p \<in> flag_messages"
  shows "mapExitCode (Some (Library PlainError (p @ t))) =
    (if p \<in> {''invalid boolean value '', ''bad flag syntax: ''} \<and> \<not> isFlagParseError (Library PlainError (p @ t))
     then ExitGeneral else ExitConfig)"
proof -
  have "isFlagParseError (Library PlainError (p @ t))" if "p \<notin> {''invalid boolean value '', ''bad flag syntax: ''}"
    using assms that str_contains_message unfolding flag_messages_def isFlagParseError_def error_text.simps by blast
  then show ?thesis unfolding mapExitCode_def by (simp del: append.simps append_Cons)
qed

text \<open>
  The exit code of a command whose flags do not parse: success for a request for help, the
  usage code for an undefined flag, a missing argument or a bad value, but for a bad boolean and
  for bad flag syntax the general code, unless the text quoted in the message happens to name
  one of the other mistakes.
\<close>

lemma flag_error_exit_codes:
  assumes "parse_command io name defs args = Inl er"
  shows "(er = Sentinel ErrHelp \<and> mapExitCode (Some er) = ExitSuccess) \<or>
    (error_is ErrConfig er \<and> mapExitCode (Some er) = ExitConfig) \<or>
    (\<exists>p t. p \<in> flag_messages \<and> er = Library PlainError (p @ t) \<and> mapExitCode (Some er) =
       (if p \<in> {''invalid boolean value '', ''bad flag syntax: ''} \<and> \<not> isFlagParseError er
        then ExitGeneral else ExitConfig))"
proof (cases "parse_flags (numbers io) defs args []")
  case (Inl e)
  with assms have "er = e" by (simp add: parse_command_def)
  with parse_flags_failure [OF Inl] consider "er = Sentinel ErrHelp" | p t where "p \<in> flag_messages" "er = Library PlainError (p @ t)"
    unfolding flag_failure_def by blast
  then show ?thesis
  proof cases
    case 1
    then show ?thesis by (simp add: mapExitCode_def)
  next
    case 2
    with flag_message_code [of p t] show ?thesis by blast
  qed
next
  case (Inr r)
  with assms have "er = wrap_text ErrConfig (name @ '' does not accept positional arguments'')"
    by (auto simp: parse_command_def split: if_splits prod.splits)
  then show ?thesis by (simp add: mapExitCode_def)
qed

text \<open>A misspelt boolean ends in the general code although it is a usage error.\<close>

lemma bad_boolean_exits_general:
  "Run sample_app [''heartbeat'', ''--verbose=maybe''] =
     Some ([ErrOut (''invalid boolean value '' @ go_quote ''maybe'' @ '' for -verbose: parse error'' @ newline)], ExitGeneral)"
  by code_simp

end
